(* ===== verification/RG_Prelude.thy ===== *)
theory RG_Prelude
  imports Main "HOL-Library.Word" "HOL-Library.List_Lexorder" "HOL-Library.Char_ord"
    "HOL-Library.Product_Lexorder"
begin

text \<open>
  Shared vocabulary of the development: machine integers with Rust's checked and saturating
  operations, byte strings (\<open>str::trim\<close>, decimal formatting), the ordered containers
  \<open>BTreeMap\<close> and \<open>BTreeSet\<close> of the Rust standard library, and the generic locales for
  ordered maps and for state machines (invariants and monotone history along runs).
\<close>

named_theorems rg_defs \<open>unfolding equations of the small accessors and guards\<close>
named_theorems rg_frame \<open>fields an operation leaves unchanged\<close>

subsection \<open>Machine integers\<close>

type_synonym u64 = "64 word"
type_synonym u32 = "32 word"

text \<open>Rust's \<open>checked_add\<close>, \<open>saturating_add\<close> and \<open>saturating_sub\<close> on unsigned integers.\<close>

definition checked_add :: "'a::len word \<Rightarrow> 'a word \<Rightarrow> 'a word option" where
  "checked_add a b = (if unat a + unat b < 2 ^ LENGTH('a) then Some (a + b) else None)"

definition saturating_add :: "'a::len word \<Rightarrow> 'a word \<Rightarrow> 'a word" where
  "saturating_add a b = (case checked_add a b of None \<Rightarrow> - 1 | Some c \<Rightarrow> c)"

definition saturating_sub :: "'a::len word \<Rightarrow> 'a word \<Rightarrow> 'a word" where
  "saturating_sub a b = (if b \<le> a then a - b else 0)"

lemma checked_add_code [code]: "checked_add a b = (let c = a + b in if a \<le> c then Some c else None)"
  by (simp add: checked_add_def Let_def no_olen_add_nat)

lemma saturating_add_unat: "unat (saturating_add a b) = min (unat a + unat b) (2 ^ 64 - 1)" for a b :: u64
proof -
  have "unat (- 1 :: u64) = 2 ^ 64 - 1" by (simp add: unsigned_minus_1_eq_mask mask_eq_exp_minus_1)
  then show ?thesis
    by (auto simp: saturating_add_def checked_add_def unat_word_ariths)
qed

subsection \<open>Options\<close>

text \<open>\<open>Option::is_some_and\<close> and \<open>Option::is_none_or\<close>.\<close>

definition is_some_and :: "'a option \<Rightarrow> ('a \<Rightarrow> bool) \<Rightarrow> bool" where
  "is_some_and x P = (case x of None \<Rightarrow> False | Some v \<Rightarrow> P v)"

definition is_none_or :: "'a option \<Rightarrow> ('a \<Rightarrow> bool) \<Rightarrow> bool" where
  "is_none_or x P = (case x of None \<Rightarrow> True | Some v \<Rightarrow> P v)"

lemma is_some_and_simps [simp]: "is_some_and None P = False" "is_some_and (Some v) P = P v"
  by (simp_all add: is_some_and_def)

lemma is_none_or_simps [simp]: "is_none_or None P = True" "is_none_or (Some v) P = P v"
  by (simp_all add: is_none_or_def)

lemma is_some_and_iff: "is_some_and x P \<longleftrightarrow> (\<exists>v. x = Some v \<and> P v)"
  by (cases x) auto

lemma is_none_or_iff: "is_none_or x P \<longleftrightarrow> (\<forall>v. x = Some v \<longrightarrow> P v)"
  by (cases x) auto

lemma option_eqI: "(\<And>v. x = Some v \<longleftrightarrow> y = Some v) \<Longrightarrow> x = y"
  by (metis not_Some_eq)

lemma option_map_eqI: "(\<And>k v. m k = Some v \<longleftrightarrow> m' k = Some v) \<Longrightarrow> m = m'" for m m' :: "'a \<rightharpoonup> 'b"
  by (intro ext option_eqI)

lemma find_SomeD: "find P xs = Some x \<Longrightarrow> x \<in> set xs \<and> P x"
  by (induction xs) (auto split: if_splits)

subsection \<open>Lists ordered by a key\<close>

lemma find_key_iff:
  "sorted_wrt (<) (map f xs) \<Longrightarrow> find (\<lambda>x. f x = k) xs = Some y \<longleftrightarrow> y \<in> set xs \<and> f y = k" for f :: "'a \<Rightarrow> 'b::linorder"
  by (induction xs) auto

lemma sorted_insert_key:
  assumes "sorted_wrt (<) (map f xs)" and "f x \<notin> f ` set xs"
  shows "sorted_wrt (<) (map f (sort_key f (xs @ [x])))"
proof -
  have "distinct (map f (xs @ [x]))" using assms by (simp add: strict_sorted_iff)
  then have "distinct (map f (sort_key f (xs @ [x])))"
    by (metis distinct_map distinct_sort inj_on_cong set_sort)
  then show ?thesis by (simp add: strict_sorted_iff)
qed

lemma sort_key_append_last: "sorted_wrt (<) (map f (xs @ [x])) \<Longrightarrow> sort_key f (xs @ [x]) = xs @ [x]"
  by (rule sort_key_id_if_sorted) (simp add: strict_sorted_iff del: map_append)

lemma distinct_remdups_adj_sorted: "sorted xs \<Longrightarrow> distinct (remdups_adj xs)"
  for xs :: "'a::linorder list"
  by (induction xs rule: remdups_adj.induct) auto

subsection \<open>Strings\<close>

text \<open>
  A Rust \<open>String\<close> is its UTF-8 bytes, so \<open>length\<close> is \<open>str::len\<close> and the lexicographic order
  on characters is \<open>Ord for str\<close>. \<open>ws_width\<close> is the width in bytes of a leading code point
  with the Unicode property White\_Space (0 when there is none); \<open>trim_is_empty\<close> is
  \<open>s.trim().is_empty()\<close>.
\<close>

definition ws_width :: "string \<Rightarrow> nat" where
  "ws_width s =
     (case map (of_char :: char \<Rightarrow> nat) s of
        [] \<Rightarrow> 0
      | a # r \<Rightarrow>
          if (9 \<le> a \<and> a \<le> 13) \<or> a = 32 then 1
          else if a = 0xC2 then (case r of b # _ \<Rightarrow> if b = 0x85 \<or> b = 0xA0 then 2 else 0 | [] \<Rightarrow> 0)
          else (case r of
              b # c # _ \<Rightarrow>
                if (a = 0xE1 \<and> b = 0x9A \<and> c = 0x80)
                  \<or> (a = 0xE2 \<and> b = 0x80 \<and> ((0x80 \<le> c \<and> c \<le> 0x8A) \<or> c = 0xA8 \<or> c = 0xA9 \<or> c = 0xAF))
                  \<or> (a = 0xE2 \<and> b = 0x81 \<and> c = 0x9F)
                  \<or> (a = 0xE3 \<and> b = 0x80 \<and> c = 0x80)
                then 3 else 0
            | _ \<Rightarrow> 0))"

function trim_is_empty :: "string \<Rightarrow> bool" where
  "trim_is_empty s =
     (if s = [] then True
      else if ws_width s = 0 then False
      else trim_is_empty (drop (ws_width s) s))"
  by pat_completeness auto
termination
  by (relation "measure length") auto

declare trim_is_empty.simps [simp del]

text \<open>
  Character tests over all code points: \<open>chars().any(char::is_whitespace)\<close>,
  \<open>chars().any(char::is_control)\<close> (the category Cc) and \<open>s.trim() != s\<close>. A byte suffix that
  starts inside a code point starts with a continuation byte, which no pattern matches.
\<close>

fun has_whitespace :: "string \<Rightarrow> bool" where
  "has_whitespace [] = False"
| "has_whitespace (c # r) = (0 < ws_width (c # r) \<or> has_whitespace r)"

fun has_control :: "string \<Rightarrow> bool" where
  "has_control [] = False"
| "has_control (c # r) =
     (let a = of_char c :: nat in
        a < 32 \<or> a = 127
        \<or> (a = 0xC2 \<and> (case r of [] \<Rightarrow> False | d # _ \<Rightarrow> (0x80::nat) \<le> of_char d \<and> of_char d \<le> (0x9F::nat)))
        \<or> has_control r)"

fun ends_with_whitespace :: "string \<Rightarrow> bool" where
  "ends_with_whitespace [] = False"
| "ends_with_whitespace (c # r) =
     (ws_width (c # r) = length (c # r) \<or> ends_with_whitespace r)"

definition trim_differs :: "string \<Rightarrow> bool" where
  "trim_differs s \<longleftrightarrow> 0 < ws_width s \<or> ends_with_whitespace s"

text \<open>\<open>str::split\<close> on one character.\<close>

fun split_on :: "char \<Rightarrow> string \<Rightarrow> string list" where
  "split_on d [] = [[]]"
| "split_on d (c # r) =
     (if c = d then [] # split_on d r
      else (case split_on d r of [] \<Rightarrow> [[c]] | w # ws \<Rightarrow> (c # w) # ws))"

text \<open>Decimal formatting of an unsigned integer, as \<open>format!("{}", n)\<close> prints it.\<close>

definition digit_char :: "nat \<Rightarrow> char" where
  "digit_char d = char_of (48 + d)"

fun show_nat :: "nat \<Rightarrow> string" where
  "show_nat n = (if n < 10 then [digit_char n] else show_nat (n div 10) @ [digit_char (n mod 10)])"

declare show_nat.simps [simp del]

subsection \<open>BTreeMap\<close>

text \<open>
  \<open>BTreeMap<K, V>\<close> as the list of its entries in strictly ascending key order: iteration order
  is the list order, equality is equality of entries.
\<close>

fun ins_entry :: "'k::linorder \<Rightarrow> 'v \<Rightarrow> ('k \<times> 'v) list \<Rightarrow> ('k \<times> 'v) list" where
  "ins_entry k v [] = [(k, v)]"
| "ins_entry k v ((j, w) # r) =
     (if k < j then (k, v) # (j, w) # r
      else if j < k then (j, w) # ins_entry k v r
      else (k, v) # r)"

lemma set_ins_entry_keys: "set (map fst (ins_entry k v r)) = insert k (set (map fst r))"
  by (induction k v r rule: ins_entry.induct) auto

lemma ins_entry_ascending:
  "sorted_wrt (<) (map fst r) \<Longrightarrow> sorted_wrt (<) (map fst (ins_entry k v r))"
proof (induction k v r rule: ins_entry.induct)
  case (2 k v j w r)
  then show ?case
    using set_ins_entry_keys [of k v r] by (auto simp: less_trans)
qed simp

lemma filter_ascending:
  "sorted_wrt (<) (map fst r) \<Longrightarrow> sorted_wrt (<) (map fst (filter P r))"
  by (induction r) auto

lemma map_values_ascending:
  "sorted_wrt (<) (map fst r) \<Longrightarrow> sorted_wrt (<) (map fst (map (\<lambda>(k, v). (k, f k v)) r))"
  by (simp add: comp_def case_prod_beta)

typedef (overloaded) ('k, 'v) btmap = "{r :: ('k::linorder \<times> 'v) list. sorted_wrt (<) (map fst r)}"
  morphisms bt_entries BTMap
  by (rule exI [of _ "[]"]) simp

setup_lifting type_definition_btmap

lift_definition bt_empty :: "('k::linorder, 'v) btmap" is "[]"
  by simp

lift_definition bt_insert :: "'k::linorder \<Rightarrow> 'v \<Rightarrow> ('k, 'v) btmap \<Rightarrow> ('k, 'v) btmap" is ins_entry
  by (rule ins_entry_ascending)

lift_definition bt_remove :: "'k::linorder \<Rightarrow> ('k, 'v) btmap \<Rightarrow> ('k, 'v) btmap"
  is "\<lambda>k. filter (\<lambda>e. fst e \<noteq> k)"
  by (rule filter_ascending)

lift_definition bt_retain :: "('k \<Rightarrow> 'v \<Rightarrow> bool) \<Rightarrow> ('k::linorder, 'v) btmap \<Rightarrow> ('k, 'v) btmap"
  is "\<lambda>P. filter (\<lambda>(k, v). P k v)"
  by (rule filter_ascending)

lift_definition bt_map :: "('k \<Rightarrow> 'v \<Rightarrow> 'w) \<Rightarrow> ('k::linorder, 'v) btmap \<Rightarrow> ('k, 'w) btmap"
  is "\<lambda>f. map (\<lambda>(k, v). (k, f k v))"
  by (rule map_values_ascending)

definition bt_get :: "('k::linorder, 'v) btmap \<Rightarrow> 'k \<Rightarrow> 'v option" where
  "bt_get m k = map_of (bt_entries m) k"

definition bt_contains :: "('k::linorder, 'v) btmap \<Rightarrow> 'k \<Rightarrow> bool" where
  "bt_contains m k \<longleftrightarrow> bt_get m k \<noteq> None"

definition bt_keys :: "('k::linorder, 'v) btmap \<Rightarrow> 'k list" where
  "bt_keys m = map fst (bt_entries m)"

definition bt_values :: "('k::linorder, 'v) btmap \<Rightarrow> 'v list" where
  "bt_values m = map snd (bt_entries m)"

definition bt_len :: "('k::linorder, 'v) btmap \<Rightarrow> nat" where
  "bt_len m = length (bt_entries m)"

definition bt_of_list :: "('k::linorder \<times> 'v) list \<Rightarrow> ('k, 'v) btmap" where
  "bt_of_list xs = fold (\<lambda>(k, v). bt_insert k v) xs bt_empty"

text \<open>\<open>entry(k).or_insert(v)\<close> and \<open>get_mut(k)\<close> followed by an update of the value.\<close>

definition bt_or_insert :: "'k::linorder \<Rightarrow> 'v \<Rightarrow> ('k, 'v) btmap \<Rightarrow> ('k, 'v) btmap" where
  "bt_or_insert k v m = (if bt_contains m k then m else bt_insert k v m)"

definition bt_update :: "'k::linorder \<Rightarrow> ('v \<Rightarrow> 'v) \<Rightarrow> ('k, 'v) btmap \<Rightarrow> ('k, 'v) btmap" where
  "bt_update k f m = (case bt_get m k of None \<Rightarrow> m | Some v \<Rightarrow> bt_insert k (f v) m)"

instantiation btmap :: (linorder, equal) equal
begin

definition equal_btmap :: "('a, 'b) btmap \<Rightarrow> ('a, 'b) btmap \<Rightarrow> bool" where
  "equal_btmap a b \<longleftrightarrow>
     list_all2 (\<lambda>(k, v) (k', v'). k \<le> k' \<and> k' \<le> k \<and> v = v') (bt_entries a) (bt_entries b)"

instance
proof
  fix a b :: "('a, 'b) btmap"
  have "(\<lambda>(k, v) (k', v'). k \<le> k' \<and> k' \<le> k \<and> v = v') = ((=) :: 'a \<times> 'b \<Rightarrow> _)"
    by (auto simp: fun_eq_iff)
  then show "HOL.equal a b \<longleftrightarrow> a = b"
    by (simp add: equal_btmap_def bt_entries_inject list.rel_eq)
qed

end

subsection \<open>BTreeSet\<close>

text \<open>\<open>BTreeSet<T>\<close> is \<open>BTreeMap<T, ()>\<close>, as in the Rust standard library.\<close>

type_synonym 'a btset = "('a, unit) btmap"

definition bts_insert :: "'a::linorder \<Rightarrow> 'a btset \<Rightarrow> 'a btset" where
  "bts_insert x s = bt_insert x () s"

definition bts_remove :: "'a::linorder \<Rightarrow> 'a btset \<Rightarrow> 'a btset" where
  "bts_remove x s = bt_remove x s"

definition bts_member :: "'a::linorder \<Rightarrow> 'a btset \<Rightarrow> bool" where
  "bts_member x s \<longleftrightarrow> bt_contains s x"

definition bts_of_list :: "'a::linorder list \<Rightarrow> 'a btset" where
  "bts_of_list xs = fold bts_insert xs bt_empty"

subsection \<open>Laws of the ordered map\<close>

lemma bt_entries_ascending: "sorted_wrt (<) (bt_keys m)"
  using bt_entries [of m] by (simp add: bt_keys_def)

lemma bt_keys_distinct [simp]: "distinct (bt_keys m)"
  by (rule strict_sorted_iff [THEN iffD1, THEN conjunct2, OF bt_entries_ascending])

lemma map_of_ins_entry: "map_of (ins_entry k v r) = (map_of r)(k \<mapsto> v)"
  by (induction k v r rule: ins_entry.induct) (auto simp: fun_eq_iff)

lemma bt_get_empty [simp]: "bt_get bt_empty k = None"
  by (simp add: bt_get_def bt_empty.rep_eq)

lemma bt_get_insert: "bt_get (bt_insert k v m) j = (if j = k then Some v else bt_get m j)"
  by (simp add: bt_get_def bt_insert.rep_eq map_of_ins_entry)

lemma bt_get_insert_same [simp]: "bt_get (bt_insert k v m) k = Some v"
  by (simp add: bt_get_insert)

lemma bt_get_insert_other [simp]: "j \<noteq> k \<Longrightarrow> bt_get (bt_insert k v m) j = bt_get m j"
  by (simp add: bt_get_insert)

lemma map_of_filter_distinct:
  "distinct (map fst r) \<Longrightarrow>
     map_of (filter (\<lambda>(k, v). P k v) r) j =
       (case map_of r j of None \<Rightarrow> None | Some v \<Rightarrow> if P j v then Some v else None)"
proof (induction r)
  case (Cons e r)
  obtain k v where e: "e = (k, v)" by (cases e)
  have "k = j \<Longrightarrow> map_of r j = None"
    using Cons.prems e by (auto simp: map_of_eq_None_iff)
  with Cons e show ?case by (auto split: option.splits)
qed simp

lemma bt_get_retain:
  "bt_get (bt_retain P m) j =
     (case bt_get m j of None \<Rightarrow> None | Some v \<Rightarrow> if P j v then Some v else None)"
  using bt_keys_distinct [of m]
  by (simp add: bt_get_def bt_retain.rep_eq bt_keys_def map_of_filter_distinct)

lemma bt_remove_retain: "bt_remove k m = bt_retain (\<lambda>j _. j \<noteq> k) m"
  by transfer (simp add: case_prod_beta')

lemma bt_get_remove: "bt_get (bt_remove k m) j = (if j = k then None else bt_get m j)"
  by (auto simp: bt_remove_retain bt_get_retain split: option.splits)

lemma bt_get_map: "bt_get (bt_map f m) j = map_option (f j) (bt_get m j)"
proof -
  have "map_of (map (\<lambda>(k, v). (k, f k v)) r) j = map_option (f j) (map_of r j)" for r
    by (induction r) auto
  then show ?thesis by (simp add: bt_get_def bt_map.rep_eq)
qed

lemma bt_entries_iff: "(k, v) \<in> set (bt_entries m) \<longleftrightarrow> bt_get m k = Some v"
  using bt_keys_distinct [of m] by (simp add: bt_get_def bt_keys_def)

lemma bt_keys_iff: "k \<in> set (bt_keys m) \<longleftrightarrow> bt_contains m k"
  by (auto simp: bt_keys_def bt_contains_def bt_get_def map_of_eq_None_iff)

lemma bt_values_iff: "v \<in> set (bt_values m) \<longleftrightarrow> (\<exists>k. bt_get m k = Some v)"
  by (force simp: bt_values_def bt_entries_iff [symmetric])

lemma entries_from_keys:
  assumes "distinct (map fst r)"
  shows "map (\<lambda>k. (k, the (map_of r k))) (map fst r) = r"
proof -
  have "map (\<lambda>e. (fst e, the (map_of r (fst e)))) r = r"
    using assms by (intro map_idI) (auto simp: map_of_eq_Some_iff)
  then show ?thesis by (simp add: comp_def)
qed

lemma bt_eqI:
  assumes "\<And>k. bt_get m k = bt_get n k"
  shows "m = n"
proof -
  have e: "map_of (bt_entries m) = map_of (bt_entries n)"
    using assms by (auto simp: bt_get_def)
  have "set (bt_keys m) = set (bt_keys n)"
    using assms by (auto simp: bt_keys_iff bt_contains_def)
  then have k: "bt_keys m = bt_keys n"
    by (rule strict_sorted_equal [OF bt_entries_ascending bt_entries_ascending])
  have "bt_entries m = map (\<lambda>k. (k, the (map_of (bt_entries m) k))) (bt_keys m)"
    using entries_from_keys [of "bt_entries m"] bt_keys_distinct [of m] by (simp only: bt_keys_def)
  also have "\<dots> = map (\<lambda>k. (k, the (map_of (bt_entries n) k))) (bt_keys n)"
    by (simp only: e k)
  also have "\<dots> = bt_entries n"
    using entries_from_keys [of "bt_entries n"] bt_keys_distinct [of n] by (simp only: bt_keys_def)
  finally show ?thesis by (simp add: bt_entries_inject)
qed

lemma bt_contains_empty [simp]: "\<not> bt_contains bt_empty k"
  by (simp add: bt_contains_def)

lemma bt_contains_insert [simp]: "bt_contains (bt_insert k v m) j \<longleftrightarrow> j = k \<or> bt_contains m j"
  by (simp add: bt_contains_def bt_get_insert)

lemma bt_contains_iff: "bt_contains m k \<longleftrightarrow> (\<exists>v. bt_get m k = Some v)"
  by (auto simp: bt_contains_def)

lemma bt_contains_map [simp]: "bt_contains (bt_map f m) k = bt_contains m k"
  by (simp add: bt_contains_def bt_get_map)

lemma bt_get_or_insert:
  "bt_get (bt_or_insert k v m) j =
     (if j = k then Some (case bt_get m k of None \<Rightarrow> v | Some w \<Rightarrow> w) else bt_get m j)"
  by (auto simp: bt_or_insert_def bt_contains_def split: option.splits)

lemma bt_contains_or_insert [simp]: "bt_contains (bt_or_insert k v m) j \<longleftrightarrow> j = k \<or> bt_contains m j"
  by (auto simp: bt_or_insert_def)

lemma bt_get_update:
  "bt_get (bt_update k f m) j = (if j = k then map_option f (bt_get m k) else bt_get m j)"
  by (auto simp: bt_update_def split: option.splits)

lemma bt_contains_update [simp]: "bt_contains (bt_update k f m) j = bt_contains m j"
  by (simp add: bt_contains_def bt_get_update)

lemma bt_get_of_list_fold:
  "bt_get (fold (\<lambda>(k, v). bt_insert k v) xs m) j =
     (case map_of (rev xs) j of None \<Rightarrow> bt_get m j | Some v \<Rightarrow> Some v)"
  by (induction xs arbitrary: m) (auto simp: bt_get_insert map_add_def split: option.splits)

lemma bt_get_of_list: "bt_get (bt_of_list xs) j = map_of (rev xs) j"
  by (simp add: bt_of_list_def bt_get_of_list_fold split: option.splits)

lemma bt_get_of_list_distinct:
  assumes "distinct (map fst xs)"
  shows "bt_get (bt_of_list xs) j = map_of xs j"
proof -
  have "distinct (map fst (rev xs))"
    using assms by (simp add: rev_map [symmetric])
  then have "map_of (rev xs) = map_of xs"
    using assms by (simp only: map_of_inject_set set_rev)
  then show ?thesis by (simp add: bt_get_of_list)
qed

lemma bt_of_list_entries [simp]: "bt_of_list (bt_entries m) = m"
proof (rule bt_eqI)
  fix k
  have "distinct (map fst (bt_entries m))"
    using bt_keys_distinct [of m] by (simp add: bt_keys_def)
  then have "bt_get (bt_of_list (bt_entries m)) k = map_of (bt_entries m) k"
    by (rule bt_get_of_list_distinct)
  then show "bt_get (bt_of_list (bt_entries m)) k = bt_get m k"
    by (simp only: bt_get_def)
qed

lemma bts_member_empty [simp]: "\<not> bts_member x bt_empty"
  by (simp add: bts_member_def)

lemma bts_member_insert [simp]: "bts_member x (bts_insert y s) \<longleftrightarrow> x = y \<or> bts_member x s"
  by (auto simp: bts_member_def bts_insert_def)

lemma bts_member_remove [simp]: "bts_member x (bts_remove y s) \<longleftrightarrow> x \<noteq> y \<and> bts_member x s"
  by (auto simp: bts_member_def bts_remove_def bt_contains_def bt_get_remove)

lemma bts_member_keys: "x \<in> set (bt_keys s) \<longleftrightarrow> bts_member x s"
  by (simp add: bts_member_def bt_keys_iff)

lemma bts_eqI: "(\<And>x. bts_member x s \<longleftrightarrow> bts_member x t) \<Longrightarrow> s = t"
proof (rule bt_eqI)
  fix k
  assume "\<And>x. bts_member x s \<longleftrightarrow> bts_member x t"
  from this [of k] show "bt_get s k = bt_get t k"
    by (cases "bt_get s k"; cases "bt_get t k") (auto simp: bts_member_def bt_contains_def)
qed

lemma bts_member_fold: "bts_member x (fold bts_insert xs s) \<longleftrightarrow> x \<in> set xs \<or> bts_member x s"
  by (induction xs arbitrary: s) auto

lemma bts_member_of_list [simp]: "bts_member x (bts_of_list xs) \<longleftrightarrow> x \<in> set xs"
  by (simp add: bts_of_list_def bts_member_fold)

lemma bts_of_list_eq_iff: "bts_of_list xs = bts_of_list ys \<longleftrightarrow> set xs = set ys"
proof
  assume "bts_of_list xs = bts_of_list ys"
  then have "bts_member x (bts_of_list xs) = bts_member x (bts_of_list ys)" for x by simp
  then show "set xs = set ys" by auto
qed (auto intro: bts_eqI)

lemma bts_of_list_keys [simp]: "bts_of_list (bt_keys s) = s" for s :: "'a::linorder btset"
  by (rule bts_eqI) (simp add: bts_member_keys)

lemma bt_len_of_list: "bt_len (bts_of_list xs) = card (set xs)"
proof -
  have "bt_len (bts_of_list xs) = card (set (bt_keys (bts_of_list xs)))"
    by (simp add: distinct_card bt_len_def) (simp add: bt_keys_def)
  also have "set (bt_keys (bts_of_list xs)) = set xs"
    by (auto simp: bts_member_keys)
  finally show ?thesis .
qed

lemma bt_len_of_list_distinct: "bt_len (bts_of_list xs) = length xs \<longleftrightarrow> distinct xs"
  unfolding bt_len_of_list by (metis distinct_card card_distinct)

subsection \<open>Growth of a map\<close>

text \<open>
  \<open>bt_extends R a b\<close>: every entry of \<open>a\<close> is still in \<open>b\<close>, with a value that \<open>R\<close> allows to follow
  the old one. With \<open>R\<close> equality, entries are immutable once written.
\<close>

definition bt_extends ::
    "('v \<Rightarrow> 'v \<Rightarrow> bool) \<Rightarrow> ('k::linorder, 'v) btmap \<Rightarrow> ('k, 'v) btmap \<Rightarrow> bool" where
  "bt_extends R a b \<longleftrightarrow> (\<forall>k v. bt_get a k = Some v \<longrightarrow> (\<exists>w. bt_get b k = Some w \<and> R v w))"

lemma bt_extendsD: "bt_extends R a b \<Longrightarrow> bt_get a k = Some v \<Longrightarrow> \<exists>w. bt_get b k = Some w \<and> R v w"
  by (simp add: bt_extends_def)

lemma bt_extends_eqD: "bt_extends (=) a b \<Longrightarrow> bt_get a k = Some v \<Longrightarrow> bt_get b k = Some v"
  by (simp add: bt_extends_def)

lemma bt_extends_refl [simp]: "reflp R \<Longrightarrow> bt_extends R a a"
  by (simp add: bt_extends_def reflpD)

lemma bt_extends_empty [simp]: "bt_extends R bt_empty b"
  by (simp add: bt_extends_def)

lemma bt_extends_trans:
  assumes "transp R" and "bt_extends R a b" and "bt_extends R b c"
  shows "bt_extends R a c"
  unfolding bt_extends_def
proof (intro allI impI)
  fix k v assume "bt_get a k = Some v"
  then obtain w where "bt_get b k = Some w" "R v w" using assms(2) by (blast dest: bt_extendsD)
  moreover from this obtain u where "bt_get c k = Some u" "R w u" using assms(3) by (blast dest: bt_extendsD)
  ultimately show "\<exists>w. bt_get c k = Some w \<and> R v w" using assms(1) by (blast dest: transpD)
qed

lemma bt_extends_insert:
  "reflp R \<Longrightarrow> bt_extends R a (bt_insert k v a) \<longleftrightarrow> is_none_or (bt_get a k) (\<lambda>old. R old v)"
  by (auto simp: bt_extends_def bt_get_insert is_none_or_iff reflpD)

lemma bt_extends_or_insert [simp]: "reflp R \<Longrightarrow> bt_extends R a (bt_or_insert k v a)"
  by (auto simp: bt_extends_def bt_get_or_insert reflpD split: option.splits)

lemma bt_extends_update:
  "reflp R \<Longrightarrow> bt_extends R a (bt_update k f a) \<longleftrightarrow> is_none_or (bt_get a k) (\<lambda>old. R old (f old))"
  by (auto simp: bt_extends_def bt_get_update is_none_or_iff reflpD)

lemma bt_extends_map:
  "(\<And>k v. bt_get a k = Some v \<Longrightarrow> R v (f k v)) \<Longrightarrow> bt_extends R a (bt_map f a)"
  by (auto simp: bt_extends_def bt_get_map)

lemma bts_extends: "bt_extends (=) s t \<longleftrightarrow> (\<forall>x. bts_member x s \<longrightarrow> bts_member x t)" for s :: "'a::linorder btset"
  by (simp add: bt_extends_def bts_member_def bt_contains_iff)

subsection \<open>The contract of an ordered map\<close>

text \<open>
  What the components rely on when they use a \<open>BTreeMap\<close>: lookups after each mutation, and
  iteration over exactly the stored entries in strictly ascending key order.
\<close>

locale ordered_map =
  fixes empty :: "'m"
    and get :: "'m \<Rightarrow> 'k::linorder \<Rightarrow> 'v option"
    and put :: "'k \<Rightarrow> 'v \<Rightarrow> 'm \<Rightarrow> 'm"
    and del :: "'k \<Rightarrow> 'm \<Rightarrow> 'm"
    and iter :: "'m \<Rightarrow> ('k \<times> 'v) list"
  assumes get_empty: "get empty k = None"
    and get_put: "get (put k v m) j = (if j = k then Some v else get m j)"
    and get_del: "get (del k m) j = (if j = k then None else get m j)"
    and iter_get: "(k, v) \<in> set (iter m) \<longleftrightarrow> get m k = Some v"
    and iter_ascending: "sorted_wrt (<) (map fst (iter m))"
    and ext: "(\<And>k. get m k = get n k) \<Longrightarrow> m = n"
begin

lemma put_put_same: "put k w (put k v m) = put k w m"
  by (rule ext) (simp add: get_put)

lemma put_commute: "j \<noteq> k \<Longrightarrow> put j w (put k v m) = put k v (put j w m)"
  by (rule ext) (simp add: get_put)

lemma put_idem: "get m k = Some v \<Longrightarrow> put k v m = m"
  by (rule ext) (simp add: get_put)

lemma del_absent: "get m k = None \<Longrightarrow> del k m = m"
  by (rule ext) (simp add: get_del)

lemma del_put: "get m k = None \<Longrightarrow> del k (put k v m) = m"
  by (rule ext) (simp add: get_del get_put)

lemma iter_unique:
  assumes "sorted_wrt (<) (map fst r)"
    and "\<And>k v. (k, v) \<in> set r \<longleftrightarrow> get m k = Some v"
  shows "iter m = r"
proof -
  have "set (iter m) = set r"
    using assms(2) iter_get by auto
  then have k: "map fst (iter m) = map fst r"
    by (intro strict_sorted_equal) (auto simp: assms(1) iter_ascending)
  have d: "distinct (map fst (iter m))" "distinct (map fst r)"
    using iter_ascending [of m] assms(1) by (simp_all add: strict_sorted_iff)
  have e: "map_of (iter m) = map_of r"
    using d \<open>set (iter m) = set r\<close> by (simp only: map_of_inject_set)
  have "iter m = map (\<lambda>k. (k, the (map_of (iter m) k))) (map fst (iter m))"
    by (rule entries_from_keys [OF d(1), symmetric])
  also have "\<dots> = map (\<lambda>k. (k, the (map_of r k))) (map fst r)"
    by (simp only: e k)
  also have "\<dots> = r"
    by (rule entries_from_keys [OF d(2)])
  finally show ?thesis .
qed

end

interpretation btree: ordered_map bt_empty bt_get bt_insert bt_remove bt_entries
proof
  show "sorted_wrt (<) (map fst (bt_entries m))" for m :: "('a, 'b) btmap"
    using bt_entries_ascending [of m] by (simp add: bt_keys_def)
qed (simp_all add: bt_get_insert bt_get_remove bt_entries_iff bt_eqI)

subsection \<open>The contract of a state machine\<close>

text \<open>Reachability, and the rule that an inductive invariant holds in every reachable state.\<close>

inductive run_from :: "('s \<Rightarrow> 's \<Rightarrow> bool) \<Rightarrow> 's \<Rightarrow> 's \<Rightarrow> bool" for step where
  run_refl: "run_from step s s"
| run_step: "run_from step s t \<Longrightarrow> step t u \<Longrightarrow> run_from step s u"

lemma run_from_trans:
  assumes "run_from step t u" and "run_from step s t"
  shows "run_from step s u"
  using assms by (induction rule: run_from.induct) (auto intro: run_from.intros)

locale invariant_system =
  fixes start :: "'s \<Rightarrow> bool"
    and step :: "'s \<Rightarrow> 's \<Rightarrow> bool"
    and inv :: "'s \<Rightarrow> bool"
  assumes inv_start: "start s \<Longrightarrow> inv s"
    and inv_step: "inv s \<Longrightarrow> step s t \<Longrightarrow> inv t"
begin

lemma inv_run: "run_from step s t \<Longrightarrow> inv s \<Longrightarrow> inv t"
  by (induction rule: run_from.induct) (auto intro: inv_step)

lemma inv_reachable: "start s \<Longrightarrow> run_from step s t \<Longrightarrow> inv t"
  by (blast intro: inv_run inv_start)

end

text \<open>
  A machine whose steps only extend history: an order that every step from an invariant state
  moves upwards is respected by whole runs.
\<close>

locale history_system = invariant_system start step inv
  for start :: "'s \<Rightarrow> bool" and step :: "'s \<Rightarrow> 's \<Rightarrow> bool" and inv :: "'s \<Rightarrow> bool" +
  fixes extends :: "'s \<Rightarrow> 's \<Rightarrow> bool"
  assumes extends_refl: "extends s s"
    and extends_trans: "extends s t \<Longrightarrow> extends t u \<Longrightarrow> extends s u"
    and extends_step: "inv s \<Longrightarrow> step s t \<Longrightarrow> extends s t"
begin

lemma extends_run: "run_from step s t \<Longrightarrow> inv s \<Longrightarrow> extends s t"
proof (induction rule: run_from.induct)
  case (run_step s t u)
  from run_step.hyps(1) run_step.prems have "inv t" by (rule inv_run)
  with run_step show ?case by (blast intro: extends_trans extends_step)
qed (rule extends_refl)

end

end
