(* ===== verification/RG_Domain.thy ===== *)
theory RG_Domain
  imports RG_Prelude
begin

text \<open>
  Identities, time and leases of \<open>core/domain\<close>: \<open>identity.rs\<close>, \<open>error.rs\<close>, \<open>time.rs\<close> and
  \<open>lease.rs\<close>. Every identifier newtype wraps a string and derives its equality and order from
  it, so identifiers are strings; a \<open>TaskRef\<close> is ordered by mission first, then task.
\<close>

type_synonym mission_id = string
type_synonym task_id = string
type_synonym actor_id = string
type_synonym node_id = string
type_synonym local_system_id = string
type_synonym role_id = string
type_synonym resource_id = string
type_synonym group_id = string
type_synonym context_id = string
type_synonym context_role_id = string
type_synonym relation_id = string
type_synonym correlation_id = string
type_synonym lease_id = string
type_synonym execution_id = string
type_synonym timestamp = u64

subsection \<open>Errors\<close>

datatype domain_error =
    EmptyValue string
  | InvalidDuration string
  | LeaseExpired string
  | InvalidMissionPlan string
  | InvalidPhysicalEntityRegistry string
  | InvalidSpatialMemory string
  | InvalidState string
  | InvalidMemory string

text \<open>The \<open>Display\<close> text of a domain error.\<close>

fun domain_error_text :: "domain_error \<Rightarrow> string" where
  "domain_error_text (EmptyValue kind) = kind @ '' must not be empty''"
| "domain_error_text (InvalidDuration kind) = ''invalid '' @ kind @ '' duration''"
| "domain_error_text (LeaseExpired kind) = kind @ '' lease has expired''"
| "domain_error_text (InvalidMissionPlan reason) = ''invalid mission plan: '' @ reason"
| "domain_error_text (InvalidPhysicalEntityRegistry reason) =
     ''invalid physical entity registry: '' @ reason"
| "domain_error_text (InvalidSpatialMemory reason) = ''invalid spatial memory value: '' @ reason"
| "domain_error_text (InvalidState reason) = ''invalid state value: '' @ reason"
| "domain_error_text (InvalidMemory reason) = ''invalid memory value: '' @ reason"

subsection \<open>Identities\<close>

definition identifier_new :: "string \<Rightarrow> string \<Rightarrow> domain_error + string" where
  "identifier_new kind value =
     (if trim_is_empty value then Inl (EmptyValue kind) else Inr value)"

datatype task_ref = TaskRef (tr_mission_id: mission_id) (tr_task_id: task_id)

instantiation task_ref :: linorder
begin

definition less_eq_task_ref :: "task_ref \<Rightarrow> task_ref \<Rightarrow> bool" where
  "less_eq_task_ref a b \<longleftrightarrow> (tr_mission_id a, tr_task_id a) \<le> (tr_mission_id b, tr_task_id b)"

definition less_task_ref :: "task_ref \<Rightarrow> task_ref \<Rightarrow> bool" where
  "less_task_ref a b \<longleftrightarrow> (tr_mission_id a, tr_task_id a) < (tr_mission_id b, tr_task_id b)"

instance
proof
  fix a b :: task_ref
  show "a \<le> b \<Longrightarrow> b \<le> a \<Longrightarrow> a = b"
    unfolding less_eq_task_ref_def by (rule task_ref.expand) (auto dest: order_antisym)
qed (auto simp: less_eq_task_ref_def less_task_ref_def not_le intro: order_trans)

end

subsection \<open>Task timing\<close>

record task_timing =
  tt_earliest_start_offset_ms :: u64
  tt_latest_start_offset_ms :: "u64 option"
  tt_completion_deadline_offset_ms :: "u64 option"
  tt_estimated_duration_ms :: "u64 option"

definition task_timing_new ::
    "u64 \<Rightarrow> u64 option \<Rightarrow> u64 option \<Rightarrow> u64 option \<Rightarrow> domain_error + task_timing" where
  "task_timing_new earliest latest deadline estimated =
     (if is_some_and latest (\<lambda>l. l < earliest) then Inl (InvalidDuration ''task start window'')
      else if estimated = Some 0 then Inl (InvalidDuration ''task estimated duration'')
      else if is_some_and estimated (\<lambda>d. checked_add earliest d = None)
        then Inl (InvalidDuration ''task estimated duration overflow'')
      else (let ok = Inr \<lparr>tt_earliest_start_offset_ms = earliest,
                        tt_latest_start_offset_ms = latest,
                        tt_completion_deadline_offset_ms = deadline,
                        tt_estimated_duration_ms = estimated\<rparr>
            in case deadline of
                None \<Rightarrow> ok
              | Some dl \<Rightarrow>
                  (case estimated of
                     None \<Rightarrow> Inl (InvalidDuration ''task completion deadline without estimated duration'')
                   | Some d \<Rightarrow>
                       (case checked_add earliest d of
                          None \<Rightarrow> Inl (InvalidDuration ''task completion deadline overflow'')
                        | Some done \<Rightarrow>
                            if dl < done then Inl (InvalidDuration ''task completion deadline'')
                            else ok))))"

definition task_timing_new_constraints ::
    "u64 \<Rightarrow> u64 option \<Rightarrow> u64 option \<Rightarrow> domain_error + task_timing" where
  "task_timing_new_constraints earliest latest deadline =
     (if is_some_and latest (\<lambda>l. l < earliest) then Inl (InvalidDuration ''task start window'')
      else if is_some_and deadline (\<lambda>d. d < earliest)
        then Inl (InvalidDuration ''task completion deadline'')
      else Inr \<lparr>tt_earliest_start_offset_ms = earliest,
               tt_latest_start_offset_ms = latest,
               tt_completion_deadline_offset_ms = deadline,
               tt_estimated_duration_ms = None\<rparr>)"

subsection \<open>Node leases\<close>

record node_lease =
  nl_lease_id :: lease_id
  nl_node_id :: node_id
  nl_issued_at :: timestamp
  nl_expires_at :: timestamp

definition node_lease_new :: "lease_id \<Rightarrow> node_id \<Rightarrow> timestamp \<Rightarrow> u64 \<Rightarrow> domain_error + node_lease" where
  "node_lease_new lease node issued_at duration =
     (if duration = 0 then Inl (InvalidDuration ''node lease'')
      else (case checked_add issued_at duration of
              None \<Rightarrow> Inl (InvalidDuration ''node lease'')
            | Some expires_at \<Rightarrow>
                Inr \<lparr>nl_lease_id = lease, nl_node_id = node,
                     nl_issued_at = issued_at, nl_expires_at = expires_at\<rparr>))"

definition node_lease_is_active_at :: "node_lease \<Rightarrow> timestamp \<Rightarrow> bool" where
  "node_lease_is_active_at l now \<longleftrightarrow> now < nl_expires_at l"

definition node_lease_renew :: "node_lease \<Rightarrow> timestamp \<Rightarrow> u64 \<Rightarrow> domain_error + node_lease" where
  "node_lease_renew l now duration =
     (if \<not> node_lease_is_active_at l now then Inl (LeaseExpired ''node'')
      else node_lease_new (nl_lease_id l) (nl_node_id l) now duration)"

subsection \<open>Facts about checked arithmetic\<close>

lemma checked_add_Some_unat:
  "checked_add a b = Some c \<Longrightarrow> unat c = unat a + unat b" for a b c :: "'a::len word"
  by (auto simp: checked_add_def unat_word_ariths split: if_splits)

lemma checked_add_None_iff:
  "checked_add a b = None \<longleftrightarrow> 2 ^ LENGTH('a) \<le> unat a + unat b" for a b :: "'a::len word"
  by (simp add: checked_add_def not_less)

lemma checked_add_Some_le: "checked_add a b = Some c \<Longrightarrow> a \<le> c" for a b c :: "'a::len word"
  by (simp add: word_le_nat_alt checked_add_Some_unat)

lemma checked_add_Some_less:
  "checked_add a b = Some c \<Longrightarrow> b \<noteq> 0 \<Longrightarrow> a < c" for a b c :: "'a::len word"
  by (simp add: word_less_nat_alt checked_add_Some_unat unat_gt_0)

lemma unat_saturating_add:
  "unat (saturating_add a b) = min (unat a + unat b) (2 ^ LENGTH('a) - 1)" for a b :: "'a::len word"
proof (cases "checked_add a b")
  case None
  then have "2 ^ LENGTH('a) \<le> unat a + unat b" by (simp add: checked_add_None_iff)
  with None show ?thesis by (simp add: saturating_add_def unsigned_minus_1_eq_mask mask_eq_exp_minus_1)
next
  case (Some c)
  then have "unat c = unat a + unat b" by (rule checked_add_Some_unat)
  moreover have "unat c < 2 ^ LENGTH('a)"
    by (rule unsigned_less)
  ultimately show ?thesis using Some by (simp add: saturating_add_def)
qed

end
