(* ===== verification/RG_Resource.thy ===== *)
theory RG_Resource
  imports RG_Domain
begin

text \<open>
  Quantitative resources of \<open>core/domain\<close>: \<open>resource.rs\<close>, the allocation owner and binding scope of
  \<open>allocation.rs\<close>, and the versioned execution grants of \<open>resource_grant.rs\<close>. The allocation identity
  of a grant is a SHA-256 digest of its JSON form; the digest is the parameter \<open>hex\<close> of
  \<open>original_allocation_id\<close>, a function of the eleven values the source serializes.
\<close>

datatype resource_kind = Space | Compute | Time

datatype resource_allocation_mode = Exclusive | Divisible

record resource_requirement =
  rr_kind :: resource_kind
  rr_units :: u32
  rr_allocation_mode :: resource_allocation_mode
  rr_resource_class :: "string option"

definition resource_requirement_new :: "resource_kind \<Rightarrow> u32 \<Rightarrow> domain_error + resource_requirement" where
  "resource_requirement_new kind units =
     (if units = 0 then Inl (EmptyValue ''resource requirement units'')
      else Inr \<lparr>rr_kind = kind, rr_units = units, rr_allocation_mode = Exclusive,
               rr_resource_class = None\<rparr>)"

definition resource_requirement_new_divisible :: "u32 \<Rightarrow> domain_error + resource_requirement" where
  "resource_requirement_new_divisible units =
     (case resource_requirement_new Compute units of
        Inl e \<Rightarrow> Inl e
      | Inr v \<Rightarrow> Inr (v\<lparr>rr_allocation_mode := Divisible,
                        rr_resource_class := Some ''compute.units/v1''\<rparr>))"

definition resource_requirement_with_class ::
    "resource_requirement \<Rightarrow> string \<Rightarrow> domain_error + resource_requirement" where
  "resource_requirement_with_class r class =
     (if rr_allocation_mode r \<noteq> Divisible \<or> trim_is_empty class \<or> 128 < length class
      then Inl (EmptyValue ''quantitative resource class'')
      else Inr (r\<lparr>rr_resource_class := Some class\<rparr>))"

record resource =
  res_id :: resource_id
  res_kind :: resource_kind
  res_capacity :: u32
  res_allocation_mode :: resource_allocation_mode
  res_resource_class :: "string option"

definition resource_new :: "resource_id \<Rightarrow> resource_kind \<Rightarrow> u32 \<Rightarrow> domain_error + resource" where
  "resource_new rid kind capacity =
     (if capacity = 0 then Inl (EmptyValue ''resource capacity'')
      else Inr \<lparr>res_id = rid, res_kind = kind, res_capacity = capacity,
               res_allocation_mode = Exclusive, res_resource_class = None\<rparr>)"

definition resource_new_divisible :: "resource_id \<Rightarrow> u32 \<Rightarrow> domain_error + resource" where
  "resource_new_divisible rid capacity =
     (case resource_new rid Compute capacity of
        Inl e \<Rightarrow> Inl e
      | Inr v \<Rightarrow> Inr (v\<lparr>res_allocation_mode := Divisible,
                        res_resource_class := Some ''compute.units/v1''\<rparr>))"

definition resource_with_class :: "resource \<Rightarrow> string \<Rightarrow> domain_error + resource" where
  "resource_with_class r class =
     (if res_allocation_mode r \<noteq> Divisible \<or> trim_is_empty class \<or> 128 < length class
      then Inl (EmptyValue ''quantitative resource class'')
      else Inr (r\<lparr>res_resource_class := Some class\<rparr>))"

datatype allocation_owner =
    TaskOwner task_ref
  | ContextOwner mission_id context_id context_role_id

datatype resource_binding_scope = TaskScope | ContextScope

record resource_grant =
  rg_schema :: string
  rg_allocation_id :: string
  rg_generation :: u64
  rg_resource_id :: resource_id
  rg_resource_class :: string
  rg_node_id :: node_id
  rg_group_id :: group_id
  rg_owner :: allocation_owner
  rg_tenant_id :: string
  rg_task_ref :: task_ref
  rg_role_id :: role_id
  rg_units :: u32
  rg_allocation_units :: u32
  rg_admitted_capacity :: u32

type_synonym grant_identity =
  "string \<times> u64 \<times> resource_id \<times> string \<times> node_id \<times> group_id \<times> allocation_owner \<times> role_id option
     \<times> string \<times> u32 \<times> u32"

definition original_allocation_id :: "(grant_identity \<Rightarrow> string) \<Rightarrow> resource_grant \<Rightarrow> string" where
  "original_allocation_id hex g =
     ''allocation:sha256:'' @ hex
       (rg_schema g, rg_generation g, rg_resource_id g, rg_resource_class g, rg_node_id g,
        rg_group_id g, rg_owner g,
        (case rg_owner g of TaskOwner _ \<Rightarrow> Some (rg_role_id g) | ContextOwner _ _ _ \<Rightarrow> None),
        rg_tenant_id g, rg_allocation_units g, rg_admitted_capacity g)"

definition strip_prefix :: "string \<Rightarrow> string \<Rightarrow> string option" where
  "strip_prefix p s = (if take (length p) s = p then Some (drop (length p) s) else None)"

definition is_lower_hex :: "char \<Rightarrow> bool" where
  "is_lower_hex c \<longleftrightarrow>
     (CHR ''0'' \<le> c \<and> c \<le> CHR ''9'') \<or> (CHR ''a'' \<le> c \<and> c \<le> CHR ''f'')"

definition resource_grant_validate :: "(grant_identity \<Rightarrow> string) \<Rightarrow> resource_grant \<Rightarrow> string + unit" where
  "resource_grant_validate hex g =
     (if rg_schema g \<noteq> ''roboguide.resource-allocation-grant/v0.1''
         \<or> rg_generation g = 0
         \<or> rg_units g = 0
         \<or> rg_allocation_units g < rg_units g
         \<or> rg_admitted_capacity g < rg_allocation_units g
         \<or> trim_is_empty (rg_resource_class g)
         \<or> 128 < length (rg_resource_class g)
         \<or> trim_is_empty (rg_tenant_id g)
         \<or> 128 < length (rg_tenant_id g)
         \<or> \<not> is_some_and (strip_prefix ''allocation:sha256:'' (rg_allocation_id g))
               (\<lambda>h. length h = 64 \<and> list_all is_lower_hex h)
         \<or> rg_allocation_id g \<noteq> original_allocation_id hex g
         \<or> (case rg_owner g of
               TaskOwner task \<Rightarrow> task \<noteq> rg_task_ref g
             | ContextOwner mission _ _ \<Rightarrow> mission \<noteq> tr_mission_id (rg_task_ref g))
      then Inl ''resource allocation grant identity, scope or units are invalid''
      else Inr ())"

end
