(* ===== verification/RG_Relation_Spec.thy ===== *)
theory RG_Relation_Spec
  imports RG_Resource
begin

text \<open>
  The Mission-owned coordination vocabulary of \<open>core/domain\<close>: \<open>execution_relation.rs\<close> (coupling
  modes, shared views, peer channels, typed relations) and the parts of \<open>context.rs\<close> and
  \<open>spatial_memory.rs\<close> that the Runtime consumes.
\<close>

datatype map_revision_selector = MapRevisionSelector (mrs_map_id: string) (mrs_revision_id: string)

datatype planned_execution_ref =
  PlannedExecutionRef (per_task_id: task_id) (per_role_id: role_id)

datatype execution_coupling_mode =
  Independent | SequentialHandoff | ConcurrentCooperation | TightlyCoupledCooperation

datatype coordination_mechanism =
    TaskHandoff
  | GroupSharedState
  | MechSharedSpatialReference
  | RelationEvidence
  | DirectPeerChannel

fun mode_requires :: "execution_coupling_mode \<Rightarrow> coordination_mechanism \<Rightarrow> bool" where
  "mode_requires Independent mech = False"
| "mode_requires SequentialHandoff mech = (mech = TaskHandoff)"
| "mode_requires ConcurrentCooperation mech = (mech = GroupSharedState \<or> mech = RelationEvidence)"
| "mode_requires TightlyCoupledCooperation mech =
     (mech = GroupSharedState \<or> mech = RelationEvidence \<or> mech = DirectPeerChannel)"

subsection \<open>Shared views\<close>

datatype group_view_field = Pose | Velocity | Execution

record shared_spatial_reference =
  ssr_selector :: map_revision_selector
  ssr_frame_id :: string

definition shared_spatial_reference_validate :: "shared_spatial_reference \<Rightarrow> domain_error + unit" where
  "shared_spatial_reference_validate r =
     (if trim_is_empty (ssr_frame_id r)
      then Inl (InvalidMissionPlan ''shared spatial frame id must not be blank'') else Inr ())"

definition shared_spatial_reference_new ::
    "map_revision_selector \<Rightarrow> string \<Rightarrow> domain_error + shared_spatial_reference" where
  "shared_spatial_reference_new selector frame =
     (if trim_is_empty frame
      then Inl (InvalidMissionPlan ''shared spatial frame id must not be blank'')
      else Inr \<lparr>ssr_selector = selector, ssr_frame_id = frame\<rparr>)"

record group_view_binding =
  gvb_context_role_id :: context_role_id
  gvb_field :: group_view_field
  gvb_state_export_id :: "string option"
  gvb_payload_schema :: "string option"

definition group_view_binding_new ::
    "context_role_id \<Rightarrow> group_view_field \<Rightarrow> string \<Rightarrow> string \<Rightarrow> domain_error + group_view_binding" where
  "group_view_binding_new role field export schema =
     (if field = Execution
      then Inl (InvalidMissionPlan ''Execution Group view fields require the Runtime-backed constructor'')
      else if trim_is_empty export \<or> trim_is_empty schema
      then Inl (InvalidMissionPlan
        ''Group view State export identity and payload schema must not be blank'')
      else Inr \<lparr>gvb_context_role_id = role, gvb_field = field,
               gvb_state_export_id = Some export, gvb_payload_schema = Some schema\<rparr>)"

definition group_view_binding_new_execution :: "context_role_id \<Rightarrow> group_view_binding" where
  "group_view_binding_new_execution role =
     \<lparr>gvb_context_role_id = role, gvb_field = Execution,
      gvb_state_export_id = None, gvb_payload_schema = None\<rparr>"

definition group_view_binding_validate :: "group_view_binding \<Rightarrow> domain_error + unit" where
  "group_view_binding_validate b =
     (case gvb_field b of
        Execution \<Rightarrow>
          if gvb_state_export_id b \<noteq> None \<or> gvb_payload_schema b \<noteq> None
          then Inl (InvalidMissionPlan
            ''Execution Group view fields are Runtime-backed and cannot select State exports'')
          else Inr ()
      | _ \<Rightarrow>
          if is_none_or (gvb_state_export_id b) trim_is_empty
             \<or> is_none_or (gvb_payload_schema b) trim_is_empty
          then Inl (InvalidMissionPlan
            ''spatial Group view fields require a State export and payload schema'')
          else Inr ())"

record group_shared_view_spec =
  gsv_spatial_reference :: "shared_spatial_reference option"
  gsv_bindings :: "group_view_binding list"
  gsv_include_freshness :: bool

text \<open>\<open>for x in xs { f(x)?; }\<close>: the first error, or success.\<close>

fun check_each :: "('a \<Rightarrow> 'e + unit) \<Rightarrow> 'a list \<Rightarrow> 'e + unit" where
  "check_each f [] = Inr ()"
| "check_each f (x # xs) = (case f x of Inl e \<Rightarrow> Inl e | Inr _ \<Rightarrow> check_each f xs)"

definition binding_identity ::
    "group_view_binding \<Rightarrow> context_role_id \<times> group_view_field \<times> string option \<times> string option" where
  "binding_identity b =
     (gvb_context_role_id b, gvb_field b, gvb_state_export_id b, gvb_payload_schema b)"

definition group_shared_view_validate :: "group_shared_view_spec \<Rightarrow> domain_error + unit" where
  "group_shared_view_validate v =
     (if gsv_bindings v = []
      then Inl (InvalidMissionPlan ''Group shared view requires at least one binding'')
      else (case check_each group_view_binding_validate (gsv_bindings v) of
          Inl e \<Rightarrow> Inl e
        | Inr _ \<Rightarrow>
            (case (case gsv_spatial_reference v of
                     None \<Rightarrow> Inr () | Some r \<Rightarrow> shared_spatial_reference_validate r) of
               Inl e \<Rightarrow> Inl e
             | Inr _ \<Rightarrow>
                 if \<not> distinct (map binding_identity (gsv_bindings v))
                 then Inl (InvalidMissionPlan ''Group shared view contains duplicate bindings'')
                 else Inr ())))"

definition group_shared_view_new ::
    "shared_spatial_reference option \<Rightarrow> group_view_binding list \<Rightarrow> bool
       \<Rightarrow> domain_error + group_shared_view_spec" where
  "group_shared_view_new reference bindings freshness =
     (let view = \<lparr>gsv_spatial_reference = reference, gsv_bindings = bindings,
                  gsv_include_freshness = freshness\<rparr>
      in case group_shared_view_validate view of Inl e \<Rightarrow> Inl e | Inr _ \<Rightarrow> Inr view)"

record peer_channel_spec =
  pcs_profile_id :: string
  pcs_message_schema :: string

subsection \<open>Typed relations\<close>

datatype relation_state_requirement = Available | Unavailable

datatype execution_relation_type =
    RtRequiresActive
  | RtGroupMemberState string
  | RtSharedSpatialReference shared_spatial_reference
  | RtRelativePose string
  | RtRelativeDistance string
  | RtStateRequirement string relation_state_requirement
  | RtFreshnessRequirement string string

datatype execution_relation_kind =
    RequiresActive
  | GroupMemberState
  | SharedSpatialReference
  | RelativePose
  | RelativeDistance
  | StateRequirement
  | FreshnessRequirement

fun relation_type_kind :: "execution_relation_type \<Rightarrow> execution_relation_kind" where
  "relation_type_kind RtRequiresActive = RequiresActive"
| "relation_type_kind (RtGroupMemberState _) = GroupMemberState"
| "relation_type_kind (RtSharedSpatialReference _) = SharedSpatialReference"
| "relation_type_kind (RtRelativePose _) = RelativePose"
| "relation_type_kind (RtRelativeDistance _) = RelativeDistance"
| "relation_type_kind (RtStateRequirement _ _) = StateRequirement"
| "relation_type_kind (RtFreshnessRequirement _ _) = FreshnessRequirement"

record execution_relation_spec =
  ers_relation_id :: relation_id
  ers_source :: planned_execution_ref
  ers_target :: planned_execution_ref
  ers_kind :: execution_relation_kind
  ers_relation_type :: execution_relation_type

definition relation_spec_new ::
    "relation_id \<Rightarrow> planned_execution_ref \<Rightarrow> planned_execution_ref \<Rightarrow> execution_relation_kind
       \<Rightarrow> domain_error + execution_relation_spec" where
  "relation_spec_new rid source target kind =
     (if source = target
      then Inl (InvalidMissionPlan (''execution relation '' @ rid @ '' references itself''))
      else if kind \<noteq> RequiresActive
      then Inl (InvalidMissionPlan
        (''execution relation '' @ rid @ '' requires the typed relation constructor''))
      else Inr \<lparr>ers_relation_id = rid, ers_source = source, ers_target = target,
               ers_kind = kind, ers_relation_type = RtRequiresActive\<rparr>)"

definition relation_nonblank :: "relation_id \<Rightarrow> string \<Rightarrow> string \<Rightarrow> domain_error + unit" where
  "relation_nonblank rid value field =
     (if trim_is_empty value
      then Inl (InvalidMissionPlan (''execution relation '' @ rid @ '' has blank '' @ field))
      else Inr ())"

definition validate_typed_relation :: "execution_relation_type \<Rightarrow> relation_id \<Rightarrow> domain_error + unit" where
  "validate_typed_relation ty rid =
     (case ty of
        RtRequiresActive \<Rightarrow> Inr ()
      | RtGroupMemberState key \<Rightarrow> relation_nonblank rid key ''state_key''
      | RtStateRequirement key _ \<Rightarrow> relation_nonblank rid key ''state_key''
      | RtFreshnessRequirement key _ \<Rightarrow> relation_nonblank rid key ''state_key''
      | RtSharedSpatialReference r \<Rightarrow> relation_nonblank rid (ssr_frame_id r) ''frame_id''
      | RtRelativePose frame \<Rightarrow> relation_nonblank rid frame ''frame_id''
      | RtRelativeDistance frame \<Rightarrow> relation_nonblank rid frame ''frame_id'')"

definition relation_spec_new_typed ::
    "relation_id \<Rightarrow> planned_execution_ref \<Rightarrow> planned_execution_ref \<Rightarrow> execution_relation_type
       \<Rightarrow> domain_error + execution_relation_spec" where
  "relation_spec_new_typed rid source target ty =
     (if source = target
      then Inl (InvalidMissionPlan (''execution relation '' @ rid @ '' references itself''))
      else (case validate_typed_relation ty rid of
              Inl e \<Rightarrow> Inl e
            | Inr _ \<Rightarrow> Inr \<lparr>ers_relation_id = rid, ers_source = source, ers_target = target,
                            ers_kind = relation_type_kind ty, ers_relation_type = ty\<rparr>))"

datatype execution_relation_state =
  RelDormant | RelPending | RelSatisfied | RelViolated | RelUnknown

definition requires_reconciliation :: "execution_relation_state \<Rightarrow> bool" where
  "requires_reconciliation s \<longleftrightarrow> s = RelViolated \<or> s = RelUnknown"

subsection \<open>Coordination contexts\<close>

record context_role =
  cr_context_role_id :: context_role_id
  cr_actor_id :: actor_id
  cr_resource_envelope :: "resource_requirement list"

definition context_role_new :: "context_role_id \<Rightarrow> actor_id \<Rightarrow> context_role" where
  "context_role_new role actor =
     \<lparr>cr_context_role_id = role, cr_actor_id = actor, cr_resource_envelope = []\<rparr>"

definition with_resource_envelope ::
    "context_role \<Rightarrow> resource_requirement list \<Rightarrow> domain_error + context_role" where
  "with_resource_envelope role envelope =
     (if 1 < length envelope
         \<or> list_ex (\<lambda>demand. rr_kind demand \<noteq> Compute
              \<or> rr_allocation_mode demand \<noteq> Divisible
              \<or> rr_units demand = 0
              \<or> is_none_or (rr_resource_class demand) (\<lambda>v. trim_is_empty v \<or> 128 < length v)) envelope
      then Inl (InvalidMissionPlan 
        ''Context capacity envelope requires one explicit typed positive Compute allocation'')
      else Inr (role\<lparr>cr_resource_envelope := envelope\<rparr>))"

datatype distinct_constraint = DistinctConstraint (dc_context_role_ids: "context_role_id btset")

definition distinct_constraint_new :: "context_role_id btset \<Rightarrow> domain_error + distinct_constraint" where
  "distinct_constraint_new roles =
     (if bt_len roles < 2
      then Inl (InvalidMissionPlan
        ''distinct physical entity constraint requires at least two ContextRoles'')
      else Inr (DistinctConstraint roles))"

record coordination_context =
  cc_context_id :: context_id
  cc_roles :: "context_role list"
  cc_executor_constraints :: "distinct_constraint list"
  cc_relations :: "execution_relation_spec list"
  cc_coupling_mode :: execution_coupling_mode
  cc_shared_view :: "group_shared_view_spec option"
  cc_peer_channel :: "peer_channel_spec option"

definition coordination_context_new :: "context_id \<Rightarrow> context_role list \<Rightarrow> domain_error + coordination_context" where
  "coordination_context_new cid roles =
     (if bt_len (bts_of_list (map cr_context_role_id roles)) \<noteq> length roles
      then Inl (InvalidMissionPlan (''context '' @ cid @ '' has duplicate context roles''))
      else Inr \<lparr>cc_context_id = cid, cc_roles = roles, cc_executor_constraints = [],
               cc_relations = [], cc_coupling_mode = Independent, cc_shared_view = None,
               cc_peer_channel = None\<rparr>)"

definition coordination_context_new_with_relations ::
    "context_id \<Rightarrow> context_role list \<Rightarrow> execution_relation_spec list
       \<Rightarrow> domain_error + coordination_context" where
  "coordination_context_new_with_relations cid roles relations =
     (case coordination_context_new cid roles of
        Inl e \<Rightarrow> Inl e
      | Inr c \<Rightarrow>
          if bt_len (bts_of_list (map ers_relation_id relations)) \<noteq> length relations
          then Inl (InvalidMissionPlan (''context '' @ cid @ '' has duplicate execution relations''))
          else Inr (c\<lparr>cc_relations := relations\<rparr>))"

definition context_role_of :: "coordination_context \<Rightarrow> context_role_id \<Rightarrow> context_role option" where
  "context_role_of c rid = find (\<lambda>role. cr_context_role_id role = rid) (cc_roles c)"

text \<open>\<open>collect::<Result<Vec<_>, _>>()\<close>: every success in order, or the first error.\<close>

fun collect_results :: "('a \<Rightarrow> 'e + 'b) \<Rightarrow> 'a list \<Rightarrow> 'e + 'b list" where
  "collect_results f [] = Inr []"
| "collect_results f (x # xs) =
     (case f x of
        Inl e \<Rightarrow> Inl e
      | Inr y \<Rightarrow> (case collect_results f xs of Inl e \<Rightarrow> Inl e | Inr ys \<Rightarrow> Inr (y # ys)))"

definition with_executor_constraints ::
    "coordination_context \<Rightarrow> distinct_constraint list \<Rightarrow> domain_error + coordination_context" where
  "with_executor_constraints c constraints =
     (case check_each (\<lambda>constraint.
              case collect_results (\<lambda>rid. case context_role_of c rid of
                       None \<Rightarrow> Inl (InvalidMissionPlan (''context '' @ cc_context_id c
                         @ '' executor constraint references unknown ContextRole '' @ rid))
                     | Some role \<Rightarrow> Inr role) (bt_keys (dc_context_role_ids constraint)) of
                Inl e \<Rightarrow> Inl e
              | Inr actors \<Rightarrow>
                  if bt_len (bts_of_list (map cr_actor_id actors)) \<noteq> length actors
                  then Inl (InvalidMissionPlan (''context '' @ cc_context_id c
                    @ '' cannot require one Actor to occupy distinct physical entities''))
                  else Inr ()) constraints of
        Inl e \<Rightarrow> Inl e
      | Inr _ \<Rightarrow>
          if \<not> distinct (map dc_context_role_ids constraints)
          then Inl (InvalidMissionPlan (''context '' @ cc_context_id c
            @ '' contains duplicate executor constraints''))
          else Inr (c\<lparr>cc_executor_constraints := constraints\<rparr>))"

fun coupling_mode_debug :: "execution_coupling_mode \<Rightarrow> string" where
  "coupling_mode_debug Independent = ''Independent''"
| "coupling_mode_debug SequentialHandoff = ''SequentialHandoff''"
| "coupling_mode_debug ConcurrentCooperation = ''ConcurrentCooperation''"
| "coupling_mode_debug TightlyCoupledCooperation = ''TightlyCoupledCooperation''"

definition validate_mechanisms_for ::
    "coordination_context \<Rightarrow> execution_coupling_mode \<Rightarrow> domain_error + unit" where
  "validate_mechanisms_for c mode =
     (let label = ''context '' @ cc_context_id c @ '' mode '' @ coupling_mode_debug mode in
      if mode_requires mode GroupSharedState \<and> cc_shared_view c = None
      then Inl (InvalidMissionPlan (label @ '' requires a Group shared view''))
      else if mode_requires mode RelationEvidence \<and> cc_relations c = []
      then Inl (InvalidMissionPlan (label @ '' requires at least one execution relation''))
      else if mode_requires mode DirectPeerChannel \<and> cc_peer_channel c = None
      then Inl (InvalidMissionPlan (label @ '' requires a direct peer channel declaration''))
      else if mode_requires mode DirectPeerChannel \<and> length (cc_roles c) < 2
      then Inl (InvalidMissionPlan
        (''context '' @ cc_context_id c @ '' direct peer channel requires at least two ContextRoles''))
      else Inr ())"

definition coordination_context_new_with_coordination ::
    "context_id \<Rightarrow> context_role list \<Rightarrow> execution_relation_spec list \<Rightarrow> execution_coupling_mode
       \<Rightarrow> group_shared_view_spec option \<Rightarrow> peer_channel_spec option
       \<Rightarrow> domain_error + coordination_context" where
  "coordination_context_new_with_coordination cid roles relations mode view channel =
     (case coordination_context_new_with_relations cid roles relations of
        Inl e \<Rightarrow> Inl e
      | Inr c \<Rightarrow>
          (case (case view of
                   None \<Rightarrow> Inr ()
                 | Some v \<Rightarrow>
                     (case group_shared_view_validate v of
                        Inl e \<Rightarrow> Inl e
                      | Inr _ \<Rightarrow>
                          check_each (\<lambda>b. if context_role_of c (gvb_context_role_id b) \<noteq> None then Inr ()
                              else Inl (InvalidMissionPlan (''context '' @ cid
                                @ '' shared view references unknown ContextRole ''
                                @ gvb_context_role_id b))) (gsv_bindings v))) of
             Inl e \<Rightarrow> Inl e
           | Inr _ \<Rightarrow>
               if is_some_and channel (\<lambda>ch. trim_is_empty (pcs_profile_id ch)
                    \<or> trim_is_empty (pcs_message_schema ch))
               then Inl (InvalidMissionPlan
                 (''context '' @ cid @ '' peer channel contains a blank identity''))
               else (let c' = c\<lparr>cc_coupling_mode := mode, cc_shared_view := view,
                               cc_peer_channel := channel\<rparr>
                     in case validate_mechanisms_for c' mode of Inl e \<Rightarrow> Inl e | Inr _ \<Rightarrow> Inr c')))"

record task_continuity =
  tc_context_id :: context_id
  tc_context_roles :: "(role_id, context_role_id) btmap"
  tc_resource_scopes :: "(role_id, resource_binding_scope) btmap"
  tc_coupling_mode_override :: "execution_coupling_mode option"

definition task_continuity_resource_scope :: "task_continuity \<Rightarrow> role_id \<Rightarrow> resource_binding_scope" where
  "task_continuity_resource_scope t role =
     (case bt_get (tc_resource_scopes t) role of None \<Rightarrow> TaskScope | Some s \<Rightarrow> s)"

end
