(* ===== verification/RG_Command.thy ===== *)
theory RG_Command
  imports Complex_Main RG_Relation_Spec
begin

text \<open>
  Execution commands of \<open>core/domain\<close>: contract identities and intents (\<open>execution/intent.rs\<close>,
  \<open>execution/value.rs\<close>), recovery declarations (\<open>execution/recovery.rs\<close>), accepted-plan sessions
  (\<open>execution/session.rs\<close>), Memory prerequisites (\<open>memory_preparation.rs\<close>), capacity grants and the
  immutable command itself (\<open>execution/command.rs\<close>).

  The SHA-256 digest of a session's JSON form is the parameter \<open>digest\<close>; a float is a finite
  rational, an infinity or a NaN, of which the code only ever asks finiteness and equality.
\<close>

subsection \<open>Values, contracts and intents\<close>

datatype f64 = Finite rat | Infinite bool | NaN

datatype execution_value = VBool bool | VInteger "64 word" | VFloat f64 | VString string

fun value_is_finite :: "execution_value \<Rightarrow> bool" where
  "value_is_finite (VFloat f) = (case f of Finite _ \<Rightarrow> True | _ \<Rightarrow> False)"
| "value_is_finite (VBool _) = True"
| "value_is_finite (VInteger _) = True"
| "value_is_finite (VString _) = True"

datatype contract_ref =
  ContractRef (ct_namespace: string) (ct_name: string) (ct_version: string)

definition contract_component :: "string \<Rightarrow> string \<Rightarrow> bool \<Rightarrow> domain_error + string" where
  "contract_component value kind allow_dots =
     (if trim_is_empty value
         \<or> has_whitespace value \<or> CHR ''@'' \<in> set value
         \<or> (\<not> allow_dots \<and> CHR ''.'' \<in> set value)
         \<or> (allow_dots \<and> [] \<in> set (split_on (CHR ''.'') value))
      then Inl (InvalidMissionPlan (kind @ '' is not a canonical contract component''))
      else Inr value)"

definition contract_version :: "string \<Rightarrow> domain_error + string" where
  "contract_version value =
     (if trim_is_empty value \<or> has_whitespace value \<or> CHR ''@'' \<in> set value
      then Inl (InvalidMissionPlan ''capability contract version is not canonical'')
      else Inr value)"

definition contract_ref_new :: "string \<Rightarrow> string \<Rightarrow> string \<Rightarrow> domain_error + contract_ref" where
  "contract_ref_new namespace name version =
     (case contract_component namespace ''capability contract namespace'' True of
        Inl e \<Rightarrow> Inl e
      | Inr ns \<Rightarrow>
          (case contract_component name ''capability contract name'' False of
             Inl e \<Rightarrow> Inl e
           | Inr n \<Rightarrow>
               (case contract_version version of
                  Inl e \<Rightarrow> Inl e
                | Inr v \<Rightarrow> Inr (ContractRef ns n v))))"

definition contract_ref_display :: "contract_ref \<Rightarrow> string" where
  "contract_ref_display c = ct_namespace c @ ''.'' @ ct_name c @ ''@'' @ ct_version c"

text \<open>\<open>OperationRef\<close> is a transparent wrapper of a contract reference.\<close>

type_synonym operation_ref = contract_ref

record execution_intent =
  ei_operation :: operation_ref
  ei_objective :: string
  ei_parameters :: "(string, execution_value) btmap"

definition intent_new_semantic ::
    "operation_ref \<Rightarrow> string \<Rightarrow> (string, execution_value) btmap \<Rightarrow> domain_error + execution_intent" where
  "intent_new_semantic operation objective parameters =
     (if trim_is_empty objective then Inl (EmptyValue ''execution objective'')
      else if list_ex trim_is_empty (bt_keys parameters)
      then Inl (EmptyValue ''execution parameter key'')
      else if list_ex (\<lambda>v. \<not> value_is_finite v) (bt_values parameters)
      then Inl (InvalidMissionPlan ''execution parameters must contain finite floats'')
      else Inr \<lparr>ei_operation = operation, ei_objective = objective, ei_parameters = parameters\<rparr>)"

definition intent_new ::
    "contract_ref \<Rightarrow> (string, execution_value) btmap \<Rightarrow> domain_error + execution_intent" where
  "intent_new contract parameters =
     intent_new_semantic contract (contract_ref_display contract) parameters"

subsection \<open>Recovery declarations\<close>

datatype stop_scope = StopExecution | StopExecutionGroup | StopUnsupported

datatype continuation = RepeatAfterStop | ContinuationUnsupported

record operation_recovery_support =
  ors_operation :: operation_ref
  ors_stop_scope :: stop_scope
  ors_continuation :: continuation

definition supports_group_continuation :: "operation_recovery_support \<Rightarrow> bool" where
  "supports_group_continuation s \<longleftrightarrow>
     ors_stop_scope s = StopExecutionGroup \<and> ors_continuation s = RepeatAfterStop"

definition supports_role_retry :: "operation_recovery_support \<Rightarrow> bool" where
  "supports_role_retry s \<longleftrightarrow>
     ors_stop_scope s = StopExecution \<and> ors_continuation s = RepeatAfterStop"

record execution_recovery_support =
  ers_local_system_id :: local_system_id
  ers_support :: operation_recovery_support

record recovery_profile =
  rp_schema_version :: string
  rp_operations :: "operation_recovery_support list"

text \<open>The admission of a decoded profile: the part of \<open>from_metadata\<close> after JSON decoding.\<close>

fun recovery_operations_check :: "operation_recovery_support list \<Rightarrow> operation_ref list \<Rightarrow> string + unit" where
  "recovery_operations_check [] identities = Inr ()"
| "recovery_operations_check (s # ss) identities =
     (case contract_ref_new (ct_namespace (ors_operation s)) (ct_name (ors_operation s))
             (ct_version (ors_operation s)) of
        Inl e \<Rightarrow> Inl (domain_error_text e)
      | Inr _ \<Rightarrow>
          if ors_operation s \<in> set identities
             \<or> (ors_stop_scope s = StopUnsupported \<and> ors_continuation s \<noteq> ContinuationUnsupported)
          then Inl ''execution recovery declarations are duplicate or inconsistent''
          else recovery_operations_check ss (ors_operation s # identities))"

definition recovery_profile_admit :: "recovery_profile \<Rightarrow> string + recovery_profile" where
  "recovery_profile_admit p =
     (if rp_schema_version p \<noteq> ''roboguide.local-execution-recovery/v0.1''
         \<or> rp_operations p = [] \<or> 32 < length (rp_operations p)
      then Inl ''execution recovery profile requires v0.1 and 1..32 operations''
      else (case recovery_operations_check (rp_operations p) [] of
              Inl e \<Rightarrow> Inl e | Inr _ \<Rightarrow> Inr p))"

subsection \<open>Sessions\<close>

record session_slot =
  sl_task_id :: task_id
  sl_role_id :: role_id
  sl_actor_id :: actor_id
  sl_dependencies :: "task_id list"
  sl_independent :: bool

record session_descriptor =
  sd_schema_version :: string
  sd_mission_id :: mission_id
  sd_group_id :: group_id
  sd_slots :: "session_slot list"
  sd_digest :: string

type_synonym session_digest = "string \<Rightarrow> mission_id \<Rightarrow> group_id \<Rightarrow> session_slot list \<Rightarrow> string + string"

definition canonical_digest :: "session_digest \<Rightarrow> session_descriptor \<Rightarrow> string + string" where
  "canonical_digest digest s =
     digest (sd_schema_version s) (sd_mission_id s) (sd_group_id s) (sd_slots s)"

definition session_remaining :: "session_slot list \<Rightarrow> (task_id, task_id btset) btmap" where
  "session_remaining slots =
     fold (\<lambda>slot m. bt_update (sl_task_id slot)
             (\<lambda>deps. fold bts_insert (sl_dependencies slot) deps)
             (bt_or_insert (sl_task_id slot) bt_empty m)) slots bt_empty"

definition session_ready :: "(task_id, task_id btset) btmap \<Rightarrow> task_id list" where
  "session_ready m = map fst (filter (\<lambda>(_, deps). bt_len deps = 0) (bt_entries m))"

definition session_prune :: "(task_id, task_id btset) btmap \<Rightarrow> (task_id, task_id btset) btmap" where
  "session_prune m =
     bt_map (\<lambda>_ deps. bt_retain (\<lambda>d _. d \<notin> set (session_ready m)) deps)
       (bt_retain (\<lambda>t _. t \<notin> set (session_ready m)) m)"

lemma session_ready_iff:
  "t \<in> set (session_ready m) \<longleftrightarrow> (\<exists>deps. bt_get m t = Some deps \<and> bt_len deps = 0)"
  by (auto simp: session_ready_def image_iff bt_entries_iff [symmetric])

lemma session_prune_entries:
  "length (bt_entries (session_prune m)) =
     length (filter (\<lambda>(t, _). t \<notin> set (session_ready m)) (bt_entries m))"
  by (simp add: session_prune_def bt_map.rep_eq bt_retain.rep_eq)

lemma session_prune_smaller:
  assumes "session_ready m \<noteq> []"
  shows "length (bt_entries (session_prune m)) < length (bt_entries m)"
proof -
  from assms obtain t where "t \<in> set (session_ready m)" by (cases "session_ready m") auto
  then obtain deps where "(t, deps) \<in> set (bt_entries m)"
    by (auto simp: session_ready_iff bt_entries_iff)
  with \<open>t \<in> _\<close> show ?thesis
    unfolding session_prune_entries by (intro length_filter_less [where x = "(t, deps)"]) auto
qed

function session_order :: "(task_id, task_id btset) btmap \<Rightarrow> string + unit" where
  "session_order m =
     (if bt_entries m = [] then Inr ()
      else if session_ready m = []
      then Inl ''execution session dependency graph contains a cycle''
      else session_order (session_prune m))"
  by auto
termination
  by (relation "measure (\<lambda>m. length (bt_entries m))") (auto intro: session_prune_smaller)

declare session_order.simps [simp del]

definition session_canonical_dependencies :: "session_slot list \<Rightarrow> bool" where
  "session_canonical_dependencies slots \<longleftrightarrow>
     list_all (\<lambda>slot. successively (<) (sl_dependencies slot)
       \<and> list_all (\<lambda>d. d \<noteq> sl_task_id slot \<and> d \<in> set (map sl_task_id slots)) (sl_dependencies slot))
       slots"

definition validate_slot ::
    "session_digest \<Rightarrow> session_descriptor \<Rightarrow> mission_id \<Rightarrow> group_id \<Rightarrow> task_id \<Rightarrow> role_id \<Rightarrow> string + unit" where
  "validate_slot digest s mission grp task role =
     (let invalid = Inl ''execution session identity, slot, or digest is invalid'' in
      if sd_schema_version s \<noteq> ''roboguide.execution-session/v0.1''
         \<or> sd_mission_id s \<noteq> mission
         \<or> sd_group_id s \<noteq> grp
      then invalid
      else (case canonical_digest digest s of
              Inl e \<Rightarrow> Inl e
            | Inr d \<Rightarrow>
                if sd_digest s \<noteq> d
                   \<or> sd_slots s = []
                   \<or> \<not> successively (<) (map (\<lambda>slot. (sl_task_id slot, sl_role_id slot)) (sd_slots s))
                   \<or> \<not> session_canonical_dependencies (sd_slots s)
                   \<or> \<not> list_ex (\<lambda>slot. sl_task_id slot = task \<and> sl_role_id slot = role) (sd_slots s)
                then invalid
                else session_order (session_remaining (sd_slots s))))"

subsection \<open>Memory prerequisites\<close>

datatype memory_kind = MExecution | MSpatial | MSemantic | MExperience | MArtifact
datatype memory_scope_limit = ScopeLocal | ScopeGlobal
datatype memory_visibility = Discoverable | Exchangeable
datatype memory_source_contract = ScopedTypedMap

type_synonym memory_selector = "string \<times> string"

record memory_requirement =
  mr_selector :: memory_selector
  mr_kind :: memory_kind
  mr_payload_schema :: string
  mr_media_type :: string
  mr_source_contract :: "memory_source_contract option"

definition validate_text :: "string \<Rightarrow> nat \<Rightarrow> string + unit" where
  "validate_text value mx =
     (if trim_is_empty value \<or> trim_differs value \<or> mx < length value
         \<or> CHR ''*'' \<in> set value \<or> has_control value
      then Inl ''Memory authority requires bounded exact identities and contracts''
      else Inr ())"

definition memory_requirement_validate :: "memory_requirement \<Rightarrow> string + unit" where
  "memory_requirement_validate r =
     (case check_each (\<lambda>v. validate_text v 256) [mr_payload_schema r, mr_media_type r] of
        Inl e \<Rightarrow> Inl e
      | Inr _ \<Rightarrow>
          if mr_source_contract r = Some ScopedTypedMap \<and> mr_kind r \<noteq> MSpatial
          then Inl ''scoped typed-map source requires Spatial Memory''
          else Inr ())"

fun memory_selectors_check :: "memory_requirement list \<Rightarrow> memory_selector btset \<Rightarrow> string + unit" where
  "memory_selectors_check [] seen = Inr ()"
| "memory_selectors_check (r # rs) seen =
     (case memory_requirement_validate r of
        Inl e \<Rightarrow> Inl e
      | Inr _ \<Rightarrow>
          if bts_member (mr_selector r) seen
          then Inl ''Role Memory prerequisites repeat an immutable selector''
          else memory_selectors_check rs (bts_insert (mr_selector r) seen))"

definition memory_validate_set :: "memory_requirement list \<Rightarrow> string + unit" where
  "memory_validate_set rs =
     (if 8 < length rs then Inl ''a Role supports at most eight exact Memory prerequisites''
      else memory_selectors_check rs bt_empty)"

record memory_provider =
  mp_use_contract :: "string option"
  mp_preparation_contract :: "string option"
  mp_provider_id :: string
  mp_local_system_id :: local_system_id
  mp_kind :: memory_kind
  mp_scope :: memory_scope_limit
  mp_visibility :: memory_visibility
  mp_payload_schema :: string
  mp_media_type :: string

record registration_evidence =
  re_node_id :: node_id
  re_contract_version :: string
  re_source_session_id :: "string option"
  re_memory_providers :: "memory_provider list"

subsection \<open>Commands\<close>

record execution_command =
  ec_memory_requirements :: "memory_requirement list"
  ec_resource_grants :: "resource_grant list"
  ec_registration_evidence :: "registration_evidence option"
  ec_task_ref :: task_ref
  ec_group_id :: group_id
  ec_role_id :: role_id
  ec_node_id :: node_id
  ec_intent :: execution_intent
  ec_session :: "session_descriptor option"
  ec_recovery_support :: "execution_recovery_support option"
  ec_execution_generation :: "u64 option"
  ec_correlation_id :: correlation_id

definition execution_command_new ::
    "mission_id \<Rightarrow> task_id \<Rightarrow> group_id \<Rightarrow> role_id \<Rightarrow> node_id \<Rightarrow> execution_intent \<Rightarrow> correlation_id
       \<Rightarrow> execution_command" where
  "execution_command_new mission task grp role node intent correlation =
     \<lparr>ec_memory_requirements = [], ec_resource_grants = [], ec_registration_evidence = None,
      ec_task_ref = TaskRef mission task, ec_group_id = grp, ec_role_id = role,
      ec_node_id = node, ec_intent = intent, ec_session = None, ec_recovery_support = None,
      ec_execution_generation = None, ec_correlation_id = correlation\<rparr>"

definition with_memory_requirements ::
    "execution_command \<Rightarrow> memory_requirement list \<Rightarrow> domain_error + execution_command" where
  "with_memory_requirements c rs =
     (case memory_validate_set rs of
        Inl reason \<Rightarrow> Inl (InvalidMissionPlan reason)
      | Inr _ \<Rightarrow> Inr (c\<lparr>ec_memory_requirements := rs\<rparr>))"

fun resource_grants_check ::
    "(grant_identity \<Rightarrow> string) \<Rightarrow> execution_command \<Rightarrow> resource_grant list \<Rightarrow> resource_id btset
       \<Rightarrow> domain_error + unit" where
  "resource_grants_check hex c [] seen = Inr ()"
| "resource_grants_check hex c (g # gs) seen =
     (case resource_grant_validate hex g of
        Inl reason \<Rightarrow> Inl (InvalidMissionPlan reason)
      | Inr _ \<Rightarrow>
          if rg_task_ref g \<noteq> ec_task_ref c \<or> rg_role_id g \<noteq> ec_role_id c
             \<or> rg_group_id g \<noteq> ec_group_id c \<or> rg_node_id g \<noteq> ec_node_id c
             \<or> bts_member (rg_resource_id g) seen
          then Inl (InvalidMissionPlan
            ''execution capacity grant changed original Task/Role/Group/Node'')
          else resource_grants_check hex c gs (bts_insert (rg_resource_id g) seen))"

definition with_resource_grants ::
    "(grant_identity \<Rightarrow> string) \<Rightarrow> execution_command \<Rightarrow> resource_grant list
       \<Rightarrow> domain_error + execution_command" where
  "with_resource_grants hex c grants =
     (if 64 < length grants
      then Inl (InvalidMissionPlan ''execution capacity grants exceed their bound'')
      else (case resource_grants_check hex c grants bt_empty of
              Inl e \<Rightarrow> Inl e
            | Inr _ \<Rightarrow> Inr (c\<lparr>ec_resource_grants := grants\<rparr>)))"

definition with_execution_generation :: "execution_command \<Rightarrow> u64 \<Rightarrow> execution_command" where
  "with_execution_generation c generation =
     (if 0 < generation then c\<lparr>ec_execution_generation := Some generation\<rparr> else c)"

subsection \<open>Contract identities\<close>

text \<open>The last occurrence of a separator splits a string in one way.\<close>

lemma append_sep_first_eq:
  assumes "x \<notin> set a" "x \<notin> set a'"
  shows "a @ x # b = a' @ x # b' \<longleftrightarrow> a = a' \<and> b = b'"
  using assms
proof (induction a arbitrary: a')
  case Nil
  then show ?case by (cases a') auto
next
  case (Cons y a)
  then show ?case by (cases a') auto
qed

lemma append_sep_last_eq:
  assumes "x \<notin> set b" "x \<notin> set b'"
  shows "a @ x # b = a' @ x # b' \<longleftrightarrow> a = a' \<and> b = b'"
proof -
  have "a @ x # b = a' @ x # b' \<longleftrightarrow> rev (a @ x # b) = rev (a' @ x # b')"
    by (simp only: rev_is_rev_conv)
  also have "\<dots> \<longleftrightarrow> rev b @ x # rev a = rev b' @ x # rev a'"
    by (simp only: rev_append rev.simps append_assoc append_Cons append_Nil)
  also have "\<dots> \<longleftrightarrow> b = b' \<and> a = a'"
    using append_sep_first_eq [of x "rev b" "rev b'" "rev a" "rev a'"] assms by simp
  finally show ?thesis by auto
qed

lemma contract_component_Inr:
  "contract_component v kind dots = Inr w \<Longrightarrow>
     w = v \<and> CHR ''@'' \<notin> set v \<and> (\<not> dots \<longrightarrow> CHR ''.'' \<notin> set v)"
  by (auto simp: contract_component_def split: if_splits)

lemma contract_version_Inr: "contract_version v = Inr w \<Longrightarrow> w = v \<and> CHR ''@'' \<notin> set v"
  by (auto simp: contract_version_def split: if_splits)

lemma contract_ref_new_Inr:
  assumes "contract_ref_new ns n v = Inr c"
  shows "c = ContractRef ns n v \<and> CHR ''@'' \<notin> set ns \<and> CHR ''@'' \<notin> set n \<and> CHR ''.'' \<notin> set n
    \<and> CHR ''@'' \<notin> set v"
  using assms
  by (auto simp: contract_ref_new_def split: sum.splits
      dest!: contract_component_Inr contract_version_Inr)

text \<open>
  A contract reference that passed its constructor is determined by its displayed form
  \<open>namespace.name@version\<close>: two different accepted references never print alike.
\<close>

lemma contract_ref_display_inj:
  assumes "contract_ref_new ns n v = Inr c" and "contract_ref_new ns' n' v' = Inr c'"
  shows "contract_ref_display c = contract_ref_display c' \<longleftrightarrow> c = c'"
proof
  from assms have c: "c = ContractRef ns n v" "c' = ContractRef ns' n' v'"
    and at: "CHR ''@'' \<notin> set (ns @ CHR ''.'' # n)" "CHR ''@'' \<notin> set (ns' @ CHR ''.'' # n')"
    and dot: "CHR ''.'' \<notin> set n" "CHR ''.'' \<notin> set n'"
    by (auto dest!: contract_ref_new_Inr)
  assume "contract_ref_display c = contract_ref_display c'"
  then have "(ns @ CHR ''.'' # n) @ CHR ''@'' # v = (ns' @ CHR ''.'' # n') @ CHR ''@'' # v'"
    by (simp add: c contract_ref_display_def)
  then have "ns @ CHR ''.'' # n = ns' @ CHR ''.'' # n'" and "v = v'"
    by (simp_all only: append_sep_first_eq [OF at])
  then show "c = c'"
    by (simp only: c append_sep_last_eq [OF dot])
qed simp

subsection \<open>Acyclicity of an accepted session\<close>

definition session_edges :: "(task_id, task_id btset) btmap \<Rightarrow> (task_id \<times> task_id) set" where
  "session_edges m = {(d, t). \<exists>deps. bt_get m t = Some deps \<and> bts_member d deps}"

definition session_closed :: "(task_id, task_id btset) btmap \<Rightarrow> bool" where
  "session_closed m \<longleftrightarrow> (\<forall>(d, t) \<in> session_edges m. bt_contains m d)"

lemma bt_len_0: "bt_len s = 0 \<longleftrightarrow> (\<forall>x. \<not> bts_member x s)"
  using bt_keys_iff [of _ s]
  by (cases "bt_entries s") (auto simp: bt_len_def bts_member_def bt_keys_def)

lemma session_prune_edges:
  "session_edges (session_prune m) =
     {(d, t) \<in> session_edges m. d \<notin> set (session_ready m) \<and> t \<notin> set (session_ready m)}"
  by (auto simp: session_edges_def session_prune_def bt_get_map bt_get_retain bts_member_def
      bt_contains_iff split: if_splits option.splits)

lemma session_prune_contains:
  "bt_contains (session_prune m) t \<longleftrightarrow> bt_contains m t \<and> t \<notin> set (session_ready m)"
  by (auto simp: session_prune_def bt_get_map bt_get_retain bt_contains_iff
      split: if_splits option.splits)

lemma session_ready_no_pred: "(d, t) \<in> session_edges m \<Longrightarrow> t \<notin> set (session_ready m)"
  by (auto simp: session_edges_def session_ready_iff bt_len_0)

lemma session_prune_trancl:
  assumes "(x, y) \<in> (session_edges m)\<^sup>+" and "x \<notin> set (session_ready m)"
  shows "(x, y) \<in> (session_edges (session_prune m))\<^sup>+"
  using assms
proof (induction rule: trancl_induct)
  case (base y)
  then show ?case by (auto simp: session_prune_edges dest: session_ready_no_pred)
next
  case (step y z)
  from step.hyps(1) have "y \<notin> set (session_ready m)"
    by (auto dest!: tranclD2 dest: session_ready_no_pred)
  with step.hyps(2) have "(y, z) \<in> session_edges (session_prune m)"
    by (auto simp: session_prune_edges dest: session_ready_no_pred)
  with step show ?case by (auto intro: trancl_into_trancl)
qed

lemma session_prune_acyclic: "acyclic (session_edges (session_prune m)) \<longleftrightarrow> acyclic (session_edges m)"
proof
  assume pruned: "acyclic (session_edges (session_prune m))"
  show "acyclic (session_edges m)"
  proof (rule acyclicI, safe)
    fix x assume cyc: "(x, x) \<in> (session_edges m)\<^sup>+"
    then have "x \<notin> set (session_ready m)" by (auto dest!: tranclD2 dest: session_ready_no_pred)
    with cyc pruned show False by (auto simp: acyclic_def dest: session_prune_trancl)
  qed
next
  assume "acyclic (session_edges m)"
  then show "acyclic (session_edges (session_prune m))"
    by (rule acyclic_subset) (auto simp: session_prune_edges)
qed

lemma session_edges_finite: "session_closed m \<Longrightarrow> finite (session_edges m)"
  by (rule finite_subset [of _ "set (bt_keys m) \<times> set (bt_keys m)"])
    (fastforce simp: session_closed_def bt_keys_iff session_edges_def bt_contains_iff)+

lemma session_stuck_cyclic:
  assumes "session_closed m" and "bt_entries m \<noteq> []" and "session_ready m = []"
  shows "\<not> acyclic (session_edges m)"
proof
  assume "acyclic (session_edges m)"
  with assms(1) have wf: "wf (session_edges m)"
    by (intro finite_acyclic_wf session_edges_finite)
  from assms(2) obtain t deps where "bt_get m t = Some deps"
    by (cases "bt_entries m") (auto simp: bt_entries_iff [symmetric])
  then have "t \<in> {t. bt_contains m t}" by (auto simp: bt_contains_iff)
  then obtain u where "u \<in> {t. bt_contains m t}"
    and "\<And>d. (d, u) \<in> session_edges m \<Longrightarrow> d \<notin> {t. bt_contains m t}"
    by (rule wfE_min [OF wf]) (erule that)
  then have u: "bt_contains m u" and least: "\<And>d. (d, u) \<in> session_edges m \<Longrightarrow> \<not> bt_contains m d"
    by simp_all
  from u obtain udeps where "bt_get m u = Some udeps" by (auto simp: bt_contains_iff)
  moreover have "u \<notin> set (session_ready m)" using assms(3) by simp
  ultimately obtain d where "(d, u) \<in> session_edges m"
    by (auto simp: session_ready_iff bt_len_0 session_edges_def)
  with least assms(1) show False by (auto simp: session_closed_def)
qed

lemma session_order_iff: "session_closed m \<Longrightarrow> session_order m = Inr () \<longleftrightarrow> acyclic (session_edges m)"
proof (induction m rule: session_order.induct)
  case (1 m)
  show ?case
  proof (cases "bt_entries m = []")
    case True
    then have "session_edges m = {}"
      by (auto simp: session_edges_def bt_entries_iff [symmetric])
    with True show ?thesis by (simp add: session_order.simps [of m] acyclic_def)
  next
    case False
    show ?thesis
    proof (cases "session_ready m = []")
      case True
      with False show ?thesis
        using session_stuck_cyclic [OF "1.prems" False True] by (simp add: session_order.simps [of m])
    next
      case ready: False
      have "session_closed (session_prune m)"
        using "1.prems" by (auto simp: session_closed_def session_prune_edges session_prune_contains)
      from "1.IH" [OF False ready this] show ?thesis
        using False ready by (simp add: session_order.simps [of m] session_prune_acyclic)
    qed
  qed
qed

lemma session_remaining_member:
  "(\<exists>deps. bt_get (fold (\<lambda>slot m. bt_update (sl_task_id slot)
             (\<lambda>deps. fold bts_insert (sl_dependencies slot) deps)
             (bt_or_insert (sl_task_id slot) bt_empty m)) slots m) t = Some deps \<and> bts_member d deps) \<longleftrightarrow>
   (\<exists>deps. bt_get m t = Some deps \<and> bts_member d deps)
   \<or> (\<exists>slot \<in> set slots. sl_task_id slot = t \<and> d \<in> set (sl_dependencies slot))"
  by (induction slots arbitrary: m)
    (auto simp: bt_get_update bt_get_or_insert bts_member_fold split: option.splits if_splits)

lemma session_remaining_contains:
  "bt_contains (fold (\<lambda>slot m. bt_update (sl_task_id slot)
             (\<lambda>deps. fold bts_insert (sl_dependencies slot) deps)
             (bt_or_insert (sl_task_id slot) bt_empty m)) slots m) t \<longleftrightarrow>
   bt_contains m t \<or> t \<in> sl_task_id ` set slots"
  by (induction slots arbitrary: m) auto

definition slot_edges :: "session_slot list \<Rightarrow> (task_id \<times> task_id) set" where
  "slot_edges slots = {(d, t). \<exists>slot \<in> set slots. sl_task_id slot = t \<and> d \<in> set (sl_dependencies slot)}"

lemma session_remaining_edges: "session_edges (session_remaining slots) = slot_edges slots"
  by (simp add: session_edges_def session_remaining_def session_remaining_member slot_edges_def)

lemma session_remaining_closed:
  assumes "session_canonical_dependencies slots"
  shows "session_closed (session_remaining slots)"
proof -
  have keys: "bt_contains (session_remaining slots) t \<longleftrightarrow> t \<in> sl_task_id ` set slots" for t
    by (simp add: session_remaining_def session_remaining_contains)
  show ?thesis
    using assms by (auto simp: session_closed_def session_remaining_edges slot_edges_def keys
        session_canonical_dependencies_def list_all_iff)
qed

text \<open>
  A slot is accepted exactly when the descriptor is the addressed one, carries its own digest, is in
  canonical form, contains the slot, and its Task dependencies form an acyclic graph: the pruning
  loop decides acyclicity, and always terminates.
\<close>

lemma validate_slot_accepts_iff:
  "validate_slot digest s mission grp task role = Inr () \<longleftrightarrow>
     sd_schema_version s = ''roboguide.execution-session/v0.1''
     \<and> sd_mission_id s = mission \<and> sd_group_id s = grp
     \<and> canonical_digest digest s = Inr (sd_digest s)
     \<and> sd_slots s \<noteq> []
     \<and> sorted_wrt (<) (map (\<lambda>slot. (sl_task_id slot, sl_role_id slot)) (sd_slots s))
     \<and> session_canonical_dependencies (sd_slots s)
     \<and> (\<exists>slot \<in> set (sd_slots s). sl_task_id slot = task \<and> sl_role_id slot = role)
     \<and> acyclic (slot_edges (sd_slots s))"
proof -
  have order: "session_order (session_remaining (sd_slots s)) = Inr () \<longleftrightarrow> acyclic (slot_edges (sd_slots s))"
    if "session_canonical_dependencies (sd_slots s)"
    using session_order_iff [OF session_remaining_closed [OF that]]
    by (simp add: session_remaining_edges)
  have asc: "successively (<) ks \<longleftrightarrow> sorted_wrt (<) ks" for ks :: "(string \<times> string) list"
    by (rule successively_iff_sorted_wrt_strong) auto
  show ?thesis
    by (auto simp: validate_slot_def Let_def asc list_ex_iff order split: sum.splits if_splits)
qed

end
