(* ===== verification/RG_State_Model.thy ===== *)
theory RG_State_Model
  imports RG_Domain
begin

text \<open>
  Source-attributed State values of \<open>core/domain/src/state_model.rs\<close>: object references, sources,
  export descriptors and records with their validity window. A record's JSON value is represented by
  its encoded bytes, the only aspect of it the constructor inspects (its size).
\<close>

datatype state_object_class = NodeObject | WorldObject | RoboGuideObject

datatype state_semantic = Desired | Committed | Reported | Observed | Derived | Belief

record state_object_ref =
  so_class :: state_object_class
  so_object_type :: string
  so_object_id :: string

definition reject_empty :: "string \<Rightarrow> string \<Rightarrow> domain_error + unit" where
  "reject_empty value kind =
     (if trim_is_empty value then Inl (InvalidState (kind @ '' must not be empty'')) else Inr ())"

definition state_object_new ::
    "state_object_class \<Rightarrow> string \<Rightarrow> string \<Rightarrow> domain_error + state_object_ref" where
  "state_object_new class object_type object_id =
     (case reject_empty object_type ''state object type'' of
        Inl e \<Rightarrow> Inl e
      | Inr _ \<Rightarrow>
          (case reject_empty object_id ''state object id'' of
             Inl e \<Rightarrow> Inl e
           | Inr _ \<Rightarrow> Inr \<lparr>so_class = class, so_object_type = object_type, so_object_id = object_id\<rparr>))"

datatype state_source = NodeSource node_id local_system_id | RoboGuideSource string

fun state_source_node_id :: "state_source \<Rightarrow> node_id option" where
  "state_source_node_id (NodeSource n _) = Some n"
| "state_source_node_id (RoboGuideSource _) = None"

definition is_node_source :: "state_source \<Rightarrow> bool" where
  "is_node_source s \<longleftrightarrow> (case s of NodeSource _ _ \<Rightarrow> True | RoboGuideSource _ \<Rightarrow> False)"

record state_export_descriptor =
  se_export_id :: string
  se_local_system_id :: local_system_id
  se_object :: state_object_ref
  se_semantic :: state_semantic
  se_payload_schema :: string
  se_valid_for_ms :: u64

definition state_export_new ::
    "string \<Rightarrow> local_system_id \<Rightarrow> state_object_ref \<Rightarrow> state_semantic \<Rightarrow> string \<Rightarrow> u64
       \<Rightarrow> domain_error + state_export_descriptor" where
  "state_export_new export_id system object semantic payload_schema valid_for_ms =
     (case reject_empty export_id ''state export id'' of
        Inl e \<Rightarrow> Inl e
      | Inr _ \<Rightarrow>
          (case reject_empty payload_schema ''state payload schema'' of
             Inl e \<Rightarrow> Inl e
           | Inr _ \<Rightarrow>
               if so_class object \<notin> {NodeObject, WorldObject}
               then Inl (InvalidState ''node state exports may reference only Node or World objects'')
               else if semantic \<notin> {Reported, Observed}
               then Inl (InvalidState
                 ''node state exports may publish only Reported or Observed semantics'')
               else if valid_for_ms = 0
               then Inl (InvalidState ''state export valid_for_ms must be positive'')
               else Inr \<lparr>se_export_id = export_id, se_local_system_id = system, se_object = object,
                        se_semantic = semantic, se_payload_schema = payload_schema,
                        se_valid_for_ms = valid_for_ms\<rparr>))"

record state_record_key =
  sk_object :: state_object_ref
  sk_semantic :: state_semantic
  sk_source :: state_source
  sk_channel_id :: string

record state_record =
  sr_schema :: string
  sr_key :: state_record_key
  sr_payload_schema :: string
  sr_value :: string
  sr_source_observed_at :: "timestamp option"
  sr_received_at :: timestamp
  sr_valid_for_ms :: u64
  sr_confidence_millionths :: "u32 option"
  sr_source_epoch :: "string option"
  sr_sequence :: u64

definition state_record_new_with_source_epoch ::
    "state_object_ref \<Rightarrow> state_semantic \<Rightarrow> state_source \<Rightarrow> string \<Rightarrow> string \<Rightarrow> string
       \<Rightarrow> timestamp option \<Rightarrow> timestamp \<Rightarrow> u64 \<Rightarrow> u32 option \<Rightarrow> string option \<Rightarrow> u64
       \<Rightarrow> domain_error + state_record" where
  "state_record_new_with_source_epoch object semantic source channel_id payload_schema value
       source_observed_at received_at valid_for_ms confidence source_epoch sequence =
     (case reject_empty channel_id ''state channel id'' of
        Inl e \<Rightarrow> Inl e
      | Inr _ \<Rightarrow>
          (case reject_empty payload_schema ''state payload schema'' of
             Inl e \<Rightarrow> Inl e
           | Inr _ \<Rightarrow>
               if valid_for_ms = 0 then Inl (InvalidState ''state valid_for_ms must be positive'')
               else if is_some_and confidence (\<lambda>c. 1000000 < c)
               then Inl (InvalidState ''state confidence_millionths must not exceed 1000000'')
               else if is_some_and source_epoch trim_is_empty
               then Inl (InvalidState ''state source epoch must not be blank'')
               else if source_epoch \<noteq> None \<and> \<not> is_node_source source
               then Inl (InvalidState ''only node-sourced state may carry a source-session epoch'')
               else if 65536 < length value
               then Inl (InvalidState ''state payload exceeds 65536 bytes'')
               else if is_node_source source
                  \<and> (so_class object \<notin> {NodeObject, WorldObject} \<or> semantic \<notin> {Reported, Observed})
               then Inl (InvalidState
                 ''node sources may publish only Reported/Observed Node or World state'')
               else Inr \<lparr>sr_schema = ''roboguide.state-record/v0.1'',
                        sr_key = \<lparr>sk_object = object, sk_semantic = semantic, sk_source = source,
                                  sk_channel_id = channel_id\<rparr>,
                        sr_payload_schema = payload_schema, sr_value = value,
                        sr_source_observed_at = source_observed_at, sr_received_at = received_at,
                        sr_valid_for_ms = valid_for_ms, sr_confidence_millionths = confidence,
                        sr_source_epoch = source_epoch, sr_sequence = sequence\<rparr>))"

definition state_record_is_stale_at :: "state_record \<Rightarrow> timestamp \<Rightarrow> bool" where
  "state_record_is_stale_at r now \<longleftrightarrow> saturating_add (sr_received_at r) (sr_valid_for_ms r) \<le> now"

end
