(* ===== verification/RT_State.thy ===== *)
theory RT_State
  imports RG_Command RG_State_Model
begin

text \<open>
  The state of \<open>core/runtime/src/execution/mod.rs\<close> and the types it holds: the live execution authority
  \<open>RuntimeExecutionManager\<close> as the record \<open>manager\<close>, its durable projection
  \<open>RuntimeExecutionCheckpoint\<close> as the record \<open>checkpoint\<close>, the events and errors, and the read-only
  queries every other theory uses.

  A \<open>&mut self\<close> method is a function to a pair of its result and the manager it leaves, also on an
  error, because some methods mutate before they fail. \<open>Panic\<close> is the result of an index, \<open>expect\<close> or
  \<open>unreachable!\<close> that fails.
\<close>

type_synonym execution_slot = "group_id \<times> task_ref \<times> role_id"
type_synonym relation_key = "group_id \<times> relation_id"
type_synonym coordination_key = "group_id \<times> context_id"

datatype execution_status =
  Dispatched | Accepted | Running | Completed | Failed | Cancelled | Unknown

fun is_terminal :: "execution_status \<Rightarrow> bool" where
  "is_terminal Completed = True"
| "is_terminal Failed = True"
| "is_terminal Cancelled = True"
| "is_terminal _ = False"

fun proves_activation :: "execution_status \<Rightarrow> bool" where
  "proves_activation Dispatched = False"
| "proves_activation Unknown = False"
| "proves_activation _ = True"

datatype execution_runtime_error =
    ExecutionConflict string
  | ReconciliationRequired string
  | NodeOwnership string
  | TerminalConflict string
  | InvalidCheckpoint string

fun runtime_error_text :: "execution_runtime_error \<Rightarrow> string" where
  "runtime_error_text (ExecutionConflict eid) =
     ''execution identity '' @ eid @ '' was reused with different inputs''"
| "runtime_error_text (ReconciliationRequired reason) = reason"
| "runtime_error_text (NodeOwnership reason) = reason"
| "runtime_error_text (TerminalConflict reason) = reason"
| "runtime_error_text (InvalidCheckpoint reason) = reason"

datatype 'a rt_result = Ok 'a | Err execution_runtime_error | Panic

datatype dispatch_decision = Route | AlreadyRouted

datatype observed_task_result = ExecutionCompleted | ExecutionFailed

record execution_context =
  ex_command :: execution_command
  ex_resource_ids :: "resource_id list"

record dispatch_intent =
  di_execution_id :: execution_id
  di_command :: execution_command
  di_resource_ids :: "resource_id list"
  di_delivery_attempts :: u32
  di_delivered :: bool

definition command_id :: "dispatch_intent \<Rightarrow> string" where
  "command_id i = ''dispatch-'' @ di_execution_id i"

record attempt_snapshot =
  as_execution_id :: execution_id
  as_command :: execution_command
  as_status :: execution_status

subsection \<open>Relations (\<open>relation/mod.rs\<close>)\<close>

record shared_spatial_evidence =
  sse_group_id :: group_id
  sse_task_ref :: task_ref
  sse_role_id :: role_id
  sse_execution_id :: execution_id
  sse_node_id :: node_id
  sse_selector :: map_revision_selector
  sse_frame_id :: string
  sse_received_at :: timestamp

definition sse_slot :: "shared_spatial_evidence \<Rightarrow> execution_slot" where
  "sse_slot e = (sse_group_id e, sse_task_ref e, sse_role_id e)"

record runtime_relation =
  rr_group_id :: group_id
  rr_relation_id :: relation_id
  rr_source_task_ref :: task_ref
  rr_source_role_id :: role_id
  rr_target_task_ref :: task_ref
  rr_target_role_id :: role_id
  rr_relation_kind :: execution_relation_kind
  rr_relation_type :: execution_relation_type
  rr_coupling_mode :: execution_coupling_mode

definition rr_key :: "runtime_relation \<Rightarrow> relation_key" where
  "rr_key r = (rr_group_id r, rr_relation_id r)"

definition rr_source_key :: "runtime_relation \<Rightarrow> execution_slot" where
  "rr_source_key r = (rr_group_id r, rr_source_task_ref r, rr_source_role_id r)"

definition rr_target_key :: "runtime_relation \<Rightarrow> execution_slot" where
  "rr_target_key r = (rr_group_id r, rr_target_task_ref r, rr_target_role_id r)"

record relation_snapshot =
  rs_relation :: runtime_relation
  rs_state :: execution_relation_state
  rs_reconciliation_required :: bool
  rs_source_execution_id :: "execution_id option"
  rs_target_execution_id :: "execution_id option"

datatype execution_event =
    TaskActivated group_id task_ref
  | RoleCompleted execution_command
  | RoleFailed execution_command string
  | RecoveryRequired execution_id node_id "execution_command option" string
  | RelationRegistered runtime_relation
  | RelationStateChanged runtime_relation execution_relation_state execution_relation_state
      "execution_id option" "execution_id option"
  | RelationReconciliationRequired runtime_relation execution_relation_state
      "execution_id option" "execution_id option" string

subsection \<open>Recovery (\<open>recovery_stop.rs\<close>, \<open>group_recovery.rs\<close>)\<close>

record recovery_stop_intent =
  rsi_execution_id :: execution_id
  rsi_requested_at_ms :: u64
  rsi_deadline_ms :: u64
  rsi_timeout_ms :: u64
  rsi_max_replacements :: u32
  rsi_confirmed_at_ms :: "u64 option"
  rsi_release_authorized :: bool
  rsi_aborted :: bool

datatype rs_disposition =
    RsNotRequested | RsAwaitingStop | RsStopConfirmed | RsReplacementPending
  | RsBudgetExpired | RsAborted | RsSuperseded | RsOriginalTerminal

record recovery_budget =
  rb_slot :: execution_slot
  rb_limit :: u32
  rb_used :: u32

record group_recovery_member =
  grm_execution_id :: execution_id
  grm_expected_node_id :: node_id
  grm_repeat_authorized :: bool

record group_recovery_intent =
  gri_recovery_id :: string
  gri_group_id :: group_id
  gri_members :: "group_recovery_member list"
  gri_preserved_completed :: "execution_id btset"
  gri_requested_at_ms :: u64
  gri_deadline_ms :: u64
  gri_timeout_ms :: u64
  gri_max_replacements :: u32
  gri_confirmed_at_ms :: "(execution_id, u64) btmap"
  gri_replacements :: "(execution_id, execution_id) btmap"
  gri_prepared_at_ms :: "u64 option"
  gri_admitted_at_ms :: "(execution_id, u64) btmap"
  gri_aborted :: bool

datatype gr_disposition =
    GrNotRequested | GrAwaitingStop | GrStopConfirmed | GrContinuationPrepared | GrContinued
  | GrOriginalCompleted | GrOriginalFailed | GrBudgetExpired | GrAborted

subsection \<open>Progress (\<open>progress.rs\<close>)\<close>

datatype operation_activity = Working | Waiting | Blocked | ActivityUnavailable

record progress_sample =
  ps_execution_id :: execution_id
  ps_operation :: operation_ref
  ps_stage_epoch :: u64
  ps_completed_units :: "u64 option"
  ps_activity :: operation_activity

record progress_source =
  pr_key :: state_record_key
  pr_source_epoch :: "string option"
  pr_sequence :: u64
  pr_received_at :: timestamp
  pr_valid_for_ms :: u64

record progress_observation =
  po_sample :: progress_sample
  po_record :: progress_source
  po_last_advanced_at :: timestamp

datatype pd_disposition =
  PdUnknown | PdWorking | PdWaiting | PdBlocked | PdStalled | PdTerminal

subsection \<open>Coordination (\<open>coordination.rs\<close>)\<close>

datatype peer_channel_lifecycle = ChPlanned | ChReady | ChFenced | ChClosed

record peer_readiness =
  pe_group_id :: group_id
  pe_context_id :: context_id
  pe_context_role_id :: context_role_id
  pe_node_id :: node_id
  pe_local_system_id :: local_system_id
  pe_session_id :: string
  pe_channel_instance_id :: string
  pe_profile_id :: string
  pe_message_schema :: string
  pe_sequence :: u64
  pe_received_at :: timestamp
  pe_expires_at :: timestamp
  pe_ready :: bool

record peer_channel =
  pc_group_id :: group_id
  pc_context_id :: context_id
  pc_peers :: "context_role_id list"
  pc_descriptor :: peer_channel_spec
  pc_lifecycle :: peer_channel_lifecycle
  pc_readiness :: "peer_readiness list"

record runtime_coordination_context =
  rcc_group_id :: group_id
  rcc_context_id :: context_id
  rcc_coupling_mode :: execution_coupling_mode
  rcc_shared_view :: "group_shared_view_spec option"
  rcc_relation_count :: nat

datatype coord_readiness =
  CoordReady | WaitingForSharedView | WaitingForPeerChannel | WaitingForRelationEvidence

subsection \<open>The manager and its checkpoint\<close>

record manager =
  rm_terminal_received_at :: "(execution_id, timestamp) btmap"
  rm_group_recoveries :: "group_recovery_intent list"
  rm_recovery_stops :: "(execution_id, recovery_stop_intent) btmap"
  rm_recovery_budgets :: "(execution_slot, recovery_budget) btmap"
  rm_progress :: "(execution_id, progress_observation) btmap"
  rm_executions :: "(execution_id, execution_context) btmap"
  rm_execution_status :: "(execution_id, execution_status) btmap"
  rm_execution_sequences :: "(execution_id, u64) btmap"
  rm_execution_nodes :: "(execution_id, node_id) btmap"
  rm_active_executions :: "(execution_slot, execution_id) btmap"
  rm_restored_executions :: "execution_id btset"
  rm_activated_tasks :: "(group_id \<times> task_ref) btset"
  rm_reactivation_attempts :: "execution_id btset"
  rm_relations :: "(relation_key, runtime_relation) btmap"
  rm_relation_states :: "(relation_key, execution_relation_state) btmap"
  rm_relation_fences :: "relation_key btset"
  rm_relation_proofs :: "(relation_key, execution_id) btmap"
  rm_coordination_contexts :: "(coordination_key, runtime_coordination_context) btmap"
  rm_peer_channels :: "(coordination_key, peer_channel) btmap"
  rm_spatial_evidence :: "(execution_slot, shared_spatial_evidence) btmap"
  rm_attempt_generations :: "(execution_slot, u64) btmap"
  rm_dispatch_outbox :: "(execution_id, dispatch_intent) btmap"
  rm_cancellation_intents :: "execution_id btset"

definition manager_new :: manager where
  "manager_new =
     \<lparr>rm_terminal_received_at = bt_empty, rm_group_recoveries = [],
      rm_recovery_stops = bt_empty, rm_recovery_budgets = bt_empty, rm_progress = bt_empty,
      rm_executions = bt_empty, rm_execution_status = bt_empty,
      rm_execution_sequences = bt_empty, rm_execution_nodes = bt_empty,
      rm_active_executions = bt_empty, rm_restored_executions = bt_empty,
      rm_activated_tasks = bt_empty, rm_reactivation_attempts = bt_empty,
      rm_relations = bt_empty, rm_relation_states = bt_empty, rm_relation_fences = bt_empty,
      rm_relation_proofs = bt_empty, rm_coordination_contexts = bt_empty,
      rm_peer_channels = bt_empty, rm_spatial_evidence = bt_empty,
      rm_attempt_generations = bt_empty, rm_dispatch_outbox = bt_empty,
      rm_cancellation_intents = bt_empty\<rparr>"

text \<open>The checkpoint encodes the maps with composite keys as lists of entries.\<close>

record checkpoint =
  cp_terminal_received_at :: "(execution_id, timestamp) btmap"
  cp_group_recoveries :: "group_recovery_intent list"
  cp_recovery_stops :: "(execution_id, recovery_stop_intent) btmap"
  cp_recovery_budgets :: "recovery_budget list"
  cp_progress :: "(execution_id, progress_observation) btmap"
  cp_executions :: "(execution_id, execution_context) btmap"
  cp_execution_status :: "(execution_id, execution_status) btmap"
  cp_execution_sequences :: "(execution_id, u64) btmap"
  cp_execution_nodes :: "(execution_id, node_id) btmap"
  cp_active_executions :: "(execution_slot \<times> execution_id) list"
  cp_relations :: "runtime_relation list"
  cp_relation_states :: "(relation_key \<times> execution_relation_state) list"
  cp_relation_fences :: "relation_key list"
  cp_relation_proofs :: "(relation_key \<times> execution_id) list"
  cp_coordination_contexts :: "runtime_coordination_context list"
  cp_peer_channels :: "peer_channel list"
  cp_spatial_evidence :: "shared_spatial_evidence list"
  cp_attempt_generations :: "(execution_slot \<times> u64) list"
  cp_dispatch_outbox :: "dispatch_intent list"
  cp_cancellation_intents :: "execution_id btset"

subsection \<open>Read-only queries\<close>

definition command_slot :: "execution_command \<Rightarrow> execution_slot" where
  "command_slot c = (ec_group_id c, ec_task_ref c, ec_role_id c)"

definition execution_status_of :: "manager \<Rightarrow> execution_id \<Rightarrow> execution_status option" where
  "execution_status_of m eid = bt_get (rm_execution_status m) eid"

definition status_is_terminal :: "manager \<Rightarrow> execution_id \<Rightarrow> bool" where
  "status_is_terminal m eid \<longleftrightarrow> is_some_and (execution_status_of m eid) is_terminal"

definition current_attempt_id ::
    "manager \<Rightarrow> group_id \<Rightarrow> task_ref \<Rightarrow> role_id \<Rightarrow> execution_id option" where
  "current_attempt_id m grp task role = bt_get (rm_active_executions m) (grp, task, role)"

definition current_attempt_generation ::
    "manager \<Rightarrow> group_id \<Rightarrow> task_ref \<Rightarrow> role_id \<Rightarrow> u64 option" where
  "current_attempt_generation m grp task role =
     (if bt_contains (rm_active_executions m) (grp, task, role)
      then Some (case bt_get (rm_attempt_generations m) (grp, task, role) of
                   None \<Rightarrow> 1 | Some g \<Rightarrow> g)
      else None)"

definition allocated_attempt_generation ::
    "manager \<Rightarrow> group_id \<Rightarrow> task_ref \<Rightarrow> role_id \<Rightarrow> u64 option" where
  "allocated_attempt_generation m grp task role = bt_get (rm_attempt_generations m) (grp, task, role)"

definition cancellation_node :: "manager \<Rightarrow> execution_id \<Rightarrow> node_id option" where
  "cancellation_node m eid = map_option (\<lambda>x. ec_node_id (ex_command x)) (bt_get (rm_executions m) eid)"

definition execution_resources :: "manager \<Rightarrow> execution_id \<Rightarrow> resource_id list option" where
  "execution_resources m eid = map_option ex_resource_ids (bt_get (rm_executions m) eid)"

definition execution_command_of :: "manager \<Rightarrow> execution_id \<Rightarrow> execution_command option" where
  "execution_command_of m eid = map_option ex_command (bt_get (rm_executions m) eid)"

definition current_execution_status ::
    "manager \<Rightarrow> group_id \<Rightarrow> task_ref \<Rightarrow> role_id \<Rightarrow> execution_status option" where
  "current_execution_status m grp task role =
     Option.bind (bt_get (rm_active_executions m) (grp, task, role))
       (\<lambda>eid. bt_get (rm_execution_status m) eid)"

definition active_attempts_for_group :: "manager \<Rightarrow> group_id \<Rightarrow> (execution_id \<times> execution_status) list" where
  "active_attempts_for_group m grp =
     List.map_filter (\<lambda>(_, eid). map_option (Pair eid) (bt_get (rm_execution_status m) eid))
       (filter (\<lambda>(slot, _). fst slot = grp) (bt_entries (rm_active_executions m)))"

definition attempts_for_group :: "manager \<Rightarrow> group_id \<Rightarrow> (execution_id \<times> execution_status) list" where
  "attempts_for_group m grp =
     List.map_filter (\<lambda>(eid, _). map_option (Pair eid) (execution_status_of m eid))
       (filter (\<lambda>(_, x). ec_group_id (ex_command x) = grp) (bt_entries (rm_executions m)))"

definition current_attempt_matches_node ::
    "manager \<Rightarrow> group_id \<Rightarrow> task_ref \<Rightarrow> role_id \<Rightarrow> node_id \<Rightarrow> bool" where
  "current_attempt_matches_node m grp task role node \<longleftrightarrow>
     is_some_and (Option.bind (current_attempt_id m grp task role) (\<lambda>eid. bt_get (rm_executions m) eid))
       (\<lambda>x. ec_node_id (ex_command x) = node)"

definition cancellation_pending :: "manager \<Rightarrow> execution_id \<Rightarrow> bool" where
  "cancellation_pending m eid \<longleftrightarrow> bts_member eid (rm_cancellation_intents m)"

definition attempt_history :: "manager \<Rightarrow> attempt_snapshot list" where
  "attempt_history m =
     List.map_filter (\<lambda>(eid, x). map_option (\<lambda>status.
         \<lparr>as_execution_id = eid, as_command = ex_command x, as_status = status\<rparr>)
       (execution_status_of m eid)) (bt_entries (rm_executions m))"

definition current_unknown_attempts :: "manager \<Rightarrow> execution_command list" where
  "current_unknown_attempts m =
     List.map_filter (\<lambda>eid. execution_command_of m eid)
       (filter (\<lambda>eid. execution_status_of m eid = Some Unknown) (bt_values (rm_active_executions m)))"

definition attempt_resource_ids :: "manager \<Rightarrow> execution_id \<Rightarrow> resource_id list option" where
  "attempt_resource_ids m eid = map_option ex_resource_ids (bt_get (rm_executions m) eid)"

definition terminal_received_at :: "manager \<Rightarrow> execution_id \<Rightarrow> timestamp option" where
  "terminal_received_at m eid = bt_get (rm_terminal_received_at m) eid"

definition normalized_resources :: "resource_id list \<Rightarrow> resource_id list" where
  "normalized_resources rs = remdups_adj (sort rs)"

lemma normalized_resources_distinct: "distinct (normalized_resources rs)"
  by (simp add: normalized_resources_def distinct_remdups_adj_sorted)

lemma normalized_resources_idem [simp]:
  "normalized_resources (normalized_resources rs) = normalized_resources rs"
  using normalized_resources_distinct [of rs]
  by (simp add: normalized_resources_def sorted_sort_id sorted_remdups_adj remdups_adj_distinct)

lemma normalized_resources_set [simp]: "set (normalized_resources rs) = set rs"
  by (simp add: normalized_resources_def)

lemma normalized_resources_canonical:
  "normalized_resources rs = normalized_resources rs' \<longleftrightarrow> set rs = set rs'"
proof
  assume "set rs = set rs'"
  then show "normalized_resources rs = normalized_resources rs'"
    using normalized_resources_distinct [of rs] normalized_resources_distinct [of rs']
    by (intro sorted_distinct_set_unique) (simp_all add: normalized_resources_def sorted_remdups_adj)
qed (metis normalized_resources_set)

end
