(* ===== verification/RT_Relations.thy ===== *)
theory RT_Relations
  imports RT_State
begin

text \<open>
  Execution relations of \<open>core/runtime/src/relation/manager.rs\<close>: registration, the derivation of a
  relation's live state from the current attempts of its endpoints, the latched reconciliation
  fences, the proofs that permit a Task to succeed, and the validation of restored relation maps.
\<close>

subsection \<open>Current attempts of a slot\<close>

definition current_status :: "manager \<Rightarrow> execution_slot \<Rightarrow> execution_status option" where
  "current_status m slot =
     Option.bind (bt_get (rm_active_executions m) slot) (\<lambda>eid. bt_get (rm_execution_status m) eid)"

definition current_spatial_evidence :: "manager \<Rightarrow> execution_slot \<Rightarrow> shared_spatial_evidence option" where
  "current_spatial_evidence m slot =
     (case bt_get (rm_spatial_evidence m) slot of
        None \<Rightarrow> None
      | Some evidence \<Rightarrow>
          (case bt_get (rm_active_executions m) slot of
             None \<Rightarrow> None
           | Some eid \<Rightarrow>
               if eid = sse_execution_id evidence
                  \<and> bt_get (rm_execution_nodes m) eid = Some (sse_node_id evidence)
               then Some evidence else None))"

definition shared_spatial_evidence_of ::
    "manager \<Rightarrow> group_id \<Rightarrow> task_ref \<Rightarrow> role_id \<Rightarrow> shared_spatial_evidence option" where
  "shared_spatial_evidence_of m grp task role = current_spatial_evidence m (grp, task, role)"

definition shared_spatial_evidence_targets_current_attempt ::
    "manager \<Rightarrow> shared_spatial_evidence \<Rightarrow> bool" where
  "shared_spatial_evidence_targets_current_attempt m e \<longleftrightarrow>
     bt_get (rm_active_executions m) (sse_slot e) = Some (sse_execution_id e)
     \<and> bt_get (rm_execution_nodes m) (sse_execution_id e) = Some (sse_node_id e)"

subsection \<open>Derived relation state\<close>

definition missing_spatial_evidence_state :: "manager \<Rightarrow> runtime_relation \<Rightarrow> execution_relation_state" where
  "missing_spatial_evidence_state m r =
     (if bt_contains (rm_relation_proofs m) (rr_key r) then RelUnknown else RelPending)"

text \<open>The state once the target attempt is active, by relation kind.\<close>

definition derive_active_relation_state :: "manager \<Rightarrow> runtime_relation \<Rightarrow> execution_relation_state" where
  "derive_active_relation_state m r =
     (case rr_relation_kind r of
        RequiresActive \<Rightarrow>
          (case current_status m (rr_source_key r) of
             Some Accepted \<Rightarrow> RelSatisfied
           | Some Running \<Rightarrow> RelSatisfied
           | Some Unknown \<Rightarrow> RelUnknown
           | Some Completed \<Rightarrow> RelViolated
           | Some Failed \<Rightarrow> RelViolated
           | Some Cancelled \<Rightarrow> RelViolated
           | Some Dispatched \<Rightarrow> RelPending
           | None \<Rightarrow> RelPending)
      | SharedSpatialReference \<Rightarrow>
          (let by_evidence =
             (case rr_relation_type r of
                RtSharedSpatialReference reference \<Rightarrow>
                  (case current_spatial_evidence m (rr_source_key r) of
                     None \<Rightarrow> missing_spatial_evidence_state m r
                   | Some source \<Rightarrow>
                       (case current_spatial_evidence m (rr_target_key r) of
                          None \<Rightarrow> missing_spatial_evidence_state m r
                        | Some target \<Rightarrow>
                            if sse_selector source \<noteq> ssr_selector reference
                               \<or> sse_selector target \<noteq> ssr_selector reference
                               \<or> sse_frame_id source \<noteq> ssr_frame_id reference
                               \<or> sse_frame_id target \<noteq> ssr_frame_id reference
                            then RelViolated else RelSatisfied))
              | _ \<Rightarrow> RelUnknown)
           in case current_status m (rr_source_key r) of
                Some Accepted \<Rightarrow> by_evidence
              | Some Running \<Rightarrow> by_evidence
              | Some Unknown \<Rightarrow> RelUnknown
              | Some Completed \<Rightarrow> RelViolated
              | Some Failed \<Rightarrow> RelViolated
              | Some Cancelled \<Rightarrow> RelViolated
              | Some Dispatched \<Rightarrow> missing_spatial_evidence_state m r
              | None \<Rightarrow> missing_spatial_evidence_state m r)
      | GroupMemberState \<Rightarrow> RelUnknown
      | RelativePose \<Rightarrow> RelUnknown
      | RelativeDistance \<Rightarrow> RelUnknown
      | StateRequirement \<Rightarrow> RelUnknown
      | FreshnessRequirement \<Rightarrow> RelUnknown)"

definition derive_relation_state :: "manager \<Rightarrow> runtime_relation \<Rightarrow> execution_relation_state" where
  "derive_relation_state m r =
     (case current_status m (rr_target_key r) of
        Some Accepted \<Rightarrow> derive_active_relation_state m r
      | Some Running \<Rightarrow> derive_active_relation_state m r
      | Some Unknown \<Rightarrow> RelUnknown
      | Some Completed \<Rightarrow>
          if is_some_and (bt_get (rm_active_executions m) (rr_target_key r))
               (\<lambda>eid. bt_get (rm_relation_proofs m) (rr_key r) = Some eid)
          then RelDormant else RelUnknown
      | Some Failed \<Rightarrow> RelDormant
      | Some Cancelled \<Rightarrow> RelDormant
      | Some Dispatched \<Rightarrow> RelDormant
      | None \<Rightarrow> RelDormant)"

text \<open>\<open>None\<close> is the \<open>unreachable!\<close> arm.\<close>

definition relation_reconciliation_reason ::
    "runtime_relation \<Rightarrow> execution_relation_state \<Rightarrow> string option" where
  "relation_reconciliation_reason r state =
     (case (rr_relation_kind r, state) of
        (RequiresActive, RelViolated) \<Rightarrow>
          Some ''required source execution is terminal while target remains active''
      | (SharedSpatialReference, RelViolated) \<Rightarrow>
          Some ''current endpoint localization evidence differs from the required shared spatial reference''
      | (SharedSpatialReference, RelUnknown) \<Rightarrow>
          Some ''current endpoint localization evidence cannot prove the required shared spatial reference''
      | (_, RelUnknown) \<Rightarrow> Some ''execution relation cannot prove current physical coordination''
      | (_, RelViolated) \<Rightarrow> Some ''execution relation evidence violates its typed requirement''
      | _ \<Rightarrow> None)"

subsection \<open>Refreshing relations\<close>

text \<open>\<open>None\<close> is a panic: an unregistered key, or a reason requested outside a violation.\<close>

definition record_relation_state ::
    "relation_key \<Rightarrow> execution_relation_state \<Rightarrow> execution_id option \<Rightarrow> manager \<Rightarrow> manager" where
  "record_relation_state key current target_execution_id m =
     (let m1 =
        (if current = RelSatisfied
         then (case target_execution_id of
                 None \<Rightarrow> m
               | Some target \<Rightarrow>
                   m\<lparr>rm_relation_proofs := bt_insert key target (rm_relation_proofs m)\<rparr>)
         else if requires_reconciliation current
         then m\<lparr>rm_relation_fences := bts_insert key (rm_relation_fences m)\<rparr>
         else m)
      in m1\<lparr>rm_relation_states := bt_insert key current (rm_relation_states m1)\<rparr>)"

definition refresh_relation ::
    "relation_key \<Rightarrow> manager \<Rightarrow> (execution_event list \<times> manager) option" where
  "refresh_relation key m =
     (case bt_get (rm_relations m) key of
        None \<Rightarrow> None
      | Some relation \<Rightarrow>
          (let current = derive_relation_state m relation;
               previous = (case bt_get (rm_relation_states m) key of None \<Rightarrow> RelDormant | Some s \<Rightarrow> s);
               source_id = bt_get (rm_active_executions m) (rr_source_key relation);
               target_id = bt_get (rm_active_executions m) (rr_target_key relation);
               m' = record_relation_state key current target_id m
           in if current = previous then Some ([], m')
              else if requires_reconciliation current
              then (case relation_reconciliation_reason relation current of
                      None \<Rightarrow> None
                    | Some reason \<Rightarrow>
                        Some ([RelationStateChanged relation previous current source_id target_id,
                               RelationReconciliationRequired relation current source_id target_id reason], m'))
              else Some ([RelationStateChanged relation previous current source_id target_id], m')))"

fun refresh_keys :: "relation_key list \<Rightarrow> manager \<Rightarrow> (execution_event list \<times> manager) option" where
  "refresh_keys [] m = Some ([], m)"
| "refresh_keys (key # keys) m =
     (case refresh_relation key m of
        None \<Rightarrow> None
      | Some (events, m') \<Rightarrow>
          (case refresh_keys keys m' of
             None \<Rightarrow> None
           | Some (later, m'') \<Rightarrow> Some (events @ later, m'')))"

definition refresh_relations_for_slot ::
    "execution_slot \<Rightarrow> manager \<Rightarrow> (execution_event list \<times> manager) option" where
  "refresh_relations_for_slot slot m =
     refresh_keys (map fst (filter (\<lambda>(_, r). rr_source_key r = slot \<or> rr_target_key r = slot)
       (bt_entries (rm_relations m)))) m"

definition refresh_all_relations_after_restore :: "manager \<Rightarrow> manager option" where
  "refresh_all_relations_after_restore m = map_option snd (refresh_keys (bt_keys (rm_relations m)) m)"

definition relations_allow_task_success :: "manager \<Rightarrow> group_id \<Rightarrow> task_ref \<Rightarrow> bool" where
  "relations_allow_task_success m grp task \<longleftrightarrow>
     list_all (\<lambda>(key, relation).
       if rr_group_id relation \<noteq> grp \<or> rr_target_task_ref relation \<noteq> task then True
       else (case bt_get (rm_active_executions m) (rr_target_key relation) of
               None \<Rightarrow> False
             | Some target \<Rightarrow>
                 \<not> bts_member key (rm_relation_fences m)
                 \<and> bt_get (rm_relation_proofs m) key = Some target)) (bt_entries (rm_relations m))"

subsection \<open>Operations\<close>

definition observe_shared_spatial_evidence ::
    "shared_spatial_evidence \<Rightarrow> manager \<Rightarrow> execution_event list rt_result \<times> manager" where
  "observe_shared_spatial_evidence e m =
     (let slot = sse_slot e in
      if bt_get (rm_active_executions m) slot \<noteq> Some (sse_execution_id e)
      then (Err (ReconciliationRequired
        ''localization evidence does not belong to the current execution attempt''), m)
      else if bt_get (rm_execution_nodes m) (sse_execution_id e) \<noteq> Some (sse_node_id e)
      then (Err (NodeOwnership ''localization evidence node differs from execution owner''), m)
      else (let record =
              (let m' = m\<lparr>rm_spatial_evidence := bt_insert slot e (rm_spatial_evidence m)\<rparr>
               in case refresh_relations_for_slot slot m' of
                    None \<Rightarrow> (Panic, m')
                  | Some (events, m'') \<Rightarrow> (Ok events, m''))
            in case bt_get (rm_spatial_evidence m) slot of
                 None \<Rightarrow> record
               | Some current \<Rightarrow>
                   if sse_received_at e < sse_received_at current
                   then (Err (ReconciliationRequired
                     ''older localization evidence cannot replace current evidence''), m)
                   else if sse_received_at e = sse_received_at current
                   then (if current = e then (Ok [], m)
                         else (Err (ExecutionConflict (sse_execution_id e)), m))
                   else record))"

definition resolve_relation ::
    "group_id \<Rightarrow> mission_id \<Rightarrow> (task_id, execution_coupling_mode) btmap \<Rightarrow> execution_relation_spec
       \<Rightarrow> runtime_relation" where
  "resolve_relation grp mission task_modes spec =
     \<lparr>rr_group_id = grp, rr_relation_id = ers_relation_id spec,
      rr_source_task_ref = TaskRef mission (per_task_id (ers_source spec)),
      rr_source_role_id = per_role_id (ers_source spec),
      rr_target_task_ref = TaskRef mission (per_task_id (ers_target spec)),
      rr_target_role_id = per_role_id (ers_target spec),
      rr_relation_kind = ers_kind spec, rr_relation_type = ers_relation_type spec,
      rr_coupling_mode = (case bt_get task_modes (per_task_id (ers_target spec)) of
                            None \<Rightarrow> Independent | Some mode \<Rightarrow> mode)\<rparr>"

fun register_relations_with_modes ::
    "group_id \<Rightarrow> mission_id \<Rightarrow> execution_relation_spec list
       \<Rightarrow> (task_id, execution_coupling_mode) btmap \<Rightarrow> manager
       \<Rightarrow> execution_event list rt_result \<times> manager" where
  "register_relations_with_modes grp mission [] task_modes m = (Ok [], m)"
| "register_relations_with_modes grp mission (spec # specs) task_modes m =
     (let relation = resolve_relation grp mission task_modes spec; key = rr_key relation in
      case bt_get (rm_relations m) key of
        Some existing \<Rightarrow>
          if existing \<noteq> relation
          then (Err (ExecutionConflict
            (''relation '' @ ers_relation_id spec @ '' in Group '' @ grp)), m)
          else register_relations_with_modes grp mission specs task_modes m
      | None \<Rightarrow>
          (let m' = m\<lparr>rm_relations := bt_insert key relation (rm_relations m),
                     rm_relation_states := bt_insert key RelDormant (rm_relation_states m)\<rparr>
           in case register_relations_with_modes grp mission specs task_modes m' of
                (Ok events, m'') \<Rightarrow> (Ok (RelationRegistered relation # events), m'')
              | (Err e, m'') \<Rightarrow> (Err e, m'')
              | (Panic, m'') \<Rightarrow> (Panic, m'')))"

definition register_relations ::
    "group_id \<Rightarrow> mission_id \<Rightarrow> execution_relation_spec list \<Rightarrow> manager
       \<Rightarrow> execution_event list rt_result \<times> manager" where
  "register_relations grp mission specs m = register_relations_with_modes grp mission specs bt_empty m"

definition relation_snapshots :: "manager \<Rightarrow> group_id \<Rightarrow> relation_snapshot list" where
  "relation_snapshots m grp =
     map (\<lambda>(key, relation).
         \<lparr>rs_relation = relation,
          rs_state = (case bt_get (rm_relation_states m) key of None \<Rightarrow> RelDormant | Some s \<Rightarrow> s),
          rs_reconciliation_required = bts_member key (rm_relation_fences m),
          rs_source_execution_id = bt_get (rm_active_executions m) (rr_source_key relation),
          rs_target_execution_id = bt_get (rm_active_executions m) (rr_target_key relation)\<rparr>)
       (filter (\<lambda>(key, _). fst key = grp) (bt_entries (rm_relations m)))"

definition acknowledge_relation_reconciliation ::
    "group_id \<Rightarrow> relation_id \<Rightarrow> manager \<Rightarrow> unit rt_result \<times> manager" where
  "acknowledge_relation_reconciliation grp rid m =
     (let key = (grp, rid) in
      if \<not> bt_contains (rm_relations m) key
      then (Err (ReconciliationRequired
        (''unknown execution relation '' @ rid @ '' in Group '' @ grp)), m)
      else if \<not> is_some_and (bt_get (rm_relations m) key)
                (\<lambda>relation. derive_relation_state m relation = RelSatisfied)
      then (Err (ReconciliationRequired (''execution relation '' @ rid @ '' is not satisfied'')), m)
      else (Ok (), m\<lparr>rm_relation_fences := bts_remove key (rm_relation_fences m)\<rparr>))"

definition validate_relations_with_modes ::
    "manager \<Rightarrow> group_id \<Rightarrow> mission_id \<Rightarrow> execution_relation_spec list
       \<Rightarrow> (task_id, execution_coupling_mode) btmap \<Rightarrow> unit rt_result" where
  "validate_relations_with_modes m grp mission specs task_modes =
     (let expected = bt_of_list (map (\<lambda>r. (rr_key r, r))
                       (map (resolve_relation grp mission task_modes) specs));
          actual = bt_retain (\<lambda>key _. fst key = grp) (rm_relations m)
      in if expected \<noteq> actual
         then Err (InvalidCheckpoint (''Runtime relations differ from Mission '' @ mission))
         else Ok ())"

definition validate_relations ::
    "manager \<Rightarrow> group_id \<Rightarrow> mission_id \<Rightarrow> execution_relation_spec list \<Rightarrow> unit rt_result" where
  "validate_relations m grp mission specs = validate_relations_with_modes m grp mission specs bt_empty"

subsection \<open>Restoring relation maps\<close>

fun restore_relations ::
    "runtime_relation list \<Rightarrow> (relation_key, runtime_relation) btmap
       \<Rightarrow> execution_runtime_error + (relation_key, runtime_relation) btmap" where
  "restore_relations [] acc = Inr acc"
| "restore_relations (r # rs) acc =
     (if tr_mission_id (rr_source_task_ref r) \<noteq> tr_mission_id (rr_target_task_ref r)
      then Inl (InvalidCheckpoint ''relation endpoints belong to different Missions'')
      else if rr_relation_kind r \<noteq> relation_type_kind (rr_relation_type r)
      then Inl (InvalidCheckpoint ''checkpoint relation kind disagrees with typed relation'')
      else (case relation_spec_new_typed (rr_relation_id r)
                   (PlannedExecutionRef (tr_task_id (rr_source_task_ref r)) (rr_source_role_id r))
                   (PlannedExecutionRef (tr_task_id (rr_target_task_ref r)) (rr_target_role_id r))
                   (rr_relation_type r) of
              Inl e \<Rightarrow> Inl (InvalidCheckpoint
                (''checkpoint relation contract is invalid: '' @ domain_error_text e))
            | Inr _ \<Rightarrow>
                if bt_contains acc (rr_key r)
                then Inl (InvalidCheckpoint ''checkpoint contains duplicate execution relation'')
                else restore_relations rs (bt_insert (rr_key r) r acc)))"

fun restore_relation_states ::
    "(relation_key, runtime_relation) btmap \<Rightarrow> (relation_key \<times> execution_relation_state) list
       \<Rightarrow> (relation_key, execution_relation_state) btmap
       \<Rightarrow> execution_runtime_error + (relation_key, execution_relation_state) btmap" where
  "restore_relation_states relations [] acc = Inr acc"
| "restore_relation_states relations ((key, s) # rest) acc =
     (if \<not> bt_contains relations key \<or> bt_contains acc key
      then Inl (InvalidCheckpoint ''checkpoint contains duplicate or orphan relation state'')
      else restore_relation_states relations rest (bt_insert key s acc))"

fun restore_relation_fences ::
    "(relation_key, runtime_relation) btmap \<Rightarrow> relation_key list \<Rightarrow> relation_key btset
       \<Rightarrow> execution_runtime_error + relation_key btset" where
  "restore_relation_fences relations [] acc = Inr acc"
| "restore_relation_fences relations (key # rest) acc =
     (if \<not> bt_contains relations key \<or> bts_member key acc
      then Inl (InvalidCheckpoint ''checkpoint contains duplicate or orphan relation fence'')
      else restore_relation_fences relations rest (bts_insert key acc))"

fun restore_relation_proofs ::
    "(relation_key, runtime_relation) btmap \<Rightarrow> (relation_key \<times> execution_id) list
       \<Rightarrow> (relation_key, execution_id) btmap
       \<Rightarrow> execution_runtime_error + (relation_key, execution_id) btmap" where
  "restore_relation_proofs relations [] acc = Inr acc"
| "restore_relation_proofs relations ((key, target) # rest) acc =
     (if \<not> bt_contains relations key \<or> trim_is_empty target \<or> bt_contains acc key
      then Inl (InvalidCheckpoint ''checkpoint contains invalid relation satisfaction proof'')
      else restore_relation_proofs relations rest (bt_insert key target acc))"

type_synonym relation_maps =
  "(relation_key, runtime_relation) btmap \<times> (relation_key, execution_relation_state) btmap
     \<times> relation_key btset \<times> (relation_key, execution_id) btmap"

definition restore_relation_maps ::
    "runtime_relation list \<Rightarrow> (relation_key \<times> execution_relation_state) list \<Rightarrow> relation_key list
       \<Rightarrow> (relation_key \<times> execution_id) list \<Rightarrow> execution_runtime_error + relation_maps" where
  "restore_relation_maps relations states fences proofs =
     (case restore_relations relations bt_empty of
        Inl e \<Rightarrow> Inl e
      | Inr relation_map \<Rightarrow>
          (case restore_relation_states relation_map states bt_empty of
             Inl e \<Rightarrow> Inl e
           | Inr state_map \<Rightarrow>
               if bt_len state_map \<noteq> bt_len relation_map
               then Inl (InvalidCheckpoint ''checkpoint relation state coverage is incomplete'')
               else (case restore_relation_fences relation_map fences bt_empty of
                       Inl e \<Rightarrow> Inl e
                     | Inr fence_set \<Rightarrow>
                         (case restore_relation_proofs relation_map proofs bt_empty of
                            Inl e \<Rightarrow> Inl e
                          | Inr proof_map \<Rightarrow> Inr (relation_map, state_map, fence_set, proof_map)))))"

subsection \<open>What a refresh changes\<close>

text \<open>
  \<open>refresh_effect m K m'\<close>: \<open>m'\<close> differs from \<open>m\<close> only in the relation states, fences and proofs; states
  appear only for keys of \<open>K\<close>, fences are only added, and a new proof names the current attempt of the
  relation's target.
\<close>

definition refresh_effect :: "manager \<Rightarrow> relation_key set \<Rightarrow> manager \<Rightarrow> bool" where
  "refresh_effect m K m' \<longleftrightarrow>
     (\<exists>s f p. m' = m\<lparr>rm_relation_states := s, rm_relation_fences := f, rm_relation_proofs := p\<rparr>
        \<and> (\<forall>k. bt_contains s k \<longleftrightarrow> bt_contains (rm_relation_states m) k \<or> k \<in> K)
        \<and> (\<forall>k. bts_member k (rm_relation_fences m) \<longrightarrow> bts_member k f)
        \<and> (\<forall>k. bts_member k f \<longrightarrow> bts_member k (rm_relation_fences m) \<or> k \<in> K)
        \<and> (\<forall>k t. bt_get p k = Some t \<longrightarrow> bt_get (rm_relation_proofs m) k = Some t
             \<or> (\<exists>r. bt_get (rm_relations m) k = Some r
                   \<and> bt_get (rm_active_executions m) (rr_target_key r) = Some t))
        \<and> (\<forall>k. bt_contains (rm_relation_proofs m) k \<longrightarrow> bt_contains p k))"

lemma refresh_effect_refl: "refresh_effect m {} m"
  unfolding refresh_effect_def
  by (intro exI [of _ "rm_relation_states m"] exI [of _ "rm_relation_fences m"]
      exI [of _ "rm_relation_proofs m"]) auto

lemma refresh_effect_trans:
  assumes "refresh_effect m K m'" and "refresh_effect m' L m''"
  shows "refresh_effect m (K \<union> L) m''"
proof -
  from assms(1) obtain s f p where m': "m' = m\<lparr>rm_relation_states := s, rm_relation_fences := f, rm_relation_proofs := p\<rparr>"
    and 1: "\<And>k. bt_contains s k \<longleftrightarrow> bt_contains (rm_relation_states m) k \<or> k \<in> K"
      "\<And>k. bts_member k (rm_relation_fences m) \<Longrightarrow> bts_member k f"
      "\<And>k. bts_member k f \<Longrightarrow> bts_member k (rm_relation_fences m) \<or> k \<in> K"
      "\<And>k t. bt_get p k = Some t \<Longrightarrow> bt_get (rm_relation_proofs m) k = Some t
         \<or> (\<exists>r. bt_get (rm_relations m) k = Some r \<and> bt_get (rm_active_executions m) (rr_target_key r) = Some t)"
      "\<And>k. bt_contains (rm_relation_proofs m) k \<Longrightarrow> bt_contains p k"
    unfolding refresh_effect_def by blast
  from assms(2) m' obtain s' f' p' where m'': "m'' = m\<lparr>rm_relation_states := s', rm_relation_fences := f', rm_relation_proofs := p'\<rparr>"
    and 2: "\<And>k. bt_contains s' k \<longleftrightarrow> bt_contains s k \<or> k \<in> L"
      "\<And>k. bts_member k f \<Longrightarrow> bts_member k f'"
      "\<And>k. bts_member k f' \<Longrightarrow> bts_member k f \<or> k \<in> L"
      "\<And>k t. bt_get p' k = Some t \<Longrightarrow> bt_get p k = Some t
         \<or> (\<exists>r. bt_get (rm_relations m) k = Some r \<and> bt_get (rm_active_executions m) (rr_target_key r) = Some t)"
      "\<And>k. bt_contains p k \<Longrightarrow> bt_contains p' k"
    unfolding refresh_effect_def by auto
  have proofs: "bt_get (rm_relation_proofs m) k = Some t \<or> (\<exists>r. bt_get (rm_relations m) k = Some r
      \<and> bt_get (rm_active_executions m) (rr_target_key r) = Some t)" if "bt_get p' k = Some t" for k t
    using 1(4) 2(4) that by metis
  show ?thesis
    unfolding refresh_effect_def
    using m'' 1(1,2,3,5) 2(1,2,3,5) proofs
    by (intro exI [of _ s'] exI [of _ f'] exI [of _ p']) (simp, metis)
qed

lemma reconciliation_reason_total:
  "requires_reconciliation s \<Longrightarrow> \<exists>reason. relation_reconciliation_reason r s = Some reason"
  by (cases "rr_relation_kind r"; cases s)
    (auto simp: requires_reconciliation_def relation_reconciliation_reason_def)

lemma record_relation_state_effect:
  assumes "bt_get (rm_relations m) key = Some r"
  shows "refresh_effect m {key}
    (record_relation_state key st (bt_get (rm_active_executions m) (rr_target_key r)) m)"
proof -
  define m' where "m' = record_relation_state key st (bt_get (rm_active_executions m) (rr_target_key r)) m"
  show ?thesis
    unfolding refresh_effect_def m'_def [symmetric]
    by (rule exI [of _ "rm_relation_states m'"], rule exI [of _ "rm_relation_fences m'"],
        rule exI [of _ "rm_relation_proofs m'"])
      (use assms in \<open>auto simp: m'_def record_relation_state_def Let_def bt_get_insert
        split: option.splits if_splits\<close>)
qed

lemma refresh_relation_effect:
  assumes "bt_get (rm_relations m) key = Some r"
  shows "\<exists>events m'. refresh_relation key m = Some (events, m') \<and> refresh_effect m {key} m'"
proof (cases "requires_reconciliation (derive_relation_state m r)")
  case True
  then obtain reason where "relation_reconciliation_reason r (derive_relation_state m r) = Some reason"
    by (auto dest: reconciliation_reason_total)
  with True record_relation_state_effect [OF assms] show ?thesis
    by (simp add: refresh_relation_def Let_def assms)
next
  case False
  with record_relation_state_effect [OF assms] show ?thesis
    by (simp add: refresh_relation_def Let_def assms)
qed

lemma refresh_effect_relations: "refresh_effect m K m' \<Longrightarrow> rm_relations m' = rm_relations m"
  by (auto simp: refresh_effect_def)

lemma refresh_keys_effect:
  assumes "\<And>k. k \<in> set keys \<Longrightarrow> bt_contains (rm_relations m) k"
  shows "\<exists>events m'. refresh_keys keys m = Some (events, m') \<and> refresh_effect m (set keys) m'"
  using assms
proof (induction keys arbitrary: m)
  case Nil
  then show ?case by (simp add: refresh_effect_refl)
next
  case (Cons k ks)
  from Cons.prems [of k] obtain r where "bt_get (rm_relations m) k = Some r"
    by (auto simp: bt_contains_iff)
  from refresh_relation_effect [OF this] obtain ev m1
    where m1: "refresh_relation k m = Some (ev, m1)" "refresh_effect m {k} m1" by auto
  have "\<And>j. j \<in> set ks \<Longrightarrow> bt_contains (rm_relations m1) j"
    using Cons.prems refresh_effect_relations [OF m1(2)] by simp
  from Cons.IH [OF this] obtain evs m2
    where "refresh_keys ks m1 = Some (evs, m2)" "refresh_effect m1 (set ks) m2" by auto
  with m1 refresh_effect_trans [OF m1(2), of "set ks" m2] show ?case by simp
qed

definition slot_relations :: "execution_slot \<Rightarrow> manager \<Rightarrow> relation_key set" where
  "slot_relations slot m = {k. \<exists>r. bt_get (rm_relations m) k = Some r
     \<and> (rr_source_key r = slot \<or> rr_target_key r = slot)}"

lemma refresh_slot_keys:
  "set (map fst (filter (\<lambda>(_, r). rr_source_key r = slot \<or> rr_target_key r = slot)
     (bt_entries (rm_relations m)))) = slot_relations slot m"
  by (force simp: slot_relations_def bt_entries_iff)

lemma refresh_slot_effect:
  "\<exists>events m'. refresh_relations_for_slot slot m = Some (events, m')
     \<and> refresh_effect m (slot_relations slot m) m'"
  unfolding refresh_relations_for_slot_def refresh_slot_keys [symmetric]
  by (rule refresh_keys_effect) (force simp: bt_entries_iff bt_contains_iff)

lemma refresh_all_effect:
  "\<exists>m'. refresh_all_relations_after_restore m = Some m' \<and> refresh_effect m (set (bt_keys (rm_relations m))) m'"
  using refresh_keys_effect [of "bt_keys (rm_relations m)" m]
  by (auto simp: refresh_all_relations_after_restore_def bt_keys_iff)

end
