(* ===== verification/RT_Group_Recovery.thy ===== *)
theory RT_Group_Recovery
  imports RT_State
begin

text \<open>
  Exact-set Group recovery of \<open>core/runtime/src/execution/group_recovery.rs\<close>: freezing the complete
  current attempt set of a Group under a bounded purpose, the stop barrier, the continuation with
  one fresh attempt per cancelled member, and the validation of restored histories.

  \<open>None\<close> in a query is a panic of an index into \<open>executions\<close>. \<open>digest\<close> is the SHA-256 digest of a
  session that \<open>validate_slot\<close> recomputes.
\<close>

definition refused :: "string \<Rightarrow> execution_runtime_error" where
  "refused reason = ReconciliationRequired reason"

definition group_recovery :: "manager \<Rightarrow> group_id \<Rightarrow> group_recovery_intent option" where
  "group_recovery m grp = find (\<lambda>i. gri_group_id i = grp) (rev (rm_group_recoveries m))"

definition group_recovery_by_id :: "manager \<Rightarrow> group_id \<Rightarrow> string \<Rightarrow> group_recovery_intent option" where
  "group_recovery_by_id m grp rid =
     find (\<lambda>i. gri_group_id i = grp \<and> gri_recovery_id i = rid) (rm_group_recoveries m)"

definition is_member :: "execution_id \<Rightarrow> group_recovery_intent \<Rightarrow> bool" where
  "is_member eid i \<longleftrightarrow> list_ex (\<lambda>mem. grm_execution_id mem = eid) (gri_members i)"

definition is_replacement :: "execution_id \<Rightarrow> group_recovery_intent \<Rightarrow> bool" where
  "is_replacement eid i \<longleftrightarrow> list_ex (\<lambda>r. r = eid) (bt_values (gri_replacements i))"

subsection \<open>Disposition\<close>

definition member_stopped :: "manager \<Rightarrow> group_recovery_intent \<Rightarrow> timestamp \<Rightarrow> execution_id \<Rightarrow> bool" where
  "member_stopped m i now eid \<longleftrightarrow>
     bts_member eid (gri_preserved_completed i)
     \<or> (execution_status_of m eid \<in> {Some Cancelled, Some Completed}
        \<and> is_some_and (bt_get (gri_confirmed_at_ms i) eid)
             (\<lambda>time. time < gri_deadline_ms i \<and> time \<le> now))"

fun members_stop_confirmed ::
    "manager \<Rightarrow> group_recovery_intent \<Rightarrow> timestamp \<Rightarrow> group_recovery_member list \<Rightarrow> bool option" where
  "members_stop_confirmed m i now [] = Some True"
| "members_stop_confirmed m i now (mem # mems) =
     (case bt_get (rm_executions m) (grm_execution_id mem) of
        None \<Rightarrow> None
      | Some x \<Rightarrow>
          (let command = ex_command x in
           if current_attempt_id m (ec_group_id command) (ec_task_ref command) (ec_role_id command)
                = Some (grm_execution_id mem)
              \<and> member_stopped m i now (grm_execution_id mem)
           then members_stop_confirmed m i now mems
           else Some False))"

definition group_recovery_disposition ::
    "manager \<Rightarrow> group_id \<Rightarrow> timestamp \<Rightarrow> gr_disposition option" where
  "group_recovery_disposition m grp now =
     (case group_recovery m grp of
        None \<Rightarrow> Some GrNotRequested
      | Some i \<Rightarrow>
          if gri_aborted i then Some GrAborted
          else if bt_len (gri_replacements i) \<noteq> 0
          then (if list_all (\<lambda>eid. is_some_and (bt_get (gri_admitted_at_ms i) eid)
                     (\<lambda>time. time < gri_deadline_ms i \<and> time \<le> now)) (bt_values (gri_replacements i))
                then Some GrContinued
                else if gri_deadline_ms i \<le> now then Some GrBudgetExpired
                else Some GrContinuationPrepared)
          else if list_ex (\<lambda>mem. execution_status_of m (grm_execution_id mem) = Some Failed) (gri_members i)
          then Some GrOriginalFailed
          else if list_all (\<lambda>mem. execution_status_of m (grm_execution_id mem) = Some Completed) (gri_members i)
          then Some GrOriginalCompleted
          else if gri_deadline_ms i \<le> now then Some GrBudgetExpired
          else (case members_stop_confirmed m i now (gri_members i) of
                  None \<Rightarrow> None
                | Some True \<Rightarrow> Some GrStopConfirmed
                | Some False \<Rightarrow> Some GrAwaitingStop))"

definition group_recovery_holds_dispatch :: "manager \<Rightarrow> group_id \<Rightarrow> timestamp \<Rightarrow> bool option" where
  "group_recovery_holds_dispatch m grp now =
     map_option (\<lambda>d. d \<in> {GrAwaitingStop, GrStopConfirmed, GrContinuationPrepared, GrBudgetExpired})
       (group_recovery_disposition m grp now)"

text \<open>The Cancelled members with their commands; \<open>None\<close> is a missing execution.\<close>

fun cancelled_sources ::
    "manager \<Rightarrow> group_recovery_member list \<Rightarrow> (execution_id \<times> execution_command) list option" where
  "cancelled_sources m [] = Some []"
| "cancelled_sources m (mem # mems) =
     (if execution_status_of m (grm_execution_id mem) = Some Cancelled
      then (case bt_get (rm_executions m) (grm_execution_id mem) of
              None \<Rightarrow> None
            | Some x \<Rightarrow> map_option (Cons (grm_execution_id mem, ex_command x)) (cancelled_sources m mems))
      else cancelled_sources m mems)"

text \<open>The outer option is the panic, the inner one the returned \<open>Option\<close>.\<close>

definition group_continuation_sources ::
    "manager \<Rightarrow> group_id \<Rightarrow> timestamp \<Rightarrow> (execution_id \<times> execution_command) list option option" where
  "group_continuation_sources m grp now =
     (case group_recovery_disposition m grp now of
        None \<Rightarrow> None
      | Some d \<Rightarrow>
          if d \<noteq> GrStopConfirmed then Some None
          else (case group_recovery m grp of
                  None \<Rightarrow> Some None
                | Some i \<Rightarrow> map_option Some (cancelled_sources m (gri_members i))))"

definition group_recovery_for_attempt :: "manager \<Rightarrow> execution_id \<Rightarrow> group_recovery_intent option" where
  "group_recovery_for_attempt m eid =
     find (\<lambda>i. is_member eid i \<or> is_replacement eid i) (rev (rm_group_recoveries m))"

text \<open>The set a continuation round leaves current: each member or its replacement.\<close>

definition continuation_set ::
    "group_recovery_member list \<Rightarrow> (execution_id, execution_id) btmap \<Rightarrow> execution_id btset" where
  "continuation_set members replacements =
     bts_of_list (map (\<lambda>mem. case bt_get replacements (grm_execution_id mem) of
       None \<Rightarrow> grm_execution_id mem | Some r \<Rightarrow> r) members)"

definition group_continuation_set_is_current :: "manager \<Rightarrow> group_id \<Rightarrow> bool" where
  "group_continuation_set_is_current m grp \<longleftrightarrow>
     (case group_recovery m grp of
        None \<Rightarrow> False
      | Some i \<Rightarrow>
          if gri_aborted i \<or> bt_len (gri_replacements i) = 0 then False
          else continuation_set (gri_members i) (gri_replacements i)
               = bts_of_list (map fst (active_attempts_for_group m grp)))"

definition group_recovery_preserves_cancelled :: "manager \<Rightarrow> execution_id \<Rightarrow> bool" where
  "group_recovery_preserves_cancelled m eid \<longleftrightarrow>
     is_some_and (group_recovery_for_attempt m eid) (\<lambda>i. \<not> gri_aborted i \<and> is_member eid i)"

subsection \<open>Requesting a stop\<close>

fun group_members_check ::
    "session_digest \<Rightarrow> manager \<Rightarrow> group_id \<Rightarrow> group_recovery_member list
       \<Rightarrow> session_descriptor option \<Rightarrow> execution_id btset
       \<Rightarrow> execution_runtime_error + execution_id btset" where
  "group_members_check digest m grp [] shared preserved = Inr preserved"
| "group_members_check digest m grp (mem # mems) shared preserved =
     (case bt_get (rm_executions m) (grm_execution_id mem) of
        None \<Rightarrow> Inl (refused ''unknown Group member'')
      | Some x \<Rightarrow>
          (let command = ex_command x in
           case ec_session command of
             None \<Rightarrow> Inl (refused ''Group continuation requires immutable execution session'')
           | Some session \<Rightarrow>
               (case validate_slot digest session (tr_mission_id (ec_task_ref command)) grp
                       (tr_task_id (ec_task_ref command)) (ec_role_id command) of
                  Inl _ \<Rightarrow> Inl (refused ''invalid Group execution session'')
                | Inr _ \<Rightarrow>
                    if ec_group_id command \<noteq> grp
                       \<or> ec_node_id command \<noteq> grm_expected_node_id mem
                       \<or> 32 < length (sd_slots session)
                       \<or> list_ex (\<lambda>slot. \<not> sl_independent slot) (sd_slots session)
                       \<or> is_none_or (ec_recovery_support command) (\<lambda>d.
                            ors_operation (ers_support d) \<noteq> ei_operation (ec_intent command)
                            \<or> \<not> supports_group_continuation (ers_support d))
                       \<or> bt_get (rm_recovery_stops m) (grm_execution_id mem) \<noteq> None
                       \<or> is_some_and shared (\<lambda>original. original \<noteq> session)
                    then Inl (refused
                      ''Group continuation requires exact session and group-stop owner support'')
                    else (case execution_status_of m (grm_execution_id mem) of
                            Some Completed \<Rightarrow>
                              group_members_check digest m grp mems (Some session)
                                (bts_insert (grm_execution_id mem) preserved)
                          | Some Failed \<Rightarrow> Inl (refused
                              ''Group source already failed or was cancelled without this recovery purpose'')
                          | Some Cancelled \<Rightarrow> Inl (refused
                              ''Group source already failed or was cancelled without this recovery purpose'')
                          | None \<Rightarrow> Inl (refused
                              ''Group source already failed or was cancelled without this recovery purpose'')
                          | Some _ \<Rightarrow>
                              if \<not> grm_repeat_authorized mem
                              then Inl (refused
                                ''every affected operation needs explicit repeat authorization'')
                              else group_members_check digest m grp mems (Some session) preserved))))"

definition new_round ::
    "group_id \<Rightarrow> string \<Rightarrow> group_recovery_member list \<Rightarrow> execution_id btset \<Rightarrow> timestamp \<Rightarrow> u64 \<Rightarrow> u64 \<Rightarrow> u32
       \<Rightarrow> group_recovery_intent" where
  "new_round grp rid members preserved now deadline timeout_ms max_replacements =
     \<lparr>gri_recovery_id = rid, gri_group_id = grp, gri_members = members, gri_preserved_completed = preserved,
      gri_requested_at_ms = now, gri_deadline_ms = deadline, gri_timeout_ms = timeout_ms,
      gri_max_replacements = max_replacements, gri_confirmed_at_ms = bt_empty, gri_replacements = bt_empty,
      gri_prepared_at_ms = None, gri_admitted_at_ms = bt_empty, gri_aborted = False\<rparr>"

text \<open>Cancelling every member that is not preserved, and pushing the round.\<close>

definition authorize_group_stop :: "group_recovery_intent \<Rightarrow> manager \<Rightarrow> manager" where
  "authorize_group_stop i m =
     m\<lparr>rm_cancellation_intents :=
         fold (\<lambda>mem s. if bts_member (grm_execution_id mem) (gri_preserved_completed i) then s
                      else bts_insert (grm_execution_id mem) s) (gri_members i) (rm_cancellation_intents m),
       rm_group_recoveries := rm_group_recoveries m @ [i]\<rparr>"

definition request_group_recovery_stop ::
    "session_digest \<Rightarrow> group_id \<Rightarrow> string \<Rightarrow> group_recovery_member list \<Rightarrow> timestamp \<Rightarrow> u64 \<Rightarrow> u32
       \<Rightarrow> manager \<Rightarrow> unit rt_result \<times> manager" where
  "request_group_recovery_stop digest grp rid members0 now timeout_ms max_replacements m =
     (let members = sort_key grm_execution_id members0 in
      case group_recovery_by_id m grp rid of
        Some existing \<Rightarrow>
          if gri_members existing = members \<and> gri_timeout_ms existing = timeout_ms
             \<and> gri_max_replacements existing = max_replacements
          then (Ok (), m)
          else (Err (refused ''Group recovery command identity cannot change''), m)
      | None \<Rightarrow>
          if trim_is_empty rid \<or> 256 < length rid \<or> members = [] \<or> 32 < length members
             \<or> timeout_ms = 0 \<or> 3600000 < timeout_ms
             \<or> \<not> (1 \<le> max_replacements \<and> max_replacements \<le> 16)
          then (Err (refused ''Group recovery requires bounded identity, set and policy''), m)
          else (let rounds = filter (\<lambda>i. gri_group_id i = grp) (rm_group_recoveries m);
                    history = (Err (refused ''Group recovery history is pending, exhausted or changed''), m)
                in if unat max_replacements \<le> length rounds
                      \<or> list_ex (\<lambda>i. gri_max_replacements i \<noteq> max_replacements) rounds
                   then history
                   else (case group_recovery_holds_dispatch m grp now of
                      None \<Rightarrow> (Panic, m)
                    | Some True \<Rightarrow> history
                    | Some False \<Rightarrow>
                        (let ids = bts_of_list (map grm_execution_id members) in
                         if bt_len ids \<noteq> length members
                            \<or> ids \<noteq> bts_of_list (map fst (active_attempts_for_group m grp))
                         then (Err (refused
                           ''Group recovery must cover every exact current attempt once''), m)
                         else (case group_members_check digest m grp members None bt_empty of
                            Inl e \<Rightarrow> (Err e, m)
                          | Inr preserved \<Rightarrow>
                              if bt_len preserved = length members
                              then (Err (refused ''no live Group operation requires recovery''), m)
                              else (case checked_add now timeout_ms of
                                 None \<Rightarrow> (Err (refused ''Group deadline overflow''), m)
                               | Some deadline \<Rightarrow>
                                   (Ok (), authorize_group_stop
                                      (new_round grp rid members preserved now deadline timeout_ms
                                         max_replacements) m)))))))"

subsection \<open>Confirmations and aborts\<close>

definition confirm_group_recovery_stop :: "execution_id \<Rightarrow> timestamp \<Rightarrow> manager \<Rightarrow> manager" where
  "confirm_group_recovery_stop eid received_at m =
     (if execution_status_of m eid \<notin> {Some Cancelled, Some Completed} then m
      else m\<lparr>rm_group_recoveries := map (\<lambda>i.
        if \<not> bts_member eid (gri_preserved_completed i) \<and> is_member eid i
           \<and> gri_requested_at_ms i \<le> received_at
        then i\<lparr>gri_confirmed_at_ms := bt_or_insert eid received_at (gri_confirmed_at_ms i)\<rparr>
        else i) (rm_group_recoveries m)\<rparr>)"

definition confirm_group_continuation_admission :: "execution_id \<Rightarrow> timestamp \<Rightarrow> manager \<Rightarrow> manager" where
  "confirm_group_continuation_admission eid received_at m =
     (if execution_status_of m eid \<notin>
           {Some Accepted, Some Running, Some Completed, Some Failed, Some Cancelled} then m
      else m\<lparr>rm_group_recoveries := map (\<lambda>i.
        if is_replacement eid i
           \<and> is_some_and (gri_prepared_at_ms i) (\<lambda>time. time \<le> received_at)
        then i\<lparr>gri_admitted_at_ms := bt_or_insert eid received_at (gri_admitted_at_ms i)\<rparr>
        else i) (rm_group_recoveries m)\<rparr>)"

definition abort_group_recovery_for_attempt :: "execution_id \<Rightarrow> manager \<Rightarrow> manager" where
  "abort_group_recovery_for_attempt eid m =
     m\<lparr>rm_group_recoveries := map (\<lambda>i.
        if is_member eid i \<or> is_replacement eid i then i\<lparr>gri_aborted := True\<rparr> else i)
        (rm_group_recoveries m)\<rparr>"

subsection \<open>Continuation\<close>

fun update_first :: "('a \<Rightarrow> bool) \<Rightarrow> ('a \<Rightarrow> 'a) \<Rightarrow> 'a list \<Rightarrow> 'a list option" where
  "update_first P f [] = None"
| "update_first P f (x # xs) =
     (if P x then Some (f x # xs) else map_option (Cons x) (update_first P f xs))"

definition update_last :: "('a \<Rightarrow> bool) \<Rightarrow> ('a \<Rightarrow> 'a) \<Rightarrow> 'a list \<Rightarrow> 'a list option" where
  "update_last P f xs = map_option rev (update_first P f (rev xs))"

definition same_invocation :: "execution_command \<Rightarrow> execution_command \<Rightarrow> bool" where
  "same_invocation a b \<longleftrightarrow>
     ec_node_id a = ec_node_id b \<and> ec_intent a = ec_intent b \<and> ec_session a = ec_session b
     \<and> ec_group_id a = ec_group_id b \<and> ec_task_ref a = ec_task_ref b \<and> ec_role_id a = ec_role_id b
     \<and> ec_recovery_support a = ec_recovery_support b"

fun continuation_check ::
    "manager \<Rightarrow> (execution_id, execution_id) btmap \<Rightarrow> (execution_id \<times> execution_command) list
       \<Rightarrow> unit rt_result" where
  "continuation_check m replacements [] = Ok ()"
| "continuation_check m replacements ((source, command) # rest) =
     (case bt_get replacements source of
        None \<Rightarrow> Panic
      | Some replacement \<Rightarrow>
          (case bt_get (rm_executions m) replacement of
             None \<Rightarrow> Err (refused ''Group replacement not prepared'')
           | Some actual \<Rightarrow>
               (let changed = Err (refused ''Group replacement changed original binding or invocation'') in
                if \<not> same_invocation (ex_command actual) command then changed
                else (case bt_get (rm_executions m) source of
                        None \<Rightarrow> Panic
                      | Some original \<Rightarrow>
                          if ex_resource_ids actual \<noteq> ex_resource_ids original
                             \<or> execution_status_of m replacement \<noteq> Some Dispatched
                          then changed
                          else continuation_check m replacements rest))))"

definition prepare_round ::
    "(execution_id, execution_id) btmap \<Rightarrow> timestamp \<Rightarrow> group_recovery_intent \<Rightarrow> group_recovery_intent" where
  "prepare_round replacements now i =
     i\<lparr>gri_replacements := replacements, gri_prepared_at_ms := Some now\<rparr>"

definition record_group_continuation ::
    "group_id \<Rightarrow> timestamp \<Rightarrow> (execution_id, execution_id) btmap \<Rightarrow> manager
       \<Rightarrow> unit rt_result \<times> manager" where
  "record_group_continuation grp now replacements m =
     (case group_recovery m grp of
        None \<Rightarrow> (Err (refused ''Group stop purpose missing''), m)
      | Some i \<Rightarrow>
          if gri_aborted i \<or> bt_len (gri_replacements i) \<noteq> 0 \<or> gri_deadline_ms i \<le> now
             \<or> \<not> list_all (\<lambda>mem. member_stopped m i now (grm_execution_id mem)) (gri_members i)
          then (Err (refused ''Group stop barrier is not satisfied''), m)
          else if continuation_set (gri_members i) replacements
                  \<noteq> bts_of_list (map fst (active_attempts_for_group m grp))
          then (Err (refused ''Group current set changed during continuation preparation''), m)
          else (case cancelled_sources m (gri_members i) of
                  None \<Rightarrow> (Panic, m)
                | Some sources \<Rightarrow>
                    if bts_of_list (bt_keys replacements) \<noteq> bts_of_list (map fst sources)
                       \<or> bt_len (bts_of_list (bt_values replacements)) \<noteq> bt_len replacements
                       \<or> bt_len replacements = 0
                    then (Err (refused
                      ''Group continuation must prepare every cancelled member exactly once''), m)
                    else (case continuation_check m replacements sources of
                            Err e \<Rightarrow> (Err e, m)
                          | Panic \<Rightarrow> (Panic, m)
                          | Ok _ \<Rightarrow>
                              (case update_last (\<lambda>i. gri_group_id i = grp)
                                      (prepare_round replacements now)
                                      (rm_group_recoveries m) of
                                 None \<Rightarrow> (Panic, m)
                               | Some updated \<Rightarrow> (Ok (), m\<lparr>rm_group_recoveries := updated\<rparr>)))))"

subsection \<open>Validating a restored history\<close>

definition member_ids :: "group_recovery_intent \<Rightarrow> execution_id btset" where
  "member_ids i = bts_of_list (map grm_execution_id (gri_members i))"

definition group_intent_bounded :: "group_recovery_intent \<Rightarrow> bool" where
  "group_intent_bounded i \<longleftrightarrow>
     \<not> (trim_is_empty (gri_recovery_id i) \<or> 256 < length (gri_recovery_id i)
        \<or> gri_members i = [] \<or> 32 < length (gri_members i)
        \<or> gri_timeout_ms i = 0 \<or> 3600000 < gri_timeout_ms i
        \<or> \<not> (1 \<le> gri_max_replacements i \<and> gri_max_replacements i \<le> 16)
        \<or> checked_add (gri_requested_at_ms i) (gri_timeout_ms i) \<noteq> Some (gri_deadline_ms i))"

definition group_intent_sets_valid :: "group_recovery_intent \<Rightarrow> bool" where
  "group_intent_sets_valid i \<longleftrightarrow>
     bt_len (member_ids i) = length (gri_members i)
     \<and> list_all (\<lambda>eid. bts_member eid (member_ids i)) (bt_keys (gri_preserved_completed i))
     \<and> list_all (\<lambda>eid. bts_member eid (member_ids i)) (bt_keys (gri_confirmed_at_ms i))"

definition group_intent_times_valid :: "group_recovery_intent \<Rightarrow> bool" where
  "group_intent_times_valid i \<longleftrightarrow>
     (if bt_len (gri_replacements i) = 0
      then gri_prepared_at_ms i = None \<and> bt_len (gri_admitted_at_ms i) = 0
      else (case gri_prepared_at_ms i of
              None \<Rightarrow> False
            | Some prepared \<Rightarrow>
                gri_requested_at_ms i \<le> prepared \<and> prepared < gri_deadline_ms i
                \<and> list_all (\<lambda>time. time \<le> prepared) (bt_values (gri_confirmed_at_ms i))
                \<and> list_all (\<lambda>(eid, time). prepared \<le> time \<and> is_replacement eid i)
                     (bt_entries (gri_admitted_at_ms i))))"

definition group_member_valid ::
    "session_digest \<Rightarrow> manager \<Rightarrow> group_recovery_intent \<Rightarrow> session_descriptor option
       \<Rightarrow> group_recovery_member \<Rightarrow> execution_command \<Rightarrow> bool" where
  "group_member_valid digest m i session mem command \<longleftrightarrow>
     ec_group_id command = gri_group_id i
     \<and> ec_node_id command = grm_expected_node_id mem
     \<and> ec_session command \<noteq> None
     \<and> is_none_or session (\<lambda>s. Some s = ec_session command)
     \<and> is_none_or (ec_session command) (\<lambda>s.
          length (sd_slots s) \<le> 32 \<and> list_all sl_independent (sd_slots s)
          \<and> validate_slot digest s (tr_mission_id (ec_task_ref command)) (gri_group_id i)
               (tr_task_id (ec_task_ref command)) (ec_role_id command) = Inr ())
     \<and> is_some_and (ec_recovery_support command) (\<lambda>d.
          ors_operation (ers_support d) = ei_operation (ec_intent command)
          \<and> supports_group_continuation (ers_support d))
     \<and> (if bts_member (grm_execution_id mem) (gri_preserved_completed i)
         then execution_status_of m (grm_execution_id mem) = Some Completed
         else grm_repeat_authorized mem
              \<and> bts_member (grm_execution_id mem) (rm_cancellation_intents m))
     \<and> is_none_or (bt_get (gri_confirmed_at_ms i) (grm_execution_id mem)) (\<lambda>time.
          gri_requested_at_ms i \<le> time
          \<and> execution_status_of m (grm_execution_id mem) \<in> {Some Cancelled, Some Completed})"

fun group_members_valid ::
    "session_digest \<Rightarrow> manager \<Rightarrow> group_recovery_intent \<Rightarrow> session_descriptor option
       \<Rightarrow> group_recovery_member list \<Rightarrow> bool" where
  "group_members_valid digest m i session [] = True"
| "group_members_valid digest m i session (mem # mems) =
     (case bt_get (rm_executions m) (grm_execution_id mem) of
        None \<Rightarrow> False
      | Some x \<Rightarrow>
          group_member_valid digest m i session mem (ex_command x)
          \<and> group_members_valid digest m i (ec_session (ex_command x)) mems)"

fun group_replacements_valid ::
    "manager \<Rightarrow> group_recovery_intent \<Rightarrow> (execution_id \<times> execution_id) list \<Rightarrow> bool option" where
  "group_replacements_valid m i [] = Some True"
| "group_replacements_valid m i ((source, replacement) # rest) =
     (case bt_get (rm_executions m) replacement of
        None \<Rightarrow> Some False
      | Some actual \<Rightarrow>
          (case bt_get (rm_executions m) source of
             None \<Rightarrow> None
           | Some original \<Rightarrow>
               if ec_node_id (ex_command actual) \<noteq> ec_node_id (ex_command original)
                  \<or> ec_group_id (ex_command actual) \<noteq> gri_group_id i
                  \<or> ec_task_ref (ex_command actual) \<noteq> ec_task_ref (ex_command original)
                  \<or> ec_role_id (ex_command actual) \<noteq> ec_role_id (ex_command original)
                  \<or> ec_intent (ex_command actual) \<noteq> ec_intent (ex_command original)
                  \<or> ec_session (ex_command actual) \<noteq> ec_session (ex_command original)
                  \<or> ec_recovery_support (ex_command actual) \<noteq> ec_recovery_support (ex_command original)
                  \<or> ex_resource_ids actual \<noteq> ex_resource_ids original
                  \<or> bts_member replacement (member_ids i)
               then Some False
               else group_replacements_valid m i rest))"

definition group_barrier_valid :: "manager \<Rightarrow> group_recovery_intent \<Rightarrow> bool" where
  "group_barrier_valid m i \<longleftrightarrow>
     bts_of_list (bt_keys (gri_replacements i))
       = bts_of_list (filter (\<lambda>eid. execution_status_of m eid = Some Cancelled) (bt_keys (member_ids i)))
     \<and> bt_len (bts_of_list (bt_values (gri_replacements i))) = bt_len (gri_replacements i)
     \<and> list_all (\<lambda>eid. bts_member eid (gri_preserved_completed i)
          \<or> is_some_and (bt_get (gri_confirmed_at_ms i) eid) (\<lambda>time. time < gri_deadline_ms i))
          (bt_keys (member_ids i))"

definition group_intent_valid ::
    "session_digest \<Rightarrow> manager \<Rightarrow> group_recovery_intent \<Rightarrow> bool option" where
  "group_intent_valid digest m i =
     (if \<not> group_intent_bounded i then Some False
      else if \<not> group_intent_sets_valid i then Some False
      else if \<not> group_intent_times_valid i then Some False
      else if \<not> group_members_valid digest m i None (gri_members i) then Some False
      else if bt_len (gri_replacements i) = 0 then Some True
      else if \<not> group_barrier_valid m i then Some False
      else group_replacements_valid m i (bt_entries (gri_replacements i)))"

text \<open>\<open>earlier\<close> are the intents already visited; the source groups them by \<open>group_id\<close> in a map.\<close>

fun validate_rounds ::
    "session_digest \<Rightarrow> manager \<Rightarrow> group_recovery_intent list \<Rightarrow> group_recovery_intent list
       \<Rightarrow> unit rt_result" where
  "validate_rounds digest m earlier [] = Ok ()"
| "validate_rounds digest m earlier (i # rest) =
     (case group_intent_valid digest m i of
        None \<Rightarrow> Panic
      | Some valid \<Rightarrow>
          (let history = filter (\<lambda>p. gri_group_id p = gri_group_id i) earlier in
           if \<not> valid
              \<or> unat (gri_max_replacements i) \<le> length history
              \<or> list_ex (\<lambda>p. gri_recovery_id p = gri_recovery_id i
                   \<or> gri_max_replacements p \<noteq> gri_max_replacements i) history
           then Err (InvalidCheckpoint ''invalid Group recovery history'')
           else validate_rounds digest m (earlier @ [i]) rest))"

definition validate_group_recoveries :: "session_digest \<Rightarrow> manager \<Rightarrow> unit rt_result" where
  "validate_group_recoveries digest m = validate_rounds digest m [] (rm_group_recoveries m)"

end
