(* ===== verification/RT_Recovery_Stop.thy ===== *)
theory RT_Recovery_Stop
  imports RT_Group_Recovery
begin

text \<open>
  Isolated Role recovery of \<open>core/runtime/src/execution/recovery_stop.rs\<close>: a budgeted, deadline-bound
  authorization to stop one physical attempt and replace its logical Role, confirmed only by an
  actual Cancelled fact.
\<close>

definition role_retry_supported :: "execution_command \<Rightarrow> bool" where
  "role_retry_supported c \<longleftrightarrow>
     is_some_and (ec_recovery_support c) (\<lambda>d.
       ors_operation (ers_support d) = ei_operation (ec_intent c) \<and> supports_role_retry (ers_support d))"

definition is_stopped_recovery_replacement :: "manager \<Rightarrow> execution_id \<Rightarrow> bool" where
  "is_stopped_recovery_replacement m eid \<longleftrightarrow>
     (case bt_get (rm_executions m) eid of
        None \<Rightarrow> False
      | Some replacement \<Rightarrow>
          list_ex (\<lambda>i. rsi_execution_id i \<noteq> eid \<and> rsi_release_authorized i
             \<and> is_some_and (bt_get (rm_executions m) (rsi_execution_id i)) (\<lambda>original.
                  ec_group_id (ex_command original) = ec_group_id (ex_command replacement)
                  \<and> ec_task_ref (ex_command original) = ec_task_ref (ex_command replacement)
                  \<and> ec_role_id (ex_command original) = ec_role_id (ex_command replacement)))
            (bt_values (rm_recovery_stops m)))"

definition new_stop :: "execution_id \<Rightarrow> timestamp \<Rightarrow> u64 \<Rightarrow> u64 \<Rightarrow> u32 \<Rightarrow> recovery_stop_intent" where
  "new_stop eid now deadline timeout_ms max_replacements =
     \<lparr>rsi_execution_id = eid, rsi_requested_at_ms = now, rsi_deadline_ms = deadline,
      rsi_timeout_ms = timeout_ms, rsi_max_replacements = max_replacements, rsi_confirmed_at_ms = None,
      rsi_release_authorized = False, rsi_aborted = False\<rparr>"

text \<open>
  The tail of a request: \<open>entry(slot).or_insert\<close> of the budget, its check and charge, the stop and the
  cancellation. The budget entry stays when the check fails.
\<close>

definition authorize_stop ::
    "execution_id \<Rightarrow> execution_slot \<Rightarrow> recovery_stop_intent \<Rightarrow> manager \<Rightarrow> unit rt_result \<times> manager" where
  "authorize_stop eid slot i m =
     (let fresh = \<lparr>rb_slot = slot, rb_limit = rsi_max_replacements i, rb_used = 0\<rparr>;
          budget = (case bt_get (rm_recovery_budgets m) slot of None \<Rightarrow> fresh | Some b \<Rightarrow> b);
          m1 = m\<lparr>rm_recovery_budgets := bt_or_insert slot fresh (rm_recovery_budgets m)\<rparr>
      in if rb_limit budget \<noteq> rsi_max_replacements i \<or> rb_limit budget \<le> rb_used budget
         then (Err (ReconciliationRequired ''logical Role recovery budget is exhausted or changed''), m1)
         else (Ok (), m1\<lparr>
           rm_recovery_budgets :=
             bt_insert slot (budget\<lparr>rb_used := rb_used budget + 1\<rparr>) (rm_recovery_budgets m1),
           rm_recovery_stops := bt_insert eid i (rm_recovery_stops m1),
           rm_cancellation_intents := bts_insert eid (rm_cancellation_intents m1)\<rparr>))"

definition request_recovery_stop ::
    "execution_id \<Rightarrow> node_id \<Rightarrow> timestamp \<Rightarrow> u64 \<Rightarrow> u32 \<Rightarrow> manager \<Rightarrow> unit rt_result \<times> manager" where
  "request_recovery_stop eid expected_node now timeout_ms max_replacements m =
     (case bt_get (rm_executions m) eid of
        None \<Rightarrow> (Err (ReconciliationRequired ''recovery execution is unknown''), m)
      | Some x \<Rightarrow>
          (let command = ex_command x; slot = command_slot command in
           if ec_node_id command \<noteq> expected_node \<or> bt_get (rm_active_executions m) slot \<noteq> Some eid
           then (Err (NodeOwnership ''recovery command references a stale attempt or wrong owner''), m)
           else (case group_recovery_holds_dispatch m (ec_group_id command) now of
              None \<Rightarrow> (Panic, m)
            | Some True \<Rightarrow> (Err (ReconciliationRequired
                ''an exact-set Group recovery already owns this recovery purpose''), m)
            | Some False \<Rightarrow>
                if ec_recovery_support command = None
                then (Err (ReconciliationRequired
                  ''physical attempt has no dispatch-time execution recovery declaration''), m)
                else if \<not> role_retry_supported command
                then (Err (ReconciliationRequired
                  ''Role recovery requires isolated execution stop and context-preserving repetition''), m)
                else (case bt_get (rm_recovery_stops m) eid of
                   Some i \<Rightarrow>
                     if \<not> rsi_aborted i \<and> rsi_timeout_ms i = timeout_ms
                        \<and> rsi_max_replacements i = max_replacements
                     then (Ok (), m)
                     else (Err (ExecutionConflict
                       ''recovery command cannot change its original budget''), m)
                 | None \<Rightarrow>
                     if status_is_terminal m eid \<or> timeout_ms = 0 \<or> 3600000 < timeout_ms
                        \<or> \<not> (1 \<le> max_replacements \<and> max_replacements \<le> 16)
                     then (Err (ReconciliationRequired
                       ''terminal execution or invalid recovery budget''), m)
                     else (case checked_add now timeout_ms of
                        None \<Rightarrow> (Err (ReconciliationRequired ''recovery deadline overflow''), m)
                      | Some deadline \<Rightarrow>
                          authorize_stop eid slot (new_stop eid now deadline timeout_ms max_replacements) m)))))"

definition confirm_recovery_stop :: "execution_id \<Rightarrow> timestamp \<Rightarrow> manager \<Rightarrow> manager" where
  "confirm_recovery_stop eid received_at m =
     (if execution_status_of m eid = Some Cancelled
      then (case bt_get (rm_recovery_stops m) eid of
              None \<Rightarrow> m
            | Some i \<Rightarrow>
                if rsi_confirmed_at_ms i = None \<and> rsi_requested_at_ms i \<le> received_at
                then m\<lparr>rm_recovery_stops :=
                       bt_insert eid (i\<lparr>rsi_confirmed_at_ms := Some received_at\<rparr>) (rm_recovery_stops m)\<rparr>
                else m)
      else m)"

definition recovery_stop :: "manager \<Rightarrow> execution_id \<Rightarrow> recovery_stop_intent option" where
  "recovery_stop m eid = bt_get (rm_recovery_stops m) eid"

definition recovery_stop_disposition ::
    "manager \<Rightarrow> execution_id \<Rightarrow> timestamp \<Rightarrow> rs_disposition option" where
  "recovery_stop_disposition m eid now =
     (case bt_get (rm_recovery_stops m) eid of
        None \<Rightarrow> Some RsNotRequested
      | Some i \<Rightarrow>
          (case bt_get (rm_executions m) eid of
             None \<Rightarrow> None
           | Some x \<Rightarrow>
               (let c = ex_command x in
                if current_attempt_id m (ec_group_id c) (ec_task_ref c) (ec_role_id c) \<noteq> Some eid
                then Some RsSuperseded
                else if rsi_aborted i then Some RsAborted
                else if execution_status_of m eid \<in> {Some Completed, Some Failed}
                then Some RsOriginalTerminal
                else if rsi_deadline_ms i \<le> now then Some RsBudgetExpired
                else if rsi_release_authorized i then Some RsReplacementPending
                else if rsi_confirmed_at_ms i \<noteq> None then Some RsStopConfirmed
                else Some RsAwaitingStop)))"

definition recovery_stop_ready :: "manager \<Rightarrow> execution_command \<Rightarrow> timestamp \<Rightarrow> bool" where
  "recovery_stop_ready m command now \<longleftrightarrow>
     is_some_and
       (Option.bind (current_attempt_id m (ec_group_id command) (ec_task_ref command) (ec_role_id command))
          (\<lambda>eid. bt_get (rm_recovery_stops m) eid))
       (\<lambda>i. \<not> rsi_aborted i
          \<and> execution_status_of m (rsi_execution_id i) = Some Cancelled
          \<and> is_some_and (bt_get (rm_executions m) (rsi_execution_id i))
               (\<lambda>x. ex_command x = command \<and> role_retry_supported command)
          \<and> is_some_and (rsi_confirmed_at_ms i) (\<lambda>time. time < rsi_deadline_ms i)
          \<and> is_some_and (rsi_confirmed_at_ms i) (\<lambda>time. time \<le> now)
          \<and> now < rsi_deadline_ms i)"

definition stopped_recovery_commands :: "manager \<Rightarrow> timestamp \<Rightarrow> execution_command list" where
  "stopped_recovery_commands m now =
     filter (\<lambda>c. recovery_stop_ready m c now)
       (List.map_filter (\<lambda>i. map_option ex_command (bt_get (rm_executions m) (rsi_execution_id i)))
         (filter (\<lambda>i. \<not> rsi_release_authorized i) (bt_values (rm_recovery_stops m))))"

definition mark_recovery_release :: "execution_command \<Rightarrow> manager \<Rightarrow> manager" where
  "mark_recovery_release command m =
     (case current_attempt_id m (ec_group_id command) (ec_task_ref command) (ec_role_id command) of
        None \<Rightarrow> m
      | Some eid \<Rightarrow>
          m\<lparr>rm_recovery_stops :=
             bt_update eid (\<lambda>i. i\<lparr>rsi_release_authorized := True\<rparr>) (rm_recovery_stops m)\<rparr>)"

subsection \<open>Validating restored stops and budgets\<close>

definition recovery_stop_valid :: "manager \<Rightarrow> execution_id \<Rightarrow> recovery_stop_intent \<Rightarrow> execution_slot \<Rightarrow> bool" where
  "recovery_stop_valid m eid i slot \<longleftrightarrow>
     eid = rsi_execution_id i
     \<and> rsi_timeout_ms i \<noteq> 0
     \<and> rsi_timeout_ms i \<le> 3600000
     \<and> checked_add (rsi_requested_at_ms i) (rsi_timeout_ms i) = Some (rsi_deadline_ms i)
     \<and> bts_member eid (rm_cancellation_intents m)
     \<and> is_some_and (bt_get (rm_recovery_budgets m) slot) (\<lambda>b.
          rb_limit b = rsi_max_replacements i \<and> 0 < rb_used b \<and> rb_used b \<le> rb_limit b)
     \<and> is_none_or (rsi_confirmed_at_ms i) (\<lambda>time.
          rsi_requested_at_ms i \<le> time \<and> execution_status_of m eid = Some Cancelled)
     \<and> (rsi_release_authorized i \<longrightarrow>
          is_some_and (rsi_confirmed_at_ms i) (\<lambda>time. time < rsi_deadline_ms i))"

definition slot_stop_count :: "manager \<Rightarrow> execution_slot \<Rightarrow> nat" where
  "slot_stop_count m slot =
     length (filter (\<lambda>i. is_some_and (bt_get (rm_executions m) (rsi_execution_id i))
        (\<lambda>x. command_slot (ex_command x) = slot)) (bt_values (rm_recovery_stops m)))"

definition recovery_budget_valid :: "manager \<Rightarrow> execution_slot \<Rightarrow> recovery_budget \<Rightarrow> bool" where
  "recovery_budget_valid m slot b \<longleftrightarrow>
     slot = rb_slot b \<and> 1 \<le> rb_limit b \<and> rb_limit b \<le> 16 \<and> rb_used b \<noteq> 0
     \<and> rb_used b \<le> rb_limit b \<and> slot_stop_count m slot = unat (rb_used b)"

definition validate_recovery_stops :: "manager \<Rightarrow> execution_runtime_error + unit" where
  "validate_recovery_stops m =
     (case check_each (\<lambda>(eid, i).
             case bt_get (rm_executions m) eid of
               None \<Rightarrow> Inl (InvalidCheckpoint ''recovery stop has no execution'')
             | Some x \<Rightarrow>
                 if recovery_stop_valid m eid i (command_slot (ex_command x)) then Inr ()
                 else Inl (InvalidCheckpoint ''invalid recovery stop authorization or confirmation''))
           (bt_entries (rm_recovery_stops m)) of
        Inl e \<Rightarrow> Inl e
      | Inr _ \<Rightarrow>
          check_each (\<lambda>(slot, b).
             if recovery_budget_valid m slot b then Inr ()
             else Inl (InvalidCheckpoint ''invalid recovery budget history''))
           (bt_entries (rm_recovery_budgets m)))"

end
