(* ===== verification/RT_Dispatch.thy ===== *)
theory RT_Dispatch
  imports RT_Relations RT_Recovery_Stop
begin

text \<open>
  Dispatch of \<open>core/runtime/src/execution/dispatch.rs\<close>: admission of a committed execution, the
  allocation of physical attempt identities, the durable Execute outbox and its receipts, and
  cancellation requests.
\<close>

subsection \<open>Admission\<close>

definition validate_dispatch ::
    "manager \<Rightarrow> execution_id \<Rightarrow> execution_command \<Rightarrow> resource_id list \<Rightarrow> dispatch_decision rt_result" where
  "validate_dispatch m eid command resource_ids =
     (if is_some_and (ec_recovery_support command)
           (\<lambda>d. ors_operation (ers_support d) \<noteq> ei_operation (ec_intent command))
      then Err (ExecutionConflict ''recovery declaration belongs to a different operation'')
      else if bts_member eid (rm_restored_executions m)
      then Err (ReconciliationRequired
        ''execution was restored after controller restart; reconciliation is required before routing'')
      else if bt_contains (rm_execution_status m) eid \<and> \<not> bt_contains (rm_executions m) eid
      then Err (ReconciliationRequired
        ''execution was observed during reconnect; reconciliation is required before routing'')
      else (case bt_get (rm_executions m) eid of
              Some existing \<Rightarrow>
                if ex_command existing \<noteq> command
                   \<or> ex_resource_ids existing \<noteq> normalized_resources resource_ids
                then Err (ExecutionConflict eid)
                else Ok AlreadyRouted
            | None \<Rightarrow> Ok Route))"

subsection \<open>Attempt identities\<close>

definition attempt_execution_id :: "group_id \<Rightarrow> task_ref \<Rightarrow> role_id \<Rightarrow> u64 \<Rightarrow> execution_id" where
  "attempt_execution_id grp task role generation =
     ''attempt-'' @ show_nat (length grp) @ '':'' @ grp
     @ ''-'' @ show_nat (length (tr_task_id task)) @ '':'' @ tr_task_id task
     @ ''-'' @ show_nat (length role) @ '':'' @ role
     @ ''-'' @ show_nat (unat generation)"

function allocate_generation ::
    "manager \<Rightarrow> group_id \<Rightarrow> task_ref \<Rightarrow> role_id \<Rightarrow> u64 \<Rightarrow> (execution_id \<times> u64) option" where
  "allocate_generation m grp task role generation =
     (case checked_add generation 1 of
        None \<Rightarrow> None
      | Some next_generation \<Rightarrow>
          (let eid = attempt_execution_id grp task role next_generation in
           if \<not> bt_contains (rm_executions m) eid \<and> \<not> bt_contains (rm_dispatch_outbox m) eid
           then Some (eid, next_generation)
           else allocate_generation m grp task role next_generation))"
  by auto
termination
proof (relation "measure (\<lambda>(m, grp, task, role, generation). 2 ^ 64 - unat generation)")
  fix m grp task role and generation next_generation :: u64 and eid
  assume succ: "checked_add generation 1 = Some next_generation"
  have "unat next_generation < 2 ^ LENGTH(64)"
    by (rule unsigned_less)
  with checked_add_Some_unat [OF succ]
  show "((m, grp, task, role, next_generation), (m, grp, task, role, generation))
      \<in> measure (\<lambda>(m, grp, task, role, generation). 2 ^ 64 - unat generation)"
    by simp
qed simp

declare allocate_generation.simps [simp del]

definition allocate_attempt_id ::
    "group_id \<Rightarrow> task_ref \<Rightarrow> role_id \<Rightarrow> manager \<Rightarrow> execution_id rt_result \<times> manager" where
  "allocate_attempt_id grp task role m =
     (let slot = (grp, task, role);
          generation = (case bt_get (rm_attempt_generations m) slot of None \<Rightarrow> 0 | Some g \<Rightarrow> g)
      in case allocate_generation m grp task role generation of
           None \<Rightarrow> (Err (ReconciliationRequired ''physical attempt generation is exhausted''), m)
         | Some (eid, g) \<Rightarrow>
             (Ok eid, m\<lparr>rm_attempt_generations := bt_insert slot g (rm_attempt_generations m)\<rparr>))"

subsection \<open>The outbox\<close>

definition pending_dispatch_intents :: "manager \<Rightarrow> dispatch_intent list" where
  "pending_dispatch_intents m =
     filter (\<lambda>i. \<not> di_delivered i
               \<and> \<not> bts_member (di_execution_id i) (rm_cancellation_intents m)
               \<and> execution_status_of m (di_execution_id i) = Some Dispatched)
       (bt_values (rm_dispatch_outbox m))"

definition mark_dispatch_delivered :: "execution_id \<Rightarrow> manager \<Rightarrow> unit rt_result \<times> manager" where
  "mark_dispatch_delivered eid m =
     (case bt_get (rm_dispatch_outbox m) eid of
        None \<Rightarrow> (Err (ReconciliationRequired (''dispatch intent '' @ eid @ '' is absent'')), m)
      | Some i \<Rightarrow> (Ok (), m\<lparr>rm_dispatch_outbox :=
                       bt_insert eid (i\<lparr>di_delivered := True\<rparr>) (rm_dispatch_outbox m)\<rparr>))"

definition set_status :: "execution_id \<Rightarrow> execution_status \<Rightarrow> manager \<Rightarrow> manager" where
  "set_status eid s m = m\<lparr>rm_execution_status := bt_insert eid s (rm_execution_status m)\<rparr>"

text \<open>
  The common tail of both receipt reductions: the attempt becomes Unknown, and a current attempt
  asks for recovery and refreshes the relations of its slot.
\<close>

definition receipt_unknown ::
    "execution_id \<Rightarrow> (execution_command \<Rightarrow> node_id) \<Rightarrow> string \<Rightarrow> manager
       \<Rightarrow> execution_event list rt_result \<times> manager" where
  "receipt_unknown eid owner reason m =
     (let m1 = set_status eid Unknown m in
      case bt_get (rm_executions m1) eid of
        None \<Rightarrow> (Err (ReconciliationRequired (''execution context '' @ eid @ '' is absent'')), m1)
      | Some x \<Rightarrow>
          (let command = ex_command x; slot = command_slot command in
           if bt_get (rm_active_executions m1) slot \<noteq> Some eid then (Ok [], m1)
           else (case refresh_relations_for_slot slot m1 of
                   None \<Rightarrow> (Panic, m1)
                 | Some (events, m2) \<Rightarrow>
                     (Ok (RecoveryRequired eid (owner command) (Some command) reason # events), m2))))"

definition observe_dispatch_receipt ::
    "execution_id \<Rightarrow> string \<Rightarrow> node_id \<Rightarrow> bool \<Rightarrow> string \<Rightarrow> manager
       \<Rightarrow> execution_event list rt_result \<times> manager" where
  "observe_dispatch_receipt eid receipt_command_id node persisted reason m =
     (case bt_get (rm_dispatch_outbox m) eid of
        None \<Rightarrow> (Err (ReconciliationRequired (''dispatch intent '' @ eid @ '' is absent'')), m)
      | Some intent \<Rightarrow>
          if command_id intent \<noteq> receipt_command_id then (Err (ExecutionConflict eid), m)
          else if ec_node_id (di_command intent) \<noteq> node
          then (Err (NodeOwnership ''command receipt node differs from execution owner''), m)
          else if persisted
          then (case mark_dispatch_delivered eid m of
                  (Ok _, m') \<Rightarrow> (Ok [], m')
                | (Err e, m') \<Rightarrow> (Err e, m')
                | (Panic, m') \<Rightarrow> (Panic, m'))
          else if status_is_terminal m eid then (Ok [], m)
          else if execution_status_of m eid = Some Unknown then (Ok [], m)
          else receipt_unknown eid ec_node_id reason m)"

definition observe_cancellation_receipt ::
    "execution_id \<Rightarrow> string \<Rightarrow> node_id \<Rightarrow> bool \<Rightarrow> string \<Rightarrow> manager
       \<Rightarrow> execution_event list rt_result \<times> manager" where
  "observe_cancellation_receipt eid receipt_command_id node persisted reason m =
     (if receipt_command_id \<noteq> ''cancel-'' @ eid \<or> \<not> bts_member eid (rm_cancellation_intents m)
      then (Err (ReconciliationRequired
        (''cancellation intent '' @ eid @ '' is absent or conflicts with its receipt'')), m)
      else if cancellation_node m eid \<noteq> Some node
      then (Err (NodeOwnership ''cancellation receipt node differs from execution owner''), m)
      else if persisted \<or> status_is_terminal m eid \<or> execution_status_of m eid = Some Unknown
      then (Ok [], m)
      else receipt_unknown eid (\<lambda>_. node) reason m)"

definition record_dispatch_attempt :: "execution_id \<Rightarrow> manager \<Rightarrow> manager" where
  "record_dispatch_attempt eid m =
     m\<lparr>rm_dispatch_outbox := bt_update eid
        (\<lambda>i. i\<lparr>di_delivery_attempts := saturating_add (di_delivery_attempts i) 1\<rparr>)
        (rm_dispatch_outbox m)\<rparr>"

definition admit_dispatch ::
    "execution_id \<Rightarrow> execution_command \<Rightarrow> resource_id list \<Rightarrow> manager \<Rightarrow> manager" where
  "admit_dispatch eid command resources m =
     (let slot = command_slot command;
          previous = bt_get (rm_active_executions m) slot;
          m1 = m\<lparr>rm_executions := bt_insert eid \<lparr>ex_command = command, ex_resource_ids = resources\<rparr>
                    (rm_executions m),
                rm_execution_nodes := bt_insert eid (ec_node_id command) (rm_execution_nodes m),
                rm_active_executions := bt_insert slot eid (rm_active_executions m)\<rparr>;
          m2 = (case previous of
                  None \<Rightarrow> m1
                | Some prev \<Rightarrow>
                    if prev = eid then m1
                    else m1\<lparr>rm_spatial_evidence := bt_remove slot (rm_spatial_evidence m1),
                           rm_reactivation_attempts :=
                             bts_insert eid (bts_remove prev (rm_reactivation_attempts m1))\<rparr>)
      in m2\<lparr>rm_execution_status := bt_insert eid Dispatched (rm_execution_status m2),
           rm_dispatch_outbox := bt_insert eid
             \<lparr>di_execution_id = eid, di_command = command, di_resource_ids = resources,
              di_delivery_attempts = 0, di_delivered = False\<rparr> (rm_dispatch_outbox m2)\<rparr>)"

definition prepare_dispatch ::
    "execution_id \<Rightarrow> execution_command \<Rightarrow> resource_id list \<Rightarrow> manager
       \<Rightarrow> dispatch_decision rt_result \<times> manager" where
  "prepare_dispatch eid command resource_ids m =
     (case validate_dispatch m eid command resource_ids of
        Err e \<Rightarrow> (Err e, m)
      | Panic \<Rightarrow> (Panic, m)
      | Ok AlreadyRouted \<Rightarrow> (Ok AlreadyRouted, m)
      | Ok Route \<Rightarrow> (Ok Route, admit_dispatch eid command (normalized_resources resource_ids) m))"

definition record_dispatched ::
    "execution_id \<Rightarrow> execution_command \<Rightarrow> resource_id list \<Rightarrow> manager \<Rightarrow> unit rt_result \<times> manager" where
  "record_dispatched eid command resource_ids m =
     (case prepare_dispatch eid command resource_ids m of
        (Err e, m') \<Rightarrow> (Err e, m')
      | (Panic, m') \<Rightarrow> (Panic, m')
      | (Ok _, m') \<Rightarrow> mark_dispatch_delivered eid m')"

subsection \<open>Cancellation\<close>

definition request_cancellation :: "execution_id \<Rightarrow> manager \<Rightarrow> unit rt_result \<times> manager" where
  "request_cancellation eid m =
     (if \<not> bt_contains (rm_executions m) eid
      then (Err (ReconciliationRequired ''unknown cancellation attempt''), m)
      else (let m1 = m\<lparr>rm_recovery_stops :=
                        bt_update eid (\<lambda>i. i\<lparr>rsi_aborted := True\<rparr>) (rm_recovery_stops m)\<rparr>;
                m2 = abort_group_recovery_for_attempt eid m1
            in (Ok (), m2\<lparr>rm_cancellation_intents := bts_insert eid (rm_cancellation_intents m2)\<rparr>)))"

definition pending_cancellations :: "manager \<Rightarrow> (execution_id \<times> node_id) list" where
  "pending_cancellations m =
     List.map_filter (\<lambda>eid. map_option (Pair eid) (cancellation_node m eid))
       (filter (\<lambda>eid. \<not> is_some_and (bt_get (rm_recovery_stops m) eid) (\<lambda>i. \<not> rsi_aborted i)
                  \<or> is_some_and (bt_get (rm_executions m) eid) (\<lambda>x. role_retry_supported (ex_command x)))
         (filter (\<lambda>eid. \<not> status_is_terminal m eid) (bt_keys (rm_cancellation_intents m))))"

end
