(* ===== verification/RT_Observation.thy ===== *)
theory RT_Observation
  imports RT_Dispatch
begin

text \<open>
  Reduction of Node execution facts, \<open>core/runtime/src/execution/observation.rs\<close>: ordered facts per
  execution identity, unavailable Nodes, the aggregate Task result, and the cross-map validation of a
  checkpoint.
\<close>

subsection \<open>Node facts\<close>

text \<open>The events and the activation bookkeeping of a fact about a known execution.\<close>

definition reduce_known_fact ::
    "execution_id \<Rightarrow> execution_status \<Rightarrow> string \<Rightarrow> execution_command \<Rightarrow> manager
       \<Rightarrow> execution_event list rt_result \<times> manager" where
  "reduce_known_fact eid status reason command m =
     (let task_key = (ec_group_id command, ec_task_ref command);
          slot = command_slot command;
          is_current = is_some_and (bt_get (rm_active_executions m) slot) (\<lambda>current. current = eid)
      in if \<not> is_current then (Ok [], m)
         else (let activates = proves_activation status;
                   replacement_activated = (activates \<and> bts_member eid (rm_reactivation_attempts m));
                   first_activation = (activates \<and> \<not> bts_member task_key (rm_activated_tasks m));
                   m1 = (if activates
                         then m\<lparr>rm_reactivation_attempts := bts_remove eid (rm_reactivation_attempts m),
                                rm_activated_tasks := bts_insert task_key (rm_activated_tasks m)\<rparr>
                         else m);
                   activation = (if first_activation \<or> replacement_activated
                                 then [TaskActivated (ec_group_id command) (ec_task_ref command)] else []);
                   outcome = (case status of
                       Completed \<Rightarrow> [RoleCompleted command]
                     | Failed \<Rightarrow> [RoleFailed command reason]
                     | Cancelled \<Rightarrow> [RoleFailed command reason]
                     | Unknown \<Rightarrow> [RecoveryRequired eid (ec_node_id command) (Some command) reason]
                     | _ \<Rightarrow> [])
               in case refresh_relations_for_slot slot m1 of
                    None \<Rightarrow> (Panic, m1)
                  | Some (events, m2) \<Rightarrow> (Ok (activation @ outcome @ events), m2)))"

definition observe_execution ::
    "execution_id \<Rightarrow> node_id \<Rightarrow> u64 \<Rightarrow> execution_status \<Rightarrow> string \<Rightarrow> manager
       \<Rightarrow> execution_event list rt_result \<times> manager" where
  "observe_execution eid node sequence status reason m =
     (if is_some_and (bt_get (rm_execution_nodes m) eid) (\<lambda>expected. expected \<noteq> node)
      then (Err (NodeOwnership ''execution fact node differs from execution owner''), m)
      else if is_some_and (bt_get (rm_execution_sequences m) eid) (\<lambda>current. sequence \<le> current)
      then (Ok [], m)
      else if status_is_terminal m eid
      then (if execution_status_of m eid = Some status then (Ok [], m)
            else (Err (TerminalConflict ''terminal execution status is immutable''), m))
      else if is_some_and (bt_get (rm_executions m) eid) (\<lambda>x. ec_node_id (ex_command x) \<noteq> node)
      then (Err (NodeOwnership ''execution fact node differs from dispatched command''), m)
      else (let m1 = m\<lparr>rm_execution_sequences := bt_insert eid sequence (rm_execution_sequences m),
                      rm_execution_nodes := bt_or_insert eid node (rm_execution_nodes m),
                      rm_execution_status := bt_insert eid status (rm_execution_status m),
                      rm_dispatch_outbox := bt_update eid (\<lambda>i. i\<lparr>di_delivered := True\<rparr>)
                        (rm_dispatch_outbox m)\<rparr>
            in case bt_get (rm_executions m1) eid of
                 None \<Rightarrow>
                   if status = Unknown
                   then (case bt_get (rm_execution_nodes m1) eid of
                           None \<Rightarrow> (Panic, m1)
                         | Some owner \<Rightarrow> (Ok [RecoveryRequired eid owner None reason], m1))
                   else (Ok [], m1)
               | Some x \<Rightarrow> reduce_known_fact eid status reason (ex_command x) m1))"

definition observe_execution_received ::
    "execution_id \<Rightarrow> node_id \<Rightarrow> u64 \<Rightarrow> execution_status \<Rightarrow> string \<Rightarrow> timestamp \<Rightarrow> manager
       \<Rightarrow> execution_event list rt_result \<times> manager" where
  "observe_execution_received eid node sequence status reason received_at m =
     (let previous = execution_status_of m eid in
      case observe_execution eid node sequence status reason m of
        (Err e, m') \<Rightarrow> (Err e, m')
      | (Panic, m') \<Rightarrow> (Panic, m')
      | (Ok events, m') \<Rightarrow>
          if is_terminal status \<and> previous \<noteq> Some status
             \<and> bt_contains (rm_executions m') eid \<and> execution_status_of m' eid = Some status
          then (Ok events, m'\<lparr>rm_terminal_received_at :=
                  bt_or_insert eid received_at (rm_terminal_received_at m')\<rparr>)
          else (Ok events, m'))"

subsection \<open>Unavailable Nodes\<close>

definition lose_attempt ::
    "node_id \<Rightarrow> string \<Rightarrow> execution_id \<Rightarrow> manager \<Rightarrow> (execution_event list \<times> manager) option" where
  "lose_attempt node reason eid m =
     (let m1 = set_status eid Unknown m;
          command = execution_command_of m1 eid;
          lost = RecoveryRequired eid node command reason
      in case command of
           None \<Rightarrow> Some ([lost], m1)
         | Some c \<Rightarrow>
             (case refresh_relations_for_slot (command_slot c) m1 of
                None \<Rightarrow> None
              | Some (events, m2) \<Rightarrow> Some (lost # events, m2)))"

fun lose_attempts ::
    "node_id \<Rightarrow> string \<Rightarrow> execution_id list \<Rightarrow> manager \<Rightarrow> (execution_event list \<times> manager) option" where
  "lose_attempts node reason [] m = Some ([], m)"
| "lose_attempts node reason (eid # eids) m =
     (case lose_attempt node reason eid m of
        None \<Rightarrow> None
      | Some (events, m') \<Rightarrow>
          (case lose_attempts node reason eids m' of
             None \<Rightarrow> None
           | Some (later, m'') \<Rightarrow> Some (events @ later, m'')))"

definition unavailable_attempts :: "manager \<Rightarrow> node_id \<Rightarrow> execution_id list" where
  "unavailable_attempts m node =
     map fst (filter (\<lambda>(eid, owner).
         eid \<in> set (bt_values (rm_active_executions m)) \<and> owner = node
         \<and> is_some_and (execution_status_of m eid) (\<lambda>s. \<not> is_terminal s \<and> s \<noteq> Unknown))
       (bt_entries (rm_execution_nodes m)))"

definition observe_node_unavailable ::
    "node_id \<Rightarrow> string \<Rightarrow> manager \<Rightarrow> execution_event list rt_result \<times> manager" where
  "observe_node_unavailable node reason m =
     (case lose_attempts node reason (unavailable_attempts m node) m of
        None \<Rightarrow> (Panic, m)
      | Some (events, m') \<Rightarrow> (Ok events, m'))"

subsection \<open>Aggregate Task result\<close>

text \<open>One Role of the loop: whether it failed, and whether it leaves the Task terminal.\<close>

definition role_result :: "manager \<Rightarrow> group_id \<Rightarrow> task_ref \<Rightarrow> role_id \<Rightarrow> bool \<times> bool" where
  "role_result m grp task role =
     (case current_execution_status m grp task role of
        Some Completed \<Rightarrow> (False, True)
      | Some Cancelled \<Rightarrow>
          if is_some_and (bt_get (rm_active_executions m) (grp, task, role)) (\<lambda>eid.
               is_some_and (bt_get (rm_recovery_stops m) eid) (\<lambda>i. \<not> rsi_aborted i)
               \<or> group_recovery_preserves_cancelled m eid)
          then (False, False) else (True, True)
      | Some Failed \<Rightarrow> (True, True)
      | _ \<Rightarrow> (False, False))"

definition task_execution_result ::
    "manager \<Rightarrow> group_id \<Rightarrow> task_ref \<Rightarrow> role_id list \<Rightarrow> observed_task_result option" where
  "task_execution_result m grp task roles =
     (let (saw_role, saw_failed, all_terminal) =
        fold (\<lambda>role (saw_role, saw_failed, all_terminal).
            let (failed, terminal) = role_result m grp task role
            in (True, saw_failed \<or> failed, all_terminal \<and> terminal)) roles (False, False, True)
      in if \<not> saw_role \<or> \<not> all_terminal then None
         else if saw_failed then Some ExecutionFailed
         else if relations_allow_task_success m grp task then Some ExecutionCompleted else None)"

subsection \<open>Checkpoint validation\<close>

fun check_attempt_generations ::
    "(execution_slot \<times> u64) list \<Rightarrow> execution_slot btset \<Rightarrow> execution_runtime_error + unit" where
  "check_attempt_generations [] seen = Inr ()"
| "check_attempt_generations ((slot, generation) # rest) seen =
     (if generation = 0 \<or> bts_member slot seen
      then Inl (InvalidCheckpoint ''checkpoint contains an invalid or duplicate attempt generation'')
      else check_attempt_generations rest (bts_insert slot seen))"

fun check_dispatch_outbox ::
    "(execution_id, execution_context) btmap \<Rightarrow> dispatch_intent list \<Rightarrow> execution_id btset
       \<Rightarrow> execution_runtime_error + unit" where
  "check_dispatch_outbox executions [] seen = Inr ()"
| "check_dispatch_outbox executions (i # rest) seen =
     (case bt_get executions (di_execution_id i) of
        None \<Rightarrow> Inl (InvalidCheckpoint
          (''dispatch intent '' @ di_execution_id i @ '' has no execution context''))
      | Some x \<Rightarrow>
          if trim_is_empty (di_execution_id i) \<or> bts_member (di_execution_id i) seen
             \<or> ex_command x \<noteq> di_command i
             \<or> ex_resource_ids x \<noteq> normalized_resources (di_resource_ids i)
          then Inl (InvalidCheckpoint (''dispatch intent '' @ di_execution_id i
            @ '' differs from its immutable execution context''))
          else check_dispatch_outbox executions rest (bts_insert (di_execution_id i) seen))"

definition check_execution ::
    "checkpoint \<Rightarrow> execution_id \<times> execution_context \<Rightarrow> execution_runtime_error + unit" where
  "check_execution c = (\<lambda>(eid, x).
     case memory_validate_set (ec_memory_requirements (ex_command x)) of
       Inl e \<Rightarrow> Inl (InvalidCheckpoint e)
     | Inr _ \<Rightarrow>
         if is_some_and (ec_recovery_support (ex_command x))
              (\<lambda>d. ors_operation (ers_support d) \<noteq> ei_operation (ec_intent (ex_command x)))
         then Inl (InvalidCheckpoint
           ''checkpoint recovery declaration belongs to a different operation'')
         else if eid = []
         then Inl (InvalidCheckpoint ''checkpoint contains an empty execution id'')
         else if bt_get (cp_execution_nodes c) eid \<noteq> Some (ec_node_id (ex_command x))
         then Inl (InvalidCheckpoint (''execution '' @ eid @ '' has inconsistent node ownership''))
         else if \<not> bt_contains (cp_execution_status c) eid
         then Inl (InvalidCheckpoint (''execution '' @ eid @ '' has no status''))
         else Inr ())"

definition check_active ::
    "checkpoint \<Rightarrow> execution_slot \<times> execution_id \<Rightarrow> execution_runtime_error + unit" where
  "check_active c = (\<lambda>(slot, eid).
     case bt_get (cp_executions c) eid of
       None \<Rightarrow> Inl (InvalidCheckpoint (''active execution '' @ eid @ '' has no context''))
     | Some x \<Rightarrow>
         if command_slot (ex_command x) \<noteq> slot
         then Inl (InvalidCheckpoint (''active execution '' @ eid
           @ '' differs from its command Group Task role''))
         else Inr ())"

definition check_proof ::
    "checkpoint \<Rightarrow> relation_key \<times> execution_id \<Rightarrow> execution_runtime_error + unit" where
  "check_proof c = (\<lambda>((grp, rid), target).
     case find (\<lambda>r. rr_group_id r = grp \<and> rr_relation_id r = rid) (cp_relations c) of
       None \<Rightarrow> Inr ()
     | Some r \<Rightarrow>
         (case bt_get (cp_executions c) target of
            None \<Rightarrow> Inl (InvalidCheckpoint (''relation '' @ rid
              @ '' proof references unknown target execution '' @ target))
          | Some x \<Rightarrow>
              if command_slot (ex_command x) \<noteq> rr_target_key r
              then Inl (InvalidCheckpoint (''relation '' @ rid
                @ '' proof does not reference its target logical slot''))
              else Inr ()))"

text \<open>\<open>a; b\<close> for checks: the first error wins.\<close>

fun first_error :: "('e + unit) list \<Rightarrow> 'e + unit" where
  "first_error [] = Inr ()"
| "first_error (r # rs) = (case r of Inl e \<Rightarrow> Inl e | Inr _ \<Rightarrow> first_error rs)"

definition guard :: "bool \<Rightarrow> 'e \<Rightarrow> 'e + unit" where
  "guard bad e = (if bad then Inl e else Inr ())"

definition validate_checkpoint :: "checkpoint \<Rightarrow> execution_runtime_error + unit" where
  "validate_checkpoint c = first_error
     [guard (list_ex (\<lambda>i. list_ex (\<lambda>eid. is_none_or (bt_get (cp_execution_status c) eid)
          (\<lambda>s. s = Dispatched)) (bt_keys (gri_admitted_at_ms i))) (cp_group_recoveries c))
        (InvalidCheckpoint ''Group continuation admission lacks a Node execution fact''),
      check_attempt_generations (cp_attempt_generations c) bt_empty,
      check_dispatch_outbox (cp_executions c) (cp_dispatch_outbox c) bt_empty,
      guard (list_ex (\<lambda>eid. \<not> bt_contains (cp_executions c) eid) (bt_keys (cp_cancellation_intents c)))
        (InvalidCheckpoint ''checkpoint cancellation references an unknown execution''),
      check_each (check_execution c) (bt_entries (cp_executions c)),
      check_each (check_active c) (cp_active_executions c),
      check_each (\<lambda>eid. guard (\<not> bt_contains (cp_execution_status c) eid)
          (InvalidCheckpoint (''execution sequence '' @ eid @ '' has no status'')))
        (bt_keys (cp_execution_sequences c)),
      check_each (check_proof c) (cp_relation_proofs c)]"

end
