(* ===== verification/RT_Progress.thy ===== *)
theory RT_Progress
  imports RT_State
begin

text \<open>
  Read-only operation progress, \<open>core/runtime/src/execution/progress.rs\<close>: admission of samples from the
  current attempt's own Node, receive-time freshness, and the interpretation of a sample.
\<close>

definition progress_source_of :: "state_record \<Rightarrow> progress_source" where
  "progress_source_of r =
     \<lparr>pr_key = sr_key r, pr_source_epoch = sr_source_epoch r, pr_sequence = sr_sequence r,
      pr_received_at = sr_received_at r, pr_valid_for_ms = sr_valid_for_ms r\<rparr>"

definition progress_is_stale_at :: "progress_source \<Rightarrow> timestamp \<Rightarrow> bool" where
  "progress_is_stale_at s now \<longleftrightarrow> saturating_add (pr_received_at s) (pr_valid_for_ms s) \<le> now"

definition progress_key_admitted :: "state_record_key \<Rightarrow> execution_command \<Rightarrow> bool" where
  "progress_key_admitted key command \<longleftrightarrow>
     sk_semantic key = Reported
     \<and> so_class (sk_object key) = NodeObject
     \<and> so_object_id (sk_object key) = ec_node_id command
     \<and> state_source_node_id (sk_source key) = Some (ec_node_id command)"

text \<open>A sample of the same source epoch must advance the sequence and may not move backwards.\<close>

definition progress_regresses :: "state_record \<Rightarrow> progress_sample \<Rightarrow> progress_observation \<Rightarrow> bool" where
  "progress_regresses r sample previous \<longleftrightarrow>
     sr_sequence r \<le> pr_sequence (po_record previous)
     \<or> sr_received_at r < pr_received_at (po_record previous)
     \<or> ps_stage_epoch sample < ps_stage_epoch (po_sample previous)
     \<or> (ps_stage_epoch sample = ps_stage_epoch (po_sample previous)
        \<and> (case (ps_completed_units sample, ps_completed_units (po_sample previous)) of
             (Some latest, Some old) \<Rightarrow> latest < old | _ \<Rightarrow> False))"

definition progress_unchanged :: "state_record \<Rightarrow> progress_sample \<Rightarrow> progress_observation \<Rightarrow> bool" where
  "progress_unchanged r sample previous \<longleftrightarrow>
     ps_stage_epoch sample = ps_stage_epoch (po_sample previous)
     \<and> ps_completed_units sample = ps_completed_units (po_sample previous)
     \<and> ps_activity sample = ps_activity (po_sample previous)
     \<and> \<not> progress_is_stale_at (po_record previous) (sr_received_at r)"

definition record_progress ::
    "state_record \<Rightarrow> progress_sample \<Rightarrow> timestamp \<Rightarrow> manager \<Rightarrow> bool \<times> manager" where
  "record_progress r sample advanced_at m =
     (True, m\<lparr>rm_progress := bt_insert (ps_execution_id sample)
        \<lparr>po_sample = sample, po_record = progress_source_of r, po_last_advanced_at = advanced_at\<rparr>
        (rm_progress m)\<rparr>)"

definition observe_progress :: "state_record \<Rightarrow> progress_sample \<Rightarrow> manager \<Rightarrow> bool \<times> manager" where
  "observe_progress r sample m =
     (case bt_get (rm_executions m) (ps_execution_id sample) of
        None \<Rightarrow> (False, m)
      | Some x \<Rightarrow>
          (let command = ex_command x in
           if 256 < length (ps_execution_id sample)
              \<or> sr_payload_schema r \<noteq> ''roboguide.execution-progress/v0.1''
              \<or> \<not> progress_key_admitted (sr_key r) command
              \<or> ps_operation sample \<noteq> ei_operation (ec_intent command)
              \<or> current_attempt_id m (ec_group_id command) (ec_task_ref command) (ec_role_id command)
                  \<noteq> Some (ps_execution_id sample)
              \<or> status_is_terminal m (ps_execution_id sample)
              \<or> sr_valid_for_ms r = 0
           then (False, m)
           else (case bt_get (rm_progress m) (ps_execution_id sample) of
                   None \<Rightarrow> record_progress r sample (sr_received_at r) m
                 | Some previous \<Rightarrow>
                     if pr_key (po_record previous) \<noteq> sr_key r then (False, m)
                     else if pr_source_epoch (po_record previous) = sr_source_epoch r
                     then (if progress_regresses r sample previous then (False, m)
                           else if progress_unchanged r sample previous
                           then record_progress r sample (po_last_advanced_at previous) m
                           else record_progress r sample (sr_received_at r) m)
                     else record_progress r sample (sr_received_at r) m)))"

definition progress_disposition ::
    "manager \<Rightarrow> execution_id \<Rightarrow> timestamp \<Rightarrow> u64 option \<Rightarrow> pd_disposition option" where
  "progress_disposition m eid now stall_after_ms =
     (if status_is_terminal m eid then Some PdTerminal
      else if execution_status_of m eid \<notin> {Some Running, Some Accepted} then Some PdUnknown
      else (case bt_get (rm_progress m) eid of
              None \<Rightarrow> Some PdUnknown
            | Some observation \<Rightarrow>
                (case bt_get (rm_executions m) eid of
                   None \<Rightarrow> None
                 | Some x \<Rightarrow>
                     (let command = ex_command x in
                      if current_attempt_id m (ec_group_id command) (ec_task_ref command) (ec_role_id command)
                           \<noteq> Some eid
                         \<or> progress_is_stale_at (po_record observation) now
                         \<or> now < pr_received_at (po_record observation)
                      then Some PdUnknown
                      else (case ps_activity (po_sample observation) of
                              ActivityUnavailable \<Rightarrow> Some PdUnknown
                            | Waiting \<Rightarrow> Some PdWaiting
                            | Blocked \<Rightarrow> Some PdBlocked
                            | Working \<Rightarrow>
                                if ps_completed_units (po_sample observation) \<noteq> None
                                   \<and> is_some_and stall_after_ms (\<lambda>budget. 0 < budget
                                        \<and> budget \<le> saturating_sub now (po_last_advanced_at observation))
                                then Some PdStalled else Some PdWorking)))))"

definition fence_progress_for_node :: "node_id \<Rightarrow> manager \<Rightarrow> manager" where
  "fence_progress_for_node node m =
     m\<lparr>rm_progress := bt_retain (\<lambda>_ o'. state_source_node_id (sk_source (pr_key (po_record o'))) \<noteq> Some node)
        (rm_progress m)\<rparr>"

definition progress_sample_of :: "manager \<Rightarrow> execution_id \<Rightarrow> progress_sample option" where
  "progress_sample_of m eid = map_option po_sample (bt_get (rm_progress m) eid)"

definition validate_progress :: "manager \<Rightarrow> execution_runtime_error + unit" where
  "validate_progress m = check_each (\<lambda>(eid, observation).
     case bt_get (rm_executions m) eid of
       None \<Rightarrow> Inl (InvalidCheckpoint ''progress has no execution'')
     | Some x \<Rightarrow>
         if eid \<noteq> ps_execution_id (po_sample observation)
            \<or> \<not> progress_key_admitted (pr_key (po_record observation)) (ex_command x)
            \<or> pr_valid_for_ms (po_record observation) = 0
            \<or> ps_operation (po_sample observation) \<noteq> ei_operation (ec_intent (ex_command x))
            \<or> pr_received_at (po_record observation) < po_last_advanced_at observation
         then Inl (InvalidCheckpoint ''progress identity or receive time is invalid'')
         else Inr ()) (bt_entries (rm_progress m))"

end
