(* ===== verification/RT_Coordination.thy ===== *)
theory RT_Coordination
  imports RT_State
begin

text \<open>
  Coordination mechanisms of \<open>core/runtime/src/coordination.rs\<close>: registered Contexts, the lifecycle of
  a direct peer channel derived from identified, expiring endpoint acknowledgements, and the
  validation of restored coordination maps.
\<close>

subsection \<open>Contexts\<close>

definition coordination_declaration ::
    "group_id \<Rightarrow> coordination_context \<Rightarrow> runtime_coordination_context" where
  "coordination_declaration grp c =
     \<lparr>rcc_group_id = grp, rcc_context_id = cc_context_id c, rcc_coupling_mode = cc_coupling_mode c,
      rcc_shared_view = cc_shared_view c, rcc_relation_count = length (cc_relations c)\<rparr>"

definition context_peers :: "coordination_context \<Rightarrow> context_role_id list" where
  "context_peers c = sort (map cr_context_role_id (cc_roles c))"

definition planned_channel :: "group_id \<Rightarrow> coordination_context \<Rightarrow> peer_channel option" where
  "planned_channel grp c = map_option (\<lambda>descriptor.
     \<lparr>pc_group_id = grp, pc_context_id = cc_context_id c, pc_peers = context_peers c,
      pc_descriptor = descriptor, pc_lifecycle = ChPlanned, pc_readiness = []\<rparr>) (cc_peer_channel c)"

definition register_coordination_context ::
    "group_id \<Rightarrow> coordination_context \<Rightarrow> manager \<Rightarrow> unit rt_result \<times> manager" where
  "register_coordination_context grp c m =
     (let key = (grp, cc_context_id c);
          declaration = coordination_declaration grp c;
          channel = planned_channel grp c
      in case bt_get (rm_coordination_contexts m) key of
           Some existing \<Rightarrow>
             if existing \<noteq> declaration
             then (Err (ExecutionConflict
               (''coordination Context '' @ cc_context_id c @ '' in Group '' @ grp)), m)
             else if (case (bt_get (rm_peer_channels m) key, channel) of
                        (None, None) \<Rightarrow> True
                      | (Some ex, Some expected) \<Rightarrow>
                          pc_descriptor ex = pc_descriptor expected \<and> pc_peers ex = pc_peers expected
                      | _ \<Rightarrow> False)
             then (Ok (), m)
             else (Err (ExecutionConflict
               (''peer channel '' @ cc_context_id c @ '' in Group '' @ grp)), m)
         | None \<Rightarrow>
             if bt_contains (rm_peer_channels m) key
             then (Err (ExecutionConflict
               (''orphan peer channel '' @ cc_context_id c @ '' in Group '' @ grp)), m)
             else (let m1 = m\<lparr>rm_coordination_contexts :=
                              bt_insert key declaration (rm_coordination_contexts m)\<rparr>
                   in case channel of
                        None \<Rightarrow> (Ok (), m1)
                      | Some ch \<Rightarrow>
                          (Ok (), m1\<lparr>rm_peer_channels := bt_insert key ch (rm_peer_channels m1)\<rparr>)))"

definition validate_coordination_contexts ::
    "manager \<Rightarrow> group_id \<Rightarrow> coordination_context list \<Rightarrow> unit rt_result" where
  "validate_coordination_contexts m grp contexts =
     (let expected_contexts = bt_of_list (map (\<lambda>c. ((grp, cc_context_id c), coordination_declaration grp c)) contexts);
          expected_channels = bt_of_list (List.map_filter (\<lambda>c.
            map_option (\<lambda>d. ((grp, cc_context_id c), (context_peers c, d))) (cc_peer_channel c)) contexts);
          actual_contexts = bt_retain (\<lambda>key _. fst key = grp) (rm_coordination_contexts m);
          actual_channels = bt_map (\<lambda>_ ch. (pc_peers ch, pc_descriptor ch))
            (bt_retain (\<lambda>key _. fst key = grp) (rm_peer_channels m));
          legacy_default_contexts =
            (bt_len actual_contexts = 0
             \<and> list_all (\<lambda>c. rcc_coupling_mode c = Independent \<and> rcc_shared_view c = None)
                  (bt_values expected_contexts)
             \<and> bt_len expected_channels = 0)
      in if \<not> legacy_default_contexts
            \<and> (expected_contexts \<noteq> actual_contexts \<or> expected_channels \<noteq> actual_channels)
         then Err (InvalidCheckpoint
           (''Runtime coordination declarations differ for Group '' @ grp))
         else Ok ())"

definition coordination_readiness_for_mode ::
    "manager \<Rightarrow> group_id \<Rightarrow> context_id \<Rightarrow> execution_coupling_mode \<Rightarrow> coord_readiness option" where
  "coordination_readiness_for_mode m grp cid mode =
     (case bt_get (rm_coordination_contexts m) (grp, cid) of
        None \<Rightarrow> None
      | Some c \<Rightarrow>
          if mode_requires mode GroupSharedState \<and> rcc_shared_view c = None
          then Some WaitingForSharedView
          else if mode_requires mode RelationEvidence \<and> rcc_relation_count c = 0
          then Some WaitingForRelationEvidence
          else if mode_requires mode DirectPeerChannel
             \<and> is_none_or (bt_get (rm_peer_channels m) (grp, cid)) (\<lambda>ch. pc_lifecycle ch \<noteq> ChReady)
          then Some WaitingForPeerChannel
          else Some CoordReady)"

definition coordination_readiness :: "manager \<Rightarrow> group_id \<Rightarrow> context_id \<Rightarrow> coord_readiness option" where
  "coordination_readiness m grp cid =
     (case bt_get (rm_coordination_contexts m) (grp, cid) of
        None \<Rightarrow> None
      | Some c \<Rightarrow> coordination_readiness_for_mode m grp cid (rcc_coupling_mode c))"

subsection \<open>Peer channels\<close>

definition channel_expired :: "timestamp \<Rightarrow> peer_channel \<Rightarrow> bool" where
  "channel_expired now ch \<longleftrightarrow>
     pc_lifecycle ch \<noteq> ChClosed \<and> list_ex (\<lambda>ack. pe_ready ack \<and> pe_expires_at ack \<le> now) (pc_readiness ch)"

definition fence_expired :: "timestamp \<Rightarrow> peer_channel \<Rightarrow> peer_channel" where
  "fence_expired now ch = (if channel_expired now ch then ch\<lparr>pc_lifecycle := ChFenced\<rparr> else ch)"

definition refresh_peer_channel_deadlines :: "timestamp \<Rightarrow> manager \<Rightarrow> manager" where
  "refresh_peer_channel_deadlines now m =
     m\<lparr>rm_peer_channels := bt_map (\<lambda>_. fence_expired now) (rm_peer_channels m)\<rparr>"

definition without_role :: "context_role_id \<Rightarrow> peer_channel \<Rightarrow> peer_channel" where
  "without_role role ch =
     ch\<lparr>pc_readiness := filter (\<lambda>ack. pe_context_role_id ack \<noteq> role) (pc_readiness ch)\<rparr>"

definition ready_instances :: "peer_channel \<Rightarrow> string btset" where
  "ready_instances ch = bts_of_list (map pe_channel_instance_id (filter pe_ready (pc_readiness ch)))"

definition all_peers_ready :: "timestamp \<Rightarrow> peer_channel \<Rightarrow> bool" where
  "all_peers_ready now ch \<longleftrightarrow>
     list_all (\<lambda>peer. list_ex (\<lambda>ack. pe_context_role_id ack = peer \<and> pe_ready ack \<and> now < pe_expires_at ack)
       (pc_readiness ch)) (pc_peers ch)"

text \<open>Storing an acknowledgement and deriving the lifecycle from the stored set.\<close>

definition accept_acknowledgement :: "peer_readiness \<Rightarrow> peer_channel \<Rightarrow> peer_channel" where
  "accept_acknowledgement e ch =
     (let ch1 = without_role (pe_context_role_id e) ch;
          ch2 = ch1\<lparr>pc_readiness := sort_key pe_context_role_id (pc_readiness ch1 @ [e])\<rparr>
      in if \<not> pe_ready e then ch2\<lparr>pc_lifecycle := ChFenced\<rparr>
         else ch2\<lparr>pc_lifecycle :=
                (if all_peers_ready (pe_received_at e) ch2 \<and> bt_len (ready_instances ch2) = 1 then ChReady
                 else if 1 < bt_len (ready_instances ch2) \<or> pc_lifecycle ch2 = ChFenced then ChFenced
                 else ChPlanned)\<rparr>)"

text \<open>The effect on one known channel, the source's \<open>get_mut\<close>.\<close>

definition observe_channel :: "peer_readiness \<Rightarrow> peer_channel \<Rightarrow> unit rt_result \<times> peer_channel" where
  "observe_channel e ch =
     (let fenced = (Ok (), (without_role (pe_context_role_id e) ch)\<lparr>pc_lifecycle := ChFenced\<rparr>);
          accepted = (Ok (), accept_acknowledgement e ch)
      in if pc_lifecycle ch = ChClosed
         then (Err (ReconciliationRequired ''closed peer channel cannot accept readiness evidence''), ch)
         else if pe_context_role_id e \<notin> set (pc_peers ch)
         then (Err (ReconciliationRequired ''peer readiness references an undeclared ContextRole''), ch)
         else if pcs_profile_id (pc_descriptor ch) \<noteq> pe_profile_id e
            \<or> pcs_message_schema (pc_descriptor ch) \<noteq> pe_message_schema e
         then fenced
         else (case find (\<lambda>ack. pe_context_role_id ack = pe_context_role_id e) (pc_readiness ch) of
                 None \<Rightarrow> accepted
               | Some existing \<Rightarrow>
                   if pe_session_id e = pe_session_id existing
                   then (if pe_sequence e < pe_sequence existing
                         then (Err (ReconciliationRequired
                           ''older peer readiness acknowledgement cannot replace current evidence''), ch)
                         else if pe_sequence e = pe_sequence existing
                         then (if existing = e then (Ok (), ch) else fenced)
                         else accepted)
                   else accepted))"

definition observe_peer_channel_readiness :: "peer_readiness \<Rightarrow> manager \<Rightarrow> unit rt_result \<times> manager" where
  "observe_peer_channel_readiness e m =
     (let m1 = refresh_peer_channel_deadlines (pe_received_at e) m;
          key = (pe_group_id e, pe_context_id e)
      in if pe_expires_at e \<le> pe_received_at e
         then (Err (ReconciliationRequired ''peer readiness expiry must follow its receive time''), m1)
         else (case bt_get (rm_peer_channels m1) key of
                 None \<Rightarrow> (Err (ReconciliationRequired
                   (''unknown peer channel '' @ pe_context_id e @ '' in Group '' @ pe_group_id e)), m1)
               | Some ch \<Rightarrow>
                   (let (result, ch') = observe_channel e ch
                    in (result, m1\<lparr>rm_peer_channels := bt_insert key ch' (rm_peer_channels m1)\<rparr>))))"

definition fence_peer_channels_for_node :: "node_id \<Rightarrow> manager \<Rightarrow> manager" where
  "fence_peer_channels_for_node node m =
     m\<lparr>rm_peer_channels := bt_map (\<lambda>_ ch.
        if list_ex (\<lambda>ack. pe_node_id ack = node) (pc_readiness ch)
        then ch\<lparr>pc_lifecycle := ChFenced,
                pc_readiness := filter (\<lambda>ack. pe_node_id ack \<noteq> node) (pc_readiness ch)\<rparr>
        else ch) (rm_peer_channels m)\<rparr>"

definition set_peer_channel_lifecycle ::
    "group_id \<Rightarrow> context_id \<Rightarrow> peer_channel_lifecycle \<Rightarrow> manager \<Rightarrow> unit rt_result \<times> manager" where
  "set_peer_channel_lifecycle grp cid lifecycle m =
     (case bt_get (rm_peer_channels m) (grp, cid) of
        None \<Rightarrow> (Err (ReconciliationRequired
          (''unknown peer channel '' @ cid @ '' in Group '' @ grp)), m)
      | Some ch \<Rightarrow>
          if pc_lifecycle ch = ChClosed \<and> lifecycle \<noteq> ChClosed
          then (Err (ReconciliationRequired
            (''closed peer channel '' @ cid @ '' in Group '' @ grp @ '' cannot be reopened'')), m)
          else (Ok (), m\<lparr>rm_peer_channels :=
                 bt_insert (grp, cid) (ch\<lparr>pc_lifecycle := lifecycle\<rparr>) (rm_peer_channels m)\<rparr>))"

definition fence_peer_channel :: "group_id \<Rightarrow> context_id \<Rightarrow> manager \<Rightarrow> unit rt_result \<times> manager" where
  "fence_peer_channel grp cid m = set_peer_channel_lifecycle grp cid ChFenced m"

definition close_peer_channel :: "group_id \<Rightarrow> context_id \<Rightarrow> manager \<Rightarrow> unit rt_result \<times> manager" where
  "close_peer_channel grp cid m = set_peer_channel_lifecycle grp cid ChClosed m"

definition close_peer_channels_for_group :: "group_id \<Rightarrow> manager \<Rightarrow> manager" where
  "close_peer_channels_for_group grp m =
     m\<lparr>rm_peer_channels := bt_map (\<lambda>key ch.
        if fst key = grp then ch\<lparr>pc_lifecycle := ChClosed, pc_readiness := []\<rparr> else ch)
        (rm_peer_channels m)\<rparr>"

definition peer_channels_of :: "manager \<Rightarrow> group_id \<Rightarrow> peer_channel list" where
  "peer_channels_of m grp = filter (\<lambda>ch. pc_group_id ch = grp) (bt_values (rm_peer_channels m))"

definition peer_channels_at :: "manager \<Rightarrow> group_id \<Rightarrow> timestamp \<Rightarrow> peer_channel list" where
  "peer_channels_at m grp now = map (fence_expired now) (peer_channels_of m grp)"

subsection \<open>Restoring coordination maps\<close>

fun restore_contexts ::
    "runtime_coordination_context list \<Rightarrow> (coordination_key, runtime_coordination_context) btmap
       \<Rightarrow> execution_runtime_error + (coordination_key, runtime_coordination_context) btmap" where
  "restore_contexts [] acc = Inr acc"
| "restore_contexts (c # cs) acc =
     (case (case rcc_shared_view c of None \<Rightarrow> Inr () | Some v \<Rightarrow> group_shared_view_validate v) of
        Inl e \<Rightarrow> Inl (InvalidCheckpoint
          (''checkpoint Group shared view is invalid: '' @ domain_error_text e))
      | Inr _ \<Rightarrow>
          if bt_contains acc (rcc_group_id c, rcc_context_id c)
          then Inl (InvalidCheckpoint ''checkpoint contains duplicate coordination Context'')
          else restore_contexts cs (bt_insert (rcc_group_id c, rcc_context_id c) c acc))"

definition readiness_valid :: "peer_channel \<Rightarrow> bool" where
  "readiness_valid ch \<longleftrightarrow>
     bt_len (bts_of_list (map pe_context_role_id (pc_readiness ch))) = length (pc_readiness ch)
     \<and> list_all (\<lambda>e. pe_group_id e = pc_group_id ch
          \<and> pe_context_id e = pc_context_id ch
          \<and> pe_context_role_id e \<in> set (pc_peers ch)
          \<and> pe_profile_id e = pcs_profile_id (pc_descriptor ch)
          \<and> pe_message_schema e = pcs_message_schema (pc_descriptor ch)
          \<and> \<not> trim_is_empty (pe_node_id e)
          \<and> \<not> trim_is_empty (pe_local_system_id e)
          \<and> \<not> trim_is_empty (pe_session_id e)
          \<and> \<not> trim_is_empty (pe_channel_instance_id e)
          \<and> 0 < pe_sequence e
          \<and> pe_received_at e < pe_expires_at e) (pc_readiness ch)"

definition channel_valid :: "peer_channel \<Rightarrow> bool" where
  "channel_valid ch \<longleftrightarrow>
     2 \<le> length (pc_peers ch)
     \<and> bt_len (bts_of_list (pc_peers ch)) = length (pc_peers ch)
     \<and> \<not> trim_is_empty (pcs_profile_id (pc_descriptor ch))
     \<and> \<not> trim_is_empty (pcs_message_schema (pc_descriptor ch))
     \<and> readiness_valid ch"

fun restore_channels ::
    "(coordination_key, runtime_coordination_context) btmap \<Rightarrow> peer_channel list
       \<Rightarrow> (coordination_key, peer_channel) btmap
       \<Rightarrow> execution_runtime_error + (coordination_key, peer_channel) btmap" where
  "restore_channels contexts [] acc = Inr acc"
| "restore_channels contexts (ch # chs) acc =
     (if \<not> bt_contains contexts (pc_group_id ch, pc_context_id ch) \<or> \<not> channel_valid ch
         \<or> bt_contains acc (pc_group_id ch, pc_context_id ch)
      then Inl (InvalidCheckpoint ''checkpoint contains duplicate or orphan peer channel'')
      else restore_channels contexts chs (bt_insert (pc_group_id ch, pc_context_id ch) ch acc))"

definition restore_coordination_maps ::
    "runtime_coordination_context list \<Rightarrow> peer_channel list
       \<Rightarrow> execution_runtime_error
          + (coordination_key, runtime_coordination_context) btmap \<times> (coordination_key, peer_channel) btmap" where
  "restore_coordination_maps contexts channels =
     (case restore_contexts contexts bt_empty of
        Inl e \<Rightarrow> Inl e
      | Inr context_map \<Rightarrow>
          (case restore_channels context_map channels bt_empty of
             Inl e \<Rightarrow> Inl e
           | Inr channel_map \<Rightarrow> Inr (context_map, channel_map)))"

end
