(* ===== verification/RT_Checkpoint.thy ===== *)
theory RT_Checkpoint
  imports RT_Observation RT_Progress RT_Coordination
begin

text \<open>
  Creation and restoration of the durable Runtime projection,
  \<open>core/runtime/src/execution/checkpoint.rs\<close>. Restoring is conservative: every nonterminal attempt
  becomes Unknown, no restored execution may be routed again, and peer channels must be
  re-acknowledged.
\<close>

definition has_memory_prerequisites :: "checkpoint \<Rightarrow> bool" where
  "has_memory_prerequisites c \<longleftrightarrow>
     list_ex (\<lambda>x. ec_memory_requirements (ex_command x) \<noteq> []) (bt_values (cp_executions c))
     \<or> list_ex (\<lambda>i. ec_memory_requirements (di_command i) \<noteq> []) (cp_dispatch_outbox c)"

definition has_terminal_receive_times :: "checkpoint \<Rightarrow> bool" where
  "has_terminal_receive_times c \<longleftrightarrow> bt_len (cp_terminal_received_at c) \<noteq> 0"

definition has_group_recovery_history :: "checkpoint \<Rightarrow> bool" where
  "has_group_recovery_history c \<longleftrightarrow> cp_group_recoveries c \<noteq> []"

definition checkpoint_of :: "manager \<Rightarrow> checkpoint" where
  "checkpoint_of m =
     \<lparr>cp_terminal_received_at = rm_terminal_received_at m,
      cp_group_recoveries = rm_group_recoveries m,
      cp_recovery_stops = rm_recovery_stops m,
      cp_recovery_budgets = bt_values (rm_recovery_budgets m),
      cp_progress = rm_progress m,
      cp_executions = rm_executions m,
      cp_execution_status = rm_execution_status m,
      cp_execution_sequences = rm_execution_sequences m,
      cp_execution_nodes = rm_execution_nodes m,
      cp_active_executions = bt_entries (rm_active_executions m),
      cp_relations = bt_values (rm_relations m),
      cp_relation_states = bt_entries (rm_relation_states m),
      cp_relation_fences = bt_keys (rm_relation_fences m),
      cp_relation_proofs = bt_entries (rm_relation_proofs m),
      cp_coordination_contexts = bt_values (rm_coordination_contexts m),
      cp_peer_channels = bt_values (rm_peer_channels m),
      cp_spatial_evidence = bt_values (rm_spatial_evidence m),
      cp_attempt_generations = bt_entries (rm_attempt_generations m),
      cp_dispatch_outbox = bt_values (rm_dispatch_outbox m),
      cp_cancellation_intents = rm_cancellation_intents m\<rparr>"

subsection \<open>Restoration\<close>

definition check_terminal_times :: "checkpoint \<Rightarrow> execution_runtime_error + unit" where
  "check_terminal_times c = check_each (\<lambda>eid.
     guard (\<not> bt_contains (cp_executions c) eid
            \<or> is_none_or (bt_get (cp_execution_status c) eid) (\<lambda>s. \<not> is_terminal s))
       (InvalidCheckpoint ''terminal receive-time evidence must belong to a known terminal attempt''))
     (bt_keys (cp_terminal_received_at c))"

fun restore_spatial ::
    "shared_spatial_evidence list \<Rightarrow> (execution_slot, shared_spatial_evidence) btmap
       \<Rightarrow> execution_runtime_error + (execution_slot, shared_spatial_evidence) btmap" where
  "restore_spatial [] acc = Inr acc"
| "restore_spatial (e # es) acc =
     (if trim_is_empty (sse_execution_id e) \<or> trim_is_empty (sse_frame_id e)
      then Inl (InvalidCheckpoint ''checkpoint contains invalid shared spatial evidence'')
      else if bt_contains acc (sse_slot e)
      then Inl (InvalidCheckpoint ''checkpoint contains duplicate shared spatial evidence'')
      else restore_spatial es (bt_insert (sse_slot e) e acc))"

definition restore_channel :: "peer_channel \<Rightarrow> peer_channel" where
  "restore_channel ch =
     ch\<lparr>pc_lifecycle := (if pc_lifecycle ch = ChReady then ChFenced else pc_lifecycle ch),
        pc_readiness := []\<rparr>"

definition restored_status :: "execution_status \<Rightarrow> execution_status" where
  "restored_status s = (if is_terminal s then s else Unknown)"

definition restored_activated_tasks :: "checkpoint \<Rightarrow> (group_id \<times> task_ref) btset" where
  "restored_activated_tasks c = bts_of_list (map (\<lambda>((grp, task, _), _). (grp, task))
     (filter (\<lambda>(_, eid). is_some_and (bt_get (cp_execution_status c) eid) proves_activation)
       (cp_active_executions c)))"

fun restore_active ::
    "(execution_slot \<times> execution_id) list \<Rightarrow> (execution_slot, execution_id) btmap
       \<Rightarrow> execution_runtime_error + (execution_slot, execution_id) btmap" where
  "restore_active [] acc = Inr acc"
| "restore_active ((slot, eid) # rest) acc =
     (if bt_contains acc slot
      then Inl (InvalidCheckpoint ''checkpoint contains duplicate active Group Task role'')
      else restore_active rest (bt_insert slot eid acc))"

fun restore_budgets ::
    "recovery_budget list \<Rightarrow> (execution_slot, recovery_budget) btmap
       \<Rightarrow> execution_runtime_error + (execution_slot, recovery_budget) btmap" where
  "restore_budgets [] acc = Inr acc"
| "restore_budgets (b # bs) acc =
     (if bt_contains acc (rb_slot b)
      then Inl (InvalidCheckpoint ''checkpoint contains duplicate recovery budget slots'')
      else restore_budgets bs (bt_insert (rb_slot b) b acc))"

definition check_spatial_owner ::
    "checkpoint \<Rightarrow> (execution_slot, execution_id) btmap
       \<Rightarrow> (execution_slot, shared_spatial_evidence) btmap \<Rightarrow> execution_runtime_error + unit" where
  "check_spatial_owner c active spatial = check_each (\<lambda>(slot, e).
     guard (bt_get active slot \<noteq> Some (sse_execution_id e)
            \<or> bt_get (cp_execution_nodes c) (sse_execution_id e) \<noteq> Some (sse_node_id e))
       (InvalidCheckpoint ''checkpoint shared spatial evidence is not owned by the current attempt''))
     (bt_entries spatial)"

definition build_restored ::
    "checkpoint \<Rightarrow> relation_maps
       \<Rightarrow> (coordination_key, runtime_coordination_context) btmap \<times> (coordination_key, peer_channel) btmap
       \<Rightarrow> (execution_slot, shared_spatial_evidence) btmap \<Rightarrow> (execution_slot, execution_id) btmap
       \<Rightarrow> (execution_slot, recovery_budget) btmap \<Rightarrow> manager" where
  "build_restored c = (\<lambda>(relations, states, fences, proofs) (contexts, channels) spatial active budgets.
     \<lparr>rm_terminal_received_at = cp_terminal_received_at c,
      rm_group_recoveries = cp_group_recoveries c,
      rm_recovery_stops = cp_recovery_stops c,
      rm_recovery_budgets = budgets,
      rm_progress = cp_progress c,
      rm_executions = cp_executions c,
      rm_execution_status = bt_map (\<lambda>_. restored_status) (cp_execution_status c),
      rm_execution_sequences = cp_execution_sequences c,
      rm_execution_nodes = cp_execution_nodes c,
      rm_active_executions = active,
      rm_restored_executions = bts_of_list (bt_keys (cp_executions c)),
      rm_activated_tasks = restored_activated_tasks c,
      rm_reactivation_attempts = bt_empty,
      rm_relations = relations,
      rm_relation_states = states,
      rm_relation_fences = fences,
      rm_relation_proofs = proofs,
      rm_coordination_contexts = contexts,
      rm_peer_channels = bt_map (\<lambda>_. restore_channel) channels,
      rm_spatial_evidence = spatial,
      rm_attempt_generations =
        fold (\<lambda>slot gens. bt_or_insert slot 1 gens) (bt_keys active) (bt_of_list (cp_attempt_generations c)),
      rm_dispatch_outbox = bt_of_list (map (\<lambda>i. (di_execution_id i, i)) (cp_dispatch_outbox c)),
      rm_cancellation_intents = cp_cancellation_intents c\<rparr>)"

definition finish_restore :: "session_digest \<Rightarrow> manager \<Rightarrow> manager rt_result" where
  "finish_restore digest m0 =
     (case refresh_all_relations_after_restore m0 of
        None \<Rightarrow> Panic
      | Some m \<Rightarrow>
          (case validate_progress m of
             Inl e \<Rightarrow> Err e
           | Inr _ \<Rightarrow>
               (case validate_recovery_stops m of
                  Inl e \<Rightarrow> Err e
                | Inr _ \<Rightarrow>
                    (case validate_group_recoveries digest m of
                       Err e \<Rightarrow> Err e
                     | Panic \<Rightarrow> Panic
                     | Ok _ \<Rightarrow> Ok m))))"

definition restore :: "session_digest \<Rightarrow> checkpoint \<Rightarrow> manager rt_result" where
  "restore digest c =
     (case check_terminal_times c of
        Inl e \<Rightarrow> Err e
      | Inr _ \<Rightarrow>
     (case validate_checkpoint c of
        Inl e \<Rightarrow> Err e
      | Inr _ \<Rightarrow>
     (case restore_relation_maps (cp_relations c) (cp_relation_states c) (cp_relation_fences c)
             (cp_relation_proofs c) of
        Inl e \<Rightarrow> Err e
      | Inr relation_maps \<Rightarrow>
     (case restore_coordination_maps (cp_coordination_contexts c) (cp_peer_channels c) of
        Inl e \<Rightarrow> Err e
      | Inr coordination_maps \<Rightarrow>
     (case restore_spatial (cp_spatial_evidence c) bt_empty of
        Inl e \<Rightarrow> Err e
      | Inr spatial \<Rightarrow>
     (case restore_active (cp_active_executions c) bt_empty of
        Inl e \<Rightarrow> Err e
      | Inr active \<Rightarrow>
     (case check_spatial_owner c active spatial of
        Inl e \<Rightarrow> Err e
      | Inr _ \<Rightarrow>
     (case restore_budgets (cp_recovery_budgets c) bt_empty of
        Inl e \<Rightarrow> Err e
      | Inr budgets \<Rightarrow>
          finish_restore digest
            (build_restored c relation_maps coordination_maps spatial active budgets)))))))))"

end
