(* ===== verification/RT_Invariant.thy ===== *)
theory RT_Invariant
  imports RT_Checkpoint
begin

text \<open>
  The well-formedness of a live manager: the cross-map invariants that \<open>validate_checkpoint\<close>,
  \<open>restore_relation_maps\<close>, \<open>restore_coordination_maps\<close>, \<open>validate_progress\<close>,
  \<open>validate_recovery_stops\<close> and \<open>validate_group_recoveries\<close> check of a checkpoint, stated of the live
  maps. Each part is a predicate of the maps it relates, so that an operation that leaves those maps
  alone preserves it by simplification.
\<close>

subsection \<open>Executions\<close>

definition command_wf :: "execution_command \<Rightarrow> bool" where
  "command_wf c \<longleftrightarrow>
     memory_validate_set (ec_memory_requirements c) = Inr ()
     \<and> is_none_or (ec_recovery_support c)
          (\<lambda>d. ors_operation (ers_support d) = ei_operation (ec_intent c))"

definition inv_executions ::
    "(execution_id, execution_context) btmap \<Rightarrow> (execution_id, node_id) btmap
       \<Rightarrow> (execution_id, execution_status) btmap \<Rightarrow> bool" where
  "inv_executions executions nodes statuses \<longleftrightarrow>
     (\<forall>eid x. bt_get executions eid = Some x \<longrightarrow>
        \<not> trim_is_empty eid \<and> command_wf (ex_command x)
        \<and> normalized_resources (ex_resource_ids x) = ex_resource_ids x
        \<and> bt_get nodes eid = Some (ec_node_id (ex_command x))
        \<and> bt_contains statuses eid)"

definition inv_observed ::
    "(execution_id, u64) btmap \<Rightarrow> (execution_id, node_id) btmap \<Rightarrow> (execution_id, execution_status) btmap
       \<Rightarrow> bool" where
  "inv_observed sequences nodes statuses \<longleftrightarrow>
     (\<forall>eid. bt_contains sequences eid \<longrightarrow> bt_contains statuses eid)
     \<and> (\<forall>eid. bt_contains nodes eid \<longrightarrow> bt_contains statuses eid)"

definition inv_active ::
    "(execution_slot, execution_id) btmap \<Rightarrow> (execution_id, execution_context) btmap \<Rightarrow> bool" where
  "inv_active active executions \<longleftrightarrow>
     (\<forall>slot eid. bt_get active slot = Some eid \<longrightarrow>
        (\<exists>x. bt_get executions eid = Some x \<and> command_slot (ex_command x) = slot))"

definition inv_outbox ::
    "(execution_id, dispatch_intent) btmap \<Rightarrow> (execution_id, execution_context) btmap \<Rightarrow> bool" where
  "inv_outbox outbox executions \<longleftrightarrow>
     (\<forall>eid i. bt_get outbox eid = Some i \<longrightarrow>
        di_execution_id i = eid
        \<and> bt_get executions eid = Some \<lparr>ex_command = di_command i, ex_resource_ids = di_resource_ids i\<rparr>)"

text \<open>A set of execution identities, the cancellation requests or the restored attempts, names known attempts.\<close>

definition inv_cancellations ::
    "execution_id btset \<Rightarrow> (execution_id, execution_context) btmap \<Rightarrow> bool" where
  "inv_cancellations cancellations executions \<longleftrightarrow>
     (\<forall>eid. bts_member eid cancellations \<longrightarrow> bt_contains executions eid)"

definition inv_terminal_times ::
    "(execution_id, timestamp) btmap \<Rightarrow> (execution_id, execution_context) btmap
       \<Rightarrow> (execution_id, execution_status) btmap \<Rightarrow> bool" where
  "inv_terminal_times received executions statuses \<longleftrightarrow>
     (\<forall>eid. bt_contains received eid \<longrightarrow> bt_contains executions eid
        \<and> (\<exists>s. bt_get statuses eid = Some s \<and> is_terminal s))"

definition inv_generations :: "(execution_slot, u64) btmap \<Rightarrow> bool" where
  "inv_generations generations \<longleftrightarrow> (\<forall>slot g. bt_get generations slot = Some g \<longrightarrow> g \<noteq> 0)"

subsection \<open>Relations and evidence\<close>

definition relation_wf :: "runtime_relation \<Rightarrow> bool" where
  "relation_wf r \<longleftrightarrow>
     tr_mission_id (rr_source_task_ref r) = tr_mission_id (rr_target_task_ref r)
     \<and> rr_relation_kind r = relation_type_kind (rr_relation_type r)
     \<and> (\<exists>spec. relation_spec_new_typed (rr_relation_id r)
           (PlannedExecutionRef (tr_task_id (rr_source_task_ref r)) (rr_source_role_id r))
           (PlannedExecutionRef (tr_task_id (rr_target_task_ref r)) (rr_target_role_id r))
           (rr_relation_type r) = Inr spec)"

definition inv_relations ::
    "(relation_key, runtime_relation) btmap \<Rightarrow> (relation_key, execution_relation_state) btmap
       \<Rightarrow> relation_key btset \<Rightarrow> bool" where
  "inv_relations relations states fences \<longleftrightarrow>
     (\<forall>k r. bt_get relations k = Some r \<longrightarrow> rr_key r = k \<and> relation_wf r)
     \<and> (\<forall>k. bt_contains states k = bt_contains relations k)
     \<and> (\<forall>k. bts_member k fences \<longrightarrow> bt_contains relations k)"

definition inv_proofs ::
    "(relation_key, execution_id) btmap \<Rightarrow> (relation_key, runtime_relation) btmap
       \<Rightarrow> (execution_id, execution_context) btmap \<Rightarrow> bool" where
  "inv_proofs proofs relations executions \<longleftrightarrow>
     (\<forall>k t. bt_get proofs k = Some t \<longrightarrow>
        (\<exists>r x. bt_get relations k = Some r \<and> bt_get executions t = Some x
           \<and> command_slot (ex_command x) = rr_target_key r))"

definition inv_spatial ::
    "(execution_slot, shared_spatial_evidence) btmap \<Rightarrow> (execution_slot, execution_id) btmap
       \<Rightarrow> (execution_id, node_id) btmap \<Rightarrow> bool" where
  "inv_spatial spatial active nodes \<longleftrightarrow>
     (\<forall>slot e. bt_get spatial slot = Some e \<longrightarrow>
        sse_slot e = slot \<and> bt_get active slot = Some (sse_execution_id e)
        \<and> bt_get nodes (sse_execution_id e) = Some (sse_node_id e)
        \<and> \<not> trim_is_empty (sse_frame_id e))"

text \<open>
  What a registered channel keeps: the demands of \<open>restore_coordination_maps\<close>, except that two peers are
  demanded only where the constructor of the Context demands two Roles, in a coupling mode that requires the direct
  peer channel.
\<close>

definition channel_sound :: "runtime_coordination_context \<Rightarrow> peer_channel \<Rightarrow> bool" where
  "channel_sound c ch \<longleftrightarrow>
     (mode_requires (rcc_coupling_mode c) DirectPeerChannel \<longrightarrow> 2 \<le> length (pc_peers ch))
     \<and> bt_len (bts_of_list (pc_peers ch)) = length (pc_peers ch)
     \<and> \<not> trim_is_empty (pcs_profile_id (pc_descriptor ch))
     \<and> \<not> trim_is_empty (pcs_message_schema (pc_descriptor ch))
     \<and> readiness_valid ch"

definition inv_coordination ::
    "(coordination_key, runtime_coordination_context) btmap \<Rightarrow> (coordination_key, peer_channel) btmap \<Rightarrow> bool" where
  "inv_coordination contexts channels \<longleftrightarrow>
     (\<forall>k c. bt_get contexts k = Some c \<longrightarrow> k = (rcc_group_id c, rcc_context_id c)
        \<and> is_none_or (rcc_shared_view c) (\<lambda>v. group_shared_view_validate v = Inr ()))
     \<and> (\<forall>k ch. bt_get channels k = Some ch \<longrightarrow> k = (pc_group_id ch, pc_context_id ch)
        \<and> (\<exists>c. bt_get contexts k = Some c \<and> channel_sound c ch))"

text \<open>Every registered channel has the two peers that \<open>restore_coordination_maps\<close> demands of any channel.\<close>

definition channels_paired :: "manager \<Rightarrow> bool" where
  "channels_paired m \<longleftrightarrow> list_all (\<lambda>ch. 2 \<le> length (pc_peers ch)) (bt_values (rm_peer_channels m))"

lemma channel_sound_valid: "channel_sound c ch \<Longrightarrow> channel_valid ch \<longleftrightarrow> 2 \<le> length (pc_peers ch)"
  by (simp add: channel_sound_def channel_valid_def)

subsection \<open>Progress\<close>

definition progress_wf :: "execution_id \<Rightarrow> progress_observation \<Rightarrow> execution_command \<Rightarrow> bool" where
  "progress_wf eid po c \<longleftrightarrow>
     eid = ps_execution_id (po_sample po)
     \<and> progress_key_admitted (pr_key (po_record po)) c
     \<and> pr_valid_for_ms (po_record po) \<noteq> 0
     \<and> ps_operation (po_sample po) = ei_operation (ec_intent c)
     \<and> po_last_advanced_at po \<le> pr_received_at (po_record po)"

definition inv_progress ::
    "(execution_id, progress_observation) btmap \<Rightarrow> (execution_id, execution_context) btmap \<Rightarrow> bool" where
  "inv_progress progress executions \<longleftrightarrow>
     (\<forall>eid po. bt_get progress eid = Some po \<longrightarrow>
        (\<exists>x. bt_get executions eid = Some x \<and> progress_wf eid po (ex_command x)))"

subsection \<open>Recovery\<close>

definition stops_wf :: "manager \<Rightarrow> bool" where
  "stops_wf m \<longleftrightarrow>
     (\<forall>eid i. bt_get (rm_recovery_stops m) eid = Some i \<longrightarrow>
        (\<exists>x. bt_get (rm_executions m) eid = Some x
           \<and> recovery_stop_valid m eid i (command_slot (ex_command x))))
     \<and> (\<forall>slot b. bt_get (rm_recovery_budgets m) slot = Some b \<longrightarrow> recovery_budget_valid m slot b)"

definition admissions_wf :: "manager \<Rightarrow> bool" where
  "admissions_wf m \<longleftrightarrow>
     (\<forall>i \<in> set (rm_group_recoveries m). \<forall>eid. bt_contains (gri_admitted_at_ms i) eid \<longrightarrow>
        (\<exists>s. bt_get (rm_execution_status m) eid = Some s \<and> s \<noteq> Dispatched))"

text \<open>A member preserved as Completed is never confirmed again.\<close>

definition preserved_wf :: "group_recovery_intent \<Rightarrow> bool" where
  "preserved_wf i \<longleftrightarrow> (\<forall>eid. bts_member eid (gri_preserved_completed i) \<longrightarrow> \<not> bt_contains (gri_confirmed_at_ms i) eid)"

definition groups_wf :: "session_digest \<Rightarrow> manager \<Rightarrow> bool" where
  "groups_wf digest m \<longleftrightarrow>
     validate_group_recoveries digest m = Ok () \<and> admissions_wf m
     \<and> (\<forall>i \<in> set (rm_group_recoveries m). preserved_wf i)"

definition manager_wf :: "session_digest \<Rightarrow> manager \<Rightarrow> bool" where
  "manager_wf digest m \<longleftrightarrow>
     inv_executions (rm_executions m) (rm_execution_nodes m) (rm_execution_status m)
     \<and> inv_observed (rm_execution_sequences m) (rm_execution_nodes m) (rm_execution_status m)
     \<and> inv_active (rm_active_executions m) (rm_executions m)
     \<and> inv_outbox (rm_dispatch_outbox m) (rm_executions m)
     \<and> inv_cancellations (rm_cancellation_intents m) (rm_executions m)
     \<and> inv_cancellations (rm_restored_executions m) (rm_executions m)
     \<and> inv_terminal_times (rm_terminal_received_at m) (rm_executions m) (rm_execution_status m)
     \<and> inv_generations (rm_attempt_generations m)
     \<and> inv_relations (rm_relations m) (rm_relation_states m) (rm_relation_fences m)
     \<and> inv_proofs (rm_relation_proofs m) (rm_relations m) (rm_executions m)
     \<and> inv_spatial (rm_spatial_evidence m) (rm_active_executions m) (rm_execution_nodes m)
     \<and> inv_coordination (rm_coordination_contexts m) (rm_peer_channels m)
     \<and> inv_progress (rm_progress m) (rm_executions m)
     \<and> stops_wf m \<and> groups_wf digest m"

subsection \<open>Growth\<close>

text \<open>
  What every operation, and every restart, keeps of the record: contexts, owners, terminal outcomes and
  cancellation requests never disappear or change; sequences, generations and budgets only advance; a
  recovery authorization keeps its budget and deadline.
\<close>

definition status_grows :: "execution_status \<Rightarrow> execution_status \<Rightarrow> bool" where
  "status_grows s s' \<longleftrightarrow> (is_terminal s \<longrightarrow> s' = s) \<and> (s \<noteq> Dispatched \<longrightarrow> s' \<noteq> Dispatched)"

definition stop_grows :: "recovery_stop_intent \<Rightarrow> recovery_stop_intent \<Rightarrow> bool" where
  "stop_grows i j \<longleftrightarrow>
     rsi_execution_id j = rsi_execution_id i \<and> rsi_requested_at_ms j = rsi_requested_at_ms i
     \<and> rsi_deadline_ms j = rsi_deadline_ms i \<and> rsi_timeout_ms j = rsi_timeout_ms i
     \<and> rsi_max_replacements j = rsi_max_replacements i
     \<and> is_none_or (rsi_confirmed_at_ms i) (\<lambda>time. rsi_confirmed_at_ms j = Some time)
     \<and> (rsi_release_authorized i \<longrightarrow> rsi_release_authorized j) \<and> (rsi_aborted i \<longrightarrow> rsi_aborted j)"

definition budget_grows :: "recovery_budget \<Rightarrow> recovery_budget \<Rightarrow> bool" where
  "budget_grows a b \<longleftrightarrow> rb_slot b = rb_slot a \<and> rb_limit b = rb_limit a \<and> rb_used a \<le> rb_used b"

definition round_grows :: "group_recovery_intent \<Rightarrow> group_recovery_intent \<Rightarrow> bool" where
  "round_grows i j \<longleftrightarrow>
     gri_recovery_id j = gri_recovery_id i \<and> gri_group_id j = gri_group_id i
     \<and> gri_members j = gri_members i \<and> gri_preserved_completed j = gri_preserved_completed i
     \<and> gri_requested_at_ms j = gri_requested_at_ms i \<and> gri_deadline_ms j = gri_deadline_ms i
     \<and> gri_timeout_ms j = gri_timeout_ms i \<and> gri_max_replacements j = gri_max_replacements i
     \<and> bt_extends (=) (gri_confirmed_at_ms i) (gri_confirmed_at_ms j)
     \<and> bt_extends (=) (gri_admitted_at_ms i) (gri_admitted_at_ms j)
     \<and> (bt_len (gri_replacements i) \<noteq> 0 \<longrightarrow>
          gri_replacements j = gri_replacements i \<and> gri_prepared_at_ms j = gri_prepared_at_ms i)
     \<and> (gri_aborted i \<longrightarrow> gri_aborted j)"

definition rounds_grow :: "group_recovery_intent list \<Rightarrow> group_recovery_intent list \<Rightarrow> bool" where
  "rounds_grow xs ys \<longleftrightarrow> length xs \<le> length ys \<and> (\<forall>n < length xs. round_grows (xs ! n) (ys ! n))"

definition grows :: "manager \<Rightarrow> manager \<Rightarrow> bool" where
  "grows m m' \<longleftrightarrow>
     bt_extends (=) (rm_executions m) (rm_executions m')
     \<and> bt_extends status_grows (rm_execution_status m) (rm_execution_status m')
     \<and> bt_extends (=) (rm_cancellation_intents m) (rm_cancellation_intents m')
     \<and> bt_extends (=) (rm_restored_executions m) (rm_restored_executions m')
     \<and> bt_extends (=) (rm_execution_nodes m) (rm_execution_nodes m')
     \<and> bt_extends (\<le>) (rm_execution_sequences m) (rm_execution_sequences m')
     \<and> bt_extends (=) (rm_terminal_received_at m) (rm_terminal_received_at m')
     \<and> bt_extends (\<le>) (rm_attempt_generations m) (rm_attempt_generations m')
     \<and> bt_extends (=) (rm_relations m) (rm_relations m')
     \<and> bt_extends (=) (rm_coordination_contexts m) (rm_coordination_contexts m')
     \<and> bt_extends stop_grows (rm_recovery_stops m) (rm_recovery_stops m')
     \<and> bt_extends budget_grows (rm_recovery_budgets m) (rm_recovery_budgets m')
     \<and> rounds_grow (rm_group_recoveries m) (rm_group_recoveries m')"

lemma grows_orders_refl [simp]:
  "reflp status_grows" "reflp stop_grows" "reflp budget_grows" "round_grows i i" "rounds_grow xs xs"
  by (auto simp: reflp_on_def status_grows_def stop_grows_def budget_grows_def round_grows_def
      rounds_grow_def is_none_or_iff)

lemma status_grows_trans: "transp status_grows"
  by (auto simp: transp_on_def status_grows_def)

lemma stop_grows_trans: "transp stop_grows"
  by (auto simp: transp_on_def stop_grows_def is_none_or_iff)

lemma budget_grows_trans: "transp budget_grows"
  by (auto simp: transp_on_def budget_grows_def)

lemma round_grows_trans: "round_grows i j \<Longrightarrow> round_grows j k \<Longrightarrow> round_grows i k"
  by (auto simp: round_grows_def intro: bt_extends_trans [OF transp_on_equality])

lemma rounds_grow_trans: "rounds_grow xs ys \<Longrightarrow> rounds_grow ys zs \<Longrightarrow> rounds_grow xs zs"
  by (auto simp: rounds_grow_def intro: round_grows_trans)

lemma rounds_grow_map: "(\<And>i. i \<in> set xs \<Longrightarrow> round_grows i (f i)) \<Longrightarrow> rounds_grow xs (map f xs)"
  by (simp add: rounds_grow_def)

lemma rounds_grow_append [simp]: "rounds_grow xs (xs @ ys)"
  by (simp add: rounds_grow_def nth_append)

lemma grows_refl [simp]: "grows m m"
  by (simp add: grows_def)

lemma grows_trans: "grows m m' \<Longrightarrow> grows m' m'' \<Longrightarrow> grows m m''"
  unfolding grows_def
  by (elim conjE, intro conjI)
    (rule bt_extends_trans rounds_grow_trans; (assumption | rule status_grows_trans stop_grows_trans
      budget_grows_trans transp_on_equality transp_on_le))+

lemma grows_executions: "grows m m' \<Longrightarrow> bt_get (rm_executions m) eid = Some x \<Longrightarrow> bt_get (rm_executions m') eid = Some x"
  unfolding grows_def by (blast dest: bt_extends_eqD)

lemma grows_status:
  "grows m m' \<Longrightarrow> bt_get (rm_execution_status m) eid = Some s \<Longrightarrow>
     \<exists>s'. bt_get (rm_execution_status m') eid = Some s' \<and> status_grows s s'"
  unfolding grows_def by (blast dest: bt_extendsD)

lemma grows_terminal:
  "grows m m' \<Longrightarrow> execution_status_of m eid = Some s \<Longrightarrow> is_terminal s \<Longrightarrow> execution_status_of m' eid = Some s"
  by (auto dest!: grows_status simp: execution_status_of_def status_grows_def)

lemma grows_observed:
  "grows m m' \<Longrightarrow> bt_get (rm_execution_status m) eid = Some s \<Longrightarrow> s \<noteq> Dispatched \<Longrightarrow>
     \<exists>s'. bt_get (rm_execution_status m') eid = Some s' \<and> s' \<noteq> Dispatched"
  by (auto dest!: grows_status simp: status_grows_def)

lemma grows_cancellations:
  "grows m m' \<Longrightarrow> bts_member eid (rm_cancellation_intents m) \<Longrightarrow> bts_member eid (rm_cancellation_intents m')"
  by (simp add: grows_def bts_extends)

lemma group_member_valid_mono:
  assumes "grows m m'" and "group_member_valid digest m i session mem c"
  shows "group_member_valid digest m' i session mem c"
  using assms(2) grows_terminal [OF assms(1)] grows_cancellations [OF assms(1)]
  unfolding group_member_valid_def by (auto simp: is_none_or_iff)

lemma group_members_valid_mono:
  assumes "grows m m'"
  shows "group_members_valid digest m i session mems \<Longrightarrow> group_members_valid digest m' i session mems"
proof (induction mems arbitrary: session)
  case (Cons mem mems)
  then obtain x where x: "bt_get (rm_executions m) (grm_execution_id mem) = Some x"
    by (auto split: option.splits)
  with Cons show ?case
    using grows_executions [OF assms x] by (auto intro: group_member_valid_mono [OF assms])
qed simp

lemma group_replacements_valid_mono:
  assumes "grows m m'"
  shows "group_replacements_valid m i rs = Some True \<Longrightarrow> group_replacements_valid m' i rs = Some True"
proof (induction rs)
  case (Cons r rs)
  obtain source replacement where r: "r = (source, replacement)" by (cases r)
  with Cons.prems obtain actual original
    where x: "bt_get (rm_executions m) replacement = Some actual" "bt_get (rm_executions m) source = Some original"
    by (auto split: option.splits)
  with Cons r show ?case
    using x [THEN grows_executions [OF assms]] by (auto split: if_splits)
qed simp

text \<open>Behind the barrier every member is terminal, so growth cannot change which ones are Cancelled.\<close>

lemma group_members_valid_member:
  assumes "group_members_valid digest m i session mems" and "mem \<in> set mems"
  shows "\<exists>x session'. bt_get (rm_executions m) (grm_execution_id mem) = Some x
    \<and> group_member_valid digest m i session' mem (ex_command x)"
  using assms by (induction mems arbitrary: session) (auto split: option.splits)

lemma barrier_members_terminal:
  assumes "group_members_valid digest m i session (gri_members i)" and "group_barrier_valid m i"
    and "bts_member eid (member_ids i)"
  shows "execution_status_of m eid \<in> {Some Cancelled, Some Completed}"
proof -
  from assms(3) obtain mem where mem: "mem \<in> set (gri_members i)" "grm_execution_id mem = eid"
    by (auto simp: member_ids_def)
  from group_members_valid_member [OF assms(1) mem(1)] obtain x :: execution_context and session'
    where "group_member_valid digest m i session' mem (ex_command x)" by blast
  moreover from assms(2,3) have "bts_member eid (gri_preserved_completed i)
      \<or> is_some_and (bt_get (gri_confirmed_at_ms i) eid) (\<lambda>time. time < gri_deadline_ms i)"
    by (auto simp: group_barrier_valid_def list_all_iff bts_member_keys)
  ultimately show ?thesis
    using mem(2) by (auto simp: group_member_valid_def is_some_and_iff split: if_splits)
qed

lemma group_barrier_valid_mono:
  assumes "grows m m'" and "group_members_valid digest m i session (gri_members i)"
    and "group_barrier_valid m i"
  shows "group_barrier_valid m' i"
proof -
  have "execution_status_of m' eid = execution_status_of m eid" if "bts_member eid (member_ids i)" for eid
    using barrier_members_terminal [OF assms(2,3) that] grows_terminal [OF assms(1)] by fastforce
  then have "filter (\<lambda>eid. execution_status_of m' eid = Some Cancelled) (bt_keys (member_ids i))
      = filter (\<lambda>eid. execution_status_of m eid = Some Cancelled) (bt_keys (member_ids i))"
    by (intro filter_cong) (auto simp: bts_member_keys)
  with assms(3) show ?thesis by (simp add: group_barrier_valid_def)
qed

lemma group_intent_valid_mono:
  assumes "grows m m'" and "group_intent_valid digest m i = Some True"
  shows "group_intent_valid digest m' i = Some True"
proof -
  from assms(2) have members: "group_members_valid digest m i None (gri_members i)"
    by (auto simp: group_intent_valid_def split: if_splits)
  with assms show ?thesis
    using group_members_valid_mono [OF assms(1) members]
      group_barrier_valid_mono [OF assms(1) members]
      group_replacements_valid_mono [OF assms(1), of i "bt_entries (gri_replacements i)"]
    by (auto simp: group_intent_valid_def split: if_splits)
qed

lemma validate_rounds_mono:
  assumes "grows m m'"
  shows "validate_rounds digest m earlier rounds = Ok () \<Longrightarrow> validate_rounds digest m' earlier rounds = Ok ()"
proof (induction rounds arbitrary: earlier)
  case (Cons i rounds)
  then have valid: "group_intent_valid digest m i = Some True"
    by (auto simp: Let_def split: option.splits if_splits)
  with Cons show ?case
    using group_intent_valid_mono [OF assms valid] by (auto simp: Let_def split: if_splits)
qed simp

lemma groups_wf_mono:
  assumes "grows m m'" and "rm_group_recoveries m' = rm_group_recoveries m" and "groups_wf digest m"
  shows "groups_wf digest m'"
  using assms validate_rounds_mono [OF assms(1)] grows_observed [OF assms(1)]
  unfolding groups_wf_def admissions_wf_def validate_group_recoveries_def by metis

subsection \<open>Histories of Group rounds\<close>

text \<open>
  The history part of \<open>validate_rounds\<close> depends only on the identity and the limit of each round.
\<close>

definition round_key :: "group_recovery_intent \<Rightarrow> group_id \<times> string \<times> u32" where
  "round_key i = (gri_group_id i, gri_recovery_id i, gri_max_replacements i)"

definition round_allowed :: "(group_id \<times> string \<times> u32) list \<Rightarrow> group_id \<times> string \<times> u32 \<Rightarrow> bool" where
  "round_allowed earlier = (\<lambda>(grp, rid, limit).
     length (filter (\<lambda>p. fst p = grp) earlier) < unat limit
     \<and> (\<forall>p \<in> set earlier. fst p = grp \<longrightarrow> fst (snd p) \<noteq> rid \<and> snd (snd p) = limit))"

fun rounds_allowed :: "(group_id \<times> string \<times> u32) list \<Rightarrow> (group_id \<times> string \<times> u32) list \<Rightarrow> bool" where
  "rounds_allowed earlier [] = True"
| "rounds_allowed earlier (k # ks) = (round_allowed earlier k \<and> rounds_allowed (earlier @ [k]) ks)"

lemma rounds_allowed_append:
  "rounds_allowed earlier (ks @ ks') \<longleftrightarrow> rounds_allowed earlier ks \<and> rounds_allowed (earlier @ ks) ks'"
  by (induction ks arbitrary: earlier) auto

lemma validate_rounds_iff:
  "validate_rounds digest m earlier rounds = Ok () \<longleftrightarrow>
     (\<forall>i \<in> set rounds. group_intent_valid digest m i = Some True)
     \<and> rounds_allowed (map round_key earlier) (map round_key rounds)"
proof (induction rounds arbitrary: earlier)
  case (Cons i rounds)
  have "round_allowed (map round_key earlier) (round_key i) \<longleftrightarrow>
      \<not> (unat (gri_max_replacements i) \<le> length (filter (\<lambda>p. gri_group_id p = gri_group_id i) earlier)
         \<or> list_ex (\<lambda>p. gri_recovery_id p = gri_recovery_id i
              \<or> gri_max_replacements p \<noteq> gri_max_replacements i)
            (filter (\<lambda>p. gri_group_id p = gri_group_id i) earlier))"
    by (auto simp: round_allowed_def round_key_def list_ex_iff filter_map o_def)
  with Cons show ?case
    by (auto simp: Let_def split: option.splits)
qed simp

lemma groups_wf_iff:
  "groups_wf digest m \<longleftrightarrow>
     (\<forall>i \<in> set (rm_group_recoveries m). group_intent_valid digest m i = Some True \<and> preserved_wf i)
     \<and> rounds_allowed [] (map round_key (rm_group_recoveries m)) \<and> admissions_wf m"
  by (auto simp: groups_wf_def validate_group_recoveries_def validate_rounds_iff)

subsection \<open>Counting the stops of a slot\<close>

definition slot_stops ::
    "(execution_id, recovery_stop_intent) btmap \<Rightarrow> (execution_id, execution_context) btmap \<Rightarrow> execution_slot
       \<Rightarrow> execution_id set" where
  "slot_stops stops executions slot =
     {eid. bt_contains stops eid \<and> is_some_and (bt_get executions eid) (\<lambda>x. command_slot (ex_command x) = slot)}"

lemma slot_stops_finite: "finite (slot_stops stops executions slot)"
proof (rule finite_subset)
  show "slot_stops stops executions slot \<subseteq> set (bt_keys stops)"
    by (auto simp: slot_stops_def bt_keys_iff)
qed simp

lemma slot_stop_count_card:
  assumes "\<And>eid i. bt_get (rm_recovery_stops m) eid = Some i \<Longrightarrow> rsi_execution_id i = eid"
  shows "slot_stop_count m slot = card (slot_stops (rm_recovery_stops m) (rm_executions m) slot)"
proof -
  let ?Q = "\<lambda>eid. is_some_and (bt_get (rm_executions m) eid) (\<lambda>x. command_slot (ex_command x) = slot)"
  have "slot_stop_count m slot
      = length (filter (\<lambda>(eid, i). ?Q (rsi_execution_id i)) (bt_entries (rm_recovery_stops m)))"
    by (simp add: slot_stop_count_def bt_values_def filter_map o_def case_prod_unfold)
  also have "filter (\<lambda>(eid, i). ?Q (rsi_execution_id i)) (bt_entries (rm_recovery_stops m))
      = filter (\<lambda>(eid, i). ?Q eid) (bt_entries (rm_recovery_stops m))"
    using assms by (intro filter_cong) (auto simp: bt_entries_iff)
  also have "length \<dots> = length (filter ?Q (bt_keys (rm_recovery_stops m)))"
    by (simp add: bt_keys_def filter_map o_def case_prod_unfold)
  also have "\<dots> = card (set (filter ?Q (bt_keys (rm_recovery_stops m))))"
    by (rule distinct_card [symmetric]) simp
  also have "set (filter ?Q (bt_keys (rm_recovery_stops m))) = slot_stops (rm_recovery_stops m) (rm_executions m) slot"
    by (auto simp: slot_stops_def bt_keys_iff)
  finally show ?thesis .
qed

lemma stops_wf_id: "stops_wf m \<Longrightarrow> bt_get (rm_recovery_stops m) eid = Some i \<Longrightarrow> rsi_execution_id i = eid"
  by (auto simp: stops_wf_def recovery_stop_valid_def)

lemma stops_wf_execution:
  "stops_wf m \<Longrightarrow> bt_get (rm_recovery_stops m) eid = Some i \<Longrightarrow> \<exists>x. bt_get (rm_executions m) eid = Some x"
  unfolding stops_wf_def by blast

lemma slot_stops_mono:
  assumes "grows m m'" and "stops_wf m"
    and "\<And>eid. bt_contains (rm_recovery_stops m') eid = bt_contains (rm_recovery_stops m) eid"
  shows "slot_stops (rm_recovery_stops m') (rm_executions m') slot
    = slot_stops (rm_recovery_stops m) (rm_executions m) slot"
  using assms grows_executions [OF assms(1)] stops_wf_execution [OF assms(2)]
  by (fastforce simp: slot_stops_def is_some_and_iff bt_contains_iff)

text \<open>Stops change field by field without a new key: the budgets and their counts stay valid.\<close>

lemma stops_wf_update:
  assumes "grows m m'" and "stops_wf m" and "rm_recovery_budgets m' = rm_recovery_budgets m"
    and keys: "\<And>eid. bt_contains (rm_recovery_stops m') eid = bt_contains (rm_recovery_stops m) eid"
    and upd: "\<And>eid i i' x. bt_get (rm_recovery_stops m) eid = Some i \<Longrightarrow> bt_get (rm_recovery_stops m') eid = Some i' \<Longrightarrow>
        bt_get (rm_executions m) eid = Some x \<Longrightarrow> recovery_stop_valid m eid i (command_slot (ex_command x)) \<Longrightarrow>
        recovery_stop_valid m' eid i' (command_slot (ex_command x))"
  shows "stops_wf m'"
proof -
  have stop: "\<exists>x. bt_get (rm_executions m') eid = Some x \<and> recovery_stop_valid m' eid i' (command_slot (ex_command x))"
    if i': "bt_get (rm_recovery_stops m') eid = Some i'" for eid i'
  proof -
    from i' keys [of eid] obtain i where i: "bt_get (rm_recovery_stops m) eid = Some i"
      by (auto simp: bt_contains_iff)
    with assms(2) obtain x where "bt_get (rm_executions m) eid = Some x"
      "recovery_stop_valid m eid i (command_slot (ex_command x))" unfolding stops_wf_def by blast
    with upd [OF i i'] grows_executions [OF assms(1)] show ?thesis by blast
  qed
  then have "\<And>eid i. bt_get (rm_recovery_stops m') eid = Some i \<Longrightarrow> rsi_execution_id i = eid"
    by (fastforce simp: recovery_stop_valid_def)
  then have "slot_stop_count m' slot = slot_stop_count m slot" for slot
    using slot_stops_mono [OF assms(1,2) keys]
    by (simp add: slot_stop_count_card stops_wf_id [OF assms(2)])
  with stop assms(2,3) show ?thesis by (auto simp: stops_wf_def recovery_budget_valid_def)
qed

lemma recovery_stop_valid_mono:
  assumes "grows m m'" and "rm_recovery_budgets m' = rm_recovery_budgets m"
    and "recovery_stop_valid m eid i slot"
  shows "recovery_stop_valid m' eid i slot"
  using assms grows_terminal [OF assms(1)] grows_cancellations [OF assms(1)]
  by (auto simp: recovery_stop_valid_def is_none_or_iff)

lemma stops_wf_mono:
  assumes "grows m m'" and "rm_recovery_stops m' = rm_recovery_stops m"
    and "rm_recovery_budgets m' = rm_recovery_budgets m" and "stops_wf m"
  shows "stops_wf m'"
  using assms by (intro stops_wf_update [OF assms(1,4,3)]) (auto intro: recovery_stop_valid_mono)

end
