(* ===== verification/RT_Preserve.thy ===== *)
theory RT_Preserve
  imports RT_Invariant
begin

text \<open>
  Every operation of the manager keeps it well formed, keeps the physical record growing, and does
  not panic.
\<close>

text \<open>Slots and keys are tuples; quantified invariants over them stay quantified over the tuple.\<close>

declare split_paired_All [simp del] split_paired_Ex [simp del]

definition safe :: "session_digest \<Rightarrow> manager \<Rightarrow> manager \<Rightarrow> bool" where
  "safe digest m m' \<longleftrightarrow> manager_wf digest m' \<and> grows m m'"

lemma safe_refl: "manager_wf digest m \<Longrightarrow> safe digest m m"
  by (simp add: safe_def)

lemma safe_trans: "safe digest m m' \<Longrightarrow> safe digest m' m'' \<Longrightarrow> safe digest m m''"
  by (auto simp: safe_def intro: grows_trans)

lemma manager_wf_new: "manager_wf digest manager_new"
  by (simp add: manager_wf_def manager_new_def inv_executions_def inv_observed_def inv_active_def
      inv_outbox_def inv_cancellations_def inv_terminal_times_def inv_generations_def inv_relations_def
      inv_proofs_def inv_spatial_def inv_coordination_def inv_progress_def stops_wf_def groups_wf_def
      validate_group_recoveries_def admissions_wf_def)

text \<open>The recovery parts follow from growth when an operation leaves the recovery maps alone.\<close>

lemma safeI:
  assumes "manager_wf digest m" and grows: "grows m m'"
    and "rm_group_recoveries m' = rm_group_recoveries m"
    and "rm_recovery_stops m' = rm_recovery_stops m"
    and "rm_recovery_budgets m' = rm_recovery_budgets m"
    and "inv_executions (rm_executions m') (rm_execution_nodes m') (rm_execution_status m')"
    and "inv_observed (rm_execution_sequences m') (rm_execution_nodes m') (rm_execution_status m')"
    and "inv_active (rm_active_executions m') (rm_executions m')"
    and "inv_outbox (rm_dispatch_outbox m') (rm_executions m')"
    and "inv_cancellations (rm_cancellation_intents m') (rm_executions m')"
    and "inv_cancellations (rm_restored_executions m') (rm_executions m')"
    and "inv_terminal_times (rm_terminal_received_at m') (rm_executions m') (rm_execution_status m')"
    and "inv_generations (rm_attempt_generations m')"
    and "inv_relations (rm_relations m') (rm_relation_states m') (rm_relation_fences m')"
    and "inv_proofs (rm_relation_proofs m') (rm_relations m') (rm_executions m')"
    and "inv_spatial (rm_spatial_evidence m') (rm_active_executions m') (rm_execution_nodes m')"
    and "inv_coordination (rm_coordination_contexts m') (rm_peer_channels m')"
    and "inv_progress (rm_progress m') (rm_executions m')"
  shows "safe digest m m'"
  using assms stops_wf_mono [OF grows assms(4,5)] groups_wf_mono [OF grows assms(3)]
  by (auto simp: safe_def manager_wf_def)

subsection \<open>Relation refreshes\<close>

lemma refresh_effect_safe:
  assumes wf: "manager_wf digest m" and "refresh_effect m K m'" and "\<And>k. k \<in> K \<Longrightarrow> bt_contains (rm_relations m) k"
  shows "safe digest m m'"
proof -
  from assms(2) obtain s f p
    where m': "m' = m\<lparr>rm_relation_states := s, rm_relation_fences := f, rm_relation_proofs := p\<rparr>"
      and s: "\<And>k. bt_contains s k \<longleftrightarrow> bt_contains (rm_relation_states m) k \<or> k \<in> K"
      and f: "\<And>k. bts_member k f \<Longrightarrow> bts_member k (rm_relation_fences m) \<or> k \<in> K"
      and p: "\<And>k t. bt_get p k = Some t \<Longrightarrow> bt_get (rm_relation_proofs m) k = Some t
         \<or> (\<exists>r. bt_get (rm_relations m) k = Some r \<and> bt_get (rm_active_executions m) (rr_target_key r) = Some t)"
    unfolding refresh_effect_def by blast
  have active: "inv_active (rm_active_executions m) (rm_executions m)"
    and rel: "inv_relations (rm_relations m) (rm_relation_states m) (rm_relation_fences m)"
    and proofs: "inv_proofs (rm_relation_proofs m) (rm_relations m) (rm_executions m)"
    using wf by (simp_all add: manager_wf_def)
  have "inv_relations (rm_relations m) s f"
    using rel s f assms(3) unfolding inv_relations_def by blast
  moreover have "inv_proofs p (rm_relations m) (rm_executions m)"
    using proofs active p unfolding inv_proofs_def inv_active_def by metis
  ultimately show ?thesis
    using wf by (intro safeI [OF wf]) (simp_all add: m' grows_def bt_extends_insert manager_wf_def)
qed

lemma refresh_slot_safe:
  assumes "manager_wf digest m"
  shows "\<exists>events m'. refresh_relations_for_slot slot m = Some (events, m')
    \<and> refresh_effect m (slot_relations slot m) m' \<and> safe digest m m'"
proof -
  from refresh_slot_effect obtain events m'
    where "refresh_relations_for_slot slot m = Some (events, m')"
      and effect: "refresh_effect m (slot_relations slot m) m'" by blast
  moreover have "safe digest m m'"
    by (rule refresh_effect_safe [OF assms effect]) (auto simp: slot_relations_def bt_contains_iff)
  ultimately show ?thesis by blast
qed

subsection \<open>Dispatch\<close>

lemma allocate_generation_Some:
  "allocate_generation m grp task role g = Some (eid, g') \<Longrightarrow>
     unat g < unat g' \<and> eid = attempt_execution_id grp task role g'
     \<and> \<not> bt_contains (rm_executions m) eid \<and> \<not> bt_contains (rm_dispatch_outbox m) eid"
proof (induction m grp task role g rule: allocate_generation.induct)
  case (1 m grp task role g)
  from "1.prems" obtain n where n: "checked_add g 1 = Some n"
    by (subst (asm) allocate_generation.simps) (auto split: option.splits)
  then have "unat n = unat g + 1" by (auto dest: checked_add_Some_unat)
  note unfolded = "1.prems" [unfolded allocate_generation.simps [of m grp task role g] n Let_def option.case]
  show ?case
  proof (cases "\<not> bt_contains (rm_executions m) (attempt_execution_id grp task role n)
      \<and> \<not> bt_contains (rm_dispatch_outbox m) (attempt_execution_id grp task role n)")
    case True
    with unfolded \<open>unat n = _\<close> show ?thesis by auto
  next
    case False
    with unfolded have "allocate_generation m grp task role n = Some (eid, g')" by (simp only: if_False)
    from "1.IH" [OF n refl False this] \<open>unat n = _\<close> show ?thesis by auto
  qed
qed

lemma allocate_attempt_id_safe:
  assumes "manager_wf digest m" and "allocate_attempt_id grp task role m = (res, m')"
  shows "safe digest m m' \<and> res \<noteq> Panic"
  using assms
  by (auto simp: allocate_attempt_id_def Let_def split: option.splits
      intro!: safeI simp: grows_def bt_extends_insert manager_wf_def inv_generations_def bt_get_insert
      word_le_nat_alt dest!: allocate_generation_Some)

lemma mark_dispatch_delivered_safe:
  assumes "manager_wf digest m" and "mark_dispatch_delivered eid m = (res, m')"
  shows "safe digest m m' \<and> res \<noteq> Panic"
  using assms
  by (auto simp: mark_dispatch_delivered_def split: option.splits intro!: safeI
      simp: grows_def bt_extends_insert manager_wf_def inv_outbox_def bt_get_insert)

lemma record_dispatch_attempt_safe:
  assumes "manager_wf digest m"
  shows "safe digest m (record_dispatch_attempt eid m)"
  using assms
  by (auto simp: record_dispatch_attempt_def intro!: safeI
      simp: grows_def bt_extends_insert manager_wf_def inv_outbox_def bt_get_update split: if_splits)

text \<open>A fact or receipt changes statuses only: everything but the status map is as before.\<close>

lemma set_status_safe:
  assumes wf: "manager_wf digest m" and "\<not> status_is_terminal m eid" and "s \<noteq> Dispatched"
  shows "safe digest m (set_status eid s m)"
proof -
  have old: "bt_get (rm_execution_status m) eid = Some s' \<Longrightarrow> \<not> is_terminal s'" for s'
    using assms(2) by (simp add: status_is_terminal_def execution_status_of_def)
  have "grows m (set_status eid s m)"
    using old assms(3)
    by (auto simp: grows_def set_status_def bt_extends_insert is_none_or_iff status_grows_def)
  moreover have "inv_terminal_times (rm_terminal_received_at m) (rm_executions m)
      (bt_insert eid s (rm_execution_status m))"
    using wf old by (fastforce simp: manager_wf_def inv_terminal_times_def bt_get_insert)
  ultimately show ?thesis
    using wf by (intro safeI [OF wf])
      (auto simp: set_status_def manager_wf_def inv_executions_def inv_observed_def)
qed

lemma receipt_unknown_safe:
  assumes wf: "manager_wf digest m" and "\<not> status_is_terminal m eid"
    and "receipt_unknown eid owner reason m = (res, m')"
  shows "safe digest m m' \<and> res \<noteq> Panic"
proof -
  let ?m1 = "set_status eid Unknown m"
  have step: "safe digest m ?m1" using wf assms(2) by (rule set_status_safe) simp
  then have wf1: "manager_wf digest ?m1" by (simp add: safe_def)
  show ?thesis
  proof (cases "bt_get (rm_executions ?m1) eid")
    case None
    with assms(3) step show ?thesis by (auto simp: receipt_unknown_def Let_def)
  next
    case (Some x)
    from refresh_slot_safe [OF wf1, of "command_slot (ex_command x)"] obtain events m2
      where "refresh_relations_for_slot (command_slot (ex_command x)) ?m1 = Some (events, m2)"
        and "safe digest ?m1 m2" by blast
    with Some assms(3) step show ?thesis
      by (auto simp: receipt_unknown_def Let_def split: if_splits intro: safe_trans)
  qed
qed

lemma observe_dispatch_receipt_safe:
  assumes wf: "manager_wf digest m"
    and "observe_dispatch_receipt eid cid node persisted reason m = (res, m')"
  shows "safe digest m m' \<and> res \<noteq> Panic"
  using assms safe_refl [OF wf]
  by (auto simp: observe_dispatch_receipt_def
      dest: mark_dispatch_delivered_safe [OF wf] receipt_unknown_safe [OF wf]
      split: option.splits if_splits rt_result.splits prod.splits)

lemma observe_cancellation_receipt_safe:
  assumes wf: "manager_wf digest m"
    and "observe_cancellation_receipt eid cid node persisted reason m = (res, m')"
  shows "safe digest m m' \<and> res \<noteq> Panic"
  using assms safe_refl [OF wf]
  by (auto simp: observe_cancellation_receipt_def dest: receipt_unknown_safe [OF wf] split: if_splits)

lemma validate_dispatch_Route:
  assumes "validate_dispatch m eid c rs = Ok Route"
  shows "bt_get (rm_executions m) eid = None" and "\<not> bt_contains (rm_execution_status m) eid"
    and "\<not> bts_member eid (rm_restored_executions m)"
    and "is_none_or (ec_recovery_support c) (\<lambda>d. ors_operation (ers_support d) = ei_operation (ec_intent c))"
  using assms
  by (auto simp: validate_dispatch_def is_none_or_iff is_some_and_iff bt_contains_iff
      split: if_splits option.splits)

lemma admit_dispatch_fields:
  defines "m' eid c rs m \<equiv> admit_dispatch eid c rs m"
  shows "rm_executions (m' eid c rs m) = bt_insert eid \<lparr>ex_command = c, ex_resource_ids = rs\<rparr> (rm_executions m)"
    and "rm_execution_nodes (m' eid c rs m) = bt_insert eid (ec_node_id c) (rm_execution_nodes m)"
    and "rm_active_executions (m' eid c rs m) = bt_insert (command_slot c) eid (rm_active_executions m)"
    and "rm_execution_status (m' eid c rs m) = bt_insert eid Dispatched (rm_execution_status m)"
    and "rm_dispatch_outbox (m' eid c rs m) = bt_insert eid
           \<lparr>di_execution_id = eid, di_command = c, di_resource_ids = rs, di_delivery_attempts = 0,
            di_delivered = False\<rparr> (rm_dispatch_outbox m)"
    and "rm_spatial_evidence (m' eid c rs m) =
           (if is_some_and (bt_get (rm_active_executions m) (command_slot c)) (\<lambda>prev. prev \<noteq> eid)
            then bt_remove (command_slot c) (rm_spatial_evidence m) else rm_spatial_evidence m)"
    and "rm_group_recoveries (m' eid c rs m) = rm_group_recoveries m"
    and "rm_recovery_stops (m' eid c rs m) = rm_recovery_stops m"
    and "rm_recovery_budgets (m' eid c rs m) = rm_recovery_budgets m"
    and "rm_execution_sequences (m' eid c rs m) = rm_execution_sequences m"
    and "rm_cancellation_intents (m' eid c rs m) = rm_cancellation_intents m"
    and "rm_terminal_received_at (m' eid c rs m) = rm_terminal_received_at m"
    and "rm_attempt_generations (m' eid c rs m) = rm_attempt_generations m"
    and "rm_relations (m' eid c rs m) = rm_relations m"
    and "rm_relation_states (m' eid c rs m) = rm_relation_states m"
    and "rm_relation_fences (m' eid c rs m) = rm_relation_fences m"
    and "rm_relation_proofs (m' eid c rs m) = rm_relation_proofs m"
    and "rm_coordination_contexts (m' eid c rs m) = rm_coordination_contexts m"
    and "rm_peer_channels (m' eid c rs m) = rm_peer_channels m"
    and "rm_progress (m' eid c rs m) = rm_progress m"
    and "rm_restored_executions (m' eid c rs m) = rm_restored_executions m"
    and "rm_activated_tasks (m' eid c rs m) = rm_activated_tasks m"
  unfolding m'_def
  by (simp_all add: admit_dispatch_def Let_def split: option.split)

lemma admit_dispatch_grows:
  assumes "bt_get (rm_executions m) eid = None" and "bt_get (rm_execution_status m) eid = None"
    and "bt_get (rm_execution_nodes m) eid = None"
  shows "grows m (admit_dispatch eid c rs m)"
  using assms by (simp add: grows_def admit_dispatch_fields bt_extends_insert)

text \<open>A fresh attempt: no map refers to its identity yet.\<close>

lemma admit_dispatch_safe:
  assumes wf: "manager_wf digest m"
    and fresh: "bt_get (rm_executions m) eid = None" "\<not> bt_contains (rm_execution_status m) eid"
    and input: "\<not> trim_is_empty eid" "command_wf c" "normalized_resources rs = rs"
  shows "safe digest m (admit_dispatch eid c rs m)"
proof -
  let ?m' = "admit_dispatch eid c rs m"
  have other: "bt_get (rm_executions m) j = Some x \<Longrightarrow> j \<noteq> eid" for j x
    using fresh(1) by auto
  have node: "bt_get (rm_execution_nodes m) eid = None"
    using wf fresh(2) by (auto simp: manager_wf_def inv_observed_def bt_contains_def)
  have status: "bt_get (rm_execution_status m) eid = None"
    using fresh(2) by (simp add: bt_contains_def)
  have spatial: "inv_spatial (rm_spatial_evidence ?m') (rm_active_executions ?m') (rm_execution_nodes ?m')"
  proof -
    have inv: "inv_spatial (rm_spatial_evidence m) (rm_active_executions m) (rm_execution_nodes m)"
      "inv_active (rm_active_executions m) (rm_executions m)" using wf by (simp_all add: manager_wf_def)
    have "bt_get (rm_active_executions m) (command_slot c) \<noteq> Some eid"
      using inv(2) fresh(1) by (fastforce simp: inv_active_def)
    with inv(1) have "bt_get (rm_spatial_evidence ?m') (command_slot c) = None"
      by (cases "bt_get (rm_active_executions m) (command_slot c)";
          cases "bt_get (rm_spatial_evidence m) (command_slot c)")
        (auto simp: admit_dispatch_fields bt_get_remove inv_spatial_def)
    moreover have "bt_get (rm_spatial_evidence ?m') slot = bt_get (rm_spatial_evidence m) slot"
      if "slot \<noteq> command_slot c" for slot
      using that by (simp add: admit_dispatch_fields bt_get_remove)
    ultimately show ?thesis
      using inv(1) node unfolding inv_spatial_def admit_dispatch_fields(2,3)
      by (metis bt_get_insert_other option.distinct(1))
  qed
  have keep: "bt_get (rm_executions m) j = Some x \<Longrightarrow>
      bt_get (bt_insert eid y (rm_executions m)) j = Some x" for j x y
    using other by simp
  have inv: "inv_proofs (rm_relation_proofs m) (rm_relations m) (rm_executions m)"
    "inv_progress (rm_progress m) (rm_executions m)" "inv_active (rm_active_executions m) (rm_executions m)"
    "inv_outbox (rm_dispatch_outbox m) (rm_executions m)"
    using wf by (simp_all add: manager_wf_def)
  have proofs: "inv_proofs (rm_relation_proofs ?m') (rm_relations ?m') (rm_executions ?m')"
    using inv(1) keep unfolding inv_proofs_def admit_dispatch_fields by blast
  have progress: "inv_progress (rm_progress ?m') (rm_executions ?m')"
    using inv(2) keep unfolding inv_progress_def admit_dispatch_fields by blast
  have active: "inv_active (rm_active_executions ?m') (rm_executions ?m')"
    using inv(3) keep unfolding inv_active_def admit_dispatch_fields
    by (metis bt_get_insert execution_context.select_convs(1) option.sel)
  have outbox: "inv_outbox (rm_dispatch_outbox ?m') (rm_executions ?m')"
    using inv(4) other unfolding inv_outbox_def admit_dispatch_fields by (auto simp: bt_get_insert)
  have "inv_executions (rm_executions ?m') (rm_execution_nodes ?m') (rm_execution_status ?m')"
    using wf input other unfolding manager_wf_def inv_executions_def admit_dispatch_fields
    by (auto simp: bt_get_insert)
  moreover have "inv_observed (rm_execution_sequences ?m') (rm_execution_nodes ?m') (rm_execution_status ?m')"
    using wf unfolding manager_wf_def inv_observed_def admit_dispatch_fields by auto
  moreover have "inv_cancellations (rm_cancellation_intents ?m') (rm_executions ?m')"
    and "inv_cancellations (rm_restored_executions ?m') (rm_executions ?m')"
    using wf unfolding manager_wf_def inv_cancellations_def admit_dispatch_fields by auto
  moreover have "inv_terminal_times (rm_terminal_received_at ?m') (rm_executions ?m') (rm_execution_status ?m')"
    using wf fresh unfolding manager_wf_def inv_terminal_times_def admit_dispatch_fields
    by (auto simp: bt_get_insert bt_contains_iff)
  ultimately show ?thesis
    using wf spatial proofs progress active outbox admit_dispatch_grows [OF fresh(1) status node]
    by (intro safeI [OF wf]) (simp_all add: manager_wf_def admit_dispatch_fields)
qed

lemma prepare_dispatch_safe:
  assumes wf: "manager_wf digest m" and input: "\<not> trim_is_empty eid"
      "memory_validate_set (ec_memory_requirements c) = Inr ()"
    and "prepare_dispatch eid c rs m = (res, m')"
  shows "safe digest m m' \<and> res \<noteq> Panic"
proof (cases "validate_dispatch m eid c rs = Ok Route")
  case True
  note route = validate_dispatch_Route [OF True]
  have "command_wf c" using input(2) route(4) by (simp add: command_wf_def)
  with admit_dispatch_safe [OF wf route(1,2) input(1), of c "normalized_resources rs"] True assms(4)
  show ?thesis by (auto simp: prepare_dispatch_def)
next
  case False
  with assms(4) safe_refl [OF wf] show ?thesis
    by (auto simp: prepare_dispatch_def validate_dispatch_def split: rt_result.splits
        dispatch_decision.splits if_splits option.splits)
qed

lemma record_dispatched_safe:
  assumes wf: "manager_wf digest m" and input: "\<not> trim_is_empty eid"
      "memory_validate_set (ec_memory_requirements c) = Inr ()"
    and "record_dispatched eid c rs m = (res, m')"
  shows "safe digest m m' \<and> res \<noteq> Panic"
proof -
  obtain r m1 where prep: "prepare_dispatch eid c rs m = (r, m1)" by fastforce
  from prepare_dispatch_safe [OF wf input prep] have s: "safe digest m m1" "r \<noteq> Panic" by auto
  then have "manager_wf digest m1" by (simp add: safe_def)
  with s prep assms(4) show ?thesis
    by (auto simp: record_dispatched_def split: rt_result.splits
        dest: mark_dispatch_delivered_safe intro: safe_trans)
qed

end
