(* ===== verification/RT_Preserve_Facts.thy ===== *)
theory RT_Preserve_Facts
  imports RT_Preserve
begin

text \<open>
  Facts, evidence, relations, coordination and progress keep the manager well formed.
\<close>

subsection \<open>Execution facts\<close>

lemma bookkeeping_safe:
  assumes wf: "manager_wf digest m"
  shows "safe digest m (m\<lparr>rm_reactivation_attempts := a, rm_activated_tasks := b\<rparr>)"
  using wf by (intro safeI [OF wf]) (simp_all add: manager_wf_def grows_def)

lemma reduce_known_fact_safe:
  assumes wf: "manager_wf digest m" and "reduce_known_fact eid status reason c m = (res, m')"
  shows "safe digest m m' \<and> res \<noteq> Panic"
proof -
  define m1 where "m1 = (if proves_activation status
    then m\<lparr>rm_reactivation_attempts := bts_remove eid (rm_reactivation_attempts m),
           rm_activated_tasks := bts_insert (ec_group_id c, ec_task_ref c) (rm_activated_tasks m)\<rparr>
    else m)"
  have m1: "safe digest m m1"
    using bookkeeping_safe [OF wf] safe_refl [OF wf] by (simp add: m1_def)
  then have "manager_wf digest m1" by (simp add: safe_def)
  from refresh_slot_safe [OF this, of "command_slot c"] obtain events m2
    where "refresh_relations_for_slot (command_slot c) m1 = Some (events, m2)" and "safe digest m1 m2"
    by blast
  with assms m1 safe_refl [OF wf] show ?thesis
    by (auto simp: reduce_known_fact_def Let_def m1_def [symmetric] split: if_splits intro: safe_trans)
qed

definition observed_state :: "execution_id \<Rightarrow> node_id \<Rightarrow> u64 \<Rightarrow> execution_status \<Rightarrow> manager \<Rightarrow> manager" where
  "observed_state eid node sequence status m =
     m\<lparr>rm_execution_sequences := bt_insert eid sequence (rm_execution_sequences m),
       rm_execution_nodes := bt_or_insert eid node (rm_execution_nodes m),
       rm_execution_status := bt_insert eid status (rm_execution_status m),
       rm_dispatch_outbox := bt_update eid (\<lambda>i. i\<lparr>di_delivered := True\<rparr>) (rm_dispatch_outbox m)\<rparr>"

lemma observed_state_safe:
  assumes wf: "manager_wf digest m" and "\<not> status_is_terminal m eid" and "status \<noteq> Dispatched"
    and "\<not> is_some_and (bt_get (rm_execution_sequences m) eid) (\<lambda>current. sequence \<le> current)"
  shows "safe digest m (observed_state eid node sequence status m)"
proof -
  have old: "bt_get (rm_execution_status m) eid = Some s' \<Longrightarrow> \<not> is_terminal s'" for s'
    using assms(2) by (simp add: status_is_terminal_def execution_status_of_def)
  have owner: "bt_get (rm_execution_nodes m) j = Some n \<Longrightarrow>
      bt_get (bt_or_insert eid node (rm_execution_nodes m)) j = Some n" for j n
    by (auto simp: bt_get_or_insert)
  have inv: "inv_executions (rm_executions m) (rm_execution_nodes m) (rm_execution_status m)"
    "inv_outbox (rm_dispatch_outbox m) (rm_executions m)"
    "inv_terminal_times (rm_terminal_received_at m) (rm_executions m) (rm_execution_status m)"
    "inv_spatial (rm_spatial_evidence m) (rm_active_executions m) (rm_execution_nodes m)"
    "inv_observed (rm_execution_sequences m) (rm_execution_nodes m) (rm_execution_status m)"
    using wf by (simp_all add: manager_wf_def)
  show ?thesis
  proof (rule safeI [OF wf])
    show "grows m (observed_state eid node sequence status m)"
      using old assms(3,4)
      by (auto simp: grows_def observed_state_def bt_extends_insert is_none_or_iff is_some_and_iff
          status_grows_def not_le less_imp_le)
    show "inv_executions (rm_executions (observed_state eid node sequence status m))
        (rm_execution_nodes (observed_state eid node sequence status m))
        (rm_execution_status (observed_state eid node sequence status m))"
      using inv(1) owner by (simp add: observed_state_def inv_executions_def)
    show "inv_outbox (rm_dispatch_outbox (observed_state eid node sequence status m))
        (rm_executions (observed_state eid node sequence status m))"
      using inv(2) by (auto simp: observed_state_def inv_outbox_def bt_get_update split: if_splits)
    show "inv_terminal_times (rm_terminal_received_at (observed_state eid node sequence status m))
        (rm_executions (observed_state eid node sequence status m))
        (rm_execution_status (observed_state eid node sequence status m))"
      using inv(3) old by (fastforce simp: observed_state_def inv_terminal_times_def bt_get_insert)
    show "inv_spatial (rm_spatial_evidence (observed_state eid node sequence status m))
        (rm_active_executions (observed_state eid node sequence status m))
        (rm_execution_nodes (observed_state eid node sequence status m))"
      using inv(4) owner by (simp add: observed_state_def inv_spatial_def)
    show "inv_observed (rm_execution_sequences (observed_state eid node sequence status m))
        (rm_execution_nodes (observed_state eid node sequence status m))
        (rm_execution_status (observed_state eid node sequence status m))"
      using inv(5) by (simp add: observed_state_def inv_observed_def)
  qed (use wf in \<open>simp_all add: observed_state_def manager_wf_def\<close>)
qed

lemma observe_execution_cases:
  "observe_execution eid node sequence status reason m =
     (if is_some_and (bt_get (rm_execution_nodes m) eid) (\<lambda>expected. expected \<noteq> node)
      then (Err (NodeOwnership ''execution fact node differs from execution owner''), m)
      else if is_some_and (bt_get (rm_execution_sequences m) eid) (\<lambda>current. sequence \<le> current)
      then (Ok [], m)
      else if status_is_terminal m eid
      then (if execution_status_of m eid = Some status then (Ok [], m)
            else (Err (TerminalConflict ''terminal execution status is immutable''), m))
      else if is_some_and (bt_get (rm_executions m) eid) (\<lambda>x. ec_node_id (ex_command x) \<noteq> node)
      then (Err (NodeOwnership ''execution fact node differs from dispatched command''), m)
      else (case bt_get (rm_executions m) eid of
              None \<Rightarrow> (Ok (if status = Unknown
                           then [RecoveryRequired eid node None reason] else []),
                       observed_state eid node sequence status m)
            | Some x \<Rightarrow> reduce_known_fact eid status reason (ex_command x)
                       (observed_state eid node sequence status m)))"
  by (auto simp: observe_execution_def observed_state_def Let_def is_some_and_iff bt_get_or_insert
      split: option.splits)

lemma observe_execution_safe:
  assumes wf: "manager_wf digest m" and "status \<noteq> Dispatched"
    and "observe_execution eid node sequence status reason m = (res, m')"
  shows "safe digest m m' \<and> res \<noteq> Panic"
proof (cases "is_some_and (bt_get (rm_execution_sequences m) eid) (\<lambda>current. sequence \<le> current)
    \<or> status_is_terminal m eid")
  case True
  with assms(3) safe_refl [OF wf] show ?thesis
    by (auto simp: observe_execution_cases split: if_splits)
next
  case False
  then have step: "safe digest m (observed_state eid node sequence status m)"
    using observed_state_safe [OF wf _ assms(2)] by blast
  then have wf1: "manager_wf digest (observed_state eid node sequence status m)" by (simp add: safe_def)
  have "safe digest m m' \<and> res \<noteq> Panic"
    if "reduce_known_fact eid status reason c (observed_state eid node sequence status m) = (res, m')" for c
    using reduce_known_fact_safe [OF wf1 that] safe_trans [OF step] by blast
  with False assms(3) step safe_refl [OF wf] show ?thesis
    by (auto simp: observe_execution_cases split: if_splits option.splits)
qed

lemma observe_execution_received_safe:
  assumes wf: "manager_wf digest m" and "status \<noteq> Dispatched"
    and "observe_execution_received eid node sequence status reason received_at m = (res, m')"
  shows "safe digest m m' \<and> res \<noteq> Panic"
proof -
  obtain r m1 where op: "observe_execution eid node sequence status reason m = (r, m1)" by fastforce
  with observe_execution_safe [OF wf assms(2) op] have s: "safe digest m m1" "r \<noteq> Panic" by auto
  then have wf1: "manager_wf digest m1" by (simp add: safe_def)
  have "safe digest m1 (m1\<lparr>rm_terminal_received_at := bt_or_insert eid received_at (rm_terminal_received_at m1)\<rparr>)"
    if "is_terminal status" "bt_contains (rm_executions m1) eid" "execution_status_of m1 eid = Some status"
    using wf1 that
    by (intro safeI [OF wf1]) (auto simp: grows_def manager_wf_def inv_terminal_times_def execution_status_of_def)
  with s op assms(3) show ?thesis
    by (auto simp: observe_execution_received_def Let_def split: rt_result.splits if_splits intro: safe_trans)
qed

lemma lose_attempt_safe:
  assumes wf: "manager_wf digest m" and "\<not> status_is_terminal m eid"
  shows "\<exists>events m'. lose_attempt node reason eid m = Some (events, m') \<and> safe digest m m'
    \<and> rm_execution_status m' = bt_insert eid Unknown (rm_execution_status m)"
proof -
  have step: "safe digest m (set_status eid Unknown m)" using wf assms(2) by (rule set_status_safe) simp
  then have "manager_wf digest (set_status eid Unknown m)" by (simp add: safe_def)
  note refresh = refresh_slot_safe [OF this]
  show ?thesis
  proof (cases "execution_command_of (set_status eid Unknown m) eid")
    case None
    with step show ?thesis by (simp add: lose_attempt_def Let_def set_status_def)
  next
    case (Some c)
    from refresh [of "command_slot c"] obtain events m2
      where "refresh_relations_for_slot (command_slot c) (set_status eid Unknown m) = Some (events, m2)"
        and "safe digest (set_status eid Unknown m) m2"
        and "rm_execution_status m2 = rm_execution_status (set_status eid Unknown m)"
      by (auto simp: refresh_effect_def)
    with Some safe_trans [OF step] show ?thesis by (simp add: lose_attempt_def Let_def set_status_def)
  qed
qed

lemma lose_attempts_safe:
  assumes "manager_wf digest m" and "\<forall>eid \<in> set eids. \<not> status_is_terminal m eid"
  shows "\<exists>events m'. lose_attempts node reason eids m = Some (events, m') \<and> safe digest m m'"
  using assms
proof (induction eids arbitrary: m)
  case Nil
  then show ?case by (simp add: safe_refl)
next
  case (Cons eid eids)
  from Cons.prems lose_attempt_safe [of digest m eid node reason] obtain ev m1
    where m1: "lose_attempt node reason eid m = Some (ev, m1)" "safe digest m m1"
      and status: "rm_execution_status m1 = bt_insert eid Unknown (rm_execution_status m)" by auto
  have "\<forall>j \<in> set eids. \<not> status_is_terminal m1 j"
    using Cons.prems(2) by (auto simp: status_is_terminal_def execution_status_of_def status bt_get_insert)
  with Cons.IH [of m1] m1(2) obtain evs m2
    where "lose_attempts node reason eids m1 = Some (evs, m2)" "safe digest m1 m2"
    by (auto simp: safe_def)
  with m1 safe_trans [OF m1(2)] show ?case by simp
qed

lemma observe_node_unavailable_safe:
  assumes wf: "manager_wf digest m" and "observe_node_unavailable node reason m = (res, m')"
  shows "safe digest m m' \<and> res \<noteq> Panic"
proof -
  have "\<forall>eid \<in> set (unavailable_attempts m node). \<not> status_is_terminal m eid"
    by (auto simp: unavailable_attempts_def status_is_terminal_def is_some_and_iff)
  from lose_attempts_safe [OF wf this, of node reason] assms(2) show ?thesis
    by (auto simp: observe_node_unavailable_def)
qed

subsection \<open>Relations and spatial evidence\<close>

lemma spatial_record_safe:
  assumes wf: "manager_wf digest m" and "bt_get (rm_active_executions m) (sse_slot e) = Some (sse_execution_id e)"
    and "bt_get (rm_execution_nodes m) (sse_execution_id e) = Some (sse_node_id e)"
    and "\<not> trim_is_empty (sse_frame_id e)"
  shows "safe digest m (m\<lparr>rm_spatial_evidence := bt_insert (sse_slot e) e (rm_spatial_evidence m)\<rparr>)"
  using assms by (intro safeI [OF wf]) (auto simp: grows_def manager_wf_def inv_spatial_def bt_get_insert)

lemma observe_shared_spatial_evidence_safe:
  assumes wf: "manager_wf digest m" and frame: "\<not> trim_is_empty (sse_frame_id e)"
    and "observe_shared_spatial_evidence e m = (res, m')"
  shows "safe digest m m' \<and> res \<noteq> Panic"
proof (cases "bt_get (rm_active_executions m) (sse_slot e) = Some (sse_execution_id e)
    \<and> bt_get (rm_execution_nodes m) (sse_execution_id e) = Some (sse_node_id e)")
  case True
  let ?m1 = "m\<lparr>rm_spatial_evidence := bt_insert (sse_slot e) e (rm_spatial_evidence m)\<rparr>"
  from True have step: "safe digest m ?m1" using spatial_record_safe [OF wf _ _ frame] by blast
  then have "manager_wf digest ?m1" by (simp add: safe_def)
  from refresh_slot_safe [OF this, of "sse_slot e"] obtain events m2
    where "refresh_relations_for_slot (sse_slot e) ?m1 = Some (events, m2)" "safe digest ?m1 m2" by blast
  with True assms(3) safe_refl [OF wf] safe_trans [OF step] show ?thesis
    by (auto simp: observe_shared_spatial_evidence_def Let_def split: option.splits if_splits)
next
  case False
  with assms(3) safe_refl [OF wf] show ?thesis
    by (auto simp: observe_shared_spatial_evidence_def Let_def split: if_splits)
qed

text \<open>A specification the domain constructor returned.\<close>

definition spec_built :: "execution_relation_spec \<Rightarrow> bool" where
  "spec_built spec \<longleftrightarrow> relation_spec_new_typed (ers_relation_id spec) (ers_source spec) (ers_target spec)
     (ers_relation_type spec) = Inr spec"

lemma resolve_relation_wf: "spec_built spec \<Longrightarrow> relation_wf (resolve_relation grp mission modes spec)"
  by (cases spec; cases "ers_source spec"; cases "ers_target spec")
    (auto simp: spec_built_def relation_wf_def resolve_relation_def relation_spec_new_typed_def
      split: if_splits sum.splits)

lemma register_relation_safe:
  assumes wf: "manager_wf digest m" and "bt_get (rm_relations m) (rr_key r) = None" and "relation_wf r"
  shows "safe digest m (m\<lparr>rm_relations := bt_insert (rr_key r) r (rm_relations m),
      rm_relation_states := bt_insert (rr_key r) RelDormant (rm_relation_states m)\<rparr>)"
proof -
  have inv: "inv_relations (rm_relations m) (rm_relation_states m) (rm_relation_fences m)"
    "inv_proofs (rm_relation_proofs m) (rm_relations m) (rm_executions m)"
    using wf by (simp_all add: manager_wf_def)
  have "inv_relations (bt_insert (rr_key r) r (rm_relations m))
      (bt_insert (rr_key r) RelDormant (rm_relation_states m)) (rm_relation_fences m)"
    using inv(1) assms(3) by (auto simp: inv_relations_def bt_get_insert)
  moreover have "inv_proofs (rm_relation_proofs m) (bt_insert (rr_key r) r (rm_relations m)) (rm_executions m)"
    using inv(2) assms(2) unfolding inv_proofs_def by (metis bt_get_insert option.distinct(1))
  ultimately show ?thesis
    using wf assms(2) by (intro safeI [OF wf]) (simp_all add: grows_def manager_wf_def bt_extends_insert)
qed

lemma register_relations_with_modes_safe:
  assumes "manager_wf digest m" and "\<forall>spec \<in> set specs. spec_built spec"
    and "register_relations_with_modes grp mission specs modes m = (res, m')"
  shows "safe digest m m' \<and> res \<noteq> Panic"
  using assms
proof (induction specs arbitrary: m res m')
  case Nil
  then show ?case by (auto simp: safe_refl)
next
  case (Cons spec specs)
  let ?r = "resolve_relation grp mission modes spec"
  let ?m1 = "m\<lparr>rm_relations := bt_insert (rr_key ?r) ?r (rm_relations m),
      rm_relation_states := bt_insert (rr_key ?r) RelDormant (rm_relation_states m)\<rparr>"
  show ?case
  proof (cases "bt_get (rm_relations m) (rr_key ?r)")
    case None
    have step: "safe digest m ?m1"
      using Cons.prems(2) by (intro register_relation_safe [OF Cons.prems(1) None] resolve_relation_wf) simp
    obtain r1 m1 where rest: "register_relations_with_modes grp mission specs modes ?m1 = (r1, m1)"
      by fastforce
    have "safe digest ?m1 m1 \<and> r1 \<noteq> Panic"
      using Cons.IH [OF _ _ rest] step Cons.prems(2) by (simp add: safe_def)
    with None rest Cons.prems(3) safe_trans [OF step] show ?thesis
      by (auto simp: Let_def split: rt_result.splits)
  next
    case (Some existing)
    with Cons show ?thesis by (auto simp: Let_def safe_refl split: if_splits)
  qed
qed

lemma acknowledge_relation_reconciliation_safe:
  assumes wf: "manager_wf digest m" and "acknowledge_relation_reconciliation grp rid m = (res, m')"
  shows "safe digest m m' \<and> res \<noteq> Panic"
  using assms safe_refl [OF wf]
  by (auto simp: acknowledge_relation_reconciliation_def Let_def split: if_splits intro!: safeI
      simp: grows_def manager_wf_def inv_relations_def)

subsection \<open>Progress\<close>

lemma record_progress_safe:
  assumes "record_progress r sample advanced_at m = (res, m')" and wf: "manager_wf digest m"
    and "bt_get (rm_executions m) (ps_execution_id sample) = Some x"
    and "progress_key_admitted (sr_key r) (ex_command x)" and "sr_valid_for_ms r \<noteq> 0"
    and "ps_operation sample = ei_operation (ec_intent (ex_command x))" and "advanced_at \<le> sr_received_at r"
  shows "safe digest m m'"
  using assms
  by (intro safeI [OF wf])
    (auto simp: record_progress_def grows_def manager_wf_def inv_progress_def progress_wf_def
      progress_source_of_def bt_get_insert split: if_splits)

lemma observe_progress_safe:
  assumes wf: "manager_wf digest m" and "observe_progress r sample m = (res, m')"
  shows "safe digest m m'"
proof -
  have inv: "inv_progress (rm_progress m) (rm_executions m)" using wf by (simp add: manager_wf_def)
  have advanced: "po_last_advanced_at previous \<le> sr_received_at r"
    if previous: "bt_get (rm_progress m) (ps_execution_id sample) = Some previous"
      and "\<not> progress_regresses r sample previous" for previous
  proof -
    from inv previous have "po_last_advanced_at previous \<le> pr_received_at (po_record previous)"
      unfolding inv_progress_def progress_wf_def by blast
    also have "\<dots> \<le> sr_received_at r" using that(2) by (simp add: progress_regresses_def not_less)
    finally show ?thesis .
  qed
  from assms(2) safe_refl [OF wf] show ?thesis
    by (auto simp: observe_progress_def Let_def advanced wf split: option.splits if_splits
        elim!: record_progress_safe)
qed

lemma fence_progress_for_node_safe:
  assumes wf: "manager_wf digest m"
  shows "safe digest m (fence_progress_for_node node m)"
  using wf by (intro safeI [OF wf])
    (auto simp: fence_progress_for_node_def grows_def manager_wf_def inv_progress_def bt_get_retain
      split: option.splits if_splits)

subsection \<open>Coordination\<close>

text \<open>A Context that the domain constructors returned.\<close>

definition context_admissible :: "coordination_context \<Rightarrow> bool" where
  "context_admissible c \<longleftrightarrow>
     coordination_context_new_with_coordination (cc_context_id c) (cc_roles c) (cc_relations c) (cc_coupling_mode c)
       (cc_shared_view c) (cc_peer_channel c) = Inr (c\<lparr>cc_executor_constraints := []\<rparr>)
     \<and> with_executor_constraints (c\<lparr>cc_executor_constraints := []\<rparr>) (cc_executor_constraints c) = Inr c"

lemma context_admissible_facts:
  assumes "context_admissible c"
  shows "distinct (map cr_context_role_id (cc_roles c))"
    and "is_none_or (cc_shared_view c) (\<lambda>v. group_shared_view_validate v = Inr ())"
    and "is_none_or (cc_peer_channel c) (\<lambda>ch. \<not> trim_is_empty (pcs_profile_id ch)
      \<and> \<not> trim_is_empty (pcs_message_schema ch))"
    and "mode_requires (cc_coupling_mode c) DirectPeerChannel \<longrightarrow> 2 \<le> length (cc_roles c)"
proof -
  note built = assms [unfolded context_admissible_def coordination_context_new_with_coordination_def
      coordination_context_new_with_relations_def coordination_context_new_def, THEN conjunct1]
  show "distinct (map cr_context_role_id (cc_roles c))"
    using built bt_len_of_list_distinct [of "map cr_context_role_id (cc_roles c)"] by (auto split: if_splits)
  show "is_none_or (cc_shared_view c) (\<lambda>v. group_shared_view_validate v = Inr ())"
    using built by (auto simp: is_none_or_iff split: if_splits option.splits sum.splits)
  show "is_none_or (cc_peer_channel c) (\<lambda>ch. \<not> trim_is_empty (pcs_profile_id ch)
      \<and> \<not> trim_is_empty (pcs_message_schema ch))"
    using built by (auto simp: is_none_or_iff is_some_and_iff split: if_splits sum.splits)
  show "mode_requires (cc_coupling_mode c) DirectPeerChannel \<longrightarrow> 2 \<le> length (cc_roles c)"
    using built by (auto simp: Let_def validate_mechanisms_for_def split: if_splits sum.splits)
qed

text \<open>
  Evidence with the identities that \<open>restore_coordination_maps\<close> demands: the identity constructors and the
  session's ingress check (\<open>core/integration/src/grpc_server/session.rs\<close>) let no other through.
\<close>

definition evidence_identified :: "peer_readiness \<Rightarrow> bool" where
  "evidence_identified e \<longleftrightarrow>
     \<not> trim_is_empty (pe_node_id e) \<and> \<not> trim_is_empty (pe_local_system_id e)
     \<and> \<not> trim_is_empty (pe_session_id e) \<and> \<not> trim_is_empty (pe_channel_instance_id e) \<and> 0 < pe_sequence e"

text \<open>Only the channels change, and each stays with its key and valid.\<close>

lemma channels_safe:
  assumes wf: "manager_wf digest m"
    and "\<And>k ch. bt_get channels k = Some ch \<Longrightarrow> \<exists>old. bt_get (rm_peer_channels m) k = Some old
      \<and> pc_group_id ch = pc_group_id old \<and> pc_context_id ch = pc_context_id old
      \<and> (\<forall>c. channel_sound c old \<longrightarrow> channel_sound c ch)"
  shows "safe digest m (m\<lparr>rm_peer_channels := channels\<rparr>)"
proof -
  have inv: "inv_coordination (rm_coordination_contexts m) (rm_peer_channels m)"
    using wf by (simp add: manager_wf_def)
  have "k = (pc_group_id ch, pc_context_id ch) \<and> (\<exists>c. bt_get (rm_coordination_contexts m) k = Some c \<and> channel_sound c ch)"
    if "bt_get channels k = Some ch" for k ch
  proof -
    from assms(2) [OF that] obtain old where old: "bt_get (rm_peer_channels m) k = Some old"
      "pc_group_id ch = pc_group_id old" "pc_context_id ch = pc_context_id old"
      "\<forall>c. channel_sound c old \<longrightarrow> channel_sound c ch" by blast
    from inv old(1) have "k = (pc_group_id old, pc_context_id old)"
      "\<exists>c. bt_get (rm_coordination_contexts m) k = Some c \<and> channel_sound c old"
      unfolding inv_coordination_def by blast+
    with old(2-) show ?thesis by auto
  qed
  with inv have "inv_coordination (rm_coordination_contexts m) channels"
    by (simp add: inv_coordination_def)
  then show ?thesis
    using wf by (intro safeI [OF wf]) (simp_all add: grows_def manager_wf_def)
qed

lemma bt_len_of_map_distinct: "bt_len (bts_of_list (map f xs)) = length xs \<longleftrightarrow> distinct (map f xs)"
  using bt_len_of_list_distinct [of "map f xs"] by simp

lemma channel_sound_lifecycle [simp]: "channel_sound c (ch\<lparr>pc_lifecycle := l\<rparr>) = channel_sound c ch"
  by (simp add: channel_sound_def readiness_valid_def)

lemma readiness_valid_filter: "readiness_valid ch \<Longrightarrow> readiness_valid (ch\<lparr>pc_readiness := filter P (pc_readiness ch)\<rparr>)"
  by (auto simp: readiness_valid_def bt_len_of_map_distinct list_all_iff intro: distinct_map_filter)

lemma channel_sound_filter:
  "channel_sound c ch \<Longrightarrow> channel_sound c (ch\<lparr>pc_readiness := filter P (pc_readiness ch)\<rparr>)"
  "channel_sound c ch \<Longrightarrow> channel_sound c (ch\<lparr>pc_lifecycle := l, pc_readiness := filter P (pc_readiness ch)\<rparr>)"
  using readiness_valid_filter [of ch P] by (simp_all add: channel_sound_def readiness_valid_def)

lemma channel_sound_clear:
  "channel_sound c ch \<Longrightarrow> channel_sound c (ch\<lparr>pc_lifecycle := l, pc_readiness := []\<rparr>)"
  "channel_sound c ch \<Longrightarrow> channel_sound c (ch\<lparr>pc_readiness := []\<rparr>)"
  using channel_sound_filter [where P = "\<lambda>_. False"] by simp_all

lemma fence_expired_sound [simp]:
  "channel_sound c (fence_expired now ch) = channel_sound c ch"
  "pc_group_id (fence_expired now ch) = pc_group_id ch" "pc_context_id (fence_expired now ch) = pc_context_id ch"
  by (simp_all add: fence_expired_def)

lemma refresh_peer_channel_deadlines_safe:
  "manager_wf digest m \<Longrightarrow> safe digest m (refresh_peer_channel_deadlines now m)"
  unfolding refresh_peer_channel_deadlines_def
  by (rule channels_safe) (auto simp: bt_get_map)

lemma fence_peer_channels_for_node_safe:
  "manager_wf digest m \<Longrightarrow> safe digest m (fence_peer_channels_for_node node m)"
  unfolding fence_peer_channels_for_node_def
  by (rule channels_safe) (auto simp: bt_get_map channel_sound_filter)

lemma close_peer_channels_for_group_safe:
  "manager_wf digest m \<Longrightarrow> safe digest m (close_peer_channels_for_group grp m)"
  unfolding close_peer_channels_for_group_def
  by (rule channels_safe) (auto simp: bt_get_map channel_sound_clear)

lemma set_peer_channel_lifecycle_safe:
  assumes wf: "manager_wf digest m" and "set_peer_channel_lifecycle grp cid l m = (res, m')"
  shows "safe digest m m' \<and> res \<noteq> Panic"
  using assms safe_refl [OF wf]
  by (auto simp: set_peer_channel_lifecycle_def split: option.splits if_splits
      intro!: channels_safe simp: bt_get_insert)

lemma register_coordination_context_safe:
  assumes wf: "manager_wf digest m" and "context_admissible c"
    and "register_coordination_context grp c m = (res, m')"
  shows "safe digest m m' \<and> res \<noteq> Panic"
proof (cases "bt_get (rm_coordination_contexts m) (grp, cc_context_id c) = None
    \<and> \<not> bt_contains (rm_peer_channels m) (grp, cc_context_id c)")
  case True
  define contexts where "contexts = bt_insert (grp, cc_context_id c) (coordination_declaration grp c)
    (rm_coordination_contexts m)"
  define channels where "channels = (case planned_channel grp c of None \<Rightarrow> rm_peer_channels m
    | Some ch \<Rightarrow> bt_insert (grp, cc_context_id c) ch (rm_peer_channels m))"
  from True assms(3) have m': "m' = m\<lparr>rm_coordination_contexts := contexts, rm_peer_channels := channels\<rparr>" "res = Ok ()"
    by (auto simp: register_coordination_context_def Let_def contexts_def channels_def split: option.splits)
  note built = context_admissible_facts [OF assms(2)]
  have new: "channel_sound (coordination_declaration grp c) ch \<and> pc_group_id ch = grp \<and> pc_context_id ch = cc_context_id c"
    if "planned_channel grp c = Some ch" for ch
    using that built
    by (auto simp: planned_channel_def channel_sound_def readiness_valid_def coordination_declaration_def
        context_peers_def bt_len_of_list_distinct bt_len_of_map_distinct is_none_or_iff)
  have "inv_coordination (rm_coordination_contexts m) (rm_peer_channels m)"
    using wf by (simp add: manager_wf_def)
  then have "inv_coordination contexts channels"
    using new built(2) True
    by (auto simp: inv_coordination_def contexts_def channels_def coordination_declaration_def
        bt_get_insert bt_contains_iff split: option.splits if_splits)
  then show ?thesis
    using wf True m' by (auto simp: grows_def manager_wf_def bt_extends_insert contexts_def intro!: safeI)
next
  case False
  with assms(3) safe_refl [OF wf] show ?thesis
    by (auto simp: register_coordination_context_def Let_def split: option.splits if_splits)
qed

lemma accept_acknowledgement_sound:
  assumes "channel_sound c ch" and "evidence_identified e" and "pe_received_at e < pe_expires_at e"
    and "pe_group_id e = pc_group_id ch" and "pe_context_id e = pc_context_id ch"
    and "pe_context_role_id e \<in> set (pc_peers ch)" and "pcs_profile_id (pc_descriptor ch) = pe_profile_id e"
    and "pcs_message_schema (pc_descriptor ch) = pe_message_schema e"
  shows "channel_sound c (accept_acknowledgement e ch)"
proof -
  let ?old = "filter (\<lambda>ack. pe_context_role_id ack \<noteq> pe_context_role_id e) (pc_readiness ch)"
  have "readiness_valid (ch\<lparr>pc_readiness := ?old\<rparr>)"
    using assms(1) by (intro readiness_valid_filter) (simp add: channel_sound_def)
  then have "distinct (map pe_context_role_id (?old @ [e]))"
    by (auto simp: readiness_valid_def bt_len_of_map_distinct)
  moreover define acks where "acks = sort_key pe_context_role_id (?old @ [e])"
  ultimately have "distinct (map pe_context_role_id acks)" and acks: "set acks = insert e (set ?old)"
    by (auto simp: distinct_map simp del: filter_append)
  with \<open>readiness_valid (ch\<lparr>pc_readiness := ?old\<rparr>)\<close> have "readiness_valid (ch\<lparr>pc_readiness := acks\<rparr>)"
    using assms(2-) unfolding evidence_identified_def
    by (simp add: readiness_valid_def bt_len_of_map_distinct list_all_iff)
  with assms(1) show ?thesis
    by (simp add: accept_acknowledgement_def without_role_def Let_def channel_sound_def readiness_valid_def
        acks_def)
qed

lemma observe_channel_sound:
  assumes "channel_sound c ch" and "evidence_identified e" and "pe_received_at e < pe_expires_at e"
    and "pe_group_id e = pc_group_id ch" and "pe_context_id e = pc_context_id ch"
    and "observe_channel e ch = (res, ch')"
  shows "channel_sound c ch' \<and> pc_group_id ch' = pc_group_id ch \<and> pc_context_id ch' = pc_context_id ch
    \<and> res \<noteq> Panic"
proof -
  have "pc_group_id (accept_acknowledgement e ch) = pc_group_id ch"
    "pc_context_id (accept_acknowledgement e ch) = pc_context_id ch"
    by (simp_all add: accept_acknowledgement_def without_role_def Let_def)
  with assms accept_acknowledgement_sound [OF assms(1-5)] show ?thesis
    by (auto simp: observe_channel_def Let_def without_role_def channel_sound_filter
        split: if_splits option.splits)
qed

lemma observe_peer_channel_readiness_safe:
  assumes wf: "manager_wf digest m" and "evidence_identified e"
    and "observe_peer_channel_readiness e m = (res, m')"
  shows "safe digest m m' \<and> res \<noteq> Panic"
proof -
  define m1 where "m1 = refresh_peer_channel_deadlines (pe_received_at e) m"
  have step: "safe digest m m1" using refresh_peer_channel_deadlines_safe [OF wf] by (simp add: m1_def)
  then have wf1: "manager_wf digest m1" by (simp add: safe_def)
  show ?thesis
  proof (cases "pe_expires_at e \<le> pe_received_at e \<or> bt_get (rm_peer_channels m1) (pe_group_id e, pe_context_id e) = None")
    case True
    with assms(3) step show ?thesis
      by (auto simp: observe_peer_channel_readiness_def Let_def m1_def [symmetric] split: if_splits)
  next
    case False
    then obtain ch where ch: "bt_get (rm_peer_channels m1) (pe_group_id e, pe_context_id e) = Some ch"
      and expiry: "pe_received_at e < pe_expires_at e" by auto
    obtain r ch' where op: "observe_channel e ch = (r, ch')" by fastforce
    have "inv_coordination (rm_coordination_contexts m1) (rm_peer_channels m1)"
      using wf1 by (simp add: manager_wf_def)
    with ch have "pe_group_id e = pc_group_id ch" "pe_context_id e = pc_context_id ch"
      and sound: "\<exists>c. channel_sound c ch" unfolding inv_coordination_def by fastforce+
    from observe_channel_sound [OF _ assms(2) expiry this(1,2) op] sound
    have "safe digest m1 (m1\<lparr>rm_peer_channels := bt_insert (pe_group_id e, pe_context_id e) ch' (rm_peer_channels m1)\<rparr>)"
      and "r \<noteq> Panic"
      using ch by (auto intro!: channels_safe [OF wf1] simp: bt_get_insert split: if_splits)
    with False ch op assms(3) safe_trans [OF step] show ?thesis
      by (auto simp: observe_peer_channel_readiness_def Let_def m1_def [symmetric])
  qed
qed

end
