(* ===== verification/RT_Restore.thy ===== *)
theory RT_Restore
  imports RT_Preserve_Facts
begin

text \<open>
  Restoring the checkpoint of a well-formed manager succeeds, and gives a well-formed manager whose
  record extends the one that was saved.
\<close>

subsection \<open>Checks that pass\<close>

lemma check_each_iff: "check_each f xs = Inr () \<longleftrightarrow> (\<forall>x \<in> set xs. f x = Inr ())"
  by (induction xs) (auto split: sum.splits)

lemma first_error_iff: "first_error rs = Inr () \<longleftrightarrow> (\<forall>r \<in> set rs. r = Inr ())"
  by (induction rs) (auto split: sum.splits)

lemma guard_iff [simp]: "guard bad e = Inr () \<longleftrightarrow> \<not> bad"
  by (simp add: guard_def)

subsection \<open>Rebuilding a map from its values\<close>

lemma keyed_values:
  assumes "\<And>k v. bt_get m k = Some v \<Longrightarrow> key v = k"
  shows "map key (bt_values m) = bt_keys m"
  using assms by (auto simp: bt_values_def bt_keys_def bt_entries_iff)

lemma fold_values:
  assumes "\<And>k v. bt_get m k = Some v \<Longrightarrow> key v = k"
  shows "fold (\<lambda>v. bt_insert (key v) v) (bt_values m) bt_empty = m"
proof -
  have "fold (\<lambda>v. bt_insert (key v) v) (bt_values m) bt_empty
      = fold (\<lambda>(k, v). bt_insert k v) (bt_entries m) bt_empty"
    unfolding bt_values_def fold_map using assms by (intro fold_cong) (auto simp: bt_entries_iff)
  also have "\<dots> = m" using bt_of_list_entries [of m] by (simp add: bt_of_list_def)
  finally show ?thesis .
qed

lemma restore_relations_fold:
  "distinct (map rr_key rs) \<Longrightarrow> \<forall>r \<in> set rs. relation_wf r \<and> \<not> bt_contains acc (rr_key r) \<Longrightarrow>
     restore_relations rs acc = Inr (fold (\<lambda>r. bt_insert (rr_key r) r) rs acc)"
proof (induction rs arbitrary: acc)
  case (Cons r rs)
  have "restore_relations rs (bt_insert (rr_key r) r acc)
      = Inr (fold (\<lambda>r. bt_insert (rr_key r) r) rs (bt_insert (rr_key r) r acc))"
    by (rule Cons.IH) (use Cons.prems in \<open>auto simp: image_iff\<close>)
  moreover have "relation_wf r" "\<not> bt_contains acc (rr_key r)" using Cons.prems(2) by simp_all
  ultimately show ?case by (auto simp: relation_wf_def)
qed simp

lemma restore_relation_states_fold:
  "distinct (map fst rs) \<Longrightarrow> \<forall>(k, s) \<in> set rs. bt_contains relations k \<and> \<not> bt_contains acc k \<Longrightarrow>
     restore_relation_states relations rs acc = Inr (fold (\<lambda>(k, s). bt_insert k s) rs acc)"
  by (induction relations rs acc rule: restore_relation_states.induct) (force split: if_splits)+

lemma restore_relation_fences_fold:
  "distinct rs \<Longrightarrow> \<forall>k \<in> set rs. bt_contains relations k \<and> \<not> bts_member k acc \<Longrightarrow>
     restore_relation_fences relations rs acc = Inr (fold bts_insert rs acc)"
  by (induction relations rs acc rule: restore_relation_fences.induct) auto

lemma restore_relation_proofs_fold:
  "distinct (map fst rs) \<Longrightarrow> \<forall>(k, t) \<in> set rs.
     bt_contains relations k \<and> \<not> trim_is_empty t \<and> \<not> bt_contains acc k \<Longrightarrow>
     restore_relation_proofs relations rs acc = Inr (fold (\<lambda>(k, t). bt_insert k t) rs acc)"
  by (induction relations rs acc rule: restore_relation_proofs.induct) (force split: if_splits)+

lemma restore_contexts_fold:
  "distinct (map (\<lambda>c. (rcc_group_id c, rcc_context_id c)) cs) \<Longrightarrow>
   \<forall>c \<in> set cs. is_none_or (rcc_shared_view c) (\<lambda>v. group_shared_view_validate v = Inr ())
      \<and> \<not> bt_contains acc (rcc_group_id c, rcc_context_id c) \<Longrightarrow>
     restore_contexts cs acc = Inr (fold (\<lambda>c. bt_insert (rcc_group_id c, rcc_context_id c) c) cs acc)"
proof (induction cs arbitrary: acc)
  case (Cons c cs)
  let ?acc = "bt_insert (rcc_group_id c, rcc_context_id c) c acc"
  have "restore_contexts cs ?acc = Inr (fold (\<lambda>c. bt_insert (rcc_group_id c, rcc_context_id c) c) cs ?acc)"
    by (rule Cons.IH) (use Cons.prems in \<open>auto simp: image_iff\<close>)
  with Cons.prems(2) show ?case by (cases "rcc_shared_view c") simp_all
qed simp

lemma restore_channels_fold:
  "distinct (map (\<lambda>c. (pc_group_id c, pc_context_id c)) cs) \<Longrightarrow>
   \<forall>c \<in> set cs. bt_contains contexts (pc_group_id c, pc_context_id c) \<and> channel_valid c
      \<and> \<not> bt_contains acc (pc_group_id c, pc_context_id c) \<Longrightarrow>
     restore_channels contexts cs acc = Inr (fold (\<lambda>c. bt_insert (pc_group_id c, pc_context_id c) c) cs acc)"
proof (induction cs arbitrary: acc)
  case (Cons c cs)
  let ?acc = "bt_insert (pc_group_id c, pc_context_id c) c acc"
  have "restore_channels contexts cs ?acc = Inr (fold (\<lambda>c. bt_insert (pc_group_id c, pc_context_id c) c) cs ?acc)"
    by (rule Cons.IH) (use Cons.prems in \<open>auto simp: image_iff\<close>)
  with Cons.prems(2) show ?case by simp
qed simp

lemma restore_channels_cases:
  "(\<exists>channels. restore_channels contexts cs acc = Inr channels \<and> list_all channel_valid cs)
   \<or> restore_channels contexts cs acc = Inl (InvalidCheckpoint ''checkpoint contains duplicate or orphan peer channel'')"
  by (induction contexts cs acc rule: restore_channels.induct) auto

lemma restore_spatial_fold:
  "distinct (map sse_slot es) \<Longrightarrow> \<forall>e \<in> set es. \<not> trim_is_empty (sse_execution_id e)
      \<and> \<not> trim_is_empty (sse_frame_id e) \<and> \<not> bt_contains acc (sse_slot e) \<Longrightarrow>
     restore_spatial es acc = Inr (fold (\<lambda>e. bt_insert (sse_slot e) e) es acc)"
proof (induction es arbitrary: acc)
  case (Cons e es)
  let ?acc = "bt_insert (sse_slot e) e acc"
  have "restore_spatial es ?acc = Inr (fold (\<lambda>e. bt_insert (sse_slot e) e) es ?acc)"
    by (rule Cons.IH) (use Cons.prems in \<open>auto simp: image_iff\<close>)
  with Cons.prems(2) show ?case by simp
qed simp

lemma restore_active_fold:
  "distinct (map fst rs) \<Longrightarrow> \<forall>(k, s) \<in> set rs. \<not> bt_contains acc k \<Longrightarrow>
     restore_active rs acc = Inr (fold (\<lambda>(k, s). bt_insert k s) rs acc)"
  by (induction rs acc rule: restore_active.induct) (force split: if_splits)+

lemma restore_budgets_fold:
  "distinct (map rb_slot bs) \<Longrightarrow> \<forall>b \<in> set bs. \<not> bt_contains acc (rb_slot b) \<Longrightarrow>
     restore_budgets bs acc = Inr (fold (\<lambda>b. bt_insert (rb_slot b) b) bs acc)"
proof (induction bs arbitrary: acc)
  case (Cons b bs)
  let ?acc = "bt_insert (rb_slot b) b acc"
  have "restore_budgets bs ?acc = Inr (fold (\<lambda>b. bt_insert (rb_slot b) b) bs ?acc)"
    by (rule Cons.IH) (use Cons.prems in \<open>auto simp: image_iff\<close>)
  with Cons.prems(2) show ?case by simp
qed simp

lemma check_attempt_generations_ok:
  "distinct (map fst rs) \<Longrightarrow> \<forall>(slot, g) \<in> set rs. g \<noteq> 0 \<and> \<not> bts_member slot seen \<Longrightarrow>
     check_attempt_generations rs seen = Inr ()"
  by (induction rs seen rule: check_attempt_generations.induct) (force split: if_splits)+

lemma check_dispatch_outbox_ok:
  "distinct (map di_execution_id is) \<Longrightarrow> \<forall>i \<in> set is. \<not> trim_is_empty (di_execution_id i)
     \<and> bt_get executions (di_execution_id i) = Some \<lparr>ex_command = di_command i, ex_resource_ids = di_resource_ids i\<rparr>
     \<and> normalized_resources (di_resource_ids i) = di_resource_ids i \<and> \<not> bts_member (di_execution_id i) seen \<Longrightarrow>
     check_dispatch_outbox executions is seen = Inr ()"
proof (induction "is" arbitrary: seen)
  case (Cons i "is")
  have "check_dispatch_outbox executions is (bts_insert (di_execution_id i) seen) = Inr ()"
    by (rule Cons.IH) (use Cons.prems in \<open>auto simp: image_iff\<close>)
  with Cons.prems(2) show ?case by simp
qed simp

subsection \<open>A well-formed manager passes its own validators\<close>

lemma checkpoint_of_fields [simp]:
  "cp_terminal_received_at (checkpoint_of m) = rm_terminal_received_at m"
  "cp_group_recoveries (checkpoint_of m) = rm_group_recoveries m"
  "cp_recovery_stops (checkpoint_of m) = rm_recovery_stops m"
  "cp_recovery_budgets (checkpoint_of m) = bt_values (rm_recovery_budgets m)"
  "cp_progress (checkpoint_of m) = rm_progress m"
  "cp_executions (checkpoint_of m) = rm_executions m"
  "cp_execution_status (checkpoint_of m) = rm_execution_status m"
  "cp_execution_sequences (checkpoint_of m) = rm_execution_sequences m"
  "cp_execution_nodes (checkpoint_of m) = rm_execution_nodes m"
  "cp_active_executions (checkpoint_of m) = bt_entries (rm_active_executions m)"
  "cp_relations (checkpoint_of m) = bt_values (rm_relations m)"
  "cp_relation_states (checkpoint_of m) = bt_entries (rm_relation_states m)"
  "cp_relation_fences (checkpoint_of m) = bt_keys (rm_relation_fences m)"
  "cp_relation_proofs (checkpoint_of m) = bt_entries (rm_relation_proofs m)"
  "cp_coordination_contexts (checkpoint_of m) = bt_values (rm_coordination_contexts m)"
  "cp_peer_channels (checkpoint_of m) = bt_values (rm_peer_channels m)"
  "cp_spatial_evidence (checkpoint_of m) = bt_values (rm_spatial_evidence m)"
  "cp_attempt_generations (checkpoint_of m) = bt_entries (rm_attempt_generations m)"
  "cp_dispatch_outbox (checkpoint_of m) = bt_values (rm_dispatch_outbox m)"
  "cp_cancellation_intents (checkpoint_of m) = rm_cancellation_intents m"
  by (simp_all add: checkpoint_of_def)

lemma inv_executions_id:
  "inv_executions executions nodes statuses \<Longrightarrow> bt_get executions eid = Some x \<Longrightarrow> \<not> trim_is_empty eid"
  by (simp add: inv_executions_def)

lemma trim_is_empty_Nil [simp]: "trim_is_empty []"
  by (simp add: trim_is_empty.simps)

lemma check_execution_ok:
  assumes "manager_wf digest m" and "bt_get (rm_executions m) eid = Some x"
  shows "check_execution (checkpoint_of m) (eid, x) = Inr ()"
proof -
  have "inv_executions (rm_executions m) (rm_execution_nodes m) (rm_execution_status m)"
    using assms(1) by (simp add: manager_wf_def)
  with assms(2) have "\<not> trim_is_empty eid" "command_wf (ex_command x)"
    "bt_get (rm_execution_nodes m) eid = Some (ec_node_id (ex_command x))" "bt_contains (rm_execution_status m) eid"
    by (simp_all add: inv_executions_def)
  then show ?thesis
    by (auto simp: check_execution_def command_wf_def is_some_and_iff is_none_or_iff)
qed

lemma check_outbox_wf:
  assumes "manager_wf digest m"
  shows "check_dispatch_outbox (rm_executions m) (bt_values (rm_dispatch_outbox m)) bt_empty = Inr ()"
proof (rule check_dispatch_outbox_ok)
  have inv: "inv_outbox (rm_dispatch_outbox m) (rm_executions m)"
    "inv_executions (rm_executions m) (rm_execution_nodes m) (rm_execution_status m)"
    using assms by (simp_all add: manager_wf_def)
  then show "distinct (map di_execution_id (bt_values (rm_dispatch_outbox m)))"
    by (subst keyed_values) (auto simp: inv_outbox_def)
  show "\<forall>i \<in> set (bt_values (rm_dispatch_outbox m)). \<not> trim_is_empty (di_execution_id i)
     \<and> bt_get (rm_executions m) (di_execution_id i) = Some \<lparr>ex_command = di_command i, ex_resource_ids = di_resource_ids i\<rparr>
     \<and> normalized_resources (di_resource_ids i) = di_resource_ids i \<and> \<not> bts_member (di_execution_id i) bt_empty"
    using inv by (fastforce simp: bt_values_iff inv_outbox_def inv_executions_def)
qed

lemma check_proof_ok:
  assumes "manager_wf digest m" and "bt_get (rm_relation_proofs m) k = Some t"
  shows "check_proof (checkpoint_of m) (k, t) = Inr ()"
proof -
  obtain grp rid where k: "k = (grp, rid)" by (cases k)
  have inv: "inv_proofs (rm_relation_proofs m) (rm_relations m) (rm_executions m)"
    "inv_relations (rm_relations m) (rm_relation_states m) (rm_relation_fences m)"
    using assms(1) by (simp_all add: manager_wf_def)
  from inv(1) assms(2) obtain r x where r: "bt_get (rm_relations m) k = Some r"
    "bt_get (rm_executions m) t = Some x" "command_slot (ex_command x) = rr_target_key r"
    unfolding inv_proofs_def by blast
  have "r' = r" if "find (\<lambda>r. rr_group_id r = grp \<and> rr_relation_id r = rid) (bt_values (rm_relations m)) = Some r'" for r'
  proof -
    from find_SomeD [OF that] obtain k' where "bt_get (rm_relations m) k' = Some r'" "rr_key r' = k"
      by (auto simp: bt_values_iff rr_key_def k)
    moreover from this(1) inv(2) have "rr_key r' = k'" by (simp add: inv_relations_def)
    ultimately show ?thesis using r(1) by simp
  qed
  with r(2,3) show ?thesis
    by (auto simp: check_proof_def k split: option.splits)
qed

lemma validate_checkpoint_wf:
  assumes wf: "manager_wf digest m"
  shows "validate_checkpoint (checkpoint_of m) = Inr ()"
proof -
  have inv: "inv_generations (rm_attempt_generations m)" "inv_cancellations (rm_cancellation_intents m) (rm_executions m)"
    "inv_active (rm_active_executions m) (rm_executions m)"
    "inv_observed (rm_execution_sequences m) (rm_execution_nodes m) (rm_execution_status m)" "admissions_wf m"
    using wf by (simp_all add: manager_wf_def groups_wf_def)
  have "check_attempt_generations (bt_entries (rm_attempt_generations m)) bt_empty = Inr ()"
  proof (rule check_attempt_generations_ok)
    have "g \<noteq> 0" if "(slot, g) \<in> set (bt_entries (rm_attempt_generations m))" for slot g
      using that inv(1) by (simp add: inv_generations_def bt_entries_iff)
    then show "\<forall>(slot, g) \<in> set (bt_entries (rm_attempt_generations m)). g \<noteq> 0 \<and> \<not> bts_member slot bt_empty"
      by auto
  qed (use bt_keys_distinct [of "rm_attempt_generations m"] in \<open>simp add: bt_keys_def\<close>)
  moreover have "check_each (check_active (checkpoint_of m)) (bt_entries (rm_active_executions m)) = Inr ()"
    using inv(3) by (fastforce simp: check_each_iff check_active_def inv_active_def bt_entries_iff)
  moreover have "\<not> list_ex (\<lambda>i. list_ex (\<lambda>eid. is_none_or (bt_get (rm_execution_status m) eid) (\<lambda>s. s = Dispatched))
      (bt_keys (gri_admitted_at_ms i))) (rm_group_recoveries m)"
    using inv(5) by (fastforce simp: list_ex_iff admissions_wf_def bt_keys_iff)
  moreover have "\<not> list_ex (\<lambda>eid. \<not> bt_contains (rm_executions m) eid) (bt_keys (rm_cancellation_intents m))"
    using inv(2) by (simp add: list_ex_iff inv_cancellations_def bts_member_keys)
  moreover have "check_each (check_execution (checkpoint_of m)) (bt_entries (rm_executions m)) = Inr ()"
    using check_execution_ok [OF wf] by (auto simp: check_each_iff bt_entries_iff)
  moreover have "check_each (check_proof (checkpoint_of m)) (bt_entries (rm_relation_proofs m)) = Inr ()"
    using check_proof_ok [OF wf] by (auto simp: check_each_iff bt_entries_iff)
  ultimately show ?thesis
    using inv(4) check_outbox_wf [OF wf] unfolding validate_checkpoint_def first_error_iff
    by (simp add: check_each_iff [of "\<lambda>eid. guard (P eid) (e eid)" for P e] bt_keys_iff inv_observed_def)
qed

lemma fold_entries: "fold (\<lambda>(k, v). bt_insert k v) (bt_entries m) bt_empty = m"
  using bt_of_list_entries [of m] by (simp add: bt_of_list_def)

lemma fold_keys: "fold bts_insert (bt_keys s) bt_empty = s" for s :: "'a::linorder btset"
  using bts_of_list_keys [of s] by (simp add: bts_of_list_def)

lemma entries_distinct [simp]: "distinct (map fst (bt_entries m))"
  using bt_keys_distinct [of m] by (simp add: bt_keys_def)

lemma restore_relation_maps_wf:
  assumes wf: "manager_wf digest m"
  shows "restore_relation_maps (bt_values (rm_relations m)) (bt_entries (rm_relation_states m))
      (bt_keys (rm_relation_fences m)) (bt_entries (rm_relation_proofs m))
    = Inr (rm_relations m, rm_relation_states m, rm_relation_fences m, rm_relation_proofs m)"
proof -
  have inv: "inv_relations (rm_relations m) (rm_relation_states m) (rm_relation_fences m)"
    "inv_proofs (rm_relation_proofs m) (rm_relations m) (rm_executions m)"
    "inv_executions (rm_executions m) (rm_execution_nodes m) (rm_execution_status m)"
    using wf by (simp_all add: manager_wf_def)
  have key: "bt_get (rm_relations m) k = Some r \<Longrightarrow> rr_key r = k" for k r using inv(1) by (simp add: inv_relations_def)
  have relations: "restore_relations (bt_values (rm_relations m)) bt_empty = Inr (rm_relations m)"
    using inv(1) keyed_values [of "rm_relations m" rr_key, OF key]
    by (subst restore_relations_fold) (auto simp: fold_values [OF key] bt_values_iff inv_relations_def)
  have "bt_contains (rm_relations m) k" if "bt_get (rm_relation_states m) k = Some st" for k st
    using that inv(1) by (auto simp: inv_relations_def bt_contains_iff)
  then have states: "restore_relation_states (rm_relations m) (bt_entries (rm_relation_states m)) bt_empty
      = Inr (rm_relation_states m)"
    by (subst restore_relation_states_fold) (auto simp: fold_entries bt_entries_iff)
  have fences: "restore_relation_fences (rm_relations m) (bt_keys (rm_relation_fences m)) bt_empty
      = Inr (rm_relation_fences m)"
    using inv(1) by (subst restore_relation_fences_fold) (auto simp: fold_keys bts_member_keys inv_relations_def)
  have "bt_contains (rm_relations m) k \<and> \<not> trim_is_empty t" if "bt_get (rm_relation_proofs m) k = Some t" for k t
  proof -
    from that inv(2) obtain r x where "bt_get (rm_relations m) k = Some r" "bt_get (rm_executions m) t = Some x"
      unfolding inv_proofs_def by blast
    with inv_executions_id [OF inv(3)] show ?thesis by (auto simp: bt_contains_iff)
  qed
  then have proofs: "restore_relation_proofs (rm_relations m) (bt_entries (rm_relation_proofs m)) bt_empty
      = Inr (rm_relation_proofs m)"
    by (subst restore_relation_proofs_fold) (auto simp: fold_entries bt_entries_iff)
  have "set (bt_keys (rm_relation_states m)) = set (bt_keys (rm_relations m))"
    using inv(1) by (auto simp: inv_relations_def bt_keys_iff)
  then have "bt_len (rm_relation_states m) = bt_len (rm_relations m)"
    by (metis bt_keys_distinct distinct_card bt_len_def bt_keys_def length_map)
  with relations states fences proofs show ?thesis by (simp add: restore_relation_maps_def)
qed

lemma restore_coordination_maps_wf:
  assumes wf: "manager_wf digest m"
  shows "restore_coordination_maps (bt_values (rm_coordination_contexts m)) (bt_values (rm_peer_channels m))
    = (if channels_paired m then Inr (rm_coordination_contexts m, rm_peer_channels m)
       else Inl (InvalidCheckpoint ''checkpoint contains duplicate or orphan peer channel''))"
proof -
  have inv: "inv_coordination (rm_coordination_contexts m) (rm_peer_channels m)"
    using wf by (simp add: manager_wf_def)
  have ck: "bt_get (rm_coordination_contexts m) k = Some c \<Longrightarrow> (rcc_group_id c, rcc_context_id c) = k" for k c
    using inv by (simp add: inv_coordination_def)
  have pk: "bt_get (rm_peer_channels m) k = Some c \<Longrightarrow> (pc_group_id c, pc_context_id c) = k" for k c
    using inv by (simp add: inv_coordination_def)
  have "is_none_or (rcc_shared_view c) (\<lambda>v. group_shared_view_validate v = Inr ())"
    if "bt_get (rm_coordination_contexts m) k = Some c" for k c
    using inv that unfolding inv_coordination_def by blast
  then have contexts: "restore_contexts (bt_values (rm_coordination_contexts m)) bt_empty = Inr (rm_coordination_contexts m)"
    using keyed_values [of "rm_coordination_contexts m" "\<lambda>c. (rcc_group_id c, rcc_context_id c)", OF ck]
    by (subst restore_contexts_fold) (auto simp: fold_values [OF ck] bt_values_iff)
  have sound: "\<exists>r. bt_get (rm_coordination_contexts m) (pc_group_id c, pc_context_id c) = Some r \<and> channel_sound r c"
    if "bt_get (rm_peer_channels m) k = Some c" for k c
    using inv that pk [OF that] unfolding inv_coordination_def by metis
  show ?thesis
  proof (cases "channels_paired m")
    case True
    have "bt_contains (rm_coordination_contexts m) (pc_group_id c, pc_context_id c) \<and> channel_valid c"
      if "bt_get (rm_peer_channels m) k = Some c" for k c
    proof -
      from True that have "2 \<le> length (pc_peers c)" by (auto simp: channels_paired_def list_all_iff bt_values_iff)
      with sound [OF that] show ?thesis by (auto simp: channel_sound_valid bt_contains_iff)
    qed
    then have "restore_channels (rm_coordination_contexts m) (bt_values (rm_peer_channels m)) bt_empty = Inr (rm_peer_channels m)"
      using keyed_values [of "rm_peer_channels m" "\<lambda>c. (pc_group_id c, pc_context_id c)", OF pk]
      by (subst restore_channels_fold) (auto simp: fold_values [OF pk] bt_values_iff)
    with True contexts show ?thesis by (simp add: restore_coordination_maps_def)
  next
    case False
    then have "\<not> list_all channel_valid (bt_values (rm_peer_channels m))"
      by (auto simp: channels_paired_def list_all_iff channel_valid_def)
    with False contexts restore_channels_cases
        [of "rm_coordination_contexts m" "bt_values (rm_peer_channels m)" bt_empty] show ?thesis
      by (auto simp: restore_coordination_maps_def)
  qed
qed

lemma restore_spatial_wf:
  assumes wf: "manager_wf digest m"
  shows "restore_spatial (bt_values (rm_spatial_evidence m)) bt_empty = Inr (rm_spatial_evidence m)"
    and "check_spatial_owner (checkpoint_of m) (rm_active_executions m) (rm_spatial_evidence m) = Inr ()"
proof -
  have inv: "inv_spatial (rm_spatial_evidence m) (rm_active_executions m) (rm_execution_nodes m)"
    "inv_active (rm_active_executions m) (rm_executions m)"
    "inv_executions (rm_executions m) (rm_execution_nodes m) (rm_execution_status m)"
    using wf by (simp_all add: manager_wf_def)
  have key: "bt_get (rm_spatial_evidence m) k = Some e \<Longrightarrow> sse_slot e = k" for k e
    using inv(1) by (simp add: inv_spatial_def)
  have "\<not> trim_is_empty (sse_execution_id e) \<and> \<not> trim_is_empty (sse_frame_id e)"
    if "bt_get (rm_spatial_evidence m) k = Some e" for k e
  proof -
    from inv(1) that have "bt_get (rm_active_executions m) k = Some (sse_execution_id e)" "\<not> trim_is_empty (sse_frame_id e)"
      unfolding inv_spatial_def by blast+
    with inv(2) inv_executions_id [OF inv(3)] show ?thesis unfolding inv_active_def by blast
  qed
  then show "restore_spatial (bt_values (rm_spatial_evidence m)) bt_empty = Inr (rm_spatial_evidence m)"
    using keyed_values [of "rm_spatial_evidence m" sse_slot, OF key]
    by (subst restore_spatial_fold) (auto simp: fold_values [OF key] bt_values_iff)
  have "bt_get (rm_active_executions m) slot = Some (sse_execution_id e)
      \<and> bt_get (rm_execution_nodes m) (sse_execution_id e) = Some (sse_node_id e)"
    if "bt_get (rm_spatial_evidence m) slot = Some e" for slot e
    using inv(1) that unfolding inv_spatial_def by blast
  then show "check_spatial_owner (checkpoint_of m) (rm_active_executions m) (rm_spatial_evidence m) = Inr ()"
    by (auto simp: check_spatial_owner_def check_each_iff bt_entries_iff)
qed

lemma restore_budgets_wf:
  assumes wf: "manager_wf digest m"
  shows "restore_budgets (bt_values (rm_recovery_budgets m)) bt_empty = Inr (rm_recovery_budgets m)"
proof -
  have key: "bt_get (rm_recovery_budgets m) k = Some b \<Longrightarrow> rb_slot b = k" for k b
    using wf by (simp add: manager_wf_def stops_wf_def recovery_budget_valid_def)
  then show ?thesis
    using keyed_values [of "rm_recovery_budgets m" rb_slot, OF key]
    by (subst restore_budgets_fold) (auto simp: fold_values [OF key] bt_values_iff)
qed

subsection \<open>The restored manager\<close>

text \<open>What \<open>restore\<close> builds from the checkpoint of a live manager before it refreshes the relations.\<close>

definition restored_base :: "manager \<Rightarrow> manager" where
  "restored_base m = build_restored (checkpoint_of m)
     (rm_relations m, rm_relation_states m, rm_relation_fences m, rm_relation_proofs m)
     (rm_coordination_contexts m, rm_peer_channels m) (rm_spatial_evidence m) (rm_active_executions m)
     (rm_recovery_budgets m)"

definition default_generations :: "execution_slot list \<Rightarrow> (execution_slot, u64) btmap \<Rightarrow> (execution_slot, u64) btmap" where
  "default_generations slots gens = fold (\<lambda>slot gens. bt_or_insert slot 1 gens) slots gens"

lemma default_generations_get:
  "bt_get (default_generations slots gens) slot =
     (case bt_get gens slot of Some g \<Rightarrow> Some g | None \<Rightarrow> if slot \<in> set slots then Some 1 else None)"
  unfolding default_generations_def
  by (induction slots arbitrary: gens) (auto simp: bt_get_or_insert split: option.splits)

lemma restored_outbox:
  assumes "manager_wf digest m"
  shows "bt_of_list (map (\<lambda>i. (di_execution_id i, i)) (bt_values (rm_dispatch_outbox m))) = rm_dispatch_outbox m"
proof -
  have "bt_get (rm_dispatch_outbox m) k = Some i \<Longrightarrow> di_execution_id i = k" for k i
    using assms by (simp add: manager_wf_def inv_outbox_def)
  from fold_values [of "rm_dispatch_outbox m" di_execution_id, OF this] show ?thesis
    by (simp add: bt_of_list_def fold_map o_def)
qed

lemma restored_base_fields [simp]:
  "rm_terminal_received_at (restored_base m) = rm_terminal_received_at m"
  "rm_group_recoveries (restored_base m) = rm_group_recoveries m"
  "rm_recovery_stops (restored_base m) = rm_recovery_stops m"
  "rm_recovery_budgets (restored_base m) = rm_recovery_budgets m"
  "rm_progress (restored_base m) = rm_progress m"
  "rm_executions (restored_base m) = rm_executions m"
  "rm_execution_status (restored_base m) = bt_map (\<lambda>_. restored_status) (rm_execution_status m)"
  "rm_execution_sequences (restored_base m) = rm_execution_sequences m"
  "rm_execution_nodes (restored_base m) = rm_execution_nodes m"
  "rm_active_executions (restored_base m) = rm_active_executions m"
  "rm_restored_executions (restored_base m) = bts_of_list (bt_keys (rm_executions m))"
  "rm_relations (restored_base m) = rm_relations m"
  "rm_relation_states (restored_base m) = rm_relation_states m"
  "rm_relation_fences (restored_base m) = rm_relation_fences m"
  "rm_relation_proofs (restored_base m) = rm_relation_proofs m"
  "rm_coordination_contexts (restored_base m) = rm_coordination_contexts m"
  "rm_peer_channels (restored_base m) = bt_map (\<lambda>_. restore_channel) (rm_peer_channels m)"
  "rm_spatial_evidence (restored_base m) = rm_spatial_evidence m"
  "rm_attempt_generations (restored_base m)
     = default_generations (bt_keys (rm_active_executions m)) (rm_attempt_generations m)"
  "rm_cancellation_intents (restored_base m) = rm_cancellation_intents m"
  by (simp_all add: restored_base_def build_restored_def default_generations_def)

lemma restored_base_outbox:
  "manager_wf digest m \<Longrightarrow> rm_dispatch_outbox (restored_base m) = rm_dispatch_outbox m"
  by (simp add: restored_base_def build_restored_def restored_outbox)

lemma restored_base_safe:
  assumes wf: "manager_wf digest m"
  shows "safe digest m (restored_base m)"
proof (rule safeI [OF wf])
  have inv: "inv_coordination (rm_coordination_contexts m) (rm_peer_channels m)"
    "inv_terminal_times (rm_terminal_received_at m) (rm_executions m) (rm_execution_status m)"
    "inv_generations (rm_attempt_generations m)" using wf by (simp_all add: manager_wf_def)
  have "bt_extends (\<le>) (rm_attempt_generations m)
      (default_generations (bt_keys (rm_active_executions m)) (rm_attempt_generations m))"
    by (simp add: bt_extends_def default_generations_get)
  moreover have "bt_extends (=) (rm_restored_executions m) (bts_of_list (bt_keys (rm_executions m)))"
    using wf by (simp add: manager_wf_def inv_cancellations_def bts_extends bt_keys_iff)
  ultimately show "grows m (restored_base m)"
    by (auto simp: grows_def status_grows_def restored_status_def intro!: bt_extends_map)
  show "inv_terminal_times (rm_terminal_received_at (restored_base m)) (rm_executions (restored_base m))
      (rm_execution_status (restored_base m))"
    using inv(2) by (fastforce simp: inv_terminal_times_def bt_get_map restored_status_def)
  show "inv_cancellations (rm_restored_executions (restored_base m)) (rm_executions (restored_base m))"
    by (simp add: inv_cancellations_def bt_keys_iff)
  show "inv_generations (rm_attempt_generations (restored_base m))"
    using inv(3) by (auto simp: inv_generations_def default_generations_get split: option.splits if_splits)
  have "k = (pc_group_id ch, pc_context_id ch) 
      \<and> (\<exists>c. bt_get (rm_coordination_contexts m) k = Some c \<and> channel_sound c ch)"
    if "bt_get (bt_map (\<lambda>_. restore_channel) (rm_peer_channels m)) k = Some ch" for k ch
  proof -
    from that obtain old where "bt_get (rm_peer_channels m) k = Some old" "ch = restore_channel old"
      by (auto simp: bt_get_map)
    moreover from this(1) inv(1) have "k = (pc_group_id old, pc_context_id old)"
      "\<exists>c. bt_get (rm_coordination_contexts m) k = Some c \<and> channel_sound c old" unfolding inv_coordination_def by blast+
    ultimately show ?thesis by (auto simp: restore_channel_def channel_sound_clear)
  qed
  with inv(1) show "inv_coordination (rm_coordination_contexts (restored_base m)) (rm_peer_channels (restored_base m))"
    by (simp add: inv_coordination_def)
qed (use wf in \<open>simp_all add: manager_wf_def inv_executions_def inv_observed_def restored_base_outbox [OF wf]\<close>)

lemma validate_progress_wf: "manager_wf digest m \<Longrightarrow> validate_progress m = Inr ()"
  by (fastforce simp: manager_wf_def validate_progress_def check_each_iff bt_entries_iff inv_progress_def
      progress_wf_def not_less)

lemma validate_recovery_stops_wf: "manager_wf digest m \<Longrightarrow> validate_recovery_stops m = Inr ()"
proof -
  assume "manager_wf digest m"
  then have stops: "stops_wf m" by (simp add: manager_wf_def)
  have "check_each (\<lambda>(eid, i). case bt_get (rm_executions m) eid of
          None \<Rightarrow> Inl (InvalidCheckpoint ''recovery stop has no execution'')
        | Some x \<Rightarrow> if recovery_stop_valid m eid i (command_slot (ex_command x)) then Inr ()
            else Inl (InvalidCheckpoint ''invalid recovery stop authorization or confirmation''))
      (bt_entries (rm_recovery_stops m)) = Inr ()"
    using stops by (fastforce simp: check_each_iff bt_entries_iff stops_wf_def)
  moreover have "recovery_budget_valid m slot b" if "bt_get (rm_recovery_budgets m) slot = Some b" for slot b
    using stops that unfolding stops_wf_def by blast
  then have "check_each (\<lambda>(slot, b). if recovery_budget_valid m slot b then Inr ()
      else Inl (InvalidCheckpoint ''invalid recovery budget history'')) (bt_entries (rm_recovery_budgets m)) = Inr ()"
    by (auto simp: check_each_iff bt_entries_iff)
  ultimately show ?thesis by (simp only: validate_recovery_stops_def sum.case)
qed

lemma terminal_times_wf: "manager_wf digest m \<Longrightarrow> check_terminal_times (checkpoint_of m) = Inr ()"
  by (fastforce simp: check_terminal_times_def check_each_iff bt_keys_iff manager_wf_def
      inv_terminal_times_def is_none_or_iff)

text \<open>
  The checkpoint of a well-formed manager restores when every channel has two peers, and is refused otherwise.
\<close>

lemma restore_checkpoint:
  assumes wf: "manager_wf digest m" and "channels_paired m"
  obtains m' where "restore digest (checkpoint_of m) = Ok m'" "safe digest m m'"
    "refresh_effect (restored_base m) (set (bt_keys (rm_relations m))) m'"
    "refresh_all_relations_after_restore (restored_base m) = Some m'"
proof -
  from refresh_all_effect [of "restored_base m"] obtain m'
    where m': "refresh_all_relations_after_restore (restored_base m) = Some m'"
      and effect: "refresh_effect (restored_base m) (set (bt_keys (rm_relations m))) m'" by auto
  have base: "safe digest m (restored_base m)" by (rule restored_base_safe [OF wf])
  then have "safe digest (restored_base m) m'"
    by (intro refresh_effect_safe [OF _ effect]) (simp_all add: safe_def bt_keys_iff)
  with base have safe: "safe digest m m'" by (rule safe_trans)
  then have wf': "manager_wf digest m'" by (simp add: safe_def)
  then have "finish_restore digest (restored_base m) = Ok m'"
    using validate_progress_wf [OF wf'] validate_recovery_stops_wf [OF wf'] m'
    by (simp add: finish_restore_def manager_wf_def groups_wf_def)
  moreover have "restore_active (bt_entries (rm_active_executions m)) bt_empty = Inr (rm_active_executions m)"
    by (subst restore_active_fold) (auto simp: fold_entries)
  ultimately have "restore digest (checkpoint_of m) = Ok m'"
    using terminal_times_wf [OF wf] validate_checkpoint_wf [OF wf] restore_relation_maps_wf [OF wf]
      restore_coordination_maps_wf [OF wf] assms(2)
      restore_spatial_wf [OF wf] restore_budgets_wf [OF wf]
    by (simp add: restore_def restored_base_def)
  with safe effect m' show ?thesis by (intro that)
qed

lemma restore_unpaired:
  assumes wf: "manager_wf digest m" and "\<not> channels_paired m"
  shows "restore digest (checkpoint_of m)
    = Err (InvalidCheckpoint ''checkpoint contains duplicate or orphan peer channel'')"
  using terminal_times_wf [OF wf] validate_checkpoint_wf [OF wf] restore_relation_maps_wf [OF wf]
    restore_coordination_maps_wf [OF wf] assms(2)
  by (simp add: restore_def)

lemma restored_manager:
  assumes wf: "manager_wf digest m" and ok: "restore digest (checkpoint_of m) = Ok m'"
  shows "channels_paired m" and "safe digest m m'"
    and "refresh_effect (restored_base m) (set (bt_keys (rm_relations m))) m'"
    and "refresh_all_relations_after_restore (restored_base m) = Some m'"
proof -
  show paired: "channels_paired m" using restore_unpaired [OF wf] ok by fastforce
  obtain m1 where "restore digest (checkpoint_of m) = Ok m1" "safe digest m m1"
    "refresh_effect (restored_base m) (set (bt_keys (rm_relations m))) m1"
    "refresh_all_relations_after_restore (restored_base m) = Some m1"
    by (rule restore_checkpoint [OF wf paired])
  with ok show "safe digest m m'" "refresh_effect (restored_base m) (set (bt_keys (rm_relations m))) m'"
    "refresh_all_relations_after_restore (restored_base m) = Some m'" by simp_all
qed

end
