(* ===== verification/RT_Preserve_Recovery.thy ===== *)
theory RT_Preserve_Recovery
  imports RT_Preserve
begin

text \<open>
  Cancellation, isolated Role recovery and Group recovery keep the manager well formed.
\<close>

text \<open>An operation that writes only the recovery maps and the cancellation requests.\<close>

lemma recovery_safeI:
  assumes wf: "manager_wf digest m"
    and m': "m' = m\<lparr>rm_recovery_stops := stops, rm_recovery_budgets := budgets, rm_group_recoveries := rounds,
      rm_cancellation_intents := cancellations\<rparr>"
    and "inv_cancellations cancellations (rm_executions m)"
    and "bt_extends (=) (rm_cancellation_intents m) cancellations"
    and "bt_extends stop_grows (rm_recovery_stops m) stops"
    and "bt_extends budget_grows (rm_recovery_budgets m) budgets"
    and "rounds_grow (rm_group_recoveries m) rounds"
    and "grows m m' \<Longrightarrow> stops_wf m'" and "grows m m' \<Longrightarrow> groups_wf digest m'"
  shows "safe digest m m'"
proof -
  from assms have "grows m m'" by (simp add: grows_def)
  with assms show ?thesis by (simp add: safe_def manager_wf_def)
qed

lemma rounds_mono:
  assumes "manager_wf digest m" and "grows m m'" and "rm_group_recoveries m' = rm_group_recoveries m"
  shows "groups_wf digest m'"
  using assms by (auto intro: groups_wf_mono simp: manager_wf_def)

text \<open>Rounds are rewritten in place.\<close>

lemma rounds_map:
  assumes wf: "manager_wf digest m" and grows: "grows m m'"
    and "rm_group_recoveries m' = map f (rm_group_recoveries m)"
    and key: "\<And>i. i \<in> set (rm_group_recoveries m) \<Longrightarrow> round_key (f i) = round_key i"
    and valid: "\<And>i. i \<in> set (rm_group_recoveries m) \<Longrightarrow> group_intent_valid digest m' i = Some True \<Longrightarrow>
      preserved_wf i \<Longrightarrow> group_intent_valid digest m' (f i) = Some True \<and> preserved_wf (f i)"
    and admitted: "\<And>i eid. i \<in> set (rm_group_recoveries m) \<Longrightarrow> bt_contains (gri_admitted_at_ms (f i)) eid \<Longrightarrow>
      bt_contains (gri_admitted_at_ms i) eid
      \<or> (\<exists>s. bt_get (rm_execution_status m') eid = Some s \<and> s \<noteq> Dispatched)"
  shows "groups_wf digest m'"
proof -
  have old: "groups_wf digest m" using wf by (simp add: manager_wf_def)
  have "map round_key (rm_group_recoveries m') = map round_key (rm_group_recoveries m)"
    using key assms(3) by simp
  with old have "rounds_allowed [] (map round_key (rm_group_recoveries m'))"
    by (simp only: groups_wf_iff)
  moreover have "group_intent_valid digest m' (f i) = Some True \<and> preserved_wf (f i)"
    if "i \<in> set (rm_group_recoveries m)" for i
    using that old by (intro valid group_intent_valid_mono [OF grows]) (auto simp: groups_wf_iff)
  moreover have "\<exists>s. bt_get (rm_execution_status m') eid = Some s \<and> s \<noteq> Dispatched"
    if "i \<in> set (rm_group_recoveries m)" "bt_contains (gri_admitted_at_ms (f i)) eid" for i eid
    using admitted [OF that] that(1) old grows_observed [OF grows]
    unfolding groups_wf_def admissions_wf_def by blast
  ultimately show ?thesis
    using assms(3) by (simp add: groups_wf_iff admissions_wf_def)
qed

subsection \<open>Changing one field of a round\<close>

lemma group_member_valid_cong:
  assumes "gri_group_id j = gri_group_id i" and "gri_preserved_completed j = gri_preserved_completed i"
    and "gri_requested_at_ms j = gri_requested_at_ms i"
    and "\<And>time. bt_get (gri_confirmed_at_ms j) (grm_execution_id mem) = Some time \<Longrightarrow>
      bt_get (gri_confirmed_at_ms i) (grm_execution_id mem) = Some time
      \<or> gri_requested_at_ms i \<le> time \<and> execution_status_of m (grm_execution_id mem) \<in> {Some Cancelled, Some Completed}"
    and "group_member_valid digest m i session mem c"
  shows "group_member_valid digest m j session mem c"
  using assms(4,5) unfolding group_member_valid_def assms(1-3) is_none_or_iff by blast

lemma group_members_valid_cong:
  assumes "gri_group_id j = gri_group_id i" and "gri_preserved_completed j = gri_preserved_completed i"
    and "gri_requested_at_ms j = gri_requested_at_ms i"
    and "\<And>eid time. bt_get (gri_confirmed_at_ms j) eid = Some time \<Longrightarrow>
      bt_get (gri_confirmed_at_ms i) eid = Some time
      \<or> gri_requested_at_ms i \<le> time \<and> execution_status_of m eid \<in> {Some Cancelled, Some Completed}"
  shows "group_members_valid digest m i session mems \<Longrightarrow> group_members_valid digest m j session mems"
  by (induction mems arbitrary: session)
    (auto split: option.splits intro: group_member_valid_cong [OF assms(1-3) assms(4)])

lemma group_replacements_valid_cong:
  assumes "gri_group_id j = gri_group_id i" and "gri_members j = gri_members i"
  shows "group_replacements_valid m j rs = group_replacements_valid m i rs"
  using assms by (induction rs) (auto simp: member_ids_def split: option.split)

lemma group_intent_valid_abort:
  assumes "group_intent_valid digest m i = Some True"
  shows "group_intent_valid digest m (i\<lparr>gri_aborted := a\<rparr>) = Some True"
proof -
  have "group_members_valid digest m i s (gri_members i) \<Longrightarrow>
      group_members_valid digest m (i\<lparr>gri_aborted := a\<rparr>) s (gri_members i)" for s
    by (rule group_members_valid_cong) auto
  with assms show ?thesis
    by (auto simp: group_intent_valid_def group_intent_bounded_def group_intent_sets_valid_def
        group_intent_times_valid_def group_barrier_valid_def member_ids_def is_replacement_def
        group_replacements_valid_cong [of "i\<lparr>gri_aborted := a\<rparr>" i] cong: option.case_cong split: if_splits)
qed

text \<open>A prepared round has every member confirmed or preserved, so a later stop fact changes nothing.\<close>

definition confirm_round :: "execution_id \<Rightarrow> timestamp \<Rightarrow> group_recovery_intent \<Rightarrow> group_recovery_intent" where
  "confirm_round eid received_at i =
     (if \<not> bts_member eid (gri_preserved_completed i) \<and> is_member eid i \<and> gri_requested_at_ms i \<le> received_at
      then i\<lparr>gri_confirmed_at_ms := bt_or_insert eid received_at (gri_confirmed_at_ms i)\<rparr> else i)"

lemma bt_or_insert_same: "bt_contains m k \<Longrightarrow> bt_or_insert k v m = m"
  by (simp add: bt_or_insert_def)

lemma is_member_ids: "is_member eid i \<longleftrightarrow> bts_member eid (member_ids i)"
  by (auto simp: is_member_def member_ids_def list_ex_iff)

lemma confirm_round_valid:
  assumes "group_intent_valid digest m i = Some True"
    and status: "execution_status_of m eid \<in> {Some Cancelled, Some Completed}"
  shows "group_intent_valid digest m (confirm_round eid received_at i) = Some True"
proof (cases "confirm_round eid received_at i = i")
  case True
  with assms(1) show ?thesis by simp
next
  case False
  define j where "j = i\<lparr>gri_confirmed_at_ms := bt_or_insert eid received_at (gri_confirmed_at_ms i)\<rparr>"
  from False have j: "confirm_round eid received_at i = j" and eid: "bts_member eid (member_ids i)"
    "\<not> bts_member eid (gri_preserved_completed i)" and at: "gri_requested_at_ms i \<le> received_at"
    and new: "\<not> bt_contains (gri_confirmed_at_ms i) eid"
    by (auto simp: confirm_round_def j_def is_member_ids bt_or_insert_same split: if_splits)
  from assms(1) have valid: "group_intent_bounded i" "group_intent_sets_valid i" "group_intent_times_valid i"
    "group_members_valid digest m i None (gri_members i)"
    "bt_len (gri_replacements i) = 0 \<or> group_barrier_valid m i"
    by (auto simp: group_intent_valid_def split: if_splits)
  have none: "bt_len (gri_replacements i) = 0"
  proof (rule ccontr)
    assume "bt_len (gri_replacements i) \<noteq> 0"
    with valid(5) eid new show False
      by (auto simp: group_barrier_valid_def list_all_iff bts_member_keys is_some_and_iff bt_contains_iff)
  qed
  have "group_members_valid digest m j None (gri_members i)"
    using valid(4) status at new
    by (intro group_members_valid_cong [of j i])
      (auto simp: j_def bt_get_or_insert bt_contains_def split: if_splits)
  moreover have "group_intent_sets_valid j"
    using valid(2) eid
    by (auto simp: j_def group_intent_sets_valid_def member_ids_def list_all_iff bt_keys_iff)
  ultimately show ?thesis
    using valid(1,3) none
    by (simp add: j group_intent_valid_def j_def group_intent_bounded_def group_intent_times_valid_def)
qed

definition admit_round :: "execution_id \<Rightarrow> timestamp \<Rightarrow> group_recovery_intent \<Rightarrow> group_recovery_intent" where
  "admit_round eid received_at i =
     (if is_replacement eid i \<and> is_some_and (gri_prepared_at_ms i) (\<lambda>time. time \<le> received_at)
      then i\<lparr>gri_admitted_at_ms := bt_or_insert eid received_at (gri_admitted_at_ms i)\<rparr> else i)"

lemma admit_round_valid:
  assumes "group_intent_valid digest m i = Some True"
  shows "group_intent_valid digest m (admit_round eid received_at i) = Some True"
proof (cases "is_replacement eid i \<and> is_some_and (gri_prepared_at_ms i) (\<lambda>time. time \<le> received_at)")
  case True
  define j where "j = i\<lparr>gri_admitted_at_ms := bt_or_insert eid received_at (gri_admitted_at_ms i)\<rparr>"
  have j: "admit_round eid received_at i = j" using True by (simp add: admit_round_def j_def)
  have some: "bt_len (gri_replacements i) \<noteq> 0"
    using True by (auto simp: is_replacement_def bt_len_def bt_values_def)
  from assms have times: "group_intent_times_valid i" by (auto simp: group_intent_valid_def split: if_splits)
  have "group_intent_times_valid j"
    using times some True
    by (auto simp: j_def group_intent_times_valid_def is_replacement_def list_all_iff bt_entries_iff
        bt_get_or_insert is_some_and_iff list_ex_iff split: option.splits if_splits)
  moreover have "group_members_valid digest m i s (gri_members i) \<Longrightarrow>
      group_members_valid digest m j s (gri_members i)" for s
    by (rule group_members_valid_cong) (auto simp: j_def)
  moreover have "group_replacements_valid m j rs = group_replacements_valid m i rs" for rs
    by (rule group_replacements_valid_cong) (simp_all add: j_def)
  ultimately show ?thesis
    using assms
    by (auto simp: j group_intent_valid_def j_def group_intent_bounded_def group_intent_sets_valid_def
        group_barrier_valid_def member_ids_def split: if_splits)
qed (use assms in \<open>auto simp: admit_round_def\<close>)

subsection \<open>Group stop facts and admissions\<close>

text \<open>Only the rounds change, each by a function that keeps it valid and growing.\<close>

lemma rounds_safe:
  assumes wf: "manager_wf digest m"
    and key: "\<And>i. round_key (f i) = round_key i" and grow: "\<And>i. round_grows i (f i)"
    and preserved: "\<And>i. preserved_wf i \<Longrightarrow> preserved_wf (f i)"
    and valid: "\<And>m' i. rm_execution_status m' = rm_execution_status m \<Longrightarrow>
      group_intent_valid digest m' i = Some True \<Longrightarrow> group_intent_valid digest m' (f i) = Some True"
    and admitted: "\<And>i eid. bt_contains (gri_admitted_at_ms (f i)) eid \<Longrightarrow> bt_contains (gri_admitted_at_ms i) eid
      \<or> (\<exists>s. bt_get (rm_execution_status m) eid = Some s \<and> s \<noteq> Dispatched)"
  shows "safe digest m (m\<lparr>rm_group_recoveries := map f (rm_group_recoveries m)\<rparr>)" (is "safe digest m ?m'")
proof (rule recovery_safeI [OF wf])
    show "?m' = m\<lparr>rm_recovery_stops := rm_recovery_stops m, rm_recovery_budgets := rm_recovery_budgets m,
        rm_group_recoveries := map f (rm_group_recoveries m), rm_cancellation_intents := rm_cancellation_intents m\<rparr>"
      by simp
    show "groups_wf digest ?m'" if "grows m ?m'"
      using valid admitted by (intro rounds_map [OF wf that, of f]) (simp_all add: key preserved)
    show "stops_wf ?m'" if "grows m ?m'"
      using wf by (intro stops_wf_mono [OF that]) (simp_all add: manager_wf_def)
qed (use wf grow in \<open>simp_all add: manager_wf_def rounds_grow_map\<close>)

lemma confirm_group_recovery_stop_safe:
  assumes wf: "manager_wf digest m"
  shows "safe digest m (confirm_group_recovery_stop eid received_at m)"
proof (cases "execution_status_of m eid \<in> {Some Cancelled, Some Completed}")
  case True
  have "safe digest m (m\<lparr>rm_group_recoveries := map (confirm_round eid received_at) (rm_group_recoveries m)\<rparr>)"
    using True
    by (intro rounds_safe [OF wf] confirm_round_valid)
      (auto simp: round_key_def round_grows_def preserved_wf_def confirm_round_def execution_status_of_def split: if_splits)
  with True show ?thesis
    by (simp add: confirm_group_recovery_stop_def confirm_round_def [abs_def])
next
  case False
  with safe_refl [OF wf] show ?thesis by (simp add: confirm_group_recovery_stop_def)
qed

lemma confirm_group_continuation_admission_safe:
  assumes wf: "manager_wf digest m"
  shows "safe digest m (confirm_group_continuation_admission eid received_at m)"
proof (cases "execution_status_of m eid \<in> {Some Accepted, Some Running, Some Completed, Some Failed, Some Cancelled}")
  case True
  then have "safe digest m (m\<lparr>rm_group_recoveries := map (admit_round eid received_at) (rm_group_recoveries m)\<rparr>)"
    by (intro rounds_safe [OF wf] admit_round_valid)
      (auto simp: round_key_def round_grows_def preserved_wf_def admit_round_def execution_status_of_def split: if_splits)
  with True show ?thesis
    by (auto simp: confirm_group_continuation_admission_def admit_round_def [abs_def])
next
  case False
  with safe_refl [OF wf] show ?thesis by (simp add: confirm_group_continuation_admission_def)
qed

subsection \<open>Cancellation and isolated stops\<close>

lemma stops_safe:
  assumes wf: "manager_wf digest m" and grow: "bt_extends stop_grows (rm_recovery_stops m) stops"
    and keys: "\<And>eid. bt_contains stops eid = bt_contains (rm_recovery_stops m) eid"
    and valid: "\<And>eid i i' slot. bt_get (rm_recovery_stops m) eid = Some i \<Longrightarrow> bt_get stops eid = Some i' \<Longrightarrow>
      recovery_stop_valid m eid i slot \<Longrightarrow> recovery_stop_valid m eid i' slot"
  shows "safe digest m (m\<lparr>rm_recovery_stops := stops\<rparr>)" (is "safe digest m ?m'")
proof (rule recovery_safeI [OF wf])
  show "?m' = m\<lparr>rm_recovery_stops := stops, rm_recovery_budgets := rm_recovery_budgets m,
      rm_group_recoveries := rm_group_recoveries m, rm_cancellation_intents := rm_cancellation_intents m\<rparr>"
    by simp
  have same: "recovery_stop_valid ?m' = recovery_stop_valid m"
    by (simp add: recovery_stop_valid_def fun_eq_iff execution_status_of_def)
  show "stops_wf ?m'" if "grows m ?m'"
    using wf keys valid by (intro stops_wf_update [OF that]) (auto simp: same manager_wf_def)
qed (use wf grow in \<open>simp_all add: manager_wf_def rounds_mono [OF wf]\<close>)

lemma confirm_recovery_stop_safe:
  assumes wf: "manager_wf digest m"
  shows "safe digest m (confirm_recovery_stop eid received_at m)"
  using safe_refl [OF wf]
  by (auto simp: confirm_recovery_stop_def bt_extends_insert stop_grows_def bt_get_insert bt_contains_iff
      recovery_stop_valid_def split: option.splits if_splits intro!: stops_safe [OF wf])

text \<open>The release is authorized only for a stop that \<open>recovery_stop_ready\<close> accepted.\<close>

lemma mark_recovery_release_safe:
  assumes wf: "manager_wf digest m" and "recovery_stop_ready m c now"
  shows "safe digest m (mark_recovery_release c m)"
  using assms(2)
  by (auto simp: mark_recovery_release_def recovery_stop_ready_def bt_extends_update stop_grows_def
      bt_get_update recovery_stop_valid_def is_some_and_iff is_none_or_iff bind_eq_Some_conv
      split: option.splits if_splits intro!: stops_safe [OF wf])

lemma cancel_safe:
  assumes wf: "manager_wf digest m" and "bt_contains (rm_executions m) eid"
  shows "safe digest m (m\<lparr>rm_cancellation_intents := bts_insert eid (rm_cancellation_intents m)\<rparr>)"
  using assms by (intro safeI [OF wf]) (auto simp: grows_def bts_extends manager_wf_def inv_cancellations_def)

lemma abort_group_recovery_safe:
  assumes wf: "manager_wf digest m"
  shows "safe digest m (abort_group_recovery_for_attempt eid m)"
  unfolding abort_group_recovery_for_attempt_def
  by (intro rounds_safe [OF wf])
    (auto simp: round_key_def round_grows_def preserved_wf_def group_intent_valid_abort split: if_splits)

lemma abort_stop_safe:
  assumes wf: "manager_wf digest m"
  shows "safe digest m (m\<lparr>rm_recovery_stops :=
    bt_update eid (\<lambda>i. i\<lparr>rsi_aborted := True\<rparr>) (rm_recovery_stops m)\<rparr>)"
  by (intro stops_safe [OF wf])
    (auto simp: bt_extends_update bt_get_update stop_grows_def recovery_stop_valid_def is_none_or_iff split: if_splits)

lemma request_cancellation_safe:
  assumes wf: "manager_wf digest m" and "request_cancellation eid m = (res, m')"
  shows "safe digest m m' \<and> res \<noteq> Panic"
proof (cases "bt_contains (rm_executions m) eid")
  case True
  let ?m1 = "m\<lparr>rm_recovery_stops := bt_update eid (\<lambda>i. i\<lparr>rsi_aborted := True\<rparr>) (rm_recovery_stops m)\<rparr>"
  let ?m2 = "abort_group_recovery_for_attempt eid ?m1"
  have 1: "safe digest m ?m1" by (rule abort_stop_safe [OF wf])
  then have 2: "safe digest ?m1 ?m2" by (intro abort_group_recovery_safe) (simp add: safe_def)
  then have "safe digest ?m2 (?m2\<lparr>rm_cancellation_intents := bts_insert eid (rm_cancellation_intents ?m2)\<rparr>)"
    using True by (intro cancel_safe) (simp_all add: safe_def abort_group_recovery_for_attempt_def)
  with True 1 2 assms(2) show ?thesis
    by (auto simp: request_cancellation_def Let_def intro: safe_trans)
next
  case False
  with assms(2) safe_refl [OF wf] show ?thesis by (auto simp: request_cancellation_def)
qed

text \<open>A new stop charges the budget of its slot by one.\<close>

definition charge_stop ::
    "execution_id \<Rightarrow> recovery_stop_intent \<Rightarrow> execution_slot \<Rightarrow> recovery_budget \<Rightarrow> manager \<Rightarrow> manager" where
  "charge_stop eid i slot budget m = m\<lparr>
     rm_recovery_budgets := bt_insert slot (budget\<lparr>rb_used := rb_used budget + 1\<rparr>) (rm_recovery_budgets m),
     rm_recovery_stops := bt_insert eid i (rm_recovery_stops m),
     rm_cancellation_intents := bts_insert eid (rm_cancellation_intents m)\<rparr>"

lemma used_Suc:
  fixes a b :: "'a::len word"
  assumes "a < b"
  shows "unat (a + 1) = Suc (unat a)" and "a < a + 1" and "a + 1 \<le> b" and "a + 1 \<noteq> 0"
proof -
  have "unat a < unat b" and "unat b < 2 ^ LENGTH('a)"
    using assms by (simp add: word_less_nat_alt, intro unsigned_less)
  then have "Suc (unat a) < 2 ^ LENGTH('a)" by (metis Suc_leI order_le_less_trans)
  then show suc: "unat (a + 1) = Suc (unat a)"
    by (simp add: unat_word_ariths(1))
  with \<open>unat a < unat b\<close> show "a < a + 1" "a + 1 \<le> b" "a + 1 \<noteq> 0"
    by (auto simp: word_less_nat_alt word_le_nat_alt)
qed

text \<open>The budget a new stop finds: the recorded one, or a fresh one for a slot never stopped before.\<close>

lemma slot_budget:
  assumes "stops_wf m" and "0 < limit" and "limit \<le> (16 :: u32)"
    and "budget = (case bt_get (rm_recovery_budgets m) slot of
      None \<Rightarrow> \<lparr>rb_slot = slot, rb_limit = limit, rb_used = 0\<rparr> | Some b \<Rightarrow> b)"
  shows "rb_slot budget = slot \<and> 1 \<le> rb_limit budget \<and> rb_limit budget \<le> 16
    \<and> unat (rb_used budget) = card (slot_stops (rm_recovery_stops m) (rm_executions m) slot)"
proof (cases "bt_get (rm_recovery_budgets m) slot")
  case None
  have "slot_stops (rm_recovery_stops m) (rm_executions m) slot = {}"
  proof -
    have False if "bt_get (rm_recovery_stops m) eid = Some i" "bt_get (rm_executions m) eid = Some x"
      "command_slot (ex_command x) = slot" for eid i and x :: execution_context
    proof -
      from assms(1) that(1) obtain y where "bt_get (rm_executions m) eid = Some y"
        "recovery_stop_valid m eid i (command_slot (ex_command y))" unfolding stops_wf_def by blast
      with that None show False by (simp add: recovery_stop_valid_def)
    qed
    then show ?thesis by (auto simp: slot_stops_def bt_contains_iff is_some_and_iff)
  qed
  with None assms show ?thesis by (simp add: word_gt_0 word_le_sub1)
next
  case (Some b)
  with assms(1) have "recovery_budget_valid m slot b" unfolding stops_wf_def by blast
  with Some assms(4) show ?thesis
    by (auto simp: recovery_budget_valid_def slot_stop_count_card stops_wf_id [OF assms(1)])
qed

lemma charge_stop_safe:
  assumes wf: "manager_wf digest m" and x: "bt_get (rm_executions m) eid = Some x"
    and slot: "slot = command_slot (ex_command x)" and fresh: "bt_get (rm_recovery_stops m) eid = None"
    and budget: "budget = (case bt_get (rm_recovery_budgets m) slot of
      None \<Rightarrow> \<lparr>rb_slot = slot, rb_limit = rsi_max_replacements i, rb_used = 0\<rparr> | Some b \<Rightarrow> b)"
    and limit: "0 < rsi_max_replacements i" "rsi_max_replacements i \<le> 16"
      "rb_limit budget = rsi_max_replacements i" "rb_used budget < rb_limit budget"
    and i: "rsi_execution_id i = eid" "rsi_timeout_ms i \<noteq> 0" "rsi_timeout_ms i \<le> 3600000"
      "checked_add (rsi_requested_at_ms i) (rsi_timeout_ms i) = Some (rsi_deadline_ms i)"
      "rsi_confirmed_at_ms i = None" "\<not> rsi_release_authorized i"
  shows "safe digest m (charge_stop eid i slot budget m)" (is "safe digest m ?m'")
proof (rule recovery_safeI [OF wf])
  let ?charged = "budget\<lparr>rb_used := rb_used budget + 1\<rparr>"
  show "?m' = m\<lparr>rm_recovery_stops := bt_insert eid i (rm_recovery_stops m),
      rm_recovery_budgets := bt_insert slot ?charged (rm_recovery_budgets m),
      rm_group_recoveries := rm_group_recoveries m,
      rm_cancellation_intents := bts_insert eid (rm_cancellation_intents m)\<rparr>"
    by (simp add: charge_stop_def)
  have stops: "stops_wf m" using wf by (simp add: manager_wf_def)
  note used = used_Suc [OF limit(4)]
  note b = slot_budget [OF stops limit(1,2) budget]
  have old: "bt_get (rm_recovery_budgets m) s = Some b' \<Longrightarrow> slot = s \<Longrightarrow> b' = budget" for s b'
    by (simp add: budget)
  show "bt_extends budget_grows (rm_recovery_budgets m) (bt_insert slot ?charged (rm_recovery_budgets m))"
    using used(2) by (auto simp: bt_extends_insert is_none_or_iff budget_grows_def dest: old)
  show "bt_extends stop_grows (rm_recovery_stops m) (bt_insert eid i (rm_recovery_stops m))"
    by (simp add: bt_extends_insert fresh)
  show "stops_wf ?m'" if "grows m ?m'"
  proof -
    have valid: "\<exists>y. bt_get (rm_executions m) j = Some y \<and> recovery_stop_valid ?m' j k (command_slot (ex_command y))"
      if k: "bt_get (bt_insert eid i (rm_recovery_stops m)) j = Some k" for j k
    proof (cases "j = eid")
      case True
      with k x i limit used(3,4) slot show ?thesis
        by (auto simp: recovery_stop_valid_def charge_stop_def word_gt_0)
    next
      case False
      with k stops obtain y where y: "bt_get (rm_executions m) j = Some y"
        "recovery_stop_valid m j k (command_slot (ex_command y))" unfolding stops_wf_def by fastforce
      with used(3,4) have "recovery_stop_valid ?m' j k (command_slot (ex_command y))"
        by (auto simp: recovery_stop_valid_def charge_stop_def bt_get_insert is_some_and_iff
            execution_status_of_def word_gt_0 dest: old split: if_splits)
      with y(1) show ?thesis by blast
    qed
    have count: "slot_stop_count ?m' s = card (slot_stops (bt_insert eid i (rm_recovery_stops m)) (rm_executions m) s)" for s
      using valid by (subst slot_stop_count_card) (auto simp: charge_stop_def recovery_stop_valid_def)
    have grown: "slot_stops (bt_insert eid i (rm_recovery_stops m)) (rm_executions m) s
        = (if s = slot then insert eid (slot_stops (rm_recovery_stops m) (rm_executions m) s)
           else slot_stops (rm_recovery_stops m) (rm_executions m) s)" for s
      using x slot by (auto simp: slot_stops_def)
    have "eid \<notin> slot_stops (rm_recovery_stops m) (rm_executions m) slot"
      by (simp add: slot_stops_def bt_contains_def fresh)
    then have "recovery_budget_valid ?m' s c" if "bt_get (bt_insert slot ?charged (rm_recovery_budgets m)) s = Some c" for s c
      using that b used stops slot_stops_finite [of "rm_recovery_stops m" "rm_executions m" slot]
      by (cases "s = slot")
        (auto simp: recovery_budget_valid_def count grown limit(3) stops_wf_def slot_stop_count_card stops_wf_id [OF stops])
    with valid show ?thesis by (simp add: stops_wf_def charge_stop_def)
  qed
qed (use wf x in \<open>auto simp: manager_wf_def inv_cancellations_def bts_extends bt_contains_iff charge_stop_def
  intro: rounds_mono [OF wf]\<close>)

lemma bt_insert_or_insert: "bt_insert k v (bt_or_insert k w m) = bt_insert k v m"
  by (simp add: bt_or_insert_def btree.put_put_same)

subsection \<open>Dispositions do not panic\<close>

lemma round_member_known:
  assumes "groups_wf digest m" and "i \<in> set (rm_group_recoveries m)" and "mem \<in> set (gri_members i)"
  shows "\<exists>x. bt_get (rm_executions m) (grm_execution_id mem) = Some x"
proof -
  from assms(1,2) have "group_members_valid digest m i None (gri_members i)"
    by (auto simp: groups_wf_iff group_intent_valid_def split: if_splits)
  from group_members_valid_member [OF this assms(3)] show ?thesis by blast
qed

lemma members_stop_confirmed_total:
  "(\<And>mem. mem \<in> set mems \<Longrightarrow> \<exists>x. bt_get (rm_executions m) (grm_execution_id mem) = Some x) \<Longrightarrow>
     members_stop_confirmed m i now mems \<noteq> None"
  by (induction mems) (fastforce simp: Let_def split: option.splits)+

lemma group_recovery_Some:
  "group_recovery m grp = Some i \<Longrightarrow> i \<in> set (rm_group_recoveries m) \<and> gri_group_id i = grp"
  by (auto simp: group_recovery_def dest: find_SomeD)

lemma group_recovery_disposition_total:
  assumes "groups_wf digest m"
  shows "group_recovery_disposition m grp now \<noteq> None"
proof (cases "group_recovery m grp")
  case (Some i)
  then have "members_stop_confirmed m i now (gri_members i) \<noteq> None"
    using round_member_known [OF assms] group_recovery_Some by (intro members_stop_confirmed_total) blast
  with Some show ?thesis by (auto simp: group_recovery_disposition_def split: bool.splits)
qed (simp add: group_recovery_disposition_def)

lemma group_recovery_holds_dispatch_total:
  "groups_wf digest m \<Longrightarrow> group_recovery_holds_dispatch m grp now \<noteq> None"
  by (simp add: group_recovery_holds_dispatch_def group_recovery_disposition_total)

subsection \<open>Requesting an isolated stop\<close>

lemma authorize_stop_cases:
  assumes "0 < rsi_max_replacements i"
    and "budget = (case bt_get (rm_recovery_budgets m) slot of
      None \<Rightarrow> \<lparr>rb_slot = slot, rb_limit = rsi_max_replacements i, rb_used = 0\<rparr> | Some b \<Rightarrow> b)"
  shows "authorize_stop eid slot i m =
    (if rb_limit budget = rsi_max_replacements i \<and> rb_used budget < rb_limit budget
     then (Ok (), charge_stop eid i slot budget m)
     else (Err (ReconciliationRequired ''logical Role recovery budget is exhausted or changed''), m))"
  using assms
  by (auto simp: authorize_stop_def Let_def charge_stop_def bt_insert_or_insert bt_or_insert_same
      bt_contains_def split: option.splits)

lemma request_recovery_stop_safe:
  assumes wf: "manager_wf digest m"
    and op: "request_recovery_stop eid node now timeout_ms limit m = (res, m')"
  shows "safe digest m m' \<and> res \<noteq> Panic"
proof (cases "\<exists>x deadline. bt_get (rm_executions m) eid = Some x \<and> bt_get (rm_recovery_stops m) eid = None
    \<and> timeout_ms \<noteq> 0 \<and> timeout_ms \<le> 3600000 \<and> 1 \<le> limit \<and> limit \<le> 16 \<and> checked_add now timeout_ms = Some deadline
    \<and> (res, m') = authorize_stop eid (command_slot (ex_command x)) (new_stop eid now deadline timeout_ms limit) m")
  case True
  then obtain x deadline where x: "bt_get (rm_executions m) eid = Some x" "bt_get (rm_recovery_stops m) eid = None"
    and times: "timeout_ms \<noteq> 0" "timeout_ms \<le> 3600000" "1 \<le> limit" "limit \<le> 16" "checked_add now timeout_ms = Some deadline"
    and tail: "(res, m') = authorize_stop eid (command_slot (ex_command x)) (new_stop eid now deadline timeout_ms limit) m"
    by blast
  from times(3) have "0 < limit" by (metis word_gt_0 linorder_not_le word_less_1)
  with x times tail safe_refl [OF wf] charge_stop_safe [OF wf x(1) refl x(2) refl] show ?thesis
    by (auto simp: authorize_stop_cases new_stop_def split: if_splits)
next
  case False
  have "groups_wf digest m" using wf by (simp add: manager_wf_def)
  with False op safe_refl [OF wf] show ?thesis
    by (auto simp: request_recovery_stop_def Let_def not_less dest: group_recovery_holds_dispatch_total
        split: option.splits bool.splits if_splits)
qed

end
