(* ===== verification/RT_Preserve_Groups.thy ===== *)
theory RT_Preserve_Groups
  imports RT_Preserve_Recovery
begin

text \<open>
  Opening a Group recovery round and recording its continuation keep the manager well formed.
\<close>

subsection \<open>Opening a round\<close>

lemma bts_member_fold_unless:
  "bts_member x (fold (\<lambda>mem s. if P mem then s else bts_insert (f mem) s) mems s0) \<longleftrightarrow>
     bts_member x s0 \<or> (\<exists>mem \<in> set mems. \<not> P mem \<and> f mem = x)"
  by (induction mems arbitrary: s0) auto

lemma group_members_check_ConsE:
  assumes "group_members_check digest m grp (mem # mems) shared p = Inr pres"
  obtains x session p' where "bt_get (rm_executions m) (grm_execution_id mem) = Some x"
    "ec_session (ex_command x) = Some session" "group_members_check digest m grp mems (Some session) p' = Inr pres"
    "validate_slot digest session (tr_mission_id (ec_task_ref (ex_command x))) grp
       (tr_task_id (ec_task_ref (ex_command x))) (ec_role_id (ex_command x)) = Inr ()"
    "ec_group_id (ex_command x) = grp" "ec_node_id (ex_command x) = grm_expected_node_id mem"
    "length (sd_slots session) \<le> 32" "list_all sl_independent (sd_slots session)"
    "is_some_and (ec_recovery_support (ex_command x)) (\<lambda>d.
       ors_operation (ers_support d) = ei_operation (ec_intent (ex_command x))
       \<and> supports_group_continuation (ers_support d))"
    "is_none_or shared (\<lambda>original. original = session)"
    "execution_status_of m (grm_execution_id mem) = Some Completed \<and> p' = bts_insert (grm_execution_id mem) p
      \<or> grm_repeat_authorized mem \<and> p' = p
        \<and> is_some_and (execution_status_of m (grm_execution_id mem)) (\<lambda>s. \<not> is_terminal s)"
  using assms
  by (auto simp: Let_def list_ex_iff list_all_iff is_some_and_iff is_none_or_iff not_less
      split: option.splits sum.splits if_splits execution_status.splits)

lemma group_members_check_preserved:
  assumes "group_members_check digest m grp mems shared p = Inr pres"
  shows "(bts_member eid p \<longrightarrow> bts_member eid pres)
    \<and> (bts_member eid pres \<longrightarrow> bts_member eid p
        \<or> (\<exists>mem \<in> set mems. grm_execution_id mem = eid \<and> execution_status_of m eid = Some Completed))"
  using assms
proof (induction mems arbitrary: shared p)
  case (Cons mem mems)
  from Cons.prems obtain session p'
    where rest: "group_members_check digest m grp mems (Some session) p' = Inr pres"
      and "execution_status_of m (grm_execution_id mem) = Some Completed \<and> p' = bts_insert (grm_execution_id mem) p
        \<or> grm_repeat_authorized mem \<and> p' = p
          \<and> is_some_and (execution_status_of m (grm_execution_id mem)) (\<lambda>s. \<not> is_terminal s)"
    by (rule group_members_check_ConsE)
  with Cons.IH [OF rest] show ?case by auto
qed simp

lemma group_members_check_known:
  assumes "group_members_check digest m grp mems shared p = Inr pres" and "mem \<in> set mems"
  shows "bt_contains (rm_executions m) (grm_execution_id mem)"
  using assms
proof (induction mems arbitrary: shared p)
  case (Cons mem' mems)
  from Cons.prems(1) show ?case
    by (rule group_members_check_ConsE) (use Cons.IH Cons.prems(2) in \<open>auto simp: bt_contains_iff\<close>)
qed simp

text \<open>
  What the loop admits: members of one validated session of independent slots, each on its expected Node, and either
  Completed or still live and authorized to repeat. Exactly the Completed ones are preserved.
\<close>

definition group_member_admitted ::
    "session_digest \<Rightarrow> manager \<Rightarrow> group_id \<Rightarrow> session_descriptor \<Rightarrow> group_recovery_member \<Rightarrow> bool" where
  "group_member_admitted digest m grp session mem \<longleftrightarrow>
     (\<exists>x. bt_get (rm_executions m) (grm_execution_id mem) = Some x
        \<and> ec_group_id (ex_command x) = grp \<and> ec_node_id (ex_command x) = grm_expected_node_id mem
        \<and> ec_session (ex_command x) = Some session
        \<and> validate_slot digest session (tr_mission_id (ec_task_ref (ex_command x))) grp
            (tr_task_id (ec_task_ref (ex_command x))) (ec_role_id (ex_command x)) = Inr ())
     \<and> list_all sl_independent (sd_slots session)
     \<and> (execution_status_of m (grm_execution_id mem) = Some Completed
        \<or> grm_repeat_authorized mem
          \<and> is_some_and (execution_status_of m (grm_execution_id mem)) (\<lambda>s. \<not> is_terminal s))"

lemma group_members_check_admitted:
  assumes "group_members_check digest m grp mems shared p = Inr pres"
  shows "(\<forall>eid. bts_member eid pres \<longleftrightarrow> bts_member eid p
        \<or> eid \<in> grm_execution_id ` set mems \<and> execution_status_of m eid = Some Completed)
    \<and> (\<exists>session. is_none_or shared (\<lambda>original. original = session)
        \<and> (\<forall>mem \<in> set mems. group_member_admitted digest m grp session mem))"
  using assms
proof (induction mems arbitrary: shared p)
  case Nil
  then show ?case by (cases shared) (auto simp: is_none_or_iff)
next
  case (Cons mem mems)
  from Cons.prems obtain session p'
    where rest: "group_members_check digest m grp mems (Some session) p' = Inr pres"
      and mem: "group_member_admitted digest m grp session mem"
      and shared: "is_none_or shared (\<lambda>original. original = session)"
      and p': "execution_status_of m (grm_execution_id mem) = Some Completed \<and> p' = bts_insert (grm_execution_id mem) p
        \<or> execution_status_of m (grm_execution_id mem) \<noteq> Some Completed \<and> p' = p"
    by (rule group_members_check_ConsE) (force simp: group_member_admitted_def is_some_and_iff)
  from Cons.IH [OF rest] have IH: "\<forall>eid. bts_member eid pres \<longleftrightarrow> bts_member eid p'
        \<or> eid \<in> grm_execution_id ` set mems \<and> execution_status_of m eid = Some Completed"
    and "\<forall>mem \<in> set mems. group_member_admitted digest m grp session mem" by (auto simp: is_none_or_iff)
  with mem have "\<forall>mem \<in> set (mem # mems). group_member_admitted digest m grp session mem" by simp
  moreover from IH p' have "\<forall>eid. bts_member eid pres \<longleftrightarrow> bts_member eid p
        \<or> eid \<in> grm_execution_id ` set (mem # mems) \<and> execution_status_of m eid = Some Completed" by auto
  ultimately show ?case using shared by blast
qed

text \<open>What the loop of a request checks of a member is what validation asks of it later.\<close>

lemma group_members_check_valid:
  assumes "group_members_check digest m grp mems shared p = Inr pres"
    and "gri_group_id i = grp" and "gri_confirmed_at_ms i = bt_empty"
    and "\<And>eid. bts_member eid (gri_preserved_completed i) \<Longrightarrow> execution_status_of m eid = Some Completed"
    and "\<And>eid. bts_member eid pres \<Longrightarrow> bts_member eid (gri_preserved_completed i)"
    and "rm_executions m' = rm_executions m" and "rm_execution_status m' = rm_execution_status m"
    and "\<And>mem. mem \<in> set mems \<Longrightarrow> \<not> bts_member (grm_execution_id mem) (gri_preserved_completed i) \<Longrightarrow>
      bts_member (grm_execution_id mem) (rm_cancellation_intents m')"
  shows "group_members_valid digest m' i shared mems"
  using assms(1,8)
proof (induction mems arbitrary: shared p)
  case (Cons mem mems)
  from Cons.prems(1) obtain x session p'
    where x: "bt_get (rm_executions m) (grm_execution_id mem) = Some x" "ec_session (ex_command x) = Some session"
      and rest: "group_members_check digest m grp mems (Some session) p' = Inr pres"
      and slot: "validate_slot digest session (tr_mission_id (ec_task_ref (ex_command x))) grp
        (tr_task_id (ec_task_ref (ex_command x))) (ec_role_id (ex_command x)) = Inr ()"
      and owner: "ec_group_id (ex_command x) = grp" "ec_node_id (ex_command x) = grm_expected_node_id mem"
        "length (sd_slots session) \<le> 32" "list_all sl_independent (sd_slots session)"
        "is_some_and (ec_recovery_support (ex_command x)) (\<lambda>d.
           ors_operation (ers_support d) = ei_operation (ec_intent (ex_command x))
           \<and> supports_group_continuation (ers_support d))"
        "is_none_or shared (\<lambda>original. original = session)"
      and repeat: "execution_status_of m (grm_execution_id mem) = Some Completed
          \<and> p' = bts_insert (grm_execution_id mem) p \<or> grm_repeat_authorized mem \<and> p' = p
            \<and> is_some_and (execution_status_of m (grm_execution_id mem)) (\<lambda>s. \<not> is_terminal s)"
    by (rule group_members_check_ConsE)
  from repeat have "bts_member (grm_execution_id mem) (gri_preserved_completed i) \<or> grm_repeat_authorized mem"
    using group_members_check_preserved [OF rest, of "grm_execution_id mem"] assms(5) by auto
  then have "group_member_valid digest m' i shared mem (ex_command x)"
    using slot owner x(2) assms(2,3,4,7) Cons.prems(2) [of mem]
    by (auto simp: group_member_valid_def execution_status_of_def is_some_and_iff is_none_or_iff)
  moreover have "group_members_valid digest m' i (Some session) mems"
    using Cons.prems(2) by (intro Cons.IH [OF rest]) auto
  ultimately show ?case using x assms(6) by simp
qed simp

lemma group_recovery_by_id_None:
  "group_recovery_by_id m grp rid = None \<Longrightarrow> i \<in> set (rm_group_recoveries m) \<Longrightarrow> gri_group_id i = grp \<Longrightarrow>
     gri_recovery_id i \<noteq> rid"
  by (auto simp: group_recovery_by_id_def find_None_iff)

lemma authorize_group_stop_safe:
  assumes wf: "manager_wf digest m"
    and i: "i = new_round grp rid members preserved now deadline timeout_ms limit"
    and new: "group_recovery_by_id m grp rid = None"
    and bounds: "\<not> trim_is_empty rid" "length rid \<le> 256" "members \<noteq> []" "length members \<le> 32"
      "timeout_ms \<noteq> 0" "timeout_ms \<le> 3600000" "1 \<le> limit" "limit \<le> 16" "checked_add now timeout_ms = Some deadline"
    and history: "length (filter (\<lambda>j. gri_group_id j = grp) (rm_group_recoveries m)) < unat limit"
      "\<not> list_ex (\<lambda>j. gri_max_replacements j \<noteq> limit) (filter (\<lambda>j. gri_group_id j = grp) (rm_group_recoveries m))"
    and ids: "bt_len (bts_of_list (map grm_execution_id members)) = length members"
    and check: "group_members_check digest m grp members None bt_empty = Inr preserved"
  shows "safe digest m (authorize_group_stop i m)" (is "safe digest m ?m'")
proof -
  note preserved = group_members_check_preserved [OF check]
  have cancelled: "bts_member eid (rm_cancellation_intents ?m') \<longleftrightarrow> bts_member eid (rm_cancellation_intents m)
      \<or> (\<exists>mem \<in> set members. \<not> bts_member (grm_execution_id mem) preserved \<and> grm_execution_id mem = eid)" for eid
    by (simp add: authorize_group_stop_def i new_round_def bts_member_fold_unless)
  have "group_members_valid digest ?m' i None members"
    using preserved cancelled
    by (intro group_members_check_valid [OF check]) (auto simp: i new_round_def authorize_group_stop_def)
  moreover have "eid \<in> grm_execution_id ` set members" if "bts_member eid preserved" for eid
    using preserved [of eid] that by auto
  then have "group_intent_sets_valid i"
    using ids
    by (auto simp: group_intent_sets_valid_def i new_round_def member_ids_def list_all_iff bts_member_keys bt_keys_iff)
  ultimately have valid: "group_intent_valid digest ?m' i = Some True"
    using bounds
    by (simp add: group_intent_valid_def group_intent_bounded_def group_intent_times_valid_def i new_round_def
        bt_len_def bt_empty.rep_eq)
  have allowed: "round_allowed (map round_key (rm_group_recoveries m)) (round_key i)"
    using history new
    by (auto simp: round_allowed_def round_key_def i new_round_def filter_map o_def list_ex_iff
        dest: group_recovery_by_id_None)
  show ?thesis
  proof (rule recovery_safeI [OF wf])
    show "?m' = m\<lparr>rm_recovery_stops := rm_recovery_stops m, rm_recovery_budgets := rm_recovery_budgets m,
        rm_group_recoveries := rm_group_recoveries m @ [i], rm_cancellation_intents := rm_cancellation_intents ?m'\<rparr>"
      by (simp add: authorize_group_stop_def)
    show "stops_wf ?m'" if "grows m ?m'"
      using wf by (intro stops_wf_mono [OF that]) (simp_all add: manager_wf_def authorize_group_stop_def)
    show "groups_wf digest ?m'" if "grows m ?m'"
    proof -
      have old: "groups_wf digest m" using wf by (simp add: manager_wf_def)
      then have "group_intent_valid digest ?m' j = Some True" if "j \<in> set (rm_group_recoveries m)" for j
        using that by (intro group_intent_valid_mono [OF \<open>grows m ?m'\<close>]) (simp add: groups_wf_iff)
      moreover have "preserved_wf i" by (simp add: preserved_wf_def i new_round_def)
      moreover have "admissions_wf ?m'"
        using old by (auto simp: groups_wf_def admissions_wf_def authorize_group_stop_def i new_round_def)
      ultimately show ?thesis
        using old valid allowed
        by (auto simp: groups_wf_iff authorize_group_stop_def rounds_allowed_append)
    qed
  qed (use wf cancelled group_members_check_known [OF check] in
      \<open>auto simp: manager_wf_def inv_cancellations_def bts_extends\<close>)
qed

lemma request_group_recovery_stop_safe:
  assumes wf: "manager_wf digest m"
    and op: "request_group_recovery_stop digest grp rid members0 now timeout_ms limit m = (res, m')"
  shows "safe digest m m' \<and> res \<noteq> Panic"
proof -
  have groups: "groups_wf digest m" using wf by (simp add: manager_wf_def)
  define members where "members = sort_key grm_execution_id members0"
  have step: "safe digest m (authorize_group_stop (new_round grp rid members preserved now deadline timeout_ms limit) m)"
    if "group_recovery_by_id m grp rid = None" "\<not> trim_is_empty rid" "\<not> 256 < length rid" "members \<noteq> []"
      "\<not> 32 < length members" "timeout_ms \<noteq> 0" "\<not> 3600000 < timeout_ms" "1 \<le> limit" "limit \<le> 16"
      "checked_add now timeout_ms = Some deadline"
      "\<not> unat limit \<le> length (filter (\<lambda>j. gri_group_id j = grp) (rm_group_recoveries m))"
      "\<not> list_ex (\<lambda>j. gri_max_replacements j \<noteq> limit) (filter (\<lambda>j. gri_group_id j = grp) (rm_group_recoveries m))"
      "bt_len (bts_of_list (map grm_execution_id members)) = length members"
      "group_members_check digest m grp members None bt_empty = Inr preserved" for preserved deadline
    by (rule authorize_group_stop_safe [OF wf refl that(1,2)]) (use that in \<open>simp_all add: not_less not_le\<close>)
  show ?thesis
    using op step safe_refl [OF wf] group_recovery_holds_dispatch_total [OF groups, of grp now]
    unfolding request_group_recovery_stop_def Let_def members_def [symmetric]
    by (auto split: option.splits if_splits bool.splits sum.splits)
qed

subsection \<open>Recording a continuation\<close>

lemma update_first_find:
  "find P xs = Some x \<Longrightarrow> \<exists>ys zs. xs = ys @ x # zs \<and> update_first P f xs = Some (ys @ f x # zs)"
proof (induction xs)
  case (Cons a xs)
  show ?case
  proof (cases "P a")
    case True
    with Cons.prems show ?thesis by (intro exI [of _ "[]"] exI [of _ xs]) simp
  next
    case False
    with Cons obtain ys zs where "xs = ys @ x # zs" "update_first P f xs = Some (ys @ f x # zs)" by auto
    with False show ?thesis by (intro exI [of _ "a # ys"] exI [of _ zs]) simp
  qed
qed simp

lemma update_last_group:
  assumes "group_recovery m grp = Some i"
  obtains ys zs where "rm_group_recoveries m = ys @ i # zs"
    "update_last (\<lambda>i. gri_group_id i = grp) f (rm_group_recoveries m) = Some (ys @ f i # zs)"
proof -
  from update_first_find [OF assms [unfolded group_recovery_def], of f] obtain ys zs
    where split: "rev (rm_group_recoveries m) = ys @ i # zs"
      and "update_first (\<lambda>i. gri_group_id i = grp) f (rev (rm_group_recoveries m)) = Some (ys @ f i # zs)" by auto
  moreover from split have "rm_group_recoveries m = rev zs @ i # rev ys"
    by (metis rev.simps(2) rev_append rev_rev_ident append.assoc append_Cons append_Nil)
  ultimately show ?thesis by (intro that [of "rev zs" "rev ys"]) (simp_all add: update_last_def)
qed

lemma cancelled_sources_iff:
  "cancelled_sources m mems = Some sources \<Longrightarrow> (source, c) \<in> set sources \<longleftrightarrow>
     execution_status_of m source = Some Cancelled \<and> (\<exists>mem \<in> set mems. grm_execution_id mem = source)
     \<and> execution_command_of m source = Some c"
  by (induction mems arbitrary: sources)
    (auto simp: execution_command_of_def split: option.splits if_splits)

lemma cancelled_sources_total:
  "(\<And>mem. mem \<in> set mems \<Longrightarrow> \<exists>x. bt_get (rm_executions m) (grm_execution_id mem) = Some x) \<Longrightarrow>
     cancelled_sources m mems \<noteq> None"
  by (induction mems) (fastforce split: option.splits)+

lemma continuation_check_Ok:
  "continuation_check m reps sources = Ok () \<Longrightarrow> (source, c) \<in> set sources \<Longrightarrow>
     \<exists>r actual original. bt_get reps source = Some r \<and> bt_get (rm_executions m) r = Some actual
       \<and> same_invocation (ex_command actual) c \<and> bt_get (rm_executions m) source = Some original
       \<and> ex_resource_ids actual = ex_resource_ids original \<and> execution_status_of m r = Some Dispatched"
  by (induction m reps sources rule: continuation_check.induct)
    (auto simp: Let_def split: option.splits if_splits)

lemma continuation_check_no_panic:
  "(\<And>source c. (source, c) \<in> set sources \<Longrightarrow> bt_contains reps source \<and> bt_contains (rm_executions m) source) \<Longrightarrow>
     continuation_check m reps sources \<noteq> Panic"
  by (induction m reps sources rule: continuation_check.induct)
    (fastforce simp: Let_def bt_contains_iff split: option.splits if_splits)+

lemma group_replacements_validI:
  assumes "\<And>source r. (source, r) \<in> set rs \<Longrightarrow> \<exists>actual original.
      bt_get (rm_executions m) r = Some actual \<and> bt_get (rm_executions m) source = Some original
      \<and> same_invocation (ex_command actual) (ex_command original) \<and> ec_group_id (ex_command original) = gri_group_id i
      \<and> ex_resource_ids actual = ex_resource_ids original \<and> \<not> bts_member r (member_ids i)"
  shows "group_replacements_valid m i rs = Some True"
  using assms
proof (induction rs)
  case (Cons entry rs)
  obtain source r where entry: "entry = (source, r)" by (cases entry)
  from Cons.prems [of source r] entry obtain actual original
    where "bt_get (rm_executions m) r = Some actual" "bt_get (rm_executions m) source = Some original"
      "same_invocation (ex_command actual) (ex_command original)" "ec_group_id (ex_command original) = gri_group_id i"
      "ex_resource_ids actual = ex_resource_ids original" "\<not> bts_member r (member_ids i)" by auto
  with Cons entry show ?case by (simp add: same_invocation_def)
qed simp

text \<open>The facts a successful continuation has established about its round.\<close>

definition barrier_reached ::
    "manager \<Rightarrow> group_recovery_intent \<Rightarrow> timestamp \<Rightarrow> (execution_id, execution_id) btmap
       \<Rightarrow> (execution_id \<times> execution_command) list \<Rightarrow> bool" where
  "barrier_reached m i now reps sources \<longleftrightarrow>
     bt_len (gri_replacements i) = 0 \<and> now < gri_deadline_ms i
     \<and> list_all (\<lambda>mem. member_stopped m i now (grm_execution_id mem)) (gri_members i)
     \<and> cancelled_sources m (gri_members i) = Some sources
     \<and> bts_of_list (bt_keys reps) = bts_of_list (map fst sources)
     \<and> bt_len (bts_of_list (bt_values reps)) = bt_len reps \<and> bt_len reps \<noteq> 0
     \<and> continuation_check m reps sources = Ok ()"

lemma barrier_sources:
  assumes "barrier_reached m i now reps sources"
  shows "bt_contains reps eid \<longleftrightarrow> (\<exists>c. (eid, c) \<in> set sources)"
  using assms by (force simp: barrier_reached_def bts_of_list_eq_iff bt_keys_iff [symmetric])

lemma prepare_round_fields [simp]:
  "gri_recovery_id (prepare_round reps now i) = gri_recovery_id i"
  "gri_group_id (prepare_round reps now i) = gri_group_id i" "gri_members (prepare_round reps now i) = gri_members i"
  "gri_preserved_completed (prepare_round reps now i) = gri_preserved_completed i"
  "gri_requested_at_ms (prepare_round reps now i) = gri_requested_at_ms i"
  "gri_deadline_ms (prepare_round reps now i) = gri_deadline_ms i"
  "gri_timeout_ms (prepare_round reps now i) = gri_timeout_ms i"
  "gri_max_replacements (prepare_round reps now i) = gri_max_replacements i"
  "gri_confirmed_at_ms (prepare_round reps now i) = gri_confirmed_at_ms i"
  "gri_replacements (prepare_round reps now i) = reps" "gri_prepared_at_ms (prepare_round reps now i) = Some now"
  "gri_admitted_at_ms (prepare_round reps now i) = gri_admitted_at_ms i"
  "gri_aborted (prepare_round reps now i) = gri_aborted i" "member_ids (prepare_round reps now i) = member_ids i"
  by (simp_all add: prepare_round_def member_ids_def)

lemma prepare_round_times:
  assumes valid: "group_intent_valid digest m i = Some True" and "preserved_wf i"
    and barrier: "barrier_reached m i now reps sources"
  shows "group_intent_times_valid (prepare_round reps now i)"
proof -
  from valid have old: "group_intent_sets_valid i" "group_intent_times_valid i"
    "group_members_valid digest m i None (gri_members i)"
    by (auto simp: group_intent_valid_def split: if_splits)
  have none: "bt_len (gri_replacements i) = 0" using barrier by (simp add: barrier_reached_def)
  have stopped: "member_stopped m i now eid" if "bts_member eid (member_ids i)" for eid
    using that barrier by (auto simp: barrier_reached_def member_ids_def list_all_iff)
  have confirmed: "time \<le> now" if "bt_get (gri_confirmed_at_ms i) eid = Some time" for eid time
  proof -
    have "bt_contains (gri_confirmed_at_ms i) eid" using that by (simp add: bt_contains_iff)
    moreover from this have "bts_member eid (member_ids i)"
      using old(1) by (simp add: group_intent_sets_valid_def list_all_iff bt_keys_iff)
    ultimately show ?thesis
      using stopped [of eid] that assms(2) by (auto simp: member_stopped_def preserved_wf_def)
  qed
  from barrier obtain eid r where "bt_get reps eid = Some r"
    by (metis barrier_reached_def bt_keys_iff bt_contains_iff bt_len_def bt_keys_def length_0_conv length_map
        list.set_intros(1) neq_Nil_conv)
  then obtain c where "(eid, c) \<in> set sources" using barrier_sources [OF barrier] by (auto simp: bt_contains_iff)
  then obtain mem where mem: "mem \<in> set (gri_members i)" "grm_execution_id mem = eid"
    and status: "execution_status_of m eid = Some Cancelled"
    using barrier cancelled_sources_iff by (fastforce simp: barrier_reached_def)
  from group_members_valid_member [OF old(3) mem(1)] obtain session and x :: execution_context
    where "group_member_valid digest m i session mem (ex_command x)" by blast
  with mem status stopped [of eid] have "gri_requested_at_ms i \<le> now"
    by (auto simp: group_member_valid_def member_stopped_def member_ids_def is_some_and_iff)
  moreover have "bt_entries (gri_admitted_at_ms i) = []"
    using old(2) none by (simp add: group_intent_times_valid_def bt_len_def)
  ultimately show ?thesis
    using barrier confirmed
    by (auto simp: group_intent_times_valid_def barrier_reached_def list_all_iff bt_values_iff)
qed

lemma prepare_round_valid:
  assumes valid: "group_intent_valid digest m i = Some True" and "preserved_wf i"
    and barrier: "barrier_reached m i now reps sources"
  shows "group_intent_valid digest m (prepare_round reps now i) = Some True"
proof -
  let ?j = "prepare_round reps now i"
  from valid have old: "group_intent_bounded i" "group_intent_sets_valid i"
    "group_members_valid digest m i None (gri_members i)"
    by (auto simp: group_intent_valid_def split: if_splits)
  have sources: "(eid, c) \<in> set sources \<longleftrightarrow> execution_status_of m eid = Some Cancelled
      \<and> bts_member eid (member_ids i) \<and> execution_command_of m eid = Some c" for eid c
    using barrier cancelled_sources_iff by (fastforce simp: barrier_reached_def member_ids_def)
  have member: "\<exists>x. bt_get (rm_executions m) eid = Some x \<and> ec_group_id (ex_command x) = gri_group_id i
      \<and> (bts_member eid (gri_preserved_completed i) \<longrightarrow> execution_status_of m eid = Some Completed)"
    if "bts_member eid (member_ids i)" for eid
    using that group_members_valid_member [OF old(3)]
    by (fastforce simp: member_ids_def group_member_valid_def split: if_splits)
  have stopped: "member_stopped m i now eid" if "bts_member eid (member_ids i)" for eid
    using that barrier by (auto simp: barrier_reached_def member_ids_def list_all_iff)
  have "bt_contains reps eid \<longleftrightarrow> execution_status_of m eid = Some Cancelled \<and> bts_member eid (member_ids i)" for eid
  proof -
    have "\<exists>c. execution_command_of m eid = Some c" if "bts_member eid (member_ids i)"
      using member [OF that] by (auto simp: execution_command_of_def)
    then show ?thesis unfolding barrier_sources [OF barrier] sources by blast
  qed
  then have "set (bt_keys reps) = set (filter (\<lambda>eid. execution_status_of m eid = Some Cancelled) (bt_keys (member_ids i)))"
    by (intro set_eqI) (simp add: bts_member_keys bt_keys_iff [of _ reps] conj_commute)
  moreover have "bts_member eid (gri_preserved_completed i)
      \<or> is_some_and (bt_get (gri_confirmed_at_ms i) eid) (\<lambda>time. time < gri_deadline_ms i)"
    if "bts_member eid (member_ids i)" for eid
    using stopped [OF that] by (auto simp: member_stopped_def is_some_and_iff)
  ultimately have "group_barrier_valid m ?j"
    using barrier
    by (simp add: group_barrier_valid_def barrier_reached_def bts_of_list_eq_iff list_all_iff bts_member_keys)
  moreover have "group_replacements_valid m ?j (bt_entries reps) = Some True"
  proof (rule group_replacements_validI)
    fix source r assume "(source, r) \<in> set (bt_entries reps)"
    then have r: "bt_get reps source = Some r" by (simp add: bt_entries_iff)
    then obtain c where c: "(source, c) \<in> set sources" using barrier_sources [OF barrier] by (auto simp: bt_contains_iff)
    with barrier r obtain actual original
      where x: "bt_get (rm_executions m) r = Some actual" "same_invocation (ex_command actual) c"
        "bt_get (rm_executions m) source = Some original" "ex_resource_ids actual = ex_resource_ids original"
        and "execution_status_of m r = Some Dispatched"
      using continuation_check_Ok [of m reps sources source c] by (auto simp: barrier_reached_def)
    then have "\<not> bts_member r (member_ids i)"
      using stopped [of r] member [of r] by (auto simp: member_stopped_def)
    moreover have "ex_command original = c" "ec_group_id (ex_command original) = gri_group_id i"
      using c sources member [of source] x(3) by (auto simp: execution_command_of_def)
    ultimately show "\<exists>actual original. bt_get (rm_executions m) r = Some actual
        \<and> bt_get (rm_executions m) source = Some original \<and> same_invocation (ex_command actual) (ex_command original)
        \<and> ec_group_id (ex_command original) = gri_group_id ?j \<and> ex_resource_ids actual = ex_resource_ids original
        \<and> \<not> bts_member r (member_ids ?j)"
      using x by auto
  qed
  moreover have "group_members_valid digest m ?j None (gri_members i)"
    using old(3) by (rule group_members_valid_cong [rotated -1]) auto
  ultimately show ?thesis
    using old prepare_round_times [OF assms]
    by (simp add: group_intent_valid_def group_intent_bounded_def group_intent_sets_valid_def)
qed

lemma round_replace_wf:
  assumes wf: "groups_wf digest m" and grows: "grows m m'"
    and "rm_group_recoveries m = ys @ i # zs" and "rm_group_recoveries m' = ys @ j # zs"
    and "round_key j = round_key i" and "gri_admitted_at_ms j = gri_admitted_at_ms i"
    and "group_intent_valid digest m' j = Some True" and "preserved_wf j"
  shows "groups_wf digest m'"
proof -
  have "group_intent_valid digest m' k = Some True" if "k \<in> set (rm_group_recoveries m)" for k
    using that wf by (intro group_intent_valid_mono [OF grows]) (simp add: groups_wf_iff)
  moreover have "admissions_wf m'"
    using wf assms(3,4,6) grows_observed [OF grows]
    unfolding groups_wf_def admissions_wf_def by (simp, blast)
  ultimately show ?thesis
    using wf assms by (auto simp: groups_wf_iff)
qed

lemma record_round_safe:
  assumes wf: "manager_wf digest m" and "group_recovery m grp = Some i"
    and barrier: "barrier_reached m i now reps sources"
    and split: "rm_group_recoveries m = ys @ i # zs"
  shows "safe digest m (m\<lparr>rm_group_recoveries := ys @ prepare_round reps now i # zs\<rparr>)" (is "safe digest m ?m'")
proof (rule recovery_safeI [OF wf])
  show "?m' = m\<lparr>rm_recovery_stops := rm_recovery_stops m, rm_recovery_budgets := rm_recovery_budgets m,
      rm_group_recoveries := ys @ prepare_round reps now i # zs, rm_cancellation_intents := rm_cancellation_intents m\<rparr>"
    by simp
  show "rounds_grow (rm_group_recoveries m) (ys @ prepare_round reps now i # zs)"
    using barrier by (auto simp: split rounds_grow_def nth_append nth_Cons' round_grows_def barrier_reached_def)
  show "stops_wf ?m'" if "grows m ?m'"
    using wf by (intro stops_wf_mono [OF that]) (simp_all add: manager_wf_def)
  show "groups_wf digest ?m'" if grows: "grows m ?m'"
  proof (rule round_replace_wf [OF _ grows split])
    have groups: "groups_wf digest m" using wf by (simp add: manager_wf_def)
    with split have i: "group_intent_valid digest m i = Some True" "preserved_wf i" by (auto simp: groups_wf_iff)
    from group_intent_valid_mono [OF grows] prepare_round_valid [OF i barrier]
    have "group_intent_valid digest m (prepare_round reps now i) = Some True" by blast
    then show "group_intent_valid digest ?m' (prepare_round reps now i) = Some True"
      by (rule group_intent_valid_mono [OF grows])
    show "preserved_wf (prepare_round reps now i)" using i(2) by (simp add: preserved_wf_def)
  qed (use wf in \<open>simp_all add: manager_wf_def round_key_def\<close>)
qed (use wf in \<open>simp_all add: manager_wf_def\<close>)

lemma record_group_continuation_safe:
  assumes wf: "manager_wf digest m" and op: "record_group_continuation grp now reps m = (res, m')"
  shows "safe digest m m' \<and> res \<noteq> Panic"
proof (cases "group_recovery m grp")
  case None
  with op safe_refl [OF wf] show ?thesis by (auto simp: record_group_continuation_def)
next
  case (Some i)
  obtain ys zs where split: "rm_group_recoveries m = ys @ i # zs"
    and upd: "update_last (\<lambda>i. gri_group_id i = grp) (prepare_round reps now) (rm_group_recoveries m)
      = Some (ys @ prepare_round reps now i # zs)"
    by (rule update_last_group [OF Some])
  have groups: "groups_wf digest m" using wf by (simp add: manager_wf_def)
  have "cancelled_sources m (gri_members i) \<noteq> None"
    using round_member_known [OF groups, of i] group_recovery_Some [OF Some] by (intro cancelled_sources_total) blast
  then obtain sources where sources: "cancelled_sources m (gri_members i) = Some sources" by blast
  show ?thesis
  proof (cases "barrier_reached m i now reps sources")
    case True
    with Some split upd sources op record_round_safe [OF wf Some True split] safe_refl [OF wf] show ?thesis
      by (auto simp: record_group_continuation_def barrier_reached_def split: if_splits)
  next
    case False
    have "continuation_check m reps sources \<noteq> Panic" if "bts_of_list (bt_keys reps) = bts_of_list (map fst sources)"
    proof (rule continuation_check_no_panic)
      fix source c assume c: "(source, c) \<in> set sources"
      then have "source \<in> set (map fst sources)" by force
      with that have "bt_contains reps source" by (simp add: bts_of_list_eq_iff bt_keys_iff [symmetric] del: set_map)
      with c show "bt_contains reps source \<and> bt_contains (rm_executions m) source"
        using cancelled_sources_iff [OF sources, of source c]
        by (auto simp: execution_command_of_def bt_contains_iff)
    qed
    with Some sources op False safe_refl [OF wf] show ?thesis
      by (auto simp: record_group_continuation_def barrier_reached_def not_le split: if_splits rt_result.splits)
  qed
qed

end
