(* ===== verification/RT_System.thy ===== *)
theory RT_System
  imports RT_Restore RT_Preserve_Groups
begin

text \<open>
  The Runtime as a state machine: every public operation of the manager as a call, a restart from the
  checkpoint as a further step, and the invariant and the history that all runs keep.
\<close>

datatype runtime_call =
    AllocateAttemptId group_id task_ref role_id
  | PrepareDispatch execution_id execution_command "resource_id list"
  | RecordDispatched execution_id execution_command "resource_id list"
  | MarkDispatchDelivered execution_id
  | RecordDispatchAttempt execution_id
  | ObserveDispatchReceipt execution_id string node_id bool string
  | ObserveCancellationReceipt execution_id string node_id bool string
  | RequestCancellation execution_id
  | ObserveExecution execution_id node_id u64 execution_status string
  | ObserveExecutionReceived execution_id node_id u64 execution_status string timestamp
  | ObserveNodeUnavailable node_id string
  | ObserveProgress state_record progress_sample
  | FenceProgressForNode node_id
  | RequestRecoveryStop execution_id node_id timestamp u64 u32
  | ConfirmRecoveryStop execution_id timestamp
  | MarkRecoveryRelease execution_command timestamp
  | RequestGroupRecoveryStop group_id string "group_recovery_member list" timestamp u64 u32
  | ConfirmGroupRecoveryStop execution_id timestamp
  | ConfirmGroupContinuationAdmission execution_id timestamp
  | RecordGroupContinuation group_id timestamp "(execution_id, execution_id) btmap"
  | RegisterRelations group_id mission_id "execution_relation_spec list" "(task_id, execution_coupling_mode) btmap"
  | ObserveSharedSpatialEvidence shared_spatial_evidence
  | AcknowledgeRelationReconciliation group_id relation_id
  | RegisterCoordinationContext group_id coordination_context
  | ObservePeerChannelReadiness peer_readiness
  | RefreshPeerChannelDeadlines timestamp
  | FencePeerChannelsForNode node_id
  | FencePeerChannel group_id context_id
  | ClosePeerChannel group_id context_id
  | ClosePeerChannelsForGroup group_id

text \<open>What a call leaves behind: whether it panicked, and the manager.\<close>

definition outcome :: "'a rt_result \<times> manager \<Rightarrow> bool \<times> manager" where
  "outcome = (\<lambda>(r, m). (case r of Panic \<Rightarrow> True | _ \<Rightarrow> False, m))"

primrec runtime_exec :: "session_digest \<Rightarrow> runtime_call \<Rightarrow> manager \<Rightarrow> bool \<times> manager" where
  "runtime_exec digest (AllocateAttemptId grp task role) m = outcome (allocate_attempt_id grp task role m)"
| "runtime_exec digest (PrepareDispatch eid c rs) m = outcome (prepare_dispatch eid c rs m)"
| "runtime_exec digest (RecordDispatched eid c rs) m = outcome (record_dispatched eid c rs m)"
| "runtime_exec digest (MarkDispatchDelivered eid) m = outcome (mark_dispatch_delivered eid m)"
| "runtime_exec digest (RecordDispatchAttempt eid) m = (False, record_dispatch_attempt eid m)"
| "runtime_exec digest (ObserveDispatchReceipt eid cid node persisted reason) m =
     outcome (observe_dispatch_receipt eid cid node persisted reason m)"
| "runtime_exec digest (ObserveCancellationReceipt eid cid node persisted reason) m =
     outcome (observe_cancellation_receipt eid cid node persisted reason m)"
| "runtime_exec digest (RequestCancellation eid) m = outcome (request_cancellation eid m)"
| "runtime_exec digest (ObserveExecution eid node sequence status reason) m =
     outcome (observe_execution eid node sequence status reason m)"
| "runtime_exec digest (ObserveExecutionReceived eid node sequence status reason received_at) m =
     outcome (observe_execution_received eid node sequence status reason received_at m)"
| "runtime_exec digest (ObserveNodeUnavailable node reason) m = outcome (observe_node_unavailable node reason m)"
| "runtime_exec digest (ObserveProgress r sample) m = (False, snd (observe_progress r sample m))"
| "runtime_exec digest (FenceProgressForNode node) m = (False, fence_progress_for_node node m)"
| "runtime_exec digest (RequestRecoveryStop eid node now timeout_ms limit) m =
     outcome (request_recovery_stop eid node now timeout_ms limit m)"
| "runtime_exec digest (ConfirmRecoveryStop eid received_at) m = (False, confirm_recovery_stop eid received_at m)"
| "runtime_exec digest (MarkRecoveryRelease c now) m = (False, mark_recovery_release c m)"
| "runtime_exec digest (RequestGroupRecoveryStop grp rid members now timeout_ms limit) m =
     outcome (request_group_recovery_stop digest grp rid members now timeout_ms limit m)"
| "runtime_exec digest (ConfirmGroupRecoveryStop eid received_at) m =
     (False, confirm_group_recovery_stop eid received_at m)"
| "runtime_exec digest (ConfirmGroupContinuationAdmission eid received_at) m =
     (False, confirm_group_continuation_admission eid received_at m)"
| "runtime_exec digest (RecordGroupContinuation grp now reps) m = outcome (record_group_continuation grp now reps m)"
| "runtime_exec digest (RegisterRelations grp mission specs modes) m =
     outcome (register_relations_with_modes grp mission specs modes m)"
| "runtime_exec digest (ObserveSharedSpatialEvidence e) m = outcome (observe_shared_spatial_evidence e m)"
| "runtime_exec digest (AcknowledgeRelationReconciliation grp rid) m =
     outcome (acknowledge_relation_reconciliation grp rid m)"
| "runtime_exec digest (RegisterCoordinationContext grp c) m = outcome (register_coordination_context grp c m)"
| "runtime_exec digest (ObservePeerChannelReadiness e) m = outcome (observe_peer_channel_readiness e m)"
| "runtime_exec digest (RefreshPeerChannelDeadlines now) m = (False, refresh_peer_channel_deadlines now m)"
| "runtime_exec digest (FencePeerChannelsForNode node) m = (False, fence_peer_channels_for_node node m)"
| "runtime_exec digest (FencePeerChannel grp cid) m = outcome (fence_peer_channel grp cid m)"
| "runtime_exec digest (ClosePeerChannel grp cid) m = outcome (close_peer_channel grp cid m)"
| "runtime_exec digest (ClosePeerChannelsForGroup grp) m = (False, close_peer_channels_for_group grp m)"

text \<open>
  The inputs the callers of the manager supply. Relations, Contexts and the Memory requirements of a command are values
  that their domain constructors return. An attempt identity is not blank. The facts of a Node are converted by
  \<open>execution_facts.rs\<close>, which never yields the controller's own \<open>Dispatched\<close> status. A release is recorded by
  \<open>application/recovery.rs\<close> only after \<open>recovery_stop_ready\<close>. The frame of spatial evidence is the map frame that
  \<open>LocalizationFrames::new\<close> admitted, and peer evidence has passed the ingress check of \<open>grpc_server/session.rs\<close>.
  Nothing here asks for what restoration demands beyond that: a Context with a single Role and a peer channel is
  admissible in a mode that does not require the channel.
\<close>

definition call_admissible :: "manager \<Rightarrow> runtime_call \<Rightarrow> bool" where
  "call_admissible m c \<longleftrightarrow>
     (case c of
        PrepareDispatch eid cmd rs \<Rightarrow>
          \<not> trim_is_empty eid \<and> memory_validate_set (ec_memory_requirements cmd) = Inr ()
      | RecordDispatched eid cmd rs \<Rightarrow>
          \<not> trim_is_empty eid \<and> memory_validate_set (ec_memory_requirements cmd) = Inr ()
      | ObserveExecution eid node sequence status reason \<Rightarrow>
          status \<noteq> Dispatched
      | ObserveExecutionReceived eid node sequence status reason received_at \<Rightarrow>
          status \<noteq> Dispatched
      | MarkRecoveryRelease cmd now \<Rightarrow>
          recovery_stop_ready m cmd now
      | RegisterRelations grp mission specs modes \<Rightarrow>
          (\<forall>spec \<in> set specs. spec_built spec)
      | ObserveSharedSpatialEvidence e \<Rightarrow>
          \<not> trim_is_empty (sse_frame_id e)
      | RegisterCoordinationContext grp ctx \<Rightarrow>
          context_admissible ctx
      | ObservePeerChannelReadiness e \<Rightarrow>
          evidence_identified e
      | _ \<Rightarrow> True)"

inductive runtime_step :: "session_digest \<Rightarrow> manager \<Rightarrow> manager \<Rightarrow> bool" for digest where
  call: "call_admissible m c \<Longrightarrow> runtime_exec digest c m = (panicked, m') \<Longrightarrow> runtime_step digest m m'"
| restart: "restore digest (checkpoint_of m) = Ok m' \<Longrightarrow> runtime_step digest m m'"

inductive_cases runtime_stepE: "runtime_step digest m m'"

text \<open>The managers a Runtime can be in: from the empty one, by calls and restarts.\<close>

definition reachable :: "session_digest \<Rightarrow> manager \<Rightarrow> bool" where
  "reachable digest m \<longleftrightarrow> run_from (runtime_step digest) manager_new m"

subsection \<open>Every step is safe\<close>

lemma outcome_safe:
  assumes "outcome r = (panicked, m')" and "\<And>res m''. r = (res, m'') \<Longrightarrow> safe digest m m'' \<and> res \<noteq> Panic"
  shows "safe digest m m' \<and> \<not> panicked"
  using assms by (cases r) (auto simp: outcome_def split: rt_result.splits)

lemmas call_safe = allocate_attempt_id_safe prepare_dispatch_safe record_dispatched_safe mark_dispatch_delivered_safe
  observe_dispatch_receipt_safe observe_cancellation_receipt_safe request_cancellation_safe observe_execution_safe
  observe_execution_received_safe observe_node_unavailable_safe request_recovery_stop_safe
  request_group_recovery_stop_safe record_group_continuation_safe register_relations_with_modes_safe
  observe_shared_spatial_evidence_safe acknowledge_relation_reconciliation_safe
  register_coordination_context_safe observe_peer_channel_readiness_safe

lemmas update_safe = record_dispatch_attempt_safe fence_progress_for_node_safe confirm_recovery_stop_safe
  mark_recovery_release_safe confirm_group_recovery_stop_safe confirm_group_continuation_admission_safe
  refresh_peer_channel_deadlines_safe fence_peer_channels_for_node_safe close_peer_channels_for_group_safe

lemma set_peer_channel_lifecycles_safe:
  assumes "manager_wf digest m"
  shows "fence_peer_channel grp cid m = (res, m') \<Longrightarrow> safe digest m m' \<and> res \<noteq> Panic"
    and "close_peer_channel grp cid m = (res, m') \<Longrightarrow> safe digest m m' \<and> res \<noteq> Panic"
  using set_peer_channel_lifecycle_safe [OF assms] by (auto simp: fence_peer_channel_def close_peer_channel_def)

lemma observe_progress_call_safe: "manager_wf digest m \<Longrightarrow> safe digest m (snd (observe_progress r sample m))"
  using observe_progress_safe [of digest m r sample] by (cases "observe_progress r sample m") auto

lemma runtime_exec_safe:
  assumes wf: "manager_wf digest m" and "call_admissible m c" and "runtime_exec digest c m = (panicked, m')"
  shows "safe digest m m' \<and> \<not> panicked"
  using assms
  by (cases c)
    (clarsimp simp: call_admissible_def update_safe observe_progress_call_safe;
     (rule outcome_safe, assumption, rule call_safe set_peer_channel_lifecycles_safe; assumption)?)+

lemma runtime_step_safe:
  assumes wf: "manager_wf digest m" and "runtime_step digest m m'"
  shows "safe digest m m'"
  using assms(2)
proof (cases rule: runtime_step.cases)
  case (call c panicked)
  then show ?thesis using runtime_exec_safe [OF wf] by blast
next
  case restart
  then show ?thesis by (rule restored_manager(2) [OF wf])
qed

text \<open>
  The Runtime is a machine whose steps keep \<open>manager_wf\<close> and only extend the record.
\<close>

interpretation runtime: history_system "\<lambda>m. m = manager_new" "runtime_step digest" "manager_wf digest" grows
  for digest
proof
  show "manager_wf digest m \<Longrightarrow> runtime_step digest m m' \<Longrightarrow> manager_wf digest m'" for m m'
    by (auto dest: runtime_step_safe simp: safe_def)
  show "manager_wf digest m \<Longrightarrow> runtime_step digest m m' \<Longrightarrow> grows m m'" for m m'
    by (auto dest: runtime_step_safe simp: safe_def)
  show "grows m m' \<Longrightarrow> grows m' m'' \<Longrightarrow> grows m m''" for m m' m'' by (rule grows_trans)
qed (simp_all add: manager_wf_new)

lemma reachable_wf: "reachable digest m \<Longrightarrow> manager_wf digest m"
  unfolding reachable_def by (blast intro: runtime.inv_reachable)

lemma reachable_run: "reachable digest m \<Longrightarrow> run_from (runtime_step digest) m m' \<Longrightarrow> reachable digest m'"
  unfolding reachable_def by (rule run_from_trans)

lemma reachable_grows: "reachable digest m \<Longrightarrow> run_from (runtime_step digest) m m' \<Longrightarrow> grows m m'"
  by (blast intro: runtime.extends_run reachable_wf)

text \<open>A list of calls as a run, for concrete histories.\<close>

primrec run_calls :: "session_digest \<Rightarrow> runtime_call list \<Rightarrow> manager \<Rightarrow> manager" where
  "run_calls digest [] m = m"
| "run_calls digest (c # cs) m = run_calls digest cs (snd (runtime_exec digest c m))"

primrec calls_admissible :: "session_digest \<Rightarrow> runtime_call list \<Rightarrow> manager \<Rightarrow> bool" where
  "calls_admissible digest [] m = True"
| "calls_admissible digest (c # cs) m =
     (call_admissible m c \<and> calls_admissible digest cs (snd (runtime_exec digest c m)))"

lemma run_calls_run:
  "calls_admissible digest cs m \<Longrightarrow> run_from (runtime_step digest) m (run_calls digest cs m)"
proof (induction cs arbitrary: m)
  case (Cons c cs)
  then have "runtime_step digest m (snd (runtime_exec digest c m))"
    by (intro runtime_step.call [of m c digest "fst (runtime_exec digest c m)"]) auto
  then have "run_from (runtime_step digest) m (snd (runtime_exec digest c m))"
    by (rule run_from.run_step [OF run_from.run_refl])
  with Cons show ?case by (auto intro: run_from_trans)
qed (simp add: run_from.run_refl)

lemma run_calls_reachable:
  "calls_admissible digest cs manager_new \<Longrightarrow> reachable digest (run_calls digest cs manager_new)"
  unfolding reachable_def by (rule run_calls_run)

end
