(* ===== verification/RT_Scenario.thy ===== *)
theory RT_Scenario
  imports RT_System
begin

text \<open>
  Concrete histories of a small Mission, for the witnesses of the properties: one Group with a scout and
  a carrier, their commands, and the runs that reach the states a property speaks about.
\<close>

definition navigate :: operation_ref where
  "navigate = ContractRef ''robot'' ''navigate'' ''v1''"

definition scout_task :: task_ref where
  "scout_task = TaskRef ''m1'' ''scout''"

definition role_command :: "role_id \<Rightarrow> node_id \<Rightarrow> execution_command" where
  "role_command role node =
     \<lparr>ec_memory_requirements = [], ec_resource_grants = [], ec_registration_evidence = None,
      ec_task_ref = scout_task, ec_group_id = ''g1'', ec_role_id = role, ec_node_id = node,
      ec_intent = \<lparr>ei_operation = navigate, ei_objective = ''survey'', ei_parameters = bt_empty\<rparr>,
      ec_session = None,
      ec_recovery_support = Some \<lparr>ers_local_system_id = ''ros'',
        ers_support = \<lparr>ors_operation = navigate, ors_stop_scope = StopExecution, ors_continuation = RepeatAfterStop\<rparr>\<rparr>,
      ec_execution_generation = None, ec_correlation_id = ''c1''\<rparr>"

definition no_digest :: session_digest where
  "no_digest version mission grp slots = Inr ''digest''"

text \<open>Dispatch, acceptance and completion of the scout.\<close>

definition completed_run :: "runtime_call list" where
  "completed_run =
     [PrepareDispatch ''e1'' (role_command ''lead'' ''n1'') [''r1''],
      ObserveExecutionReceived ''e1'' ''n1'' 1 Running [] 10,
      ObserveExecutionReceived ''e1'' ''n1'' 2 Completed [] 20]"

definition completed_manager :: manager where
  "completed_manager = run_calls no_digest completed_run manager_new"

definition completed_state :: "manager \<Rightarrow> bool" where
  "completed_state m \<longleftrightarrow>
   execution_status_of m ''e1'' = Some Completed
   \<and> terminal_received_at m ''e1'' = Some 20
   \<and> bt_get (rm_execution_sequences m) ''e1'' = Some 2
   \<and> bt_get (rm_execution_nodes m) ''e1'' = Some ''n1''
   \<and> bt_get (rm_executions m) ''e1''
       = Some \<lparr>ex_command = role_command ''lead'' ''n1'', ex_resource_ids = [''r1'']\<rparr>
   \<and> channels_paired m"

lemma completed_evaluated: "calls_admissible no_digest completed_run manager_new" "completed_state completed_manager"
  by code_simp+

lemmas completed_facts = completed_evaluated [unfolded completed_state_def]

lemma completed_reachable: "reachable no_digest completed_manager"
  using completed_facts unfolding completed_manager_def by (intro run_calls_reachable) blast

lemma completed_paired: "channels_paired completed_manager"
  using completed_facts by blast

text \<open>The scout is stopped for an isolated recovery with a budget of two replacements.\<close>

definition stopped_run :: "runtime_call list" where
  "stopped_run =
     [AllocateAttemptId ''g1'' scout_task ''lead'',
      PrepareDispatch ''attempt-2:g1-5:scout-4:lead-1'' (role_command ''lead'' ''n1'') [''r1''],
      ObserveExecutionReceived ''attempt-2:g1-5:scout-4:lead-1'' ''n1'' 1 Running [] 10,
      RequestRecoveryStop ''attempt-2:g1-5:scout-4:lead-1'' ''n1'' 100 1000 2,
      ObserveExecutionReceived ''attempt-2:g1-5:scout-4:lead-1'' ''n1'' 2 Cancelled [] 200,
      ConfirmRecoveryStop ''attempt-2:g1-5:scout-4:lead-1'' 200]"

definition stopped_manager :: manager where
  "stopped_manager = run_calls no_digest stopped_run manager_new"

definition stopped_state :: "manager \<Rightarrow> bool" where
  "stopped_state m \<longleftrightarrow>
   recovery_stop_ready m (role_command ''lead'' ''n1'') 300
   \<and> bts_member ''attempt-2:g1-5:scout-4:lead-1'' (rm_cancellation_intents m)
   \<and> bt_get (rm_recovery_budgets m) (''g1'', scout_task, ''lead'')
       = Some \<lparr>rb_slot = (''g1'', scout_task, ''lead''), rb_limit = 2, rb_used = 1\<rparr>
   \<and> bt_get (rm_recovery_stops m) ''attempt-2:g1-5:scout-4:lead-1''
       = Some \<lparr>rsi_execution_id = ''attempt-2:g1-5:scout-4:lead-1'', rsi_requested_at_ms = 100,
           rsi_deadline_ms = 1100, rsi_timeout_ms = 1000, rsi_max_replacements = 2,
           rsi_confirmed_at_ms = Some 200, rsi_release_authorized = False, rsi_aborted = False\<rparr>
   \<and> fst (allocate_attempt_id ''g1'' scout_task ''lead'' m) = Ok ''attempt-2:g1-5:scout-4:lead-2''
   \<and> bt_get (rm_attempt_generations m) (''g1'', scout_task, ''lead'') = Some 1
   \<and> channels_paired m"

lemma stopped_evaluated: "calls_admissible no_digest stopped_run manager_new" "stopped_state stopped_manager"
  by code_simp+

lemmas stopped_facts = stopped_evaluated [unfolded stopped_state_def]

lemma stopped_reachable: "reachable no_digest stopped_manager"
  using stopped_facts unfolding stopped_manager_def by (intro run_calls_reachable) blast

lemma stopped_paired: "channels_paired stopped_manager"
  using stopped_facts by blast

text \<open>
  A Group whose only Context has one Role and declares a peer channel that its Independent mode does not require.
\<close>

definition solo_context :: coordination_context where
  "solo_context = \<lparr>cc_context_id = ''solo'', cc_roles = [context_role_new ''left'' ''a1''], cc_executor_constraints = [],
     cc_relations = [], cc_coupling_mode = Independent, cc_shared_view = None,
     cc_peer_channel = Some \<lparr>pcs_profile_id = ''dds'', pcs_message_schema = ''pose''\<rparr>\<rparr>"

definition solo_manager :: manager where
  "solo_manager = run_calls no_digest [RegisterCoordinationContext ''g1'' solo_context] manager_new"

lemma solo_facts:
  "calls_admissible no_digest [RegisterCoordinationContext ''g1'' solo_context] manager_new
   \<and> \<not> channels_paired solo_manager"
  by code_simp

lemma solo_reachable: "reachable no_digest solo_manager"
  using solo_facts unfolding solo_manager_def by (intro run_calls_reachable) blast

end
