(* ===== verification/RT_Safety.thy ===== *)
theory RT_Safety
  imports RT_Scenario
begin

text \<open>
  What holds of every run of the Runtime, restarts included.
\<close>

subsection \<open>Restarts\<close>

lemma restore_reachable:
  "reachable digest m \<Longrightarrow> restore digest (checkpoint_of m) = Ok m' \<Longrightarrow> reachable digest m'"
  unfolding reachable_def by (blast intro: run_from.run_step runtime_step.restart)

text \<open>
  C2: The checkpoint of a reachable manager restores exactly when every registered peer channel has at least two
  peers. The restored manager then keeps every attempt with its owner, sequence, resources and cancellation, every
  current slot, every relation, Context and recovery; terminal outcomes are kept and every other status becomes
  Unknown. Otherwise the Controller refuses its own checkpoint: the constructor of a Context demands two Roles only
  in a coupling mode that requires the direct peer channel, \<open>register_coordination_context\<close> admits what it
  returns, and \<open>restore_coordination_maps\<close> refuses every channel with fewer peers.
\<close>

theorem reachable_checkpoint_restores:
  assumes "reachable digest m"
  shows "if channels_paired m then \<exists>m'. restore digest (checkpoint_of m) = Ok m'
    \<and> rm_executions m' = rm_executions m \<and> rm_execution_nodes m' = rm_execution_nodes m
    \<and> rm_execution_sequences m' = rm_execution_sequences m \<and> rm_active_executions m' = rm_active_executions m
    \<and> rm_dispatch_outbox m' = rm_dispatch_outbox m \<and> rm_cancellation_intents m' = rm_cancellation_intents m
    \<and> rm_relations m' = rm_relations m \<and> rm_coordination_contexts m' = rm_coordination_contexts m
    \<and> rm_recovery_stops m' = rm_recovery_stops m
    \<and> rm_recovery_budgets m' = rm_recovery_budgets m \<and> rm_group_recoveries m' = rm_group_recoveries m
    \<and> (\<forall>eid. execution_status_of m' eid
          = (case execution_status_of m eid of
               None \<Rightarrow> None | Some s \<Rightarrow> Some (if is_terminal s then s else Unknown)))
    else restore digest (checkpoint_of m)
      = Err (InvalidCheckpoint ''checkpoint contains duplicate or orphan peer channel'')"
proof (cases "channels_paired m")
  case True
  have wf: "manager_wf digest m" using assms by (rule reachable_wf)
  obtain m' where "restore digest (checkpoint_of m) = Ok m'"
    and effect: "refresh_effect (restored_base m) (set (bt_keys (rm_relations m))) m'"
    by (rule restore_checkpoint [OF wf True])
  with effect True show ?thesis
    by (auto simp: refresh_effect_def restored_base_outbox [OF wf] execution_status_of_def bt_get_map
        restored_status_def split: option.split)
next
  case False
  with restore_unpaired [OF reachable_wf [OF assms]] show ?thesis by simp
qed

theorem reachable_checkpoint_restores_witness:
  "(\<exists>m'. restore no_digest (checkpoint_of completed_manager) = Ok m' \<and> execution_status_of m' ''e1'' = Some Completed)
   \<and> (\<exists>e. restore no_digest (checkpoint_of solo_manager) = Err e)"
proof -
  obtain m' where "restore no_digest (checkpoint_of completed_manager) = Ok m'"
    and "\<forall>eid. execution_status_of m' eid = (case execution_status_of completed_manager eid of
      None \<Rightarrow> None | Some s \<Rightarrow> Some (if is_terminal s then s else Unknown))"
    using reachable_checkpoint_restores [OF completed_reachable] unfolding if_P [OF completed_paired] by blast
  moreover have "\<exists>e. restore no_digest (checkpoint_of solo_manager) = Err e"
    using reachable_checkpoint_restores [OF solo_reachable] solo_facts by simp
  ultimately show ?thesis using completed_facts by simp
qed

text \<open>
  C1: No physical command is replayed after a restart. At any time after the restart, an attempt known before
  it is neither routed nor reported as already routed by \<open>validate_dispatch\<close>, whatever the command, and no
  pending dispatch intent names it.
\<close>

theorem restart_never_replays:
  assumes "reachable digest m" and "restore digest (checkpoint_of m) = Ok m'"
    and "run_from (runtime_step digest) m' m''" and "bt_contains (rm_executions m) eid"
  shows "(\<exists>e. validate_dispatch m'' eid c rs = Err e)
    \<and> eid \<notin> di_execution_id ` set (pending_dispatch_intents m'')"
proof -
  have wf: "manager_wf digest m" using assms(1) by (rule reachable_wf)
  note effect = restored_manager(3) [OF wf assms(2)]
  have grows: "grows m' m''"
    using assms by (blast intro: reachable_grows restore_reachable)
  have "bts_member eid (rm_restored_executions m')"
    using effect assms(4) by (auto simp: refresh_effect_def bt_keys_iff)
  with grows have "bts_member eid (rm_restored_executions m'')" by (simp add: grows_def bts_extends)
  moreover have "\<exists>s. bt_get (rm_execution_status m') eid = Some s \<and> s \<noteq> Dispatched"
  proof -
    from wf assms(4) have "bt_contains (rm_execution_status m) eid"
      by (auto simp: manager_wf_def inv_executions_def bt_contains_iff)
    with effect show ?thesis
      by (auto simp: refresh_effect_def bt_get_map bt_contains_iff restored_status_def)
  qed
  then have "\<exists>s. bt_get (rm_execution_status m'') eid = Some s \<and> s \<noteq> Dispatched"
    using grows_observed [OF grows] by blast
  ultimately show ?thesis
    by (auto simp: validate_dispatch_def pending_dispatch_intents_def execution_status_of_def)
qed

theorem restart_never_replays_witness:
  "\<exists>m' e. restore no_digest (checkpoint_of completed_manager) = Ok m'
     \<and> validate_dispatch m' ''e1'' (role_command ''lead'' ''n1'') [''r1''] = Err e"
proof -
  obtain m' where m': "restore no_digest (checkpoint_of completed_manager) = Ok m'"
    by (rule restore_checkpoint [OF reachable_wf [OF completed_reachable] completed_paired])
  have "bt_contains (rm_executions completed_manager) ''e1''"
    using completed_facts by (simp add: bt_contains_iff)
  from restart_never_replays [OF completed_reachable m' run_from.run_refl this] m' show ?thesis by blast
qed

text \<open>
  C3: No admissible call panics in a reachable state: every index, \<open>expect\<close> and \<open>unreachable!\<close> of the manager
  holds.
\<close>

theorem calls_never_panic:
  assumes "reachable digest m" and "call_admissible m c"
  shows "fst (runtime_exec digest c m) = False"
  using runtime_exec_safe [OF reachable_wf [OF assms(1)] assms(2)] by (cases "runtime_exec digest c m") auto

theorem calls_never_panic_witness:
  "fst (runtime_exec no_digest (RequestCancellation ''e1'') completed_manager) = False"
  by (rule calls_never_panic [OF completed_reachable]) (simp add: call_admissible_def)

subsection \<open>Facts that never change\<close>

text \<open>
  C4: A terminal outcome is final: along every run, across restarts, the status stays, and the receive time of
  the first terminal fact stays.
\<close>

theorem terminal_outcome_immutable:
  assumes "reachable digest m" and "run_from (runtime_step digest) m m'"
    and "execution_status_of m eid = Some s" and "is_terminal s"
  shows "execution_status_of m' eid = Some s
    \<and> (terminal_received_at m eid = Some t \<longrightarrow> terminal_received_at m' eid = Some t)"
proof -
  have grows: "grows m m'" using assms(1,2) by (rule reachable_grows)
  then have "bt_extends (=) (rm_terminal_received_at m) (rm_terminal_received_at m')" by (simp add: grows_def)
  with grows_terminal [OF grows assms(3,4)] show ?thesis
    by (auto simp: terminal_received_at_def dest: bt_extends_eqD)
qed

theorem terminal_outcome_immutable_witness:
  "\<exists>m'. restore no_digest (checkpoint_of completed_manager) = Ok m'
     \<and> execution_status_of m' ''e1'' = Some Completed \<and> terminal_received_at m' ''e1'' = Some 20"
proof -
  obtain m' where m': "restore no_digest (checkpoint_of completed_manager) = Ok m'"
    by (rule restore_checkpoint [OF reachable_wf [OF completed_reachable] completed_paired])
  then have "run_from (runtime_step no_digest) completed_manager m'"
    by (blast intro: run_from.intros runtime_step.restart)
  from terminal_outcome_immutable [OF completed_reachable this, of "''e1''" Completed 20] m' completed_facts
  show ?thesis by simp
qed

text \<open>
  C23: An attempt is bound once: along every run its command, resources and owner stay the ones of its dispatch,
  its last observed sequence never decreases, and a cancellation request is never withdrawn.
\<close>

theorem attempt_binding_immutable:
  assumes "reachable digest m" and "run_from (runtime_step digest) m m'"
    and "bt_get (rm_executions m) eid = Some x"
  shows "bt_get (rm_executions m') eid = Some x
    \<and> bt_get (rm_execution_nodes m') eid = Some (ec_node_id (ex_command x))
    \<and> (bt_get (rm_execution_sequences m) eid = Some n \<longrightarrow>
         (\<exists>n'. bt_get (rm_execution_sequences m') eid = Some n' \<and> n \<le> n'))
    \<and> (cancellation_pending m eid \<longrightarrow> cancellation_pending m' eid)"
proof -
  have grows: "grows m m'" using assms(1,2) by (rule reachable_grows)
  have "manager_wf digest m'" using assms(1,2) by (blast intro: reachable_run reachable_wf)
  then have "inv_executions (rm_executions m') (rm_execution_nodes m') (rm_execution_status m')"
    by (simp add: manager_wf_def)
  with grows_executions [OF grows assms(3)] grows show ?thesis
    by (auto simp: inv_executions_def grows_def cancellation_pending_def bts_extends dest: bt_extendsD)
qed

theorem attempt_binding_immutable_witness:
  "\<exists>m'. restore no_digest (checkpoint_of stopped_manager) = Ok m'
     \<and> cancellation_pending m' ''attempt-2:g1-5:scout-4:lead-1''"
proof -
  obtain m' where m': "restore no_digest (checkpoint_of stopped_manager) = Ok m'"
    by (rule restore_checkpoint [OF reachable_wf [OF stopped_reachable] stopped_paired])
  then have run: "run_from (runtime_step no_digest) stopped_manager m'"
    by (blast intro: run_from.intros runtime_step.restart)
  have "stops_wf stopped_manager"
    using reachable_wf [OF stopped_reachable] by (simp add: manager_wf_def)
  with stopped_facts obtain x where "bt_get (rm_executions stopped_manager) ''attempt-2:g1-5:scout-4:lead-1'' = Some x"
    using stops_wf_execution by blast
  from attempt_binding_immutable [OF stopped_reachable run this] m' stopped_facts show ?thesis
    by (auto simp: cancellation_pending_def)
qed

end
