(* ===== verification/RT_Attempts.thy ===== *)
theory RT_Attempts
  imports RT_Scenario
begin

text \<open>
  Physical attempt identities: their encoding is injective, allocation is fresh, never reissues an identity and
  succeeds while generations remain; and dispatch admission is idempotent and refuses a changed command.
\<close>

subsection \<open>Decimal numbers\<close>

definition digit_value :: "char \<Rightarrow> nat" where
  "digit_value c = of_char c - 48"

definition read_nat :: "string \<Rightarrow> nat" where
  "read_nat s = foldl (\<lambda>n c. 10 * n + digit_value c) 0 s"

lemma digit_char_value: "d < 10 \<Longrightarrow> digit_value (digit_char d) = d"
  by (simp add: digit_char_def digit_value_def)

lemma read_show_nat [simp]: "read_nat (show_nat n) = n"
  by (induction n rule: show_nat.induct)
    (subst show_nat.simps, auto simp: read_nat_def digit_char_value)

lemma show_nat_inject [simp]: "show_nat a = show_nat b \<longleftrightarrow> a = b"
  by (metis read_show_nat)

lemma digit_char_neq: "d < 10 \<Longrightarrow> digit_char d \<noteq> CHR '':''"
  using digit_char_value [of d] by (auto simp: digit_value_def)

lemma show_nat_no_colon: "CHR '':'' \<notin> set (show_nat n)"
  by (induction n rule: show_nat.induct) (subst show_nat.simps, auto simp: digit_char_neq dest: sym)

subsection \<open>The encoding of an attempt\<close>

lemma length_prefixed_inject:
  "show_nat (length a) @ CHR '':'' # a @ b = show_nat (length a') @ CHR '':'' # a' @ b' \<longleftrightarrow> a = a' \<and> b = b'"
  by (auto simp: append_sep_first_eq [OF show_nat_no_colon show_nat_no_colon])

lemma attempt_id_generation [simp]:
  "attempt_execution_id grp task role g = attempt_execution_id grp task role g' \<longleftrightarrow> g = g'"
  by (auto simp: attempt_execution_id_def dest: unsigned_word_eqI)

text \<open>
  The identity of a physical attempt determines its Group, Task identity, Role and generation, and nothing
  else: attempts of Tasks with one Task identity in two Missions share their identities.
\<close>

lemma attempt_execution_id_inject:
  "attempt_execution_id grp task role g = attempt_execution_id grp' task' role' g'
     \<longleftrightarrow> grp = grp' \<and> tr_task_id task = tr_task_id task' \<and> role = role' \<and> g = g'"
  unfolding attempt_execution_id_def
  by (auto simp: length_prefixed_inject unsigned_word_eqI)

subsection \<open>Allocation\<close>

lemma allocate_generation_None:
  "allocate_generation m grp task role g = None \<Longrightarrow> g < g' \<Longrightarrow>
     bt_contains (rm_executions m) (attempt_execution_id grp task role g')
     \<or> bt_contains (rm_dispatch_outbox m) (attempt_execution_id grp task role g')"
proof (induction m grp task role g rule: allocate_generation.induct)
  case (1 m grp task role g)
  have "unat g' < 2 ^ LENGTH(64)" by (rule unsigned_less)
  with "1.prems"(2) obtain n where n: "checked_add g 1 = Some n"
    by (auto simp: checked_add_def word_less_nat_alt split: if_splits)
  then have succ: "unat n = unat g + 1" by (auto dest: checked_add_Some_unat)
  note unfolded = "1.prems"(1) [unfolded allocate_generation.simps [of m grp task role g] n Let_def option.case]
  have taken: "\<not> (\<not> bt_contains (rm_executions m) (attempt_execution_id grp task role n)
      \<and> \<not> bt_contains (rm_dispatch_outbox m) (attempt_execution_id grp task role n))"
    using unfolded by (auto split: if_splits)
  with unfolded have rest: "allocate_generation m grp task role n = None" by (simp only: if_False)
  show ?case
  proof (cases "g' = n")
    case True
    with taken show ?thesis by blast
  next
    case False
    then have "unat g' \<noteq> unat n" by (auto dest: unsigned_word_eqI)
    with "1.prems"(2) succ have "n < g'" by (simp add: word_less_nat_alt)
    with "1.IH" [OF n refl taken rest] show ?thesis by blast
  qed
qed

lemma allocate_attempt_id_Ok:
  assumes "allocate_attempt_id grp task role m = (Ok eid, m')"
  obtains g where "(case bt_get (rm_attempt_generations m) (grp, task, role) of None \<Rightarrow> 0 | Some g \<Rightarrow> g) < g"
    "eid = attempt_execution_id grp task role g" "bt_get (rm_attempt_generations m') (grp, task, role) = Some g"
    "\<not> bt_contains (rm_executions m) eid" "\<not> bt_contains (rm_dispatch_outbox m) eid"
  using assms
  by (auto simp: allocate_attempt_id_def Let_def word_less_nat_alt split: option.splits prod.splits
      dest!: allocate_generation_Some)

text \<open>
  C19: An identity is never issued twice: after an allocation, whatever happens to the Runtime, restarts
  included, a later allocation for the slot returns a different identity, which no attempt of the Runtime uses.
\<close>

theorem attempt_ids_never_reissued:
  assumes "reachable digest m" and first: "allocate_attempt_id grp task role m = (Ok eid, m1)"
    and run: "run_from (runtime_step digest) m1 m2" and second: "allocate_attempt_id grp task role m2 = (Ok eid', m3)"
  shows "eid' \<noteq> eid \<and> \<not> bt_contains (rm_executions m2) eid' \<and> \<not> bt_contains (rm_dispatch_outbox m2) eid'"
proof -
  obtain g where g: "eid = attempt_execution_id grp task role g"
    "bt_get (rm_attempt_generations m1) (grp, task, role) = Some g"
    using first by (rule allocate_attempt_id_Ok)
  have "runtime_step digest m m1"
    using first by (intro runtime_step.call [of m "AllocateAttemptId grp task role" digest False])
      (simp_all add: call_admissible_def outcome_def)
  with assms(1) have "reachable digest m1" unfolding reachable_def by (rule run_from.run_step)
  from reachable_grows [OF this run] g(2) obtain g2
    where "bt_get (rm_attempt_generations m2) (grp, task, role) = Some g2" "g \<le> g2"
    by (auto simp: grows_def dest: bt_extendsD)
  moreover obtain g3 where "(case bt_get (rm_attempt_generations m2) (grp, task, role) of None \<Rightarrow> 0 | Some g \<Rightarrow> g) < g3"
    "eid' = attempt_execution_id grp task role g3" "\<not> bt_contains (rm_executions m2) eid'"
    "\<not> bt_contains (rm_dispatch_outbox m2) eid'"
    using second by (rule allocate_attempt_id_Ok)
  ultimately show ?thesis using g(1) by auto
qed

theorem attempt_ids_never_reissued_witness:
  "\<exists>eid eid' m1 m3. allocate_attempt_id ''g1'' scout_task ''lead'' manager_new = (Ok eid, m1)
     \<and> allocate_attempt_id ''g1'' scout_task ''lead'' m1 = (Ok eid', m3) \<and> eid' \<noteq> eid"
proof -
  have "fst (allocate_attempt_id ''g1'' scout_task ''lead'' manager_new) = Ok ''attempt-2:g1-5:scout-4:lead-1''"
    and "fst (allocate_attempt_id ''g1'' scout_task ''lead''
      (snd (allocate_attempt_id ''g1'' scout_task ''lead'' manager_new))) = Ok ''attempt-2:g1-5:scout-4:lead-2''"
    by code_simp+
  then obtain m1 m3 where alloc: "allocate_attempt_id ''g1'' scout_task ''lead'' manager_new
      = (Ok ''attempt-2:g1-5:scout-4:lead-1'', m1)"
    "allocate_attempt_id ''g1'' scout_task ''lead'' m1 = (Ok ''attempt-2:g1-5:scout-4:lead-2'', m3)"
    by (metis prod.collapse)
  have "reachable no_digest manager_new" by (simp add: reachable_def run_from.run_refl)
  from attempt_ids_never_reissued [OF this alloc(1) run_from.run_refl alloc(2)] alloc show ?thesis by blast
qed

text \<open>The generations above \<open>g\<close>.\<close>

lemma card_greater: "card {g' :: 64 word. g < g'} = 2 ^ 64 - 1 - unat g"
proof -
  have "unat ` {g' :: 64 word. g < g'} = {unat g <..< 2 ^ 64}"
  proof (intro set_eqI iffI)
    fix n assume "n \<in> unat ` {g' :: 64 word. g < g'}"
    then obtain g' :: "64 word" where "g < g'" "n = unat g'" by auto
    moreover have "unat g' < 2 ^ LENGTH(64)" by (rule unsigned_less)
    ultimately show "n \<in> {unat g <..< 2 ^ 64}" by (simp add: word_less_nat_alt)
  next
    fix n assume "n \<in> {unat g <..< 2 ^ 64}"
    then have "unat (word_of_nat n :: 64 word) = n" "g < word_of_nat n"
      by (simp_all add: unat_of_nat word_less_nat_alt)
    then show "n \<in> unat ` {g' :: 64 word. g < g'}" by (metis imageI mem_Collect_eq)
  qed
  moreover have "card (unat ` {g' :: 64 word. g < g'}) = card {g' :: 64 word. g < g'}"
    by (intro card_image inj_onI) (rule unsigned_word_eqI)
  ultimately show ?thesis by simp
qed

text \<open>
  C20: Allocation always returns, and it returns an identity while the unused generations of the slot outnumber
  the attempts and intents the Runtime holds.
\<close>

theorem allocation_succeeds:
  assumes "bt_len (rm_executions m) + bt_len (rm_dispatch_outbox m)
    < 2 ^ 64 - 1 - unat (case bt_get (rm_attempt_generations m) (grp, task, role) of None \<Rightarrow> 0 | Some g \<Rightarrow> g)"
  shows "\<exists>eid m'. allocate_attempt_id grp task role m = (Ok eid, m')"
proof -
  define g where "g = (case bt_get (rm_attempt_generations m) (grp, task, role) of None \<Rightarrow> 0 | Some g \<Rightarrow> g)"
  let ?ids = "attempt_execution_id grp task role ` {g'. g < g'}"
  let ?held = "set (bt_keys (rm_executions m)) \<union> set (bt_keys (rm_dispatch_outbox m))"
  have "allocate_generation m grp task role g \<noteq> None"
  proof
    assume none: "allocate_generation m grp task role g = None"
    have "?ids \<subseteq> ?held"
      by (auto simp: bt_keys_iff dest: allocate_generation_None [OF none])
    then have "card ?ids \<le> card ?held" by (intro card_mono) auto
    also have "\<dots> \<le> card (set (bt_keys (rm_executions m))) + card (set (bt_keys (rm_dispatch_outbox m)))"
      by (rule card_Un_le)
    also have "\<dots> \<le> bt_len (rm_executions m) + bt_len (rm_dispatch_outbox m)"
      by (intro add_mono) (simp_all add: bt_len_def bt_keys_def card_length [of "map fst _", simplified])
    finally have "card ?ids < 2 ^ 64 - 1 - unat g" using assms by (simp add: g_def)
    moreover have "card ?ids = card {g' :: 64 word. g < g'}"
      by (intro card_image inj_onI) simp
    ultimately show False by (simp add: card_greater)
  qed
  then show ?thesis by (auto simp: allocate_attempt_id_def Let_def g_def split: option.splits)
qed

theorem allocation_succeeds_witness:
  "\<exists>eid m'. allocate_attempt_id ''g1'' scout_task ''lead'' manager_new = (Ok eid, m')"
  by (rule allocation_succeeds) (simp add: manager_new_def bt_len_def bt_empty.rep_eq)

subsection \<open>Dispatch\<close>

text \<open>
  C21: An admitted dispatch is idempotent: repeating it with the same command and resource set reports it as
  already routed and changes nothing; with another command or another resource set it is refused, and changes
  nothing.
\<close>

theorem dispatch_idempotent_or_refused:
  assumes "prepare_dispatch eid c rs m = (Ok decision, m')"
  shows "(if c' = c \<and> set rs' = set rs then prepare_dispatch eid c' rs' m' = (Ok AlreadyRouted, m')
          else (\<exists>e. prepare_dispatch eid c' rs' m' = (Err e, m')))"
proof -
  have "is_none_or (ec_recovery_support c) (\<lambda>d. ors_operation (ers_support d) = ei_operation (ec_intent c))"
    and "\<not> bts_member eid (rm_restored_executions m')"
    and "bt_get (rm_executions m') eid = Some \<lparr>ex_command = c, ex_resource_ids = normalized_resources rs\<rparr>"
    using assms
    by (auto simp: prepare_dispatch_def validate_dispatch_def admit_dispatch_fields is_none_or_iff is_some_and_iff
        split: if_splits option.splits rt_result.splits dispatch_decision.splits)
  then show ?thesis
    by (auto simp: prepare_dispatch_def validate_dispatch_def is_none_or_iff is_some_and_iff bt_contains_iff
        normalized_resources_canonical split: option.splits)
qed

theorem dispatch_idempotent_or_refused_witness:
  "\<exists>m'. prepare_dispatch ''e1'' (role_command ''lead'' ''n1'') [''b'', ''a'', ''b''] manager_new = (Ok Route, m')
     \<and> prepare_dispatch ''e1'' (role_command ''lead'' ''n1'') [''a'', ''b''] m' = (Ok AlreadyRouted, m')"
proof -
  have "fst (prepare_dispatch ''e1'' (role_command ''lead'' ''n1'') [''b'', ''a'', ''b''] manager_new) = Ok Route"
    by code_simp
  then obtain m' where "prepare_dispatch ''e1'' (role_command ''lead'' ''n1'') [''b'', ''a'', ''b''] manager_new = (Ok Route, m')"
    by (metis prod.collapse)
  from dispatch_idempotent_or_refused [OF this, of "role_command ''lead'' ''n1''" "[''a'', ''b'']"] this show ?thesis
    by (auto simp: insert_commute)
qed

end
