(* ===== verification/RT_Group_Scenario.thy ===== *)
theory RT_Group_Scenario
  imports RT_Scenario
begin

text \<open>
  A concrete Group recovery: a lead and a wing are stopped together, the wing completes first, and the lead is
  continued by a fresh attempt.
\<close>

definition survey_session :: session_descriptor where
  "survey_session =
     \<lparr>sd_schema_version = ''roboguide.execution-session/v0.1'', sd_mission_id = ''m1'', sd_group_id = ''g1'',
      sd_slots =
        [\<lparr>sl_task_id = ''scout'', sl_role_id = ''lead'', sl_actor_id = ''a1'', sl_dependencies = [], sl_independent = True\<rparr>,
         \<lparr>sl_task_id = ''scout'', sl_role_id = ''wing'', sl_actor_id = ''a2'', sl_dependencies = [], sl_independent = True\<rparr>],
      sd_digest = ''digest''\<rparr>"

definition group_command :: "role_id \<Rightarrow> node_id \<Rightarrow> execution_command" where
  "group_command role node = (role_command role node)\<lparr>
     ec_session := Some survey_session,
     ec_recovery_support := Some \<lparr>ers_local_system_id = ''ros'',
       ers_support = \<lparr>ors_operation = navigate, ors_stop_scope = StopExecutionGroup, ors_continuation = RepeatAfterStop\<rparr>\<rparr>\<rparr>"

definition group_members :: "group_recovery_member list" where
  "group_members =
     [\<lparr>grm_execution_id = ''e1'', grm_expected_node_id = ''n1'', grm_repeat_authorized = True\<rparr>,
      \<lparr>grm_execution_id = ''e2'', grm_expected_node_id = ''n2'', grm_repeat_authorized = True\<rparr>]"

definition running_group :: "runtime_call list" where
  "running_group =
     [PrepareDispatch ''e1'' (group_command ''lead'' ''n1'') [],
      PrepareDispatch ''e2'' (group_command ''wing'' ''n2'') [],
      ObserveExecutionReceived ''e1'' ''n1'' 1 Running [] 10,
      ObserveExecutionReceived ''e2'' ''n2'' 1 Running [] 10]"

definition stopping_group :: "runtime_call list" where
  "stopping_group = running_group @
     [RequestGroupRecoveryStop ''g1'' ''rec1'' group_members 100 1000 2,
      ObserveExecutionReceived ''e1'' ''n1'' 2 Cancelled [] 150, ConfirmGroupRecoveryStop ''e1'' 150,
      ObserveExecutionReceived ''e2'' ''n2'' 2 Completed [] 160, ConfirmGroupRecoveryStop ''e2'' 160]"

text \<open>The same Group with one member Completed before the round is opened.\<close>

definition half_done_group :: "runtime_call list" where
  "half_done_group = running_group @ [ObserveExecutionReceived ''e2'' ''n2'' 2 Completed [] 20]"

definition half_done_manager :: manager where
  "half_done_manager = run_calls no_digest half_done_group manager_new"

definition barrier_manager :: manager where
  "barrier_manager = run_calls no_digest stopping_group manager_new"

definition prepared_manager :: manager where
  "prepared_manager = snd (prepare_dispatch ''e3'' (group_command ''lead'' ''n1'') [] barrier_manager)"

definition survey_replacements :: "(execution_id, execution_id) btmap" where
  "survey_replacements = bt_insert ''e1'' ''e3'' bt_empty"

definition half_done_state :: "manager \<Rightarrow> bool" where
  "half_done_state m \<longleftrightarrow>
   fst (request_group_recovery_stop no_digest ''g1'' ''rec1'' group_members 100 1000 2 m) = Ok ()
   \<and> group_recovery_by_id m ''g1'' ''rec1'' = None
   \<and> execution_status_of m ''e1'' = Some Running
   \<and> execution_status_of m ''e2'' = Some Completed
   \<and> map grm_execution_id group_members = [''e1'', ''e2'']
   \<and> \<not> cancellation_pending m ''e2''"

lemma half_done_evaluated: "calls_admissible no_digest half_done_group manager_new" "half_done_state half_done_manager"
  by code_simp+

lemmas half_done_facts = half_done_evaluated [unfolded half_done_state_def]

lemma barrier_facts:
  "calls_admissible no_digest stopping_group manager_new
   \<and> group_recovery_disposition barrier_manager ''g1'' 200 = Some GrStopConfirmed
   \<and> map gri_recovery_id (rm_group_recoveries barrier_manager) = [''rec1'']"
  by code_simp

lemma prepared_facts:
  "call_admissible barrier_manager (PrepareDispatch ''e3'' (group_command ''lead'' ''n1'') [])
   \<and> fst (record_group_continuation ''g1'' 200 survey_replacements prepared_manager) = Ok ()
   \<and> list_ex (\<lambda>i. bt_len (gri_replacements i) \<noteq> 0)
       (rm_group_recoveries (snd (record_group_continuation ''g1'' 200 survey_replacements prepared_manager)))"
  by code_simp

lemma half_done_reachable: "reachable no_digest half_done_manager"
  using half_done_facts unfolding half_done_manager_def by (intro run_calls_reachable) blast

lemma barrier_reachable: "reachable no_digest barrier_manager"
  using barrier_facts unfolding barrier_manager_def by (intro run_calls_reachable) blast

lemma prepared_reachable: "reachable no_digest prepared_manager"
proof -
  have "runtime_step no_digest barrier_manager prepared_manager"
    using prepared_facts
    by (intro runtime_step.call [of _ "PrepareDispatch ''e3'' (group_command ''lead'' ''n1'') []" _
          "fst (outcome (prepare_dispatch ''e3'' (group_command ''lead'' ''n1'') [] barrier_manager))"])
      (auto simp: prepared_manager_def outcome_def split: prod.splits)
  with barrier_reachable show ?thesis unfolding reachable_def by (rule run_from.run_step)
qed

end
