(* ===== verification/RT_Recovery_Props.thy ===== *)
theory RT_Recovery_Props
  imports RT_Group_Scenario
begin

text \<open>
  Recovery authority: budgets and deadlines of isolated stops, the evidence behind a release, and the exact-set
  stop, barrier and continuation of a Group.
\<close>

subsection \<open>Isolated Role recovery\<close>

lemma reachable_stops: "reachable digest m \<Longrightarrow> stops_wf m"
  using reachable_wf by (auto simp: manager_wf_def)

lemma reachable_groups: "reachable digest m \<Longrightarrow> groups_wf digest m"
  using reachable_wf by (auto simp: manager_wf_def)

text \<open>
  C16: The recovery budget of a Role is never overdrawn: in every reachable state its use is the number of stops
  ever authorized for the slot, it is positive and at most the limit, and no limit exceeds sixteen.
\<close>

theorem recovery_budget_bounded:
  assumes "reachable digest m" and "bt_get (rm_recovery_budgets m) slot = Some b"
  shows "unat (rb_used b) = slot_stop_count m slot \<and> 0 < rb_used b \<and> rb_used b \<le> rb_limit b \<and> rb_limit b \<le> 16"
proof -
  have "recovery_budget_valid m slot b"
    using reachable_stops [OF assms(1)] assms(2) unfolding stops_wf_def by blast
  then show ?thesis by (auto simp: recovery_budget_valid_def word_gt_0)
qed

theorem recovery_budget_bounded_witness:
  "\<exists>b. bt_get (rm_recovery_budgets stopped_manager) (''g1'', scout_task, ''lead'') = Some b
     \<and> unat (rb_used b) = slot_stop_count stopped_manager (''g1'', scout_task, ''lead'')"
proof -
  from stopped_facts obtain b where b: "bt_get (rm_recovery_budgets stopped_manager) (''g1'', scout_task, ''lead'') = Some b"
    by blast
  from recovery_budget_bounded [OF stopped_reachable b] b show ?thesis by blast
qed

text \<open>
  C15: A recovery deadline is never renewed: along every run, restarts included, a stop keeps its request time,
  timeout and deadline, which is their sum without overflow and at most one hour later; a confirmation is never
  replaced, and an abort or a release is never taken back.
\<close>

theorem recovery_deadline_fixed:
  assumes "reachable digest m" and "run_from (runtime_step digest) m m'"
    and "bt_get (rm_recovery_stops m) eid = Some i"
  shows "\<exists>j. bt_get (rm_recovery_stops m') eid = Some j
    \<and> rsi_requested_at_ms j = rsi_requested_at_ms i \<and> rsi_deadline_ms j = rsi_deadline_ms i
    \<and> unat (rsi_deadline_ms j) = unat (rsi_requested_at_ms j) + unat (rsi_timeout_ms j)
    \<and> unat (rsi_timeout_ms j) \<le> 3600000
    \<and> (rsi_confirmed_at_ms i = Some t \<longrightarrow> rsi_confirmed_at_ms j = Some t)
    \<and> (rsi_aborted i \<longrightarrow> rsi_aborted j) \<and> (rsi_release_authorized i \<longrightarrow> rsi_release_authorized j)"
proof -
  have grows: "grows m m'" using assms(1,2) by (rule reachable_grows)
  then obtain j where j: "bt_get (rm_recovery_stops m') eid = Some j" "stop_grows i j"
    using assms(3) by (auto simp: grows_def dest: bt_extendsD)
  have "stops_wf m'" using assms(1,2) by (blast intro: reachable_stops reachable_run)
  with j(1) obtain slot where "recovery_stop_valid m' eid j slot" unfolding stops_wf_def by blast
  then have "checked_add (rsi_requested_at_ms j) (rsi_timeout_ms j) = Some (rsi_deadline_ms j)"
    and "rsi_timeout_ms j \<le> 3600000" by (simp_all add: recovery_stop_valid_def)
  then have "unat (rsi_deadline_ms j) = unat (rsi_requested_at_ms j) + unat (rsi_timeout_ms j)"
    and "unat (rsi_timeout_ms j) \<le> 3600000"
    by (auto dest: checked_add_Some_unat simp: word_le_nat_alt)
  with j show ?thesis by (auto simp: stop_grows_def is_none_or_iff)
qed

theorem recovery_deadline_fixed_witness:
  "\<exists>m' j. restore no_digest (checkpoint_of stopped_manager) = Ok m'
     \<and> bt_get (rm_recovery_stops m') ''attempt-2:g1-5:scout-4:lead-1'' = Some j \<and> rsi_deadline_ms j = 1100
     \<and> rsi_confirmed_at_ms j = Some 200"
proof -
  obtain m' where m': "restore no_digest (checkpoint_of stopped_manager) = Ok m'"
    by (rule restore_checkpoint [OF reachable_wf [OF stopped_reachable] stopped_paired])
  then have run: "run_from (runtime_step no_digest) stopped_manager m'"
    by (blast intro: run_from.intros runtime_step.restart)
  from stopped_facts obtain i where i: "bt_get (rm_recovery_stops stopped_manager) ''attempt-2:g1-5:scout-4:lead-1'' = Some i"
    "rsi_deadline_ms i = 1100" "rsi_confirmed_at_ms i = Some 200" by auto
  from recovery_deadline_fixed [OF stopped_reachable run i(1), of 200] i(2,3) m' show ?thesis by auto
qed

text \<open>
  C5: A Role is ready to be replaced only behind real evidence: its current attempt was asked to cancel, the Node
  reported it Cancelled, and that fact was received between the request and the deadline and no later than now,
  while the deadline has not passed.
\<close>

theorem release_needs_cancelled_evidence:
  assumes "reachable digest m" and "recovery_stop_ready m c now"
  shows "\<exists>eid i t. bt_get (rm_active_executions m) (command_slot c) = Some eid
    \<and> bt_get (rm_recovery_stops m) eid = Some i \<and> \<not> rsi_aborted i
    \<and> execution_command_of m eid = Some c \<and> execution_status_of m eid = Some Cancelled \<and> cancellation_pending m eid
    \<and> rsi_confirmed_at_ms i = Some t \<and> rsi_requested_at_ms i \<le> t \<and> t \<le> now \<and> now < rsi_deadline_ms i
    \<and> role_retry_supported c"
proof -
  from assms(2) obtain eid i where i: "bt_get (rm_active_executions m) (command_slot c) = Some eid"
    "bt_get (rm_recovery_stops m) eid = Some i"
    by (auto simp: recovery_stop_ready_def current_attempt_id_def command_slot_def is_some_and_iff bind_eq_Some_conv)
  from i(2) reachable_stops [OF assms(1)] obtain slot where "recovery_stop_valid m eid i slot"
    unfolding stops_wf_def by blast
  with assms(2) i show ?thesis
    by (auto simp: recovery_stop_ready_def recovery_stop_valid_def current_attempt_id_def command_slot_def
        is_some_and_iff is_none_or_iff cancellation_pending_def execution_command_of_def)
qed

theorem release_needs_cancelled_evidence_witness:
  "\<exists>eid. bt_get (rm_active_executions stopped_manager) (command_slot (role_command ''lead'' ''n1'')) = Some eid
     \<and> execution_status_of stopped_manager eid = Some Cancelled"
proof -
  have "recovery_stop_ready stopped_manager (role_command ''lead'' ''n1'') 300" using stopped_facts by blast
  from release_needs_cancelled_evidence [OF stopped_reachable this] show ?thesis by blast
qed

text \<open>
  C18: An explicit cancellation revokes a recovery for good: after it, no run makes the stopped attempt ready for
  replacement again, and the attempt is never counted as awaiting one.
\<close>

theorem cancellation_revokes_recovery:
  assumes "reachable digest m" and "request_cancellation eid m = (Ok (), m1)" and "run_from (runtime_step digest) m1 m2"
    and "bt_contains (rm_recovery_stops m) eid"
  shows "\<not> (recovery_stop_ready m2 c now \<and> bt_get (rm_active_executions m2) (command_slot c) = Some eid)"
proof -
  have "runtime_step digest m m1"
    using assms(2) by (intro runtime_step.call [of m "RequestCancellation eid" digest False])
      (simp_all add: call_admissible_def outcome_def)
  with assms(1) have "reachable digest m1" unfolding reachable_def by (rule run_from.run_step)
  with assms(3) have grows: "grows m1 m2" by (blast intro: reachable_grows)
  from assms(4) obtain i0 where "bt_get (rm_recovery_stops m) eid = Some i0" by (auto simp: bt_contains_iff)
  moreover from assms(2) have "rm_recovery_stops m1 = bt_update eid (\<lambda>i. i\<lparr>rsi_aborted := True\<rparr>) (rm_recovery_stops m)"
    by (auto simp: request_cancellation_def Let_def abort_group_recovery_for_attempt_def split: if_splits)
  ultimately obtain i where "bt_get (rm_recovery_stops m1) eid = Some i" "rsi_aborted i" by (simp add: bt_get_update)
  with grows obtain j where "bt_get (rm_recovery_stops m2) eid = Some j" "rsi_aborted j"
    unfolding grows_def stop_grows_def by (blast dest: bt_extendsD)
  then show ?thesis
    by (auto simp: recovery_stop_ready_def current_attempt_id_def command_slot_def)
qed

theorem cancellation_revokes_recovery_witness:
  "\<exists>m1. request_cancellation ''attempt-2:g1-5:scout-4:lead-1'' stopped_manager = (Ok (), m1)
     \<and> \<not> (recovery_stop_ready m1 (role_command ''lead'' ''n1'') 300
          \<and> bt_get (rm_active_executions m1) (command_slot (role_command ''lead'' ''n1''))
              = Some ''attempt-2:g1-5:scout-4:lead-1'')"
proof -
  have stop: "bt_contains (rm_recovery_stops stopped_manager) ''attempt-2:g1-5:scout-4:lead-1''"
    using stopped_facts by (simp add: bt_contains_iff)
  then have "bt_contains (rm_executions stopped_manager) ''attempt-2:g1-5:scout-4:lead-1''"
    using stops_wf_execution [OF reachable_stops [OF stopped_reachable]] by (auto simp: bt_contains_iff)
  then obtain m1 where m1: "request_cancellation ''attempt-2:g1-5:scout-4:lead-1'' stopped_manager = (Ok (), m1)"
    by (simp add: request_cancellation_def Let_def)
  from cancellation_revokes_recovery [OF stopped_reachable m1 run_from.run_refl stop] m1 show ?thesis by blast
qed

subsection \<open>Group recovery\<close>

lemma request_group_recovery_stop_Ok:
  assumes "request_group_recovery_stop digest grp rid members0 now timeout_ms limit m = (Ok (), m')"
    and "group_recovery_by_id m grp rid = None"
  obtains preserved deadline where
    "m' = authorize_group_stop (new_round grp rid (sort_key grm_execution_id members0) preserved now deadline timeout_ms limit) m"
    "bt_len (bts_of_list (map grm_execution_id (sort_key grm_execution_id members0))) = length members0"
    "bts_of_list (map grm_execution_id (sort_key grm_execution_id members0))
       = bts_of_list (map fst (active_attempts_for_group m grp))"
    "group_members_check digest m grp (sort_key grm_execution_id members0) None bt_empty = Inr preserved"
  using assms
  by (auto simp: request_group_recovery_stop_def Let_def split: option.splits if_splits bool.splits sum.splits)

text \<open>
  C14: Opening a Group recovery covers the exact current set: when a new round is admitted its members are the
  current attempts of the Group, each once, and all of them run on their expected Nodes in one validated session of
  independent slots. The preserved members are exactly those whose current attempt is Completed, and the request adds
  no cancellation for them; every other member is still live, is authorized to repeat and is asked to cancel. No
  status changes.
\<close>

theorem group_stop_covers_current_set:
  assumes "request_group_recovery_stop digest grp rid members now timeout_ms limit m = (Ok (), m')"
    and "group_recovery_by_id m grp rid = None"
  shows "\<exists>i session. group_recovery m' grp = Some i \<and> gri_members i = sort_key grm_execution_id members
    \<and> distinct (map grm_execution_id members)
    \<and> set (map grm_execution_id members) = set (map fst (active_attempts_for_group m grp))
    \<and> (\<forall>mem \<in> set members. group_member_admitted digest m grp session mem)
    \<and> (\<forall>eid. bts_member eid (gri_preserved_completed i)
          \<longleftrightarrow> eid \<in> grm_execution_id ` set members \<and> execution_status_of m eid = Some Completed)
    \<and> (\<forall>mem \<in> set members. if execution_status_of m (grm_execution_id mem) = Some Completed
          then cancellation_pending m' (grm_execution_id mem) = cancellation_pending m (grm_execution_id mem)
          else grm_repeat_authorized mem \<and> cancellation_pending m' (grm_execution_id mem))
    \<and> (\<forall>eid. execution_status_of m' eid = execution_status_of m eid)"
proof -
  obtain preserved deadline where
    m': "m' = authorize_group_stop (new_round grp rid (sort_key grm_execution_id members) preserved now deadline timeout_ms limit) m"
      (is "_ = authorize_group_stop ?i m")
    and ids: "bt_len (bts_of_list (map grm_execution_id (sort_key grm_execution_id members))) = length members"
      "bts_of_list (map grm_execution_id (sort_key grm_execution_id members))
         = bts_of_list (map fst (active_attempts_for_group m grp))"
    and check: "group_members_check digest m grp (sort_key grm_execution_id members) None bt_empty = Inr preserved"
    by (rule request_group_recovery_stop_Ok [OF assms])
  obtain session where session: "\<forall>mem \<in> set members. group_member_admitted digest m grp session mem"
    and preserved: "\<And>eid. bts_member eid preserved
      \<longleftrightarrow> eid \<in> grm_execution_id ` set members \<and> execution_status_of m eid = Some Completed"
    using group_members_check_admitted [OF check] by auto
  have round: "group_recovery m' grp = Some ?i"
    by (simp add: m' group_recovery_def authorize_group_stop_def new_round_def)
  have cancelled: "cancellation_pending m' eid \<longleftrightarrow> cancellation_pending m eid
      \<or> (\<exists>mem \<in> set members. \<not> bts_member (grm_execution_id mem) preserved \<and> grm_execution_id mem = eid)" for eid
    by (simp add: m' authorize_group_stop_def cancellation_pending_def new_round_def bts_member_fold_unless)
  have "if execution_status_of m (grm_execution_id mem) = Some Completed
      then cancellation_pending m' (grm_execution_id mem) = cancellation_pending m (grm_execution_id mem)
      else grm_repeat_authorized mem \<and> cancellation_pending m' (grm_execution_id mem)" if "mem \<in> set members" for mem
    using that session by (auto simp: cancelled preserved group_member_admitted_def)
  moreover have "distinct (map grm_execution_id members)"
    using ids(1) by (intro card_distinct) (simp add: bt_len_of_list)
  moreover have "set (map grm_execution_id members) = set (map fst (active_attempts_for_group m grp))"
    using ids(2) by (simp add: bts_of_list_eq_iff)
  moreover have "\<forall>eid. execution_status_of m' eid = execution_status_of m eid"
    by (simp add: m' authorize_group_stop_def execution_status_of_def)
  ultimately show ?thesis
    using round session preserved by (intro exI [of _ ?i] exI [of _ session]) (simp add: new_round_def)
qed

theorem group_stop_covers_current_set_witness:
  "\<exists>m' i. request_group_recovery_stop no_digest ''g1'' ''rec1'' group_members 100 1000 2 half_done_manager = (Ok (), m')
     \<and> group_recovery m' ''g1'' = Some i \<and> \<not> bts_member ''e1'' (gri_preserved_completed i)
     \<and> bts_member ''e2'' (gri_preserved_completed i) \<and> \<not> cancellation_pending m' ''e2''"
proof -
  obtain m' where m': "request_group_recovery_stop no_digest ''g1'' ''rec1'' group_members 100 1000 2 half_done_manager = (Ok (), m')"
    using half_done_facts by (metis prod.collapse)
  have "group_recovery_by_id half_done_manager ''g1'' ''rec1'' = None" using half_done_facts by blast
  from group_stop_covers_current_set [OF m' this] obtain i where i: "group_recovery m' ''g1'' = Some i"
    and preserved: "\<forall>eid. bts_member eid (gri_preserved_completed i)
      \<longleftrightarrow> eid \<in> grm_execution_id ` set group_members \<and> execution_status_of half_done_manager eid = Some Completed"
    and kept: "\<forall>mem \<in> set group_members. execution_status_of half_done_manager (grm_execution_id mem) = Some Completed
      \<longrightarrow> cancellation_pending m' (grm_execution_id mem) = cancellation_pending half_done_manager (grm_execution_id mem)"
    by (elim exE conjE) (simp split: if_splits)
  have e2: "''e2'' \<in> grm_execution_id ` set group_members"
    using half_done_facts by (metis list.set_intros set_map)
  then have "\<not> cancellation_pending m' ''e2''" using kept half_done_facts by auto
  moreover have "bts_member ''e2'' (gri_preserved_completed i)" "\<not> bts_member ''e1'' (gri_preserved_completed i)"
    using preserved e2 half_done_facts by simp_all
  ultimately show ?thesis using m' i by blast
qed

lemma rounds_allowed_bounded:
  assumes "rounds_allowed [] ks"
  shows "distinct (map (\<lambda>p. fst (snd p)) (filter (\<lambda>p. fst p = g) ks))
    \<and> (\<forall>p \<in> set (filter (\<lambda>p. fst p = g) ks). length (filter (\<lambda>p. fst p = g) ks) \<le> unat (snd (snd p))
         \<and> (\<forall>q \<in> set (filter (\<lambda>p. fst p = g) ks). snd (snd q) = snd (snd p)))"
  using assms
proof (induction ks rule: rev_induct)
  case (snoc k ks)
  let ?earlier = "filter (\<lambda>p. fst p = g) ks"
  from snoc.prems have "rounds_allowed [] ks" by (simp add: rounds_allowed_append)
  note IH = snoc.IH [OF this]
  then have earlier: "distinct (map (\<lambda>p. fst (snd p)) ?earlier)" by blast
  show ?case
  proof (cases "fst k = g")
    case True
    obtain rid limit where k: "k = (g, rid, limit)" using True by (metis prod.collapse)
    have "round_allowed ks k" using snoc.prems by (simp add: rounds_allowed_append)
    then have room: "length ?earlier < unat limit"
      and apart: "\<forall>p \<in> set ?earlier. fst (snd p) \<noteq> rid"
      and same: "\<forall>p \<in> set ?earlier. snd (snd p) = limit"
      by (simp_all add: round_allowed_def k)
    have limits: "\<forall>p \<in> set (?earlier @ [k]). snd (snd p) = limit" using same by (simp add: k)
    have lengths: "\<forall>p \<in> set (?earlier @ [k]). length (?earlier @ [k]) \<le> unat (snd (snd p))"
      using room same by (auto simp: k)
    from apart have "rid \<notin> (\<lambda>p. fst (snd p)) ` set ?earlier" by blast
    then have "distinct (map (\<lambda>p. fst (snd p)) (?earlier @ [k]))" using earlier by (simp add: k)
    moreover have "filter (\<lambda>p. fst p = g) (ks @ [k]) = ?earlier @ [k]" by (simp add: k)
    ultimately show ?thesis using limits lengths by metis
  next
    case False
    then have "filter (\<lambda>p. fst p = g) (ks @ [k]) = ?earlier" by simp
    with IH show ?thesis by metis
  qed
qed simp

text \<open>
  The rounds of a Group are bounded: in every reachable state they have pairwise different identities, one
  common limit of at most sixteen, and are no more than that limit.
\<close>

lemma group_rounds_bounded:
  assumes "reachable digest m" and "group_recovery m grp = Some i"
  shows "distinct (map gri_recovery_id (filter (\<lambda>j. gri_group_id j = grp) (rm_group_recoveries m)))
    \<and> length (filter (\<lambda>j. gri_group_id j = grp) (rm_group_recoveries m)) \<le> unat (gri_max_replacements i)
    \<and> unat (gri_max_replacements i) \<le> 16
    \<and> (\<forall>j \<in> set (rm_group_recoveries m). gri_group_id j = grp \<longrightarrow> gri_max_replacements j = gri_max_replacements i)"
proof -
  let ?rs = "rm_group_recoveries m"
  have groups: "groups_wf digest m" using assms(1) by (rule reachable_groups)
  from group_recovery_Some [OF assms(2)] have i: "i \<in> set ?rs" "gri_group_id i = grp" by auto
  have "group_intent_bounded i"
    using groups i(1) by (auto simp: groups_wf_iff group_intent_valid_def split: if_splits)
  then have "unat (gri_max_replacements i) \<le> 16" by (simp add: group_intent_bounded_def word_le_nat_alt)
  moreover have "rounds_allowed [] (map round_key ?rs)" using groups by (simp add: groups_wf_iff)
  from rounds_allowed_bounded [OF this, of grp]
  have bounded: "distinct (map gri_recovery_id (filter (\<lambda>j. gri_group_id j = grp) ?rs))"
    and limits: "\<And>p q. p \<in> set ?rs \<Longrightarrow> gri_group_id p = grp \<Longrightarrow> q \<in> set ?rs \<Longrightarrow> gri_group_id q = grp \<Longrightarrow>
      gri_max_replacements q = gri_max_replacements p
      \<and> length (filter (\<lambda>j. gri_group_id j = grp) ?rs) \<le> unat (gri_max_replacements p)"
    unfolding filter_map map_map o_def round_key_def fst_conv snd_conv set_map length_map ball_simps(9) set_filter by blast+
  ultimately show ?thesis using limits [OF i] limits [OF i i] by blast
qed

lemma members_stop_confirmed_iff:
  "members_stop_confirmed m i now mems = Some True \<longleftrightarrow>
     (\<forall>mem \<in> set mems. \<exists>x. bt_get (rm_executions m) (grm_execution_id mem) = Some x
        \<and> bt_get (rm_active_executions m) (command_slot (ex_command x)) = Some (grm_execution_id mem)
        \<and> member_stopped m i now (grm_execution_id mem))"
  by (induction mems)
    (auto simp: Let_def current_attempt_id_def command_slot_def split: option.splits)

text \<open>
  C7: The stop barrier is exact: a Group is reported StopConfirmed only when every member of its latest round is
  still the current attempt of its Role and is either a preserved completion or has a Cancelled or Completed fact
  received after the request, before the deadline and no later than now; at least one member did not complete,
  none failed, and no continuation was recorded yet.
\<close>

theorem group_stop_confirmed_exact:
  assumes "reachable digest m" and "group_recovery_disposition m grp now = Some GrStopConfirmed"
  shows "\<exists>i. group_recovery m grp = Some i \<and> \<not> gri_aborted i \<and> bt_len (gri_replacements i) = 0
    \<and> now < gri_deadline_ms i
    \<and> (\<exists>mem \<in> set (gri_members i). execution_status_of m (grm_execution_id mem) = Some Cancelled)
    \<and> (\<forall>mem \<in> set (gri_members i). \<exists>x t. bt_get (rm_executions m) (grm_execution_id mem) = Some x
         \<and> bt_get (rm_active_executions m) (command_slot (ex_command x)) = Some (grm_execution_id mem)
         \<and> (if bts_member (grm_execution_id mem) (gri_preserved_completed i)
            then execution_status_of m (grm_execution_id mem) = Some Completed
            else execution_status_of m (grm_execution_id mem) \<in> {Some Cancelled, Some Completed}
              \<and> bt_get (gri_confirmed_at_ms i) (grm_execution_id mem) = Some t
              \<and> gri_requested_at_ms i \<le> t \<and> t < gri_deadline_ms i \<and> t \<le> now))"
proof -
  from assms(2) obtain i where i: "group_recovery m grp = Some i" "\<not> gri_aborted i" "bt_len (gri_replacements i) = 0"
    "now < gri_deadline_ms i" "members_stop_confirmed m i now (gri_members i) = Some True"
    "\<not> list_all (\<lambda>mem. execution_status_of m (grm_execution_id mem) = Some Completed) (gri_members i)"
    by (auto simp: group_recovery_disposition_def split: option.splits if_splits bool.splits)
  have "group_intent_valid digest m i = Some True"
    using reachable_groups [OF assms(1)] group_recovery_Some [OF i(1)] by (auto simp: groups_wf_iff)
  then have valid: "group_members_valid digest m i None (gri_members i)"
    by (auto simp: group_intent_valid_def split: if_splits)
  have member: "\<exists>x t. bt_get (rm_executions m) (grm_execution_id mem) = Some x
         \<and> bt_get (rm_active_executions m) (command_slot (ex_command x)) = Some (grm_execution_id mem)
         \<and> (if bts_member (grm_execution_id mem) (gri_preserved_completed i)
            then execution_status_of m (grm_execution_id mem) = Some Completed
            else execution_status_of m (grm_execution_id mem) \<in> {Some Cancelled, Some Completed}
              \<and> bt_get (gri_confirmed_at_ms i) (grm_execution_id mem) = Some t
              \<and> gri_requested_at_ms i \<le> t \<and> t < gri_deadline_ms i \<and> t \<le> now)" if mem: "mem \<in> set (gri_members i)" for mem
  proof -
    from i(5) mem obtain x where "bt_get (rm_executions m) (grm_execution_id mem) = Some x"
      "bt_get (rm_active_executions m) (command_slot (ex_command x)) = Some (grm_execution_id mem)"
      "member_stopped m i now (grm_execution_id mem)" unfolding members_stop_confirmed_iff by blast
    with group_members_valid_member [OF valid mem] show ?thesis
      by (auto simp: member_stopped_def group_member_valid_def is_some_and_iff is_none_or_iff split: if_splits)
  qed
  moreover from i(6) member
  have "\<exists>mem \<in> set (gri_members i). execution_status_of m (grm_execution_id mem) = Some Cancelled"
    unfolding list_all_iff by (fastforce split: if_splits)
  ultimately show ?thesis using i by blast
qed

theorem group_stop_confirmed_exact_witness:
  "\<exists>i. group_recovery barrier_manager ''g1'' = Some i \<and> \<not> gri_aborted i \<and> 200 < gri_deadline_ms i"
proof -
  have "group_recovery_disposition barrier_manager ''g1'' 200 = Some GrStopConfirmed" using barrier_facts by blast
  from group_stop_confirmed_exact [OF barrier_reachable this] show ?thesis by blast
qed

lemma group_replacements_validD:
  assumes "group_replacements_valid m i es = Some True" and "(source, replacement) \<in> set es"
  shows "\<exists>actual original. bt_get (rm_executions m) replacement = Some actual
    \<and> bt_get (rm_executions m) source = Some original \<and> ec_group_id (ex_command actual) = gri_group_id i
    \<and> ec_node_id (ex_command actual) = ec_node_id (ex_command original)
    \<and> ec_task_ref (ex_command actual) = ec_task_ref (ex_command original)
    \<and> ec_role_id (ex_command actual) = ec_role_id (ex_command original)
    \<and> ec_intent (ex_command actual) = ec_intent (ex_command original)
    \<and> ex_resource_ids actual = ex_resource_ids original \<and> \<not> bts_member replacement (member_ids i)"
  using assms by (induction es) (auto split: option.splits if_splits)

lemma bt_values_distinct_inj:
  assumes "bt_len (bts_of_list (bt_values b)) = bt_len b"
  shows "inj_on (bt_get b) {k. bt_contains b k}"
proof -
  have "distinct (map snd (bt_entries b))"
    using assms bt_len_of_list_distinct [of "bt_values b"] by (simp add: bt_values_def bt_len_def)
  then have inj: "inj_on snd (set (bt_entries b))" by (simp add: distinct_map)
  show ?thesis
  proof (rule inj_onI)
    fix k l assume "k \<in> {k. bt_contains b k}" and "bt_get b k = bt_get b l"
    then obtain v where "(k, v) \<in> set (bt_entries b)" "(l, v) \<in> set (bt_entries b)"
      by (auto simp: bt_entries_iff bt_contains_iff)
    from inj_onD [OF inj _ this] show "k = l" by simp
  qed
qed

text \<open>
  C6: A continuation replaces exactly what was cancelled: in every reachable state, a round with replacements maps
  each of its Cancelled members, and nothing else, to its own fresh attempt, which is no member of the round and
  repeats the same invocation on the same Node, Role and Resources.
\<close>

theorem continuation_replaces_cancelled_exactly:
  assumes "reachable digest m" and "i \<in> set (rm_group_recoveries m)" and "bt_len (gri_replacements i) \<noteq> 0"
  shows "(\<forall>source. bt_contains (gri_replacements i) source \<longleftrightarrow>
        is_member source i \<and> execution_status_of m source = Some Cancelled)
    \<and> inj_on (bt_get (gri_replacements i)) {source. bt_contains (gri_replacements i) source}
    \<and> (\<forall>source replacement. bt_get (gri_replacements i) source = Some replacement \<longrightarrow>
        \<not> is_member replacement i \<and> (\<exists>actual original.
          bt_get (rm_executions m) replacement = Some actual \<and> bt_get (rm_executions m) source = Some original
          \<and> command_slot (ex_command actual) = command_slot (ex_command original)
          \<and> ec_node_id (ex_command actual) = ec_node_id (ex_command original)
          \<and> ec_intent (ex_command actual) = ec_intent (ex_command original)
          \<and> ex_resource_ids actual = ex_resource_ids original))"
proof -
  let ?reps = "gri_replacements i"
  have "group_intent_valid digest m i = Some True"
    using reachable_groups [OF assms(1)] assms(2) by (auto simp: groups_wf_iff)
  then have barrier: "group_barrier_valid m i" and reps: "group_replacements_valid m i (bt_entries ?reps) = Some True"
    and members: "group_members_valid digest m i None (gri_members i)"
    using assms(3) by (auto simp: group_intent_valid_def split: if_splits)
  have member_iff: "bts_member eid (member_ids i) \<longleftrightarrow> is_member eid i" for eid
    by (auto simp: member_ids_def is_member_def list_ex_iff)
  have keys: "bt_contains ?reps source \<longleftrightarrow> is_member source i \<and> execution_status_of m source = Some Cancelled" for source
  proof -
    have "set (bt_keys ?reps) = {eid \<in> set (bt_keys (member_ids i)). execution_status_of m eid = Some Cancelled}"
      using barrier by (simp add: group_barrier_valid_def bts_of_list_eq_iff)
    then show ?thesis by (auto simp: bt_keys_iff [symmetric] bts_member_keys [symmetric] member_iff [symmetric])
  qed
  have inj: "inj_on (bt_get ?reps) {source. bt_contains ?reps source}"
    using barrier unfolding group_barrier_valid_def by (blast intro: bt_values_distinct_inj)
  have entry: "\<not> is_member replacement i \<and> (\<exists>actual original.
          bt_get (rm_executions m) replacement = Some actual \<and> bt_get (rm_executions m) source = Some original
          \<and> command_slot (ex_command actual) = command_slot (ex_command original)
          \<and> ec_node_id (ex_command actual) = ec_node_id (ex_command original)
          \<and> ec_intent (ex_command actual) = ec_intent (ex_command original)
          \<and> ex_resource_ids actual = ex_resource_ids original)" if "bt_get ?reps source = Some replacement" for source replacement
  proof -
    from that have "(source, replacement) \<in> set (bt_entries ?reps)" by (simp add: bt_entries_iff)
    with reps obtain actual original where found: "bt_get (rm_executions m) replacement = Some actual"
        "bt_get (rm_executions m) source = Some original" "ec_group_id (ex_command actual) = gri_group_id i"
        "ec_node_id (ex_command actual) = ec_node_id (ex_command original)"
        "ec_task_ref (ex_command actual) = ec_task_ref (ex_command original)"
        "ec_role_id (ex_command actual) = ec_role_id (ex_command original)"
        "ec_intent (ex_command actual) = ec_intent (ex_command original)"
        "ex_resource_ids actual = ex_resource_ids original" "\<not> bts_member replacement (member_ids i)"
      using group_replacements_validD [OF reps] by blast
    from that have "is_member source i" using keys by (auto simp: bt_contains_iff)
    with members found(2) have "ec_group_id (ex_command original) = gri_group_id i"
      by (auto simp: is_member_def list_ex_iff group_member_valid_def dest!: group_members_valid_member)
    with found show ?thesis by (auto simp: member_iff command_slot_def)
  qed
  show ?thesis using keys inj entry by blast
qed

theorem continuation_replaces_cancelled_exactly_witness:
  "\<exists>m' i. record_group_continuation ''g1'' 200 survey_replacements prepared_manager = (Ok (), m')
     \<and> i \<in> set (rm_group_recoveries m')
     \<and> (\<forall>source. bt_contains (gri_replacements i) source \<longleftrightarrow>
          is_member source i \<and> execution_status_of m' source = Some Cancelled)"
proof -
  obtain m' where m': "record_group_continuation ''g1'' 200 survey_replacements prepared_manager = (Ok (), m')"
    using prepared_facts by (metis prod.collapse)
  have "runtime_step no_digest prepared_manager m'"
    using m' prepared_facts by (intro runtime_step.call [of _ "RecordGroupContinuation ''g1'' 200 survey_replacements" _ False])
      (simp_all add: call_admissible_def outcome_def)
  with prepared_reachable have reach: "reachable no_digest m'" unfolding reachable_def by (rule run_from.run_step)
  obtain i where i: "i \<in> set (rm_group_recoveries m')" "bt_len (gri_replacements i) \<noteq> 0"
    using prepared_facts unfolding m' list_ex_iff by auto
  from continuation_replaces_cancelled_exactly [OF reach i] i(1) m' show ?thesis by blast
qed

end
