(* ===== verification/RT_Frames.thy ===== *)
theory RT_Frames
  imports RT_System
begin

text \<open>
  What the operations leave alone: only the channel operations change a peer channel, and only an
  acknowledgement lifts a relation fence.
\<close>

definition quiet :: "manager \<Rightarrow> manager \<Rightarrow> bool" where
  "quiet m m' \<longleftrightarrow> rm_peer_channels m' = rm_peer_channels m
     \<and> (\<forall>k. bts_member k (rm_relation_fences m) \<longrightarrow> bts_member k (rm_relation_fences m'))"

lemma quiet_refl [simp]: "quiet m m"
  by (simp add: quiet_def)

lemma quiet_trans: "quiet m m' \<Longrightarrow> quiet m' m'' \<Longrightarrow> quiet m m''"
  by (auto simp: quiet_def)

lemma refresh_effect_quiet: "refresh_effect m K m' \<Longrightarrow> quiet m m'"
  by (auto simp: refresh_effect_def quiet_def)

lemma refresh_slot_quiet:
  assumes "refresh_relations_for_slot slot m = Some (events, m')"
  shows "quiet m m'"
  using refresh_slot_effect [of slot m] assms by (auto intro: refresh_effect_quiet)

lemma allocate_attempt_id_quiet: "allocate_attempt_id grp task role m = (res, m') \<Longrightarrow> quiet m m'"
  by (auto simp: allocate_attempt_id_def Let_def quiet_def split: option.splits)

lemma mark_dispatch_delivered_quiet: "mark_dispatch_delivered eid m = (res, m') \<Longrightarrow> quiet m m'"
  by (auto simp: mark_dispatch_delivered_def quiet_def split: option.splits)

lemma admit_dispatch_quiet: "quiet m (admit_dispatch eid c rs m)"
  by (auto simp: admit_dispatch_def Let_def quiet_def split: option.splits)

lemma prepare_dispatch_quiet: "prepare_dispatch eid c rs m = (res, m') \<Longrightarrow> quiet m m'"
  using admit_dispatch_quiet
  by (auto simp: prepare_dispatch_def split: rt_result.splits dispatch_decision.splits)

lemma record_dispatched_quiet: "record_dispatched eid c rs m = (res, m') \<Longrightarrow> quiet m m'"
  by (auto simp: record_dispatched_def split: prod.splits rt_result.splits
      dest!: prepare_dispatch_quiet mark_dispatch_delivered_quiet intro: quiet_trans)

lemma receipt_unknown_quiet: "receipt_unknown eid owner reason m = (res, m') \<Longrightarrow> quiet m m'"
  by (auto simp: receipt_unknown_def set_status_def Let_def quiet_def
      split: option.splits if_splits dest!: refresh_slot_quiet)

lemma observe_dispatch_receipt_quiet: "observe_dispatch_receipt eid cid node p reason m = (res, m') \<Longrightarrow> quiet m m'"
  by (auto simp: observe_dispatch_receipt_def
      split: option.splits if_splits prod.splits rt_result.splits
      dest: mark_dispatch_delivered_quiet receipt_unknown_quiet)

lemma observe_cancellation_receipt_quiet:
  "observe_cancellation_receipt eid cid node p reason m = (res, m') \<Longrightarrow> quiet m m'"
  by (auto simp: observe_cancellation_receipt_def split: if_splits dest: receipt_unknown_quiet)

lemma request_cancellation_quiet: "request_cancellation eid m = (res, m') \<Longrightarrow> quiet m m'"
  by (auto simp: request_cancellation_def Let_def abort_group_recovery_for_attempt_def quiet_def split: if_splits)

lemma reduce_known_fact_quiet: "reduce_known_fact eid status reason c m = (res, m') \<Longrightarrow> quiet m m'"
  by (auto simp: reduce_known_fact_def Let_def quiet_def split: option.splits if_splits dest!: refresh_slot_quiet)

lemma observed_state_quiet: "quiet m (observed_state eid node sequence status m)"
  by (simp add: observed_state_def quiet_def)

lemma observe_execution_quiet: "observe_execution eid node sequence status reason m = (res, m') \<Longrightarrow> quiet m m'"
  by (auto simp: observe_execution_cases intro: observed_state_quiet quiet_trans
      split: if_splits option.splits dest!: reduce_known_fact_quiet)

lemma observe_execution_received_quiet:
  "observe_execution_received eid node sequence status reason received_at m = (res, m') \<Longrightarrow> quiet m m'"
  by (auto simp: observe_execution_received_def Let_def quiet_def
      split: prod.splits rt_result.splits if_splits dest!: observe_execution_quiet)

lemma lose_attempt_quiet: "lose_attempt node reason eid m = Some (events, m') \<Longrightarrow> quiet m m'"
  by (auto simp: lose_attempt_def set_status_def Let_def quiet_def split: option.splits dest!: refresh_slot_quiet)

lemma lose_attempts_quiet: "lose_attempts node reason eids m = Some (events, m') \<Longrightarrow> quiet m m'"
proof (induction eids arbitrary: m events m')
  case (Cons eid eids)
  then obtain events1 m1 later where "lose_attempt node reason eid m = Some (events1, m1)"
    "lose_attempts node reason eids m1 = Some (later, m')" by (auto split: option.splits)
  with Cons.IH show ?case by (blast intro: quiet_trans lose_attempt_quiet)
qed simp

lemma observe_node_unavailable_quiet: "observe_node_unavailable node reason m = (res, m') \<Longrightarrow> quiet m m'"
  by (auto simp: observe_node_unavailable_def split: option.splits dest: lose_attempts_quiet)

lemma observe_progress_quiet: "quiet m (snd (observe_progress r sample m))"
  by (auto simp: observe_progress_def record_progress_def Let_def quiet_def split: option.splits)

lemma authorize_stop_quiet: "authorize_stop eid slot i m = (res, m') \<Longrightarrow> quiet m m'"
  by (auto simp: authorize_stop_def Let_def quiet_def split: option.splits if_splits)

lemma request_recovery_stop_quiet: "request_recovery_stop eid node now timeout_ms limit m = (res, m') \<Longrightarrow> quiet m m'"
  by (auto simp: request_recovery_stop_def Let_def
      split: option.splits if_splits bool.splits dest: authorize_stop_quiet)

lemma request_group_recovery_stop_quiet:
  "request_group_recovery_stop digest grp rid members now timeout_ms limit m = (res, m') \<Longrightarrow> quiet m m'"
  by (auto simp: request_group_recovery_stop_def authorize_group_stop_def Let_def quiet_def
      split: option.splits if_splits bool.splits sum.splits)

lemma record_group_continuation_quiet: "record_group_continuation grp now reps m = (res, m') \<Longrightarrow> quiet m m'"
  by (auto simp: record_group_continuation_def quiet_def split: option.splits if_splits rt_result.splits)

lemma recovery_updates_quiet:
  "quiet m (confirm_recovery_stop eid received_at m)" "quiet m (mark_recovery_release c m)"
  "quiet m (confirm_group_recovery_stop eid received_at m)"
  "quiet m (confirm_group_continuation_admission eid received_at m)"
  by (auto simp: confirm_recovery_stop_def mark_recovery_release_def confirm_group_recovery_stop_def
      confirm_group_continuation_admission_def quiet_def split: option.splits)

lemma outbox_updates_quiet: "quiet m (record_dispatch_attempt eid m)" "quiet m (fence_progress_for_node node m)"
  by (simp_all add: record_dispatch_attempt_def fence_progress_for_node_def quiet_def)

lemma register_relations_quiet: "register_relations_with_modes grp mission specs modes m = (res, m') \<Longrightarrow> quiet m m'"
proof (induction specs arbitrary: m res m')
  case (Cons spec specs)
  then show ?case
    by (fastforce simp: Let_def quiet_def split: option.splits if_splits prod.splits rt_result.splits)
qed simp

lemma observe_shared_spatial_evidence_quiet: "observe_shared_spatial_evidence e m = (res, m') \<Longrightarrow> quiet m m'"
  by (auto simp: observe_shared_spatial_evidence_def Let_def quiet_def
      split: option.splits if_splits dest!: refresh_slot_quiet)

lemmas call_quiet = allocate_attempt_id_quiet prepare_dispatch_quiet record_dispatched_quiet
  mark_dispatch_delivered_quiet observe_dispatch_receipt_quiet observe_cancellation_receipt_quiet
  request_cancellation_quiet observe_execution_quiet observe_execution_received_quiet observe_node_unavailable_quiet
  request_recovery_stop_quiet request_group_recovery_stop_quiet record_group_continuation_quiet
  register_relations_quiet observe_shared_spatial_evidence_quiet

lemma outcome_quiet: "outcome r = (panicked, m') \<Longrightarrow> (\<And>res m''. r = (res, m'') \<Longrightarrow> quiet m m'') \<Longrightarrow> quiet m m'"
  by (cases r) (auto simp: outcome_def)

text \<open>The calls that may change a channel.\<close>

definition channel_call :: "runtime_call \<Rightarrow> bool" where
  "channel_call c \<longleftrightarrow>
     (case c of
        RegisterCoordinationContext _ _ \<Rightarrow> True
      | ObservePeerChannelReadiness _ \<Rightarrow> True
      | RefreshPeerChannelDeadlines _ \<Rightarrow> True
      | FencePeerChannelsForNode _ \<Rightarrow> True
      | FencePeerChannel _ _ \<Rightarrow> True
      | ClosePeerChannel _ _ \<Rightarrow> True
      | ClosePeerChannelsForGroup _ \<Rightarrow> True
      | _ \<Rightarrow> False)"

lemma runtime_exec_quiet:
  assumes "runtime_exec digest c m = (panicked, m')" and "\<not> channel_call c"
    and "\<And>grp rid. c \<noteq> AcknowledgeRelationReconciliation grp rid"
  shows "quiet m m'"
  using assms
  by (cases c)
    (auto simp: channel_call_def recovery_updates_quiet outbox_updates_quiet observe_progress_quiet
      elim!: outcome_quiet intro: call_quiet)

lemma acknowledge_fences:
  assumes "acknowledge_relation_reconciliation grp rid m = (res, m')"
  shows "rm_peer_channels m' = rm_peer_channels m \<and> (\<forall>k. bts_member k (rm_relation_fences m) \<longrightarrow>
    bts_member k (rm_relation_fences m') \<or> (k = (grp, rid) \<and> res = Ok ()))"
  using assms by (auto simp: acknowledge_relation_reconciliation_def Let_def split: if_splits)

lemma channel_call_fences:
  assumes "runtime_exec digest c m = (panicked, m')" and "channel_call c"
  shows "rm_relation_fences m' = rm_relation_fences m"
  using assms
  by (cases c)
    (auto simp: channel_call_def outcome_def register_coordination_context_def observe_peer_channel_readiness_def
      refresh_peer_channel_deadlines_def fence_peer_channels_for_node_def fence_peer_channel_def close_peer_channel_def
      set_peer_channel_lifecycle_def close_peer_channels_for_group_def Let_def
      split: prod.splits option.splits if_splits)

lemma restore_quiet_fences:
  assumes "manager_wf digest m" and "restore digest (checkpoint_of m) = Ok m'"
  shows "bts_member k (rm_relation_fences m) \<Longrightarrow> bts_member k (rm_relation_fences m')"
    and "rm_peer_channels m' = bt_map (\<lambda>_. restore_channel) (rm_peer_channels m)"
proof -
  have "quiet (restored_base m) m'" using restored_manager(3) [OF assms] by (rule refresh_effect_quiet)
  then show "bts_member k (rm_relation_fences m) \<Longrightarrow> bts_member k (rm_relation_fences m')"
    and "rm_peer_channels m' = bt_map (\<lambda>_. restore_channel) (rm_peer_channels m)"
    by (simp_all add: quiet_def)
qed

end
