(* ===== verification/RT_Coupled_Scenario.thy ===== *)
theory RT_Coupled_Scenario
  imports RT_Scenario
begin

text \<open>
  A concrete coupled pair, for the witnesses of the relation and fact properties.
\<close>

text \<open>The wing requires the lead to be active; the lead's Node is lost for a while.\<close>

definition escort :: execution_relation_spec where
  "escort = \<lparr>ers_relation_id = ''escort'', ers_source = PlannedExecutionRef ''scout'' ''lead'',
     ers_target = PlannedExecutionRef ''scout'' ''wing'', ers_kind = RequiresActive,
     ers_relation_type = RtRequiresActive\<rparr>"

definition coupled_run :: "runtime_call list" where
  "coupled_run =
     [RegisterRelations ''g1'' ''m1'' [escort] bt_empty,
      PrepareDispatch ''e1'' (role_command ''lead'' ''n1'') [],
      PrepareDispatch ''e2'' (role_command ''wing'' ''n2'') [],
      ObserveExecution ''e1'' ''n1'' 1 Running [],
      ObserveExecution ''e2'' ''n2'' 1 Running [],
      ObserveNodeUnavailable ''n1'' ''lost'',
      ObserveExecution ''e1'' ''n1'' 2 Running []]"

definition coupled_manager :: manager where
  "coupled_manager = run_calls no_digest coupled_run manager_new"

definition escort_relation :: runtime_relation where
  "escort_relation = resolve_relation ''g1'' ''m1'' bt_empty escort"

definition coupled_state :: "manager \<Rightarrow> bool" where
  "coupled_state m \<longleftrightarrow>
   bt_get (rm_relations m) (''g1'', ''escort'') = Some escort_relation
   \<and> bts_member (''g1'', ''escort'') (rm_relation_fences m)
   \<and> bt_get (rm_active_executions m) (rr_target_key escort_relation) = Some ''e2''
   \<and> bt_get (rm_active_executions m) (command_slot (role_command ''lead'' ''n1'')) = Some ''e1''
   \<and> bt_get (rm_executions m) ''e1'' = Some \<lparr>ex_command = role_command ''lead'' ''n1'', ex_resource_ids = []\<rparr>
   \<and> bt_get (rm_execution_sequences m) ''e1'' = Some 2
   \<and> execution_status_of m ''e1'' = Some Running
   \<and> execution_status_of m ''e2'' = Some Running
   \<and> fst (acknowledge_relation_reconciliation ''g1'' ''escort'' m) = Ok ()
   \<and> \<not> bts_member (''g1'', ''escort'')
        (rm_relation_fences (snd (acknowledge_relation_reconciliation ''g1'' ''escort'' m)))
   \<and> fst (observe_execution ''e1'' ''n1'' 3 Completed [] m) \<noteq> Panic
   \<and> channels_paired m"

lemma coupled_evaluated: "calls_admissible no_digest coupled_run manager_new" "coupled_state coupled_manager"
  by code_simp+

lemmas coupled_facts = coupled_evaluated [unfolded coupled_state_def]

lemma coupled_reachable: "reachable no_digest coupled_manager"
  using coupled_facts unfolding coupled_manager_def by (intro run_calls_reachable) blast

lemma coupled_paired: "channels_paired coupled_manager"
  using coupled_facts by blast

end
