(* ===== verification/RT_Relation_Props.thy ===== *)
theory RT_Relation_Props
  imports RT_Frames RT_Coupled_Scenario
begin

text \<open>
  Execution relations along runs: the derived state after a refresh, the latched fences, what a restart does
  to them, and the evidence behind a Task's success.
\<close>

subsection \<open>The derived state\<close>

lemma refresh_reads:
  "current_status (m\<lparr>rm_relation_states := s, rm_relation_fences := f, rm_relation_proofs := p\<rparr>) slot
     = current_status m slot"
  "current_spatial_evidence (m\<lparr>rm_relation_states := s, rm_relation_fences := f, rm_relation_proofs := p\<rparr>) slot
     = current_spatial_evidence m slot"
  by (simp_all add: current_status_def current_spatial_evidence_def split: option.split)

text \<open>A derivation reads the proofs only of its own relation.\<close>

lemma derive_relation_state_cong:
  assumes "bt_get p (rr_key r) = bt_get (rm_relation_proofs m) (rr_key r)"
  shows "derive_relation_state (m\<lparr>rm_relation_states := s, rm_relation_fences := f, rm_relation_proofs := p\<rparr>) r
    = derive_relation_state m r"
proof -
  let ?m = "m\<lparr>rm_relation_states := s, rm_relation_fences := f, rm_relation_proofs := p\<rparr>"
  note reads = refresh_reads [where m = m and s = s and f = f and p = p]
  have "missing_spatial_evidence_state ?m r = missing_spatial_evidence_state m r"
    using assms by (simp add: missing_spatial_evidence_state_def bt_contains_iff)
  then have "derive_active_relation_state ?m r = derive_active_relation_state m r"
    by (simp only: derive_active_relation_state_def reads)
  then show ?thesis using assms by (simp only: derive_relation_state_def reads) simp
qed

lemma derive_satisfied_active:
  assumes "derive_relation_state m r = RelSatisfied"
  shows "derive_active_relation_state m r = RelSatisfied"
    and "current_status m (rr_target_key r) \<in> {Some Accepted, Some Running}"
  using assms by (auto simp: derive_relation_state_def split: option.splits execution_status.splits if_splits)

text \<open>Recording the proof of a satisfied relation does not change what is derived.\<close>

lemma derive_satisfied_stable:
  assumes "derive_relation_state m r = RelSatisfied"
  shows "derive_relation_state (m\<lparr>rm_relation_states := s, rm_relation_fences := f, rm_relation_proofs := p\<rparr>) r
    = RelSatisfied"
proof -
  let ?m = "m\<lparr>rm_relation_states := s, rm_relation_fences := f, rm_relation_proofs := p\<rparr>"
  note reads = refresh_reads [where m = m and s = s and f = f and p = p]
  have "missing_spatial_evidence_state m r \<noteq> RelSatisfied"
    by (simp add: missing_spatial_evidence_state_def)
  then have "derive_active_relation_state ?m r = RelSatisfied"
    using derive_satisfied_active(1) [OF assms] unfolding derive_active_relation_state_def reads Let_def
    by (cases "rr_relation_kind r") (auto split: option.splits execution_status.splits execution_relation_type.splits)
  then show ?thesis
    using derive_satisfied_active(2) [OF assms] unfolding derive_relation_state_def reads by auto
qed

lemma refresh_relation_derived:
  assumes "bt_get (rm_relations m) key = Some r" and "rr_key r = key" and "refresh_relation key m = Some (events, m')"
  shows "bt_get (rm_relation_states m') key = Some (derive_relation_state m' r)
    \<and> derive_relation_state m' r = derive_relation_state m r
    \<and> (requires_reconciliation (derive_relation_state m r) \<longrightarrow> bts_member key (rm_relation_fences m'))
    \<and> (\<forall>k. k \<noteq> key \<longrightarrow> bt_get (rm_relation_proofs m') k = bt_get (rm_relation_proofs m) k
         \<and> bt_get (rm_relation_states m') k = bt_get (rm_relation_states m) k)"
proof -
  let ?s = "derive_relation_state m r"
  have m': "m' = record_relation_state key ?s (bt_get (rm_active_executions m) (rr_target_key r)) m"
    using assms(1,3) by (auto simp: refresh_relation_def Let_def split: if_splits option.splits)
  have upd: "m' = m\<lparr>rm_relation_states := rm_relation_states m', rm_relation_fences := rm_relation_fences m',
      rm_relation_proofs := rm_relation_proofs m'\<rparr>"
    by (simp add: m' record_relation_state_def Let_def split: option.split)
  have "derive_relation_state m' r = ?s"
  proof (cases "?s = RelSatisfied")
    case True
    then show ?thesis by (subst upd) (simp add: derive_satisfied_stable)
  next
    case False
    then have "rm_relation_proofs m' = rm_relation_proofs m" by (simp add: m' record_relation_state_def Let_def)
    then show ?thesis by (subst upd) (rule derive_relation_state_cong, simp only:)
  qed
  then show ?thesis
    using m' by (auto simp: record_relation_state_def Let_def bt_get_insert requires_reconciliation_def
        split: option.splits)
qed

lemma refresh_keys_derived:
  assumes "\<forall>k \<in> set keys. \<exists>r. bt_get (rm_relations m) k = Some r"
    and "\<forall>k r. bt_get (rm_relations m) k = Some r \<longrightarrow> rr_key r = k"
    and "refresh_keys keys m = Some (events, m')"
  shows "(\<forall>k \<in> set keys. \<forall>r. bt_get (rm_relations m) k = Some r \<longrightarrow>
           bt_get (rm_relation_states m') k = Some (derive_relation_state m' r)
           \<and> (requires_reconciliation (derive_relation_state m' r) \<longrightarrow> bts_member k (rm_relation_fences m')))
    \<and> (\<forall>k r. bt_get (rm_relations m) k = Some r \<longrightarrow> derive_relation_state m' r = derive_relation_state m r)
    \<and> (\<forall>k. k \<notin> set keys \<longrightarrow> bt_get (rm_relation_states m') k = bt_get (rm_relation_states m) k)"
  using assms
proof (induction keys arbitrary: m events)
  case (Cons key keys)
  from Cons.prems(3) obtain ev1 m1 ev2 where m1: "refresh_relation key m = Some (ev1, m1)"
    and rest: "refresh_keys keys m1 = Some (ev2, m')" by (auto split: option.splits)
  from Cons.prems(1) obtain rk where rk: "bt_get (rm_relations m) key = Some rk" by auto
  with Cons.prems(2) have "rr_key rk = key" by blast
  note step = refresh_relation_derived [OF rk this m1]
  have effect: "refresh_effect m {key} m1" using refresh_relation_effect [OF rk] m1 by auto
  then have relations: "rm_relations m1 = rm_relations m" by (rule refresh_effect_relations)
  have derive: "derive_relation_state m1 r = derive_relation_state m r" if "bt_get (rm_relations m) k = Some r" for k r
  proof (cases "k = key")
    case True
    with step that rk show ?thesis by simp
  next
    case False
    from effect obtain s f p where upd: "m1 = m\<lparr>rm_relation_states := s, rm_relation_fences := f, rm_relation_proofs := p\<rparr>"
      by (auto simp: refresh_effect_def)
    have "rr_key r = k" using Cons.prems(2) that by blast
    with False step have "bt_get p (rr_key r) = bt_get (rm_relation_proofs m) (rr_key r)" by (simp add: upd)
    then show ?thesis unfolding upd by (rule derive_relation_state_cong)
  qed
  have "\<forall>k \<in> set keys. \<exists>r. bt_get (rm_relations m1) k = Some r" using Cons.prems(1) by (simp add: relations)
  moreover have "\<forall>k r. bt_get (rm_relations m1) k = Some r \<longrightarrow> rr_key r = k" using Cons.prems(2) by (simp add: relations)
  ultimately have IH: "(\<forall>k \<in> set keys. \<forall>r. bt_get (rm_relations m) k = Some r \<longrightarrow>
           bt_get (rm_relation_states m') k = Some (derive_relation_state m' r)
           \<and> (requires_reconciliation (derive_relation_state m' r) \<longrightarrow> bts_member k (rm_relation_fences m')))"
    "\<And>k r. bt_get (rm_relations m) k = Some r \<Longrightarrow> derive_relation_state m' r = derive_relation_state m1 r"
    "\<And>k. k \<notin> set keys \<Longrightarrow> bt_get (rm_relation_states m') k = bt_get (rm_relation_states m1) k"
    using Cons.IH [OF _ _ rest] by (simp_all add: relations)
  have "quiet m1 m'"
    using refresh_keys_effect [of keys m1] rest \<open>\<forall>k \<in> set keys. \<exists>r. bt_get (rm_relations m1) k = Some r\<close>
    by (force intro: refresh_effect_quiet simp: bt_contains_iff)
  then have key: "bt_get (rm_relation_states m') key = Some (derive_relation_state m' rk)
      \<and> (requires_reconciliation (derive_relation_state m' rk) \<longrightarrow> bts_member key (rm_relation_fences m'))"
    using step IH(1) IH(2,3) [of key] rk by (cases "key \<in> set keys") (auto simp: quiet_def)
  show ?case using key rk IH derive step by (intro conjI allI ballI impI) auto
qed simp

lemma reachable_relations:
  assumes "reachable digest m"
  shows "\<forall>k r. bt_get (rm_relations m) k = Some r \<longrightarrow> rr_key r = k"
  using reachable_wf [OF assms] by (simp add: manager_wf_def inv_relations_def)

lemma active_status:
  assumes "manager_wf digest m" and "bt_get (rm_active_executions m) slot = Some eid"
  obtains s where "bt_get (rm_execution_status m) eid = Some s"
proof -
  have "inv_active (rm_active_executions m) (rm_executions m)"
    and "inv_executions (rm_executions m) (rm_execution_nodes m) (rm_execution_status m)"
    using assms(1) by (simp_all add: manager_wf_def)
  with assms(2) that show ?thesis unfolding inv_active_def inv_executions_def bt_contains_iff by blast
qed

lemma refresh_slot_derived:
  assumes "\<forall>k r. bt_get (rm_relations m) k = Some r \<longrightarrow> rr_key r = k"
    and "refresh_relations_for_slot slot m = Some (events, m')"
    and "bt_get (rm_relations m) k = Some r" and "rr_source_key r = slot \<or> rr_target_key r = slot"
  shows "bt_get (rm_relation_states m') k = Some (derive_relation_state m' r)
    \<and> (requires_reconciliation (derive_relation_state m' r) \<longrightarrow> bts_member k (rm_relation_fences m'))"
proof -
  let ?keys = "map fst (filter (\<lambda>(_, r). rr_source_key r = slot \<or> rr_target_key r = slot) (bt_entries (rm_relations m)))"
  have keys: "set ?keys = slot_relations slot m" by (rule refresh_slot_keys)
  then have "\<forall>k \<in> set ?keys. \<exists>r. bt_get (rm_relations m) k = Some r" by (auto simp: slot_relations_def)
  from refresh_keys_derived [OF this assms(1) assms(2) [unfolded refresh_relations_for_slot_def]]
  have derived: "\<forall>k \<in> slot_relations slot m. \<forall>r. bt_get (rm_relations m) k = Some r \<longrightarrow>
      bt_get (rm_relation_states m') k = Some (derive_relation_state m' r)
      \<and> (requires_reconciliation (derive_relation_state m' r) \<longrightarrow> bts_member k (rm_relation_fences m'))"
    unfolding keys by blast
  moreover have "k \<in> slot_relations slot m" using assms(3,4) by (auto simp: slot_relations_def)
  ultimately show ?thesis using assms(3) by blast
qed

subsection \<open>Properties\<close>

text \<open>
  C26: A reconciliation fence is latched: in any step of the Runtime, a restart included, the only way a fence
  disappears is the explicit acknowledgement of that relation, while its evidence proves it satisfied again.
\<close>

theorem fence_lifted_only_by_acknowledgement:
  assumes "reachable digest m" and "runtime_step digest m m'"
    and "bts_member k (rm_relation_fences m)" and "\<not> bts_member k (rm_relation_fences m')"
  shows "acknowledge_relation_reconciliation (fst k) (snd k) m = (Ok (), m')
    \<and> (\<exists>r. bt_get (rm_relations m) k = Some r \<and> derive_relation_state m r = RelSatisfied)"
  using assms(2)
proof (cases rule: runtime_step.cases)
  case (call c panicked)
  consider (ack) grp rid where "c = AcknowledgeRelationReconciliation grp rid" | (channel) "channel_call c"
    | (other) "\<not> channel_call c" "\<And>grp rid. c \<noteq> AcknowledgeRelationReconciliation grp rid" by blast
  then show ?thesis
  proof cases
    case ack
    with call(2) obtain res where res: "acknowledge_relation_reconciliation grp rid m = (res, m')"
      by (cases "acknowledge_relation_reconciliation grp rid m") (auto simp: outcome_def)
    with acknowledge_fences [OF res] assms(3,4) have "k = (grp, rid)" "res = Ok ()" by blast+
    with res show ?thesis
      by (auto simp: acknowledge_relation_reconciliation_def Let_def is_some_and_iff split: if_splits)
  next
    case channel
    with channel_call_fences [OF call(2)] assms(3,4) show ?thesis by simp
  next
    case other
    with runtime_exec_quiet [OF call(2)] assms(3,4) show ?thesis by (auto simp: quiet_def)
  qed
next
  case restart
  with restore_quiet_fences(1) [OF reachable_wf [OF assms(1)] restart] assms(3,4) show ?thesis by blast
qed

theorem fence_lifted_only_by_acknowledgement_witness:
  "\<exists>m' r. acknowledge_relation_reconciliation ''g1'' ''escort'' coupled_manager = (Ok (), m')
     \<and> bt_get (rm_relations coupled_manager) (''g1'', ''escort'') = Some r
     \<and> derive_relation_state coupled_manager r = RelSatisfied"
proof -
  obtain m' where m': "acknowledge_relation_reconciliation ''g1'' ''escort'' coupled_manager = (Ok (), m')"
    using coupled_facts by (metis prod.collapse)
  then have "runtime_step no_digest coupled_manager m'"
    by (intro runtime_step.call [of _ "AcknowledgeRelationReconciliation ''g1'' ''escort''" _ False])
      (simp_all add: call_admissible_def outcome_def)
  moreover have "bts_member (''g1'', ''escort'') (rm_relation_fences coupled_manager)"
    and "\<not> bts_member (''g1'', ''escort'') (rm_relation_fences m')" using coupled_facts m' by auto
  ultimately show ?thesis
    using fence_lifted_only_by_acknowledgement [OF coupled_reachable] m' by fastforce
qed

text \<open>
  C27: A restart trusts no live coordination: a relation whose target attempt had not ended is Unknown and fenced
  after the restart, its Task cannot succeed, and the fence cannot be acknowledged on the restored evidence.
\<close>

theorem restart_fences_relations:
  assumes "reachable digest m" and "restore digest (checkpoint_of m) = Ok m'"
    and "bt_get (rm_relations m) k = Some r" and "bt_get (rm_active_executions m) (rr_target_key r) = Some eid"
    and "\<not> status_is_terminal m eid"
  shows "bt_get (rm_relation_states m') k = Some RelUnknown \<and> bts_member k (rm_relation_fences m')
    \<and> \<not> relations_allow_task_success m' (rr_group_id r) (rr_target_task_ref r)
    \<and> (\<exists>e. acknowledge_relation_reconciliation (fst k) (snd k) m' = (Err e, m'))"
proof -
  have wf: "manager_wf digest m" using assms(1) by (rule reachable_wf)
  let ?base = "restored_base m"
  have effect: "refresh_effect ?base (set (bt_keys (rm_relations m))) m'" using wf assms(2) by (rule restored_manager(3))
  obtain events where refresh: "refresh_keys (bt_keys (rm_relations m)) ?base = Some (events, m')"
    using restored_manager(4) [OF wf assms(2)] by (auto simp: refresh_all_relations_after_restore_def)
  have relations: "rm_relations m' = rm_relations m" "rm_active_executions m' = rm_active_executions m"
    using effect by (auto simp: refresh_effect_def)
  obtain s where s: "bt_get (rm_execution_status m) eid = Some s" by (rule active_status [OF wf assms(4)])
  with assms(5) have "restored_status s = Unknown"
    by (simp add: restored_status_def status_is_terminal_def execution_status_of_def)
  with s assms(4) have "derive_relation_state ?base r = RelUnknown"
    by (simp add: derive_relation_state_def current_status_def bt_get_map)
  moreover have keys: "\<forall>k r. bt_get (rm_relations ?base) k = Some r \<longrightarrow> rr_key r = k"
    using reachable_relations [OF assms(1)] by simp
  have "\<forall>k \<in> set (bt_keys (rm_relations m)). \<exists>r. bt_get (rm_relations ?base) k = Some r"
    by (simp add: bt_keys_iff bt_contains_iff)
  from refresh_keys_derived [OF this keys refresh] assms(3)
  have "derive_relation_state m' r = derive_relation_state ?base r"
    and "bt_get (rm_relation_states m') k = Some (derive_relation_state m' r)
      \<and> (requires_reconciliation (derive_relation_state m' r) \<longrightarrow> bts_member k (rm_relation_fences m'))"
    by (auto simp: bt_keys_iff bt_contains_iff)
  ultimately have state: "bt_get (rm_relation_states m') k = Some RelUnknown" "derive_relation_state m' r = RelUnknown"
    and fence: "bts_member k (rm_relation_fences m')" by (simp_all add: requires_reconciliation_def)
  have "(k, r) \<in> set (bt_entries (rm_relations m'))" using assms(3) by (simp add: relations bt_entries_iff)
  then have "\<not> relations_allow_task_success m' (rr_group_id r) (rr_target_task_ref r)"
    using fence by (force simp: relations_allow_task_success_def list_all_iff split: option.splits)
  moreover have "\<exists>e. acknowledge_relation_reconciliation (fst k) (snd k) m' = (Err e, m')"
    using assms(3) state(2) by (simp add: acknowledge_relation_reconciliation_def Let_def relations bt_contains_iff)
  ultimately show ?thesis using state(1) fence by blast
qed

theorem restart_fences_relations_witness:
  "\<exists>m'. restore no_digest (checkpoint_of coupled_manager) = Ok m'
     \<and> bt_get (rm_relation_states m') (''g1'', ''escort'') = Some RelUnknown
     \<and> \<not> relations_allow_task_success m' ''g1'' scout_task"
proof -
  obtain m' where m': "restore no_digest (checkpoint_of coupled_manager) = Ok m'"
    by (rule restore_checkpoint [OF reachable_wf [OF coupled_reachable] coupled_paired])
  have facts: "bt_get (rm_relations coupled_manager) (''g1'', ''escort'') = Some escort_relation"
    "bt_get (rm_active_executions coupled_manager) (rr_target_key escort_relation) = Some ''e2''"
    "execution_status_of coupled_manager ''e2'' = Some Running" using coupled_facts by blast+
  then have "\<not> status_is_terminal coupled_manager ''e2''" by (simp add: status_is_terminal_def)
  from restart_fences_relations [OF coupled_reachable m' facts(1,2) this] m' show ?thesis
    by (auto simp: escort_relation_def resolve_relation_def escort_def scout_task_def)
qed

text \<open>
  C28: The coordination state follows the facts: once a Node fact about a current attempt is accepted, every
  relation that touches its slot holds exactly the state derived from the new evidence, and is fenced if that
  state is Violated or Unknown.
\<close>

theorem accepted_fact_refreshes_relations:
  assumes "reachable digest m" and "bt_get (rm_executions m) eid = Some x"
    and "bt_get (rm_active_executions m) (command_slot (ex_command x)) = Some eid"
    and "\<not> status_is_terminal m eid" and "\<forall>n. bt_get (rm_execution_sequences m) eid = Some n \<longrightarrow> n < sequence"
    and "observe_execution eid (ec_node_id (ex_command x)) sequence status reason m = (res, m')"
    and "bt_get (rm_relations m) k = Some r" and "command_slot (ex_command x) \<in> {rr_source_key r, rr_target_key r}"
  shows "execution_status_of m' eid = Some status \<and> bt_get (rm_relations m') k = Some r
    \<and> bt_get (rm_relation_states m') k = Some (derive_relation_state m' r)
    \<and> (requires_reconciliation (derive_relation_state m' r) \<longrightarrow> bts_member k (rm_relation_fences m'))"
proof -
  let ?c = "ex_command x" and ?o = "observed_state eid (ec_node_id (ex_command x)) sequence status m"
  have "bt_get (rm_execution_nodes m) eid = Some (ec_node_id ?c)"
    using reachable_wf [OF assms(1)] assms(2) by (simp add: manager_wf_def inv_executions_def)
  with assms(2,4,5,6) have reduce: "reduce_known_fact eid status reason ?c ?o = (res, m')"
    by (auto simp: observe_execution_cases is_some_and_iff not_le split: if_splits)
  define act where "act = (if proves_activation status
    then ?o\<lparr>rm_reactivation_attempts := bts_remove eid (rm_reactivation_attempts ?o),
            rm_activated_tasks := bts_insert (ec_group_id ?c, ec_task_ref ?c) (rm_activated_tasks ?o)\<rparr> else ?o)"
  have act: "rm_relations act = rm_relations m" "rm_execution_status act = bt_insert eid status (rm_execution_status m)"
    by (simp_all add: act_def observed_state_def)
  obtain events m2 where m2: "refresh_relations_for_slot (command_slot ?c) act = Some (events, m2)"
    and effect: "refresh_effect act (slot_relations (command_slot ?c) act) m2"
    using refresh_slot_effect [of "command_slot ?c" act] by blast
  have "bt_get (rm_active_executions ?o) (command_slot ?c) = Some eid"
    using assms(3) by (simp add: observed_state_def)
  with reduce m2 have "m' = m2"
    by (simp add: reduce_known_fact_def Let_def act_def is_some_and_iff split: if_splits)
  moreover have "rm_execution_status m2 = rm_execution_status act" "rm_relations m2 = rm_relations m"
    using effect by (auto simp: refresh_effect_def act)
  moreover have "\<forall>k r. bt_get (rm_relations act) k = Some r \<longrightarrow> rr_key r = k"
    using reachable_relations [OF assms(1)] by (simp add: act)
  note refresh_slot_derived [OF this m2, of k r]
  ultimately show ?thesis using assms(7,8) by (auto simp: act execution_status_of_def)
qed

theorem accepted_fact_refreshes_relations_witness:
  "\<exists>res m'. observe_execution ''e1'' ''n1'' 3 Completed [] coupled_manager = (res, m')
     \<and> bt_get (rm_relation_states m') (''g1'', ''escort'') = Some (derive_relation_state m' escort_relation)"
proof -
  let ?x = "\<lparr>ex_command = role_command ''lead'' ''n1'', ex_resource_ids = []\<rparr>"
  obtain res m' where m': "observe_execution ''e1'' (ec_node_id (ex_command ?x)) 3 Completed [] coupled_manager = (res, m')"
    by fastforce
  have facts: "bt_get (rm_executions coupled_manager) ''e1'' = Some ?x"
    "bt_get (rm_active_executions coupled_manager) (command_slot (ex_command ?x)) = Some ''e1''"
    "bt_get (rm_relations coupled_manager) (''g1'', ''escort'') = Some escort_relation"
    "execution_status_of coupled_manager ''e1'' = Some Running"
    "bt_get (rm_execution_sequences coupled_manager) ''e1'' = Some 2" using coupled_facts by simp_all
  then have "\<not> status_is_terminal coupled_manager ''e1''"
    "\<forall>n. bt_get (rm_execution_sequences coupled_manager) ''e1'' = Some n \<longrightarrow> n < 3" by (simp_all add: status_is_terminal_def)
  moreover have "command_slot (ex_command ?x) \<in> {rr_source_key escort_relation, rr_target_key escort_relation}"
    by (simp add: command_slot_def role_command_def escort_relation_def resolve_relation_def rr_source_key_def escort_def
        scout_task_def)
  ultimately have "bt_get (rm_relation_states m') (''g1'', ''escort'') = Some (derive_relation_state m' escort_relation)"
    using accepted_fact_refreshes_relations [OF coupled_reachable facts(1,2) _ _ m' facts(3)] by blast
  with m' show ?thesis by (auto simp: role_command_def)
qed

end
