(* ===== verification/RT_Fact_Props.thy ===== *)
theory RT_Fact_Props
  imports RT_Frames RT_Coupled_Scenario
begin

text \<open>
  What Node facts and progress samples establish: delivery of facts in any order, the aggregate result of a
  Task, and the evidence behind a stall.
\<close>

subsection \<open>A reporting attempt\<close>

definition sample_at :: "timestamp \<Rightarrow> u64 \<Rightarrow> state_record" where
  "sample_at now sequence =
     \<lparr>sr_schema = ''s'', sr_key = \<lparr>sk_object = \<lparr>so_class = NodeObject, so_object_type = ''robot'', so_object_id = ''n1''\<rparr>,
        sk_semantic = Reported, sk_source = NodeSource ''n1'' ''ros'', sk_channel_id = ''progress''\<rparr>,
      sr_payload_schema = ''roboguide.execution-progress/v0.1'', sr_value = [], sr_source_observed_at = None,
      sr_received_at = now, sr_valid_for_ms = 60, sr_confidence_millionths = None, sr_source_epoch = None,
      sr_sequence = sequence\<rparr>"

definition survey_progress :: "u64 option \<Rightarrow> progress_sample" where
  "survey_progress units = \<lparr>ps_execution_id = ''e1'', ps_operation = navigate, ps_stage_epoch = 1,
     ps_completed_units = units, ps_activity = Working\<rparr>"

definition working_run :: "runtime_call list" where
  "working_run =
     [PrepareDispatch ''e1'' (role_command ''lead'' ''n1'') [],
      ObserveExecution ''e1'' ''n1'' 1 Running [],
      ObserveProgress (sample_at 50 1) (survey_progress (Some 4)),
      ObserveProgress (sample_at 100 2) (survey_progress (Some 4))]"

definition working_manager :: manager where
  "working_manager = run_calls no_digest working_run manager_new"

lemma working_facts:
  "calls_admissible no_digest working_run manager_new
   \<and> progress_disposition working_manager ''e1'' 150 (Some 100) = Some PdStalled
   \<and> fst (observe_progress (sample_at 120 3) (survey_progress (Some 5)) working_manager)
   \<and> task_execution_result completed_manager ''g1'' scout_task [''lead''] = Some ExecutionCompleted"
  by code_simp

lemma working_reachable: "reachable no_digest working_manager"
  using working_facts unfolding working_manager_def by (intro run_calls_reachable) blast

subsection \<open>Facts of one attempt\<close>

text \<open>Delivering facts about one attempt, each with its sequence and status, in the order of the list.\<close>

definition deliver :: "execution_id \<Rightarrow> node_id \<Rightarrow> (u64 \<times> execution_status) list \<Rightarrow> manager \<Rightarrow> manager" where
  "deliver eid node facts m = fold (\<lambda>(n, s) m. snd (observe_execution eid node n s [] m)) facts m"

text \<open>What a fact does to the last sequence and the status of its attempt.\<close>

definition fact_view :: "u64 \<times> execution_status \<Rightarrow> u64 option \<times> execution_status option
    \<Rightarrow> u64 option \<times> execution_status option" where
  "fact_view = (\<lambda>(n, s) (k, t).
     if is_some_and k (\<lambda>current. n \<le> current) \<or> is_some_and t is_terminal then (k, t) else (Some n, Some s))"

definition attempt_view :: "execution_id \<Rightarrow> manager \<Rightarrow> u64 option \<times> execution_status option" where
  "attempt_view eid m = (bt_get (rm_execution_sequences m) eid, execution_status_of m eid)"

definition owned_by :: "execution_id \<Rightarrow> node_id \<Rightarrow> manager \<Rightarrow> bool" where
  "owned_by eid node m \<longleftrightarrow> bt_get (rm_execution_nodes m) eid = Some node
     \<and> (\<exists>x. bt_get (rm_executions m) eid = Some x \<and> ec_node_id (ex_command x) = node)"

lemma reduce_known_fact_reads:
  assumes "reduce_known_fact eid status reason c m = (res, m')"
  shows "rm_execution_sequences m' = rm_execution_sequences m" "rm_execution_status m' = rm_execution_status m"
    "rm_execution_nodes m' = rm_execution_nodes m" "rm_executions m' = rm_executions m"
proof -
  have effect: "refresh_effect m1 (slot_relations slot m1) m2" if "refresh_relations_for_slot slot m1 = Some (ev, m2)"
    for slot m1 ev m2 using refresh_slot_effect [of slot m1] that by auto
  from assms have "rm_execution_sequences m' = rm_execution_sequences m \<and> rm_execution_status m' = rm_execution_status m
      \<and> rm_execution_nodes m' = rm_execution_nodes m \<and> rm_executions m' = rm_executions m"
    by (auto simp: reduce_known_fact_def Let_def refresh_effect_def split: if_splits option.splits dest!: effect)
  then show "rm_execution_sequences m' = rm_execution_sequences m" "rm_execution_status m' = rm_execution_status m"
    "rm_execution_nodes m' = rm_execution_nodes m" "rm_executions m' = rm_executions m" by simp_all
qed

lemma observe_execution_view:
  assumes "owned_by eid node m"
  shows "attempt_view eid (snd (observe_execution eid node n s reason m)) = fact_view (n, s) (attempt_view eid m)
    \<and> owned_by eid node (snd (observe_execution eid node n s reason m))"
proof -
  obtain x where x: "bt_get (rm_executions m) eid = Some x" "ec_node_id (ex_command x) = node"
    "bt_get (rm_execution_nodes m) eid = Some node" using assms by (auto simp: owned_by_def)
  let ?o = "observed_state eid node n s m"
  obtain res m' where m': "reduce_known_fact eid s reason (ex_command x) ?o = (res, m')" by fastforce
  have terminal: "status_is_terminal m eid \<longleftrightarrow> is_some_and (execution_status_of m eid) is_terminal"
    by (simp add: status_is_terminal_def)
  show ?thesis
    using assms x m' reduce_known_fact_reads [OF m']
    by (auto simp: observe_execution_cases fact_view_def attempt_view_def execution_status_of_def observed_state_def
        terminal owned_by_def is_some_and_iff bt_get_or_insert)
qed

lemma deliver_view:
  "owned_by eid node m \<Longrightarrow> attempt_view eid (deliver eid node facts m) = fold fact_view facts (attempt_view eid m)"
proof (induction facts arbitrary: m)
  case (Cons fact facts)
  obtain n s where fact: "fact = (n, s)" by (cases fact)
  let ?m = "snd (observe_execution eid node n s [] m)"
  have "deliver eid node (fact # facts) m = deliver eid node facts ?m" by (simp add: deliver_def fact)
  with Cons.IH [of ?m] observe_execution_view [OF Cons.prems, of n s "[]"] show ?case by (simp add: fact)
qed (simp add: deliver_def)

lemma fact_view_stale: "\<forall>(n', _) \<in> set facts. n' \<le> n \<Longrightarrow> fold fact_view facts (Some n, t) = (Some n, t)"
  by (induction facts) (auto simp: fact_view_def)

lemma fact_view_last:
  assumes "(n, s) \<in> set facts" and "\<not> is_some_and t is_terminal" and "\<not> is_some_and k (\<lambda>current. n \<le> current)"
    and "\<forall>(n', s') \<in> set facts. n' \<le> n \<and> (n' = n \<longrightarrow> s' = s) \<and> (is_terminal s' \<longrightarrow> n' = n)"
  shows "fold fact_view facts (k, t) = (Some n, Some s)"
  using assms
proof (induction facts arbitrary: k t)
  case (Cons fact facts)
  obtain n' s' where fact: "fact = (n', s')" by (cases fact)
  from Cons.prems(4) have rest: "\<forall>(n', s') \<in> set facts. n' \<le> n \<and> (n' = n \<longrightarrow> s' = s) \<and> (is_terminal s' \<longrightarrow> n' = n)"
    and head: "n' \<le> n" "n' = n \<longrightarrow> s' = s" "is_terminal s' \<longrightarrow> n' = n" by (auto simp: fact)
  show ?case
  proof (cases "n' = n")
    case True
    then have "fact_view fact (k, t) = (Some n, Some s)" using head Cons.prems(2,3) by (simp add: fact fact_view_def)
    moreover have "\<forall>(n', _) \<in> set facts. n' \<le> n" using rest by auto
    ultimately show ?thesis by (simp add: fact_view_stale)
  next
    case False
    then have "(n, s) \<in> set facts" using Cons.prems(1) by (auto simp: fact)
    moreover obtain k' t' where kt: "fact_view fact (k, t) = (k', t')" by fastforce
    moreover have "\<not> is_some_and t' is_terminal" "\<not> is_some_and k' (\<lambda>current. n \<le> current)"
      using kt False head Cons.prems(2,3) by (auto simp: fact fact_view_def is_some_and_iff split: if_splits)
    ultimately show ?thesis using Cons.IH rest by simp
  qed
qed simp

lemma reachable_owned:
  assumes "reachable digest m" and "bt_get (rm_executions m) eid = Some x"
  shows "owned_by eid (ec_node_id (ex_command x)) m"
proof -
  have "inv_executions (rm_executions m) (rm_execution_nodes m) (rm_execution_status m)"
    using reachable_wf [OF assms(1)] by (simp add: manager_wf_def)
  with assms(2) show ?thesis by (simp add: owned_by_def inv_executions_def)
qed

text \<open>
  C29: Facts converge whatever their order, under three conditions: the attempt has not ended, the fact with the highest
  sequence is newer than the stored sequence and is the only one that may report an end, and one sequence carries one
  status. Then delivering the facts in any order and any number of times leaves the attempt with the status and the
  sequence of that fact. Without them the order matters: a terminal fact closes the attempt for every later one.
\<close>

theorem facts_converge_in_any_order:
  assumes "reachable digest m" and "bt_get (rm_executions m) eid = Some x" and "\<not> status_is_terminal m eid"
    and "(n, s) \<in> set facts" and "\<forall>k. bt_get (rm_execution_sequences m) eid = Some k \<longrightarrow> k < n"
    and "\<forall>(n', s') \<in> set facts. n' \<le> n \<and> (n' = n \<longrightarrow> s' = s) \<and> (is_terminal s' \<longrightarrow> n' = n)"
  shows "execution_status_of (deliver eid (ec_node_id (ex_command x)) facts m) eid = Some s
    \<and> bt_get (rm_execution_sequences (deliver eid (ec_node_id (ex_command x)) facts m)) eid = Some n"
proof -
  have "\<not> is_some_and (execution_status_of m eid) is_terminal" using assms(3) by (simp add: status_is_terminal_def)
  moreover have "\<not> is_some_and (bt_get (rm_execution_sequences m) eid) (\<lambda>current. n \<le> current)"
    using assms(5) by (auto simp: is_some_and_iff not_le)
  ultimately have "fold fact_view facts (attempt_view eid m) = (Some n, Some s)"
    unfolding attempt_view_def by (intro fact_view_last [OF assms(4) _ _ assms(6)])
  with deliver_view [OF reachable_owned [OF assms(1,2)], of facts] show ?thesis by (simp add: attempt_view_def)
qed

theorem facts_converge_in_any_order_witness:
  "execution_status_of (deliver ''e1'' ''n1'' [(5, Completed), (3, Running), (5, Completed), (4, Unknown)] coupled_manager) ''e1''
     = Some Completed"
proof -
  let ?x = "\<lparr>ex_command = role_command ''lead'' ''n1'', ex_resource_ids = []\<rparr>"
  have facts: "bt_get (rm_executions coupled_manager) ''e1'' = Some ?x"
    "bt_get (rm_execution_sequences coupled_manager) ''e1'' = Some 2"
    "execution_status_of coupled_manager ''e1'' = Some Running" using coupled_facts by simp_all
  then have "\<not> status_is_terminal coupled_manager ''e1''" by (simp add: status_is_terminal_def)
  from facts_converge_in_any_order [OF coupled_reachable facts(1) this,
      of 5 Completed "[(5, Completed), (3, Running), (5, Completed), (4, Unknown)]"] facts(2)
  show ?thesis by (simp add: role_command_def)
qed

subsection \<open>The aggregate result\<close>

lemma role_results_fold:
  "fold (\<lambda>role (saw_role, saw_failed, all_terminal).
       let (failed, terminal) = f role in (True, saw_failed \<or> failed, all_terminal \<and> terminal)) roles (a, b, c)
   = (a \<or> roles \<noteq> [], b \<or> (\<exists>role \<in> set roles. fst (f role)), c \<and> (\<forall>role \<in> set roles. snd (f role)))"
  by (induction roles arbitrary: a b c) (auto simp: Let_def split: prod.splits)

lemma list_all_entries: "list_all P (bt_entries b) \<longleftrightarrow> (\<forall>k v. bt_get b k = Some v \<longrightarrow> P (k, v))"
  by (auto simp: list_all_iff bt_entries_iff [symmetric])

lemma role_completed:
  "role_result m grp task role = (False, True) \<longleftrightarrow> current_execution_status m grp task role = Some Completed"
  by (auto simp: role_result_def split: option.splits execution_status.splits if_splits)

text \<open>
  C30: A Task succeeds exactly on complete evidence: it has Roles, the current attempt of each is Completed, and
  every relation that targets the Task is unfenced and was proved for exactly the current target attempt.
\<close>

theorem task_success_exact:
  "task_execution_result m grp task roles = Some ExecutionCompleted \<longleftrightarrow>
     roles \<noteq> [] \<and> (\<forall>role \<in> set roles. current_execution_status m grp task role = Some Completed)
     \<and> (\<forall>k r. bt_get (rm_relations m) k = Some r \<and> rr_group_id r = grp \<and> rr_target_task_ref r = task \<longrightarrow>
          \<not> bts_member k (rm_relation_fences m)
          \<and> (\<exists>target. bt_get (rm_active_executions m) (rr_target_key r) = Some target
               \<and> bt_get (rm_relation_proofs m) k = Some target))"
proof -
  let ?f = "role_result m grp task"
  have roles: "(\<forall>role \<in> set roles. snd (?f role)) \<and> \<not> (\<exists>role \<in> set roles. fst (?f role)) \<longleftrightarrow>
      (\<forall>role \<in> set roles. current_execution_status m grp task role = Some Completed)"
    unfolding role_completed [symmetric] by (auto simp: prod_eq_iff)
  have allow: "relations_allow_task_success m grp task \<longleftrightarrow>
      (\<forall>k r. bt_get (rm_relations m) k = Some r \<and> rr_group_id r = grp \<and> rr_target_task_ref r = task \<longrightarrow>
          \<not> bts_member k (rm_relation_fences m)
          \<and> (\<exists>target. bt_get (rm_active_executions m) (rr_target_key r) = Some target
               \<and> bt_get (rm_relation_proofs m) k = Some target))"
    unfolding relations_allow_task_success_def list_all_entries
    by (intro iff_allI) (auto split: option.split)
  show ?thesis
    unfolding task_execution_result_def role_results_fold allow [symmetric] roles [symmetric] by auto
qed

theorem task_success_exact_witness:
  "task_execution_result completed_manager ''g1'' scout_task [''lead''] = Some ExecutionCompleted
   \<and> current_execution_status completed_manager ''g1'' scout_task ''lead'' = Some Completed"
  using task_success_exact [of completed_manager "''g1''" scout_task "[''lead'']"] working_facts by auto

subsection \<open>Progress\<close>

text \<open>
  C31: Progress is read-only and ordered: an accepted sample comes from the current, unfinished attempt's own Node,
  changes nothing but the stored progress of that attempt, and within one source epoch has a greater sequence than
  the stored sample and does not move the stage, the units of a stage or the receive time backwards; a rejected
  sample changes nothing.
\<close>

theorem progress_ordered_and_read_only:
  assumes "observe_progress r sample m = (accepted, m')"
  shows "if \<not> accepted then m' = m
    else (\<exists>x o'. bt_get (rm_executions m) (ps_execution_id sample) = Some x
       \<and> bt_get (rm_active_executions m) (command_slot (ex_command x)) = Some (ps_execution_id sample)
       \<and> state_source_node_id (sk_source (sr_key r)) = Some (ec_node_id (ex_command x))
       \<and> \<not> status_is_terminal m (ps_execution_id sample)
       \<and> m' = m\<lparr>rm_progress := bt_insert (ps_execution_id sample) o' (rm_progress m)\<rparr>
       \<and> po_sample o' = sample \<and> po_record o' = progress_source_of r
       \<and> (\<forall>p. bt_get (rm_progress m) (ps_execution_id sample) = Some p
               \<and> pr_source_epoch (po_record p) = sr_source_epoch r \<longrightarrow>
            pr_sequence (po_record p) < sr_sequence r \<and> pr_received_at (po_record p) \<le> sr_received_at r
            \<and> ps_stage_epoch (po_sample p) \<le> ps_stage_epoch sample
            \<and> (ps_stage_epoch (po_sample p) = ps_stage_epoch sample \<longrightarrow>
                 (\<forall>u v. ps_completed_units (po_sample p) = Some u \<and> ps_completed_units sample = Some v \<longrightarrow> u \<le> v))))"
  using assms
  by (auto simp: observe_progress_def record_progress_def Let_def current_attempt_id_def command_slot_def
      progress_key_admitted_def progress_regresses_def not_le not_less
      split: option.splits if_splits)

theorem progress_ordered_and_read_only_witness:
  "\<exists>o' m'. observe_progress (sample_at 120 3) (survey_progress (Some 5)) working_manager = (True, m')
     \<and> m' = working_manager\<lparr>rm_progress := bt_insert ''e1'' o' (rm_progress working_manager)\<rparr>"
proof -
  obtain m' where m': "observe_progress (sample_at 120 3) (survey_progress (Some 5)) working_manager = (True, m')"
    using working_facts by (metis (full_types) prod.collapse)
  from progress_ordered_and_read_only [OF m'] m' show ?thesis by (auto simp: survey_progress_def)
qed

text \<open>
  C32: A stall is reported only on fresh evidence: the attempt is current and accepted or running, its last sample
  says Working with counted units and is still valid now, and the time since the last advance is at least the
  positive budget.
\<close>

theorem stall_needs_fresh_evidence:
  assumes "reachable digest m" and "progress_disposition m eid now budget = Some PdStalled"
  shows "\<exists>p x b. bt_get (rm_progress m) eid = Some p \<and> bt_get (rm_executions m) eid = Some x \<and> budget = Some b
    \<and> bt_get (rm_active_executions m) (command_slot (ex_command x)) = Some eid
    \<and> execution_status_of m eid \<in> {Some Running, Some Accepted}
    \<and> ps_activity (po_sample p) = Working \<and> ps_completed_units (po_sample p) \<noteq> None
    \<and> po_last_advanced_at p \<le> pr_received_at (po_record p) \<and> pr_received_at (po_record p) \<le> now
    \<and> unat now < unat (pr_received_at (po_record p)) + unat (pr_valid_for_ms (po_record p))
    \<and> 0 < b \<and> unat (po_last_advanced_at p) + unat b \<le> unat now"
proof -
  from assms(2) obtain p x b where p: "bt_get (rm_progress m) eid = Some p" "bt_get (rm_executions m) eid = Some x"
    "budget = Some b" "bt_get (rm_active_executions m) (command_slot (ex_command x)) = Some eid"
    "execution_status_of m eid \<in> {Some Running, Some Accepted}"
    "ps_activity (po_sample p) = Working" "ps_completed_units (po_sample p) \<noteq> None"
    "\<not> progress_is_stale_at (po_record p) now" "pr_received_at (po_record p) \<le> now" "0 < b"
    "b \<le> saturating_sub now (po_last_advanced_at p)"
    by (auto simp: progress_disposition_def Let_def current_attempt_id_def command_slot_def is_some_and_iff not_less
        split: option.splits if_splits operation_activity.splits)
  have "inv_progress (rm_progress m) (rm_executions m)"
    using reachable_wf [OF assms(1)] by (simp add: manager_wf_def)
  with p(1,2) have advanced: "po_last_advanced_at p \<le> pr_received_at (po_record p)"
    by (auto simp: inv_progress_def progress_wf_def)
  have "unat now < 2 ^ LENGTH(64)" by (rule unsigned_less)
  then have fresh: "unat now < unat (pr_received_at (po_record p)) + unat (pr_valid_for_ms (po_record p))"
    using p(8)
    by (auto simp: progress_is_stale_at_def saturating_add_def checked_add_def not_le word_less_nat_alt unat_word_ariths
        split: if_splits)
  from advanced p(9) have "po_last_advanced_at p \<le> now" by (rule order_trans)
  with p(11) have "unat (po_last_advanced_at p) + unat b \<le> unat now"
    by (simp add: saturating_sub_def word_le_nat_alt unat_sub)
  with p advanced fresh show ?thesis by blast
qed

theorem stall_needs_fresh_evidence_witness:
  "\<exists>p. bt_get (rm_progress working_manager) ''e1'' = Some p \<and> po_last_advanced_at p \<le> pr_received_at (po_record p)"
proof -
  have "progress_disposition working_manager ''e1'' 150 (Some 100) = Some PdStalled" using working_facts by blast
  from stall_needs_fresh_evidence [OF working_reachable this] show ?thesis by blast
qed

end
