(* ===== verification/RT_Channel_Props.thy ===== *)
theory RT_Channel_Props
  imports RT_Frames RT_Scenario
begin

text \<open>
  Peer channels along runs: what a Ready channel stands for, and that a restart trusts no acknowledgement.
\<close>

subsection \<open>A concrete channel\<close>

text \<open>Two peers acknowledge one instance of the channel of their Context.\<close>

definition duet_context :: coordination_context where
  "duet_context = \<lparr>cc_context_id = ''duet'',
     cc_roles = [context_role_new ''left'' ''a1'', context_role_new ''right'' ''a2''], cc_executor_constraints = [],
     cc_relations = [], cc_coupling_mode = Independent, cc_shared_view = None,
     cc_peer_channel = Some \<lparr>pcs_profile_id = ''dds'', pcs_message_schema = ''pose''\<rparr>\<rparr>"

definition peer_ready :: "context_role_id \<Rightarrow> node_id \<Rightarrow> u64 \<Rightarrow> timestamp \<Rightarrow> peer_readiness" where
  "peer_ready role node sequence now = \<lparr>pe_group_id = ''g1'', pe_context_id = ''duet'', pe_context_role_id = role,
     pe_node_id = node, pe_local_system_id = ''ros'', pe_session_id = ''s1'', pe_channel_instance_id = ''i1'',
     pe_profile_id = ''dds'', pe_message_schema = ''pose'', pe_sequence = sequence, pe_received_at = now,
     pe_expires_at = now + 100, pe_ready = True\<rparr>"

definition duet_run :: "runtime_call list" where
  "duet_run =
     [RegisterCoordinationContext ''g1'' duet_context,
      ObservePeerChannelReadiness (peer_ready ''left'' ''n1'' 1 10),
      ObservePeerChannelReadiness (peer_ready ''right'' ''n2'' 1 20)]"

definition duet_manager :: manager where
  "duet_manager = run_calls no_digest duet_run manager_new"

text \<open>Closing the channel, losing one peer's Node, and that peer's next acknowledgement.\<close>

definition reopening :: "runtime_call list" where
  "reopening =
     [ClosePeerChannel ''g1'' ''duet'', FencePeerChannelsForNode ''n1'',
      ObservePeerChannelReadiness (peer_ready ''left'' ''n1'' 2 30)]"

lemma duet_facts:
  "calls_admissible no_digest duet_run manager_new
   \<and> map pc_lifecycle (peer_channels_at duet_manager ''g1'' 50) = [ChReady]
   \<and> calls_admissible no_digest reopening duet_manager
   \<and> map pc_lifecycle (peer_channels_at (run_calls no_digest [ClosePeerChannel ''g1'' ''duet''] duet_manager) ''g1'' 50) = [ChClosed]
   \<and> map pc_lifecycle (peer_channels_at (run_calls no_digest reopening duet_manager) ''g1'' 50) = [ChReady]"
  by code_simp

lemma duet_reachable: "reachable no_digest duet_manager"
  using duet_facts unfolding duet_manager_def by (intro run_calls_reachable) blast

lemma duet_paired: "channels_paired duet_manager"
  by code_simp

text \<open>
  A closed channel can come back: \<open>close_peer_channel\<close> keeps the acknowledgements and
  \<open>fence_peer_channels_for_node\<close> does not look at the lifecycle, so losing one peer's Node turns Closed into Fenced,
  and the next acknowledgement of that peer makes the channel Ready.
\<close>

theorem closed_channel_reopens:
  "\<exists>m m'. reachable no_digest m \<and> run_from (runtime_step no_digest) m m'
     \<and> map pc_lifecycle (peer_channels_at m ''g1'' 50) = [ChClosed]
     \<and> map pc_lifecycle (peer_channels_at m' ''g1'' 50) = [ChReady]"
proof -
  let ?m = "run_calls no_digest [ClosePeerChannel ''g1'' ''duet''] duet_manager"
  let ?m' = "run_calls no_digest reopening duet_manager"
  have calls: "calls_admissible no_digest (tl reopening) ?m" and close: "call_admissible duet_manager (hd reopening)"
    using duet_facts by (simp_all add: reopening_def)
  have "run_from (runtime_step no_digest) duet_manager ?m"
    using close by (intro run_calls_run) (simp add: reopening_def)
  with duet_reachable have "reachable no_digest ?m" by (rule reachable_run)
  moreover from run_calls_run [OF calls] have "run_from (runtime_step no_digest) ?m ?m'" by (simp add: reopening_def)
  ultimately show ?thesis using duet_facts by (intro exI [of _ ?m] exI [of _ ?m']) simp
qed

subsection \<open>The invariant of a Ready channel\<close>

definition ready_backed :: "peer_channel \<Rightarrow> bool" where
  "ready_backed ch \<longleftrightarrow> (pc_lifecycle ch = ChReady \<longrightarrow> pc_readiness ch \<noteq> []
     \<and> (\<exists>instance_id. \<forall>ack \<in> set (pc_readiness ch). pe_ready ack \<longrightarrow> pe_channel_instance_id ack = instance_id)
     \<and> (\<forall>peer \<in> set (pc_peers ch). \<exists>ack \<in> set (pc_readiness ch). pe_context_role_id ack = peer \<and> pe_ready ack))"

definition channels_backed :: "manager \<Rightarrow> bool" where
  "channels_backed m \<longleftrightarrow> (\<forall>k ch. bt_get (rm_peer_channels m) k = Some ch \<longrightarrow> ready_backed ch)"

lemma ready_backed_other: "pc_lifecycle ch \<noteq> ChReady \<Longrightarrow> ready_backed ch"
  by (simp add: ready_backed_def)

lemma one_instance:
  assumes "bt_len (bts_of_list xs) = 1"
  shows "\<exists>x. \<forall>y \<in> set xs. y = x"
  using assms by (auto simp: bt_len_of_list card_1_singleton_iff)

lemma ready_backedI:
  "pc_readiness ch \<noteq> [] \<Longrightarrow> \<forall>ack \<in> set (pc_readiness ch). pe_ready ack \<longrightarrow> pe_channel_instance_id ack = inst \<Longrightarrow>
   \<forall>peer \<in> set (pc_peers ch). \<exists>ack \<in> set (pc_readiness ch). pe_context_role_id ack = peer \<and> pe_ready ack \<Longrightarrow>
   ready_backed (ch\<lparr>pc_lifecycle := l\<rparr>)"
  by (simp add: ready_backed_def) 

lemma accept_acknowledgement_backed: "ready_backed (accept_acknowledgement e ch)"
proof (cases "pc_lifecycle (accept_acknowledgement e ch) = ChReady")
  case True
  let ?ch2 = "(without_role (pe_context_role_id e) ch)\<lparr>pc_readiness :=
    sort_key pe_context_role_id (pc_readiness (without_role (pe_context_role_id e) ch) @ [e])\<rparr>"
  from True have ready: "all_peers_ready (pe_received_at e) ?ch2" "bt_len (ready_instances ?ch2) = 1"
    and ch: "accept_acknowledgement e ch = ?ch2\<lparr>pc_lifecycle := ChReady\<rparr>"
    by (auto simp: accept_acknowledgement_def Let_def split: if_splits)
  obtain inst where "\<forall>y \<in> set (map pe_channel_instance_id (filter pe_ready (pc_readiness ?ch2))). y = inst"
    using one_instance [OF ready(2) [unfolded ready_instances_def]] by blast
  then have "\<forall>ack \<in> set (pc_readiness ?ch2). pe_ready ack \<longrightarrow> pe_channel_instance_id ack = inst"
    unfolding set_map set_filter by blast
  moreover have "\<forall>peer \<in> set (pc_peers ?ch2). \<exists>ack \<in> set (pc_readiness ?ch2). pe_context_role_id ack = peer \<and> pe_ready ack"
    using ready(1) by (auto simp: all_peers_ready_def list_all_iff list_ex_iff)
  moreover have "e \<in> set (pc_readiness ?ch2)" by simp
  then have "pc_readiness ?ch2 \<noteq> []" by (metis empty_iff empty_set)
  ultimately show ?thesis unfolding ch by (blast intro: ready_backedI)
qed (rule ready_backed_other)

lemma observe_channel_backed: "observe_channel e ch = (res, ch') \<Longrightarrow> ready_backed ch \<Longrightarrow> ready_backed ch'"
  using accept_acknowledgement_backed
  by (auto simp: observe_channel_def Let_def ready_backed_other split: if_splits option.splits)

lemma channels_backed_map:
  "channels_backed m \<Longrightarrow> (\<And>k ch. ready_backed ch \<Longrightarrow> ready_backed (f k ch)) \<Longrightarrow>
     channels_backed (m\<lparr>rm_peer_channels := bt_map f (rm_peer_channels m)\<rparr>)"
  by (auto simp: channels_backed_def bt_get_map)

lemma channels_backed_insert:
  "channels_backed m \<Longrightarrow> ready_backed ch \<Longrightarrow> channels_backed (m\<lparr>rm_peer_channels := bt_insert k ch (rm_peer_channels m)\<rparr>)"
  by (auto simp: channels_backed_def bt_get_insert)

lemma quiet_backed: "quiet m m' \<Longrightarrow> channels_backed m \<Longrightarrow> channels_backed m'"
  by (simp add: quiet_def channels_backed_def)

lemma fence_expired_backed: "ready_backed ch \<Longrightarrow> ready_backed (fence_expired now ch)"
  by (simp add: fence_expired_def ready_backed_other)

lemma refresh_deadlines_backed: "channels_backed m \<Longrightarrow> channels_backed (refresh_peer_channel_deadlines now m)"
  unfolding refresh_peer_channel_deadlines_def by (rule channels_backed_map) (simp_all add: fence_expired_backed)

lemma fence_node_backed: "channels_backed m \<Longrightarrow> channels_backed (fence_peer_channels_for_node node m)"
  unfolding fence_peer_channels_for_node_def by (rule channels_backed_map) (simp_all add: ready_backed_other)

lemma close_group_backed: "channels_backed m \<Longrightarrow> channels_backed (close_peer_channels_for_group grp m)"
  unfolding close_peer_channels_for_group_def by (rule channels_backed_map) (simp_all add: ready_backed_other)

lemma set_lifecycle_backed:
  "set_peer_channel_lifecycle grp cid l m = (res, m') \<Longrightarrow> l \<noteq> ChReady \<Longrightarrow> channels_backed m \<Longrightarrow> channels_backed m'"
  by (auto simp: set_peer_channel_lifecycle_def ready_backed_other intro: channels_backed_insert
      split: option.splits if_splits)

lemma observe_readiness_backed:
  assumes "observe_peer_channel_readiness e m = (res, m')" and "channels_backed m"
  shows "channels_backed m'"
proof -
  let ?m1 = "refresh_peer_channel_deadlines (pe_received_at e) m"
  have m1: "channels_backed ?m1" using assms(2) by (rule refresh_deadlines_backed)
  have "channels_backed (?m1\<lparr>rm_peer_channels := bt_insert k ch' (rm_peer_channels ?m1)\<rparr>)"
    if "bt_get (rm_peer_channels ?m1) k = Some ch" "observe_channel e ch = (r, ch')" for k ch r ch'
  proof (rule channels_backed_insert [OF m1])
    from m1 that(1) have "ready_backed ch" by (auto simp: channels_backed_def)
    with that(2) show "ready_backed ch'" by (rule observe_channel_backed)
  qed
  with assms(1) m1 show ?thesis
    by (auto simp: observe_peer_channel_readiness_def Let_def split: if_splits option.splits prod.splits)
qed

lemma register_context_backed:
  assumes "register_coordination_context grp c m = (res, m')" and "channels_backed m"
  shows "channels_backed m'"
proof -
  have planned: "ready_backed ch" if "planned_channel grp c = Some ch" for ch
    using that by (auto simp: planned_channel_def ready_backed_other)
  show ?thesis
    using assms planned
    by (auto simp: register_coordination_context_def Let_def channels_backed_def bt_get_insert
        split: option.splits if_splits)
qed

lemma outcome_backed: "outcome r = (p, m') \<Longrightarrow> (\<And>res m''. r = (res, m'') \<Longrightarrow> channels_backed m'') \<Longrightarrow> channels_backed m'"
  by (cases r) (auto simp: outcome_def)

lemma channel_call_backed:
  assumes "runtime_exec digest c m = (panicked, m')" and "channel_call c" and "channels_backed m"
  shows "channels_backed m'"
  using assms
  by (cases c)
    (auto simp: channel_call_def refresh_deadlines_backed fence_node_backed close_group_backed
      fence_peer_channel_def close_peer_channel_def
      elim!: outcome_backed intro: register_context_backed observe_readiness_backed set_lifecycle_backed)

lemma runtime_step_backed:
  assumes "manager_wf digest m" and "channels_backed m" and "runtime_step digest m m'"
  shows "channels_backed m'"
  using assms(3)
proof (cases rule: runtime_step.cases)
  case (call c panicked)
  consider (ack) grp rid where "c = AcknowledgeRelationReconciliation grp rid" | (channel) "channel_call c"
    | (other) "\<not> channel_call c" "\<And>grp rid. c \<noteq> AcknowledgeRelationReconciliation grp rid" by blast
  then show ?thesis
  proof cases
    case ack
    with call(2) obtain res where "acknowledge_relation_reconciliation grp rid m = (res, m')"
      by (cases "acknowledge_relation_reconciliation grp rid m") (auto simp: outcome_def)
    from acknowledge_fences [OF this] assms(2) show ?thesis by (simp add: channels_backed_def)
  next
    case channel
    with call(2) assms(2) show ?thesis by (blast intro: channel_call_backed)
  next
    case other
    with call(2) have "quiet m m'" by (blast intro: runtime_exec_quiet)
    then show ?thesis using assms(2) by (rule quiet_backed)
  qed
next
  case restart
  from restore_quiet_fences(2) [OF assms(1) restart] show ?thesis
    by (auto simp: channels_backed_def bt_get_map restore_channel_def ready_backed_def)
qed

lemma channels_backed_new: "channels_backed manager_new"
  by (simp add: channels_backed_def manager_new_def)

text \<open>The Runtime keeps every Ready channel backed.\<close>

interpretation channels: invariant_system "\<lambda>m. m = manager_new" "runtime_step digest"
  "\<lambda>m. manager_wf digest m \<and> channels_backed m" for digest
proof
  show "m = manager_new \<Longrightarrow> manager_wf digest m \<and> channels_backed m" for m
    by (simp add: manager_wf_new channels_backed_new)
  show "manager_wf digest m \<and> channels_backed m \<Longrightarrow> runtime_step digest m m' \<Longrightarrow>
      manager_wf digest m' \<and> channels_backed m'" for m m'
    by (auto intro: runtime_step_backed dest: runtime_step_safe simp: safe_def)
qed

lemma reachable_backed: "reachable digest m \<Longrightarrow> channels_backed m"
  unfolding reachable_def by (blast dest: channels.inv_reachable [OF refl])

text \<open>
  C33: A Ready channel is backed by live evidence: whenever a channel is reported Ready at some time, every declared
  peer has a ready acknowledgement that has not expired by then, and all of these name the same channel instance. The
  channel belongs to a registered Context of the Group, has a peer, and has at least two where the coupling mode of
  that Context requires the direct peer channel.
\<close>

theorem ready_channel_is_backed:
  assumes "reachable digest m" and "ch \<in> set (peer_channels_at m grp now)" and "pc_lifecycle ch = ChReady"
  shows "pc_group_id ch = grp \<and> pc_peers ch \<noteq> []
    \<and> (\<exists>c. bt_get (rm_coordination_contexts m) (grp, pc_context_id ch) = Some c
         \<and> (mode_requires (rcc_coupling_mode c) DirectPeerChannel \<longrightarrow> 2 \<le> length (pc_peers ch)))
    \<and> (\<exists>instance_id. \<forall>peer \<in> set (pc_peers ch). \<exists>ack \<in> set (pc_readiness ch). pe_context_role_id ack = peer \<and> pe_ready ack
         \<and> now < pe_expires_at ack \<and> pe_channel_instance_id ack = instance_id)"
proof -
  from assms(2) obtain k old where old: "bt_get (rm_peer_channels m) k = Some old" "pc_group_id old = grp"
    "ch = fence_expired now old"
    by (auto simp: peer_channels_at_def peer_channels_of_def bt_values_iff)
  with assms(3) have same: "ch = old" "\<not> channel_expired now old"
    by (auto simp: fence_expired_def split: if_splits)
  have "inv_coordination (rm_coordination_contexts m) (rm_peer_channels m)"
    using reachable_wf [OF assms(1)] by (simp add: manager_wf_def)
  with old(1) obtain c where c: "bt_get (rm_coordination_contexts m) (pc_group_id old, pc_context_id old) = Some c"
    "channel_sound c old" unfolding inv_coordination_def by blast
  from reachable_backed [OF assms(1)] old(1) assms(3) same(1) have "ready_backed ch"
    by (auto simp: channels_backed_def)
  with assms(3) obtain inst where some: "pc_readiness ch \<noteq> []"
    and inst:
    "\<forall>ack \<in> set (pc_readiness ch). pe_ready ack \<longrightarrow> pe_channel_instance_id ack = inst"
    "\<forall>peer \<in> set (pc_peers ch). \<exists>ack \<in> set (pc_readiness ch). pe_context_role_id ack = peer \<and> pe_ready ack"
    by (auto simp: ready_backed_def)
  note inst
  moreover have "\<forall>ack \<in> set (pc_readiness ch). pe_ready ack \<longrightarrow> now < pe_expires_at ack"
    using same assms(3) by (auto simp: channel_expired_def list_ex_iff not_le)
  moreover from some c(2) same(1) have "pc_peers ch \<noteq> []"
    by (cases "pc_readiness ch") (auto simp: channel_sound_def readiness_valid_def)
  ultimately show ?thesis using c old(2) same(1) unfolding channel_sound_def by blast
qed

theorem ready_channel_is_backed_witness:
  "\<exists>ch. ch \<in> set (peer_channels_at duet_manager ''g1'' 50) \<and> pc_lifecycle ch = ChReady \<and> pc_group_id ch = ''g1''"
proof -
  have "map pc_lifecycle (peer_channels_at duet_manager ''g1'' 50) = [ChReady]" using duet_facts by blast
  then obtain ch where ch: "ch \<in> set (peer_channels_at duet_manager ''g1'' 50)" "pc_lifecycle ch = ChReady"
    by (auto simp: map_eq_Cons_conv)
  from ready_channel_is_backed [OF duet_reachable ch] ch show ?thesis by blast
qed

text \<open>
  C34: A restart closes no channel but trusts none: no channel is Ready after it, all acknowledgements are gone, and
  a coordination Context whose mode needs a direct peer channel is not ready.
\<close>

theorem restart_distrusts_channels:
  assumes "reachable digest m" and "restore digest (checkpoint_of m) = Ok m'"
  shows "(\<forall>k ch. bt_get (rm_peer_channels m) k = Some ch \<longrightarrow> (\<exists>ch'. bt_get (rm_peer_channels m') k = Some ch'
       \<and> pc_readiness ch' = [] \<and> pc_lifecycle ch' \<noteq> ChReady \<and> pc_peers ch' = pc_peers ch
       \<and> (pc_lifecycle ch = ChClosed \<longleftrightarrow> pc_lifecycle ch' = ChClosed)))
    \<and> (mode_requires mode DirectPeerChannel \<longrightarrow> coordination_readiness_for_mode m' grp cid mode \<noteq> Some CoordReady)"
proof -
  note channels = restore_quiet_fences(2) [OF reachable_wf [OF assms(1)] assms(2)]
  have "is_none_or (bt_get (rm_peer_channels m') (grp, cid)) (\<lambda>ch. pc_lifecycle ch \<noteq> ChReady)"
    by (auto simp: channels bt_get_map restore_channel_def is_none_or_iff)
  then have "mode_requires mode DirectPeerChannel \<longrightarrow> coordination_readiness_for_mode m' grp cid mode \<noteq> Some CoordReady"
    by (auto simp: coordination_readiness_for_mode_def split: option.splits)
  then show ?thesis by (auto simp: channels bt_get_map restore_channel_def)
qed

theorem restart_distrusts_channels_witness:
  "\<exists>m'. restore no_digest (checkpoint_of duet_manager) = Ok m'
     \<and> coordination_readiness_for_mode m' ''g1'' ''duet'' TightlyCoupledCooperation \<noteq> Some CoordReady"
proof -
  obtain m' where m': "restore no_digest (checkpoint_of duet_manager) = Ok m'"
    by (rule restore_checkpoint [OF reachable_wf [OF duet_reachable] duet_paired])
  have "mode_requires TightlyCoupledCooperation DirectPeerChannel" by simp
  with restart_distrusts_channels [OF duet_reachable m', of TightlyCoupledCooperation "''g1''" "''duet''"] m' show ?thesis by blast
qed

end
