(* ===== verification/RT_Clock.thy ===== *)
theory RT_Clock
  imports RG_Domain
begin

text \<open>
  The process clock of \<open>core/runtime/src/clock.rs\<close>. The operating system's clocks are arguments: the
  wall clock in milliseconds since the epoch at start (absent before the epoch), and the elapsed
  milliseconds of the process-local instant at each read.
\<close>

record monotonic_clock =
  mc_wall_origin_ms :: u64
  mc_high_water_ms :: u64

definition u64_try_from :: "nat \<Rightarrow> u64 option" where
  "u64_try_from n = (if n < 2 ^ 64 then Some (of_nat n) else None)"

definition u64_or_max :: "nat \<Rightarrow> u64" where
  "u64_or_max n = (case u64_try_from n of None \<Rightarrow> - 1 | Some w \<Rightarrow> w)"

definition clock_from_floor :: "nat option \<Rightarrow> timestamp \<Rightarrow> monotonic_clock" where
  "clock_from_floor wall floor_ms =
     (let origin = max (case wall of None \<Rightarrow> 0 | Some ms \<Rightarrow> u64_or_max ms) floor_ms
      in \<lparr>mc_wall_origin_ms = origin, mc_high_water_ms = origin\<rparr>)"

definition clock_new :: "nat option \<Rightarrow> monotonic_clock" where
  "clock_new wall = clock_from_floor wall 0"

definition clock_now :: "nat \<Rightarrow> monotonic_clock \<Rightarrow> timestamp \<times> monotonic_clock" where
  "clock_now elapsed c =
     (let monotonic = saturating_add (mc_wall_origin_ms c) (u64_or_max elapsed);
          high = max (mc_high_water_ms c) monotonic
      in (high, c\<lparr>mc_high_water_ms := high\<rparr>))"

fun clock_reads :: "nat list \<Rightarrow> monotonic_clock \<Rightarrow> timestamp list" where
  "clock_reads [] c = []"
| "clock_reads (elapsed # rest) c =
     (case clock_now elapsed c of (t, c') \<Rightarrow> t # clock_reads rest c')"

lemma clock_now_high_water:
  "clock_now elapsed c = (t, c') \<Longrightarrow>
     t = mc_high_water_ms c' \<and> mc_high_water_ms c \<le> t \<and> mc_wall_origin_ms c' = mc_wall_origin_ms c"
  by (auto simp: clock_now_def Let_def)

lemma clock_reads_lower: "t \<in> set (clock_reads es c) \<Longrightarrow> mc_high_water_ms c \<le> t"
proof (induction es arbitrary: c)
  case (Cons e es)
  obtain now c' where now: "clock_now e c = (now, c')" by (cases "clock_now e c") auto
  from Cons.prems now consider "t = now" | "t \<in> set (clock_reads es c')" by auto
  then show ?case
    using clock_now_high_water [OF now] Cons.IH [of c'] by cases auto
qed simp

end
