(* ===== verification/CP_Quota.thy ===== *)
theory CP_Quota
  imports RG_Resource "HOL-Library.Multiset"
begin

text \<open>
  The logical quota ledger of Control, \<open>core/control/src/quota.rs\<close>: explicit limits per tenant and resource
  category, idempotent claims, and the validation of a restored ledger.
\<close>

subsection \<open>The ledger\<close>

text \<open>Resource categories in the order of their declaration.\<close>

definition kind_rank :: "resource_kind \<Rightarrow> nat" where
  "kind_rank k = (case k of Space \<Rightarrow> 0 | Compute \<Rightarrow> 1 | Time \<Rightarrow> 2)"

instantiation resource_kind :: linorder
begin

definition less_eq_resource_kind :: "resource_kind \<Rightarrow> resource_kind \<Rightarrow> bool" where
  "less_eq_resource_kind a b \<longleftrightarrow> kind_rank a \<le> kind_rank b"

definition less_resource_kind :: "resource_kind \<Rightarrow> resource_kind \<Rightarrow> bool" where
  "less_resource_kind a b \<longleftrightarrow> kind_rank a < kind_rank b"

instance
proof
  fix a b :: resource_kind
  show "a \<le> b \<Longrightarrow> b \<le> a \<Longrightarrow> a = b"
    unfolding less_eq_resource_kind_def kind_rank_def by (cases a; cases b) auto
qed (auto simp: less_eq_resource_kind_def less_resource_kind_def)

end

record quota_limit =
  ql_tenant_id :: string
  ql_kind :: resource_kind
  ql_max_units :: u64

record quota_usage =
  qu_tenant_id :: string
  qu_kind :: resource_kind
  qu_used_units :: u64
  qu_max_units :: "u64 option"
  qu_remaining_units :: "u64 option"

record quota_claim =
  qc_claim_id :: string
  qc_tenant_id :: string
  qc_kind :: resource_kind
  qc_units :: u64
  qc_resource_id :: "resource_id option"
  qc_allocation_id :: "string option"

datatype quota_error =
    LimitMissing
  | ClaimConflict
  | QuotaExceeded u64 u64 u64
  | QuotaInvalid string

record quota_ledger =
  ledger_limits :: "quota_limit list"
  ledger_claims :: "quota_claim list"

definition quota_ledger_new :: quota_ledger where
  "quota_ledger_new = \<lparr>ledger_limits = [], ledger_claims = []\<rparr>"

definition limit_key :: "quota_limit \<Rightarrow> string \<times> resource_kind" where
  "limit_key lim = (ql_tenant_id lim, ql_kind lim)"

definition claim_key :: "quota_claim \<Rightarrow> string \<times> resource_kind" where
  "claim_key c = (qc_tenant_id c, qc_kind c)"

subsection \<open>Checks\<close>

definition quota_validate_text :: "string \<Rightarrow> string \<Rightarrow> quota_error + unit" where
  "quota_validate_text value name =
     (if trim_is_empty value \<or> 256 < length value \<or> has_control value
      then Inl (QuotaInvalid (name @ '' is empty or unbounded'')) else Inr ())"

definition resource_claim_id :: "resource_id \<Rightarrow> string" where
  "resource_claim_id rid = ''control-resource:'' @ rid"

definition allocation_id_valid :: "quota_claim \<Rightarrow> string \<Rightarrow> bool" where
  "allocation_id_valid c aid \<longleftrightarrow>
     qc_resource_id c \<noteq> None \<and> qc_kind c = Compute \<and> qc_claim_id c = aid
     \<and> is_some_and (strip_prefix ''allocation:sha256:'' aid) (\<lambda>hex. length hex = 64 \<and> list_all is_lower_hex hex)"

definition claim_identity_valid :: "quota_claim \<Rightarrow> bool" where
  "claim_identity_valid c \<longleftrightarrow>
     (case qc_allocation_id c of
        Some aid \<Rightarrow> allocation_id_valid c aid
      | None \<Rightarrow> is_none_or (qc_resource_id c) (\<lambda>rid. qc_claim_id c = resource_claim_id rid))"

definition validate_claim :: "quota_claim \<Rightarrow> quota_error + unit" where
  "validate_claim c =
     (case quota_validate_text (qc_claim_id c) ''claim_id'' of
        Inl e \<Rightarrow> Inl e
      | Inr _ \<Rightarrow>
          (case quota_validate_text (qc_tenant_id c) ''tenant_id'' of
             Inl e \<Rightarrow> Inl e
           | Inr _ \<Rightarrow>
               if qc_units c = 0 \<or> 0xFFFFFFFF < qc_units c
               then Inl (QuotaInvalid ''claim units are outside their bound'')
               else if \<not> claim_identity_valid c
               then Inl (QuotaInvalid ''resource quota claim identity does not match its reservation'')
               else Inr ()))"

subsection \<open>Queries\<close>

definition used :: "quota_ledger \<Rightarrow> string \<Rightarrow> resource_kind \<Rightarrow> u64" where
  "used l tenant kind =
     fold (\<lambda>c total. saturating_add total (qc_units c))
       (filter (\<lambda>c. qc_tenant_id c = tenant \<and> qc_kind c = kind) (ledger_claims l)) 0"

definition find_limit :: "quota_ledger \<Rightarrow> string \<Rightarrow> resource_kind \<Rightarrow> quota_limit option" where
  "find_limit l tenant kind = find (\<lambda>lim. ql_tenant_id lim = tenant \<and> ql_kind lim = kind) (ledger_limits l)"

definition find_claim :: "quota_ledger \<Rightarrow> string \<Rightarrow> quota_claim option" where
  "find_claim l cid = find (\<lambda>c. qc_claim_id c = cid) (ledger_claims l)"

definition has_limit :: "quota_ledger \<Rightarrow> string \<Rightarrow> resource_kind \<Rightarrow> bool" where
  "has_limit l tenant kind \<longleftrightarrow> list_ex (\<lambda>lim. ql_tenant_id lim = tenant \<and> ql_kind lim = kind) (ledger_limits l)"

definition has_resource_claim :: "quota_ledger \<Rightarrow> resource_id \<Rightarrow> bool" where
  "has_resource_claim l rid \<longleftrightarrow> list_ex (\<lambda>c. qc_resource_id c = Some rid) (ledger_claims l)"

definition remaining :: "quota_ledger \<Rightarrow> string \<Rightarrow> resource_kind \<Rightarrow> u64 option" where
  "remaining l tenant kind =
     map_option (\<lambda>lim. saturating_sub (ql_max_units lim) (used l tenant kind)) (find_limit l tenant kind)"

definition usage :: "quota_ledger \<Rightarrow> quota_usage list" where
  "usage l =
     map (\<lambda>(tenant, kind).
         let used_units = used l tenant kind;
             max_units = map_option ql_max_units (find_limit l tenant kind)
         in \<lparr>qu_tenant_id = tenant, qu_kind = kind, qu_used_units = used_units, qu_max_units = max_units,
             qu_remaining_units = map_option (\<lambda>limit. saturating_sub limit used_units) max_units\<rparr>)
       (bt_keys (bts_of_list (map limit_key (ledger_limits l) @ map claim_key (ledger_claims l))))"

subsection \<open>Limits\<close>

fun replace_first :: "('a \<Rightarrow> bool) \<Rightarrow> 'a \<Rightarrow> 'a list \<Rightarrow> 'a list" where
  "replace_first P y [] = []"
| "replace_first P y (x # xs) = (if P x then y # xs else x # replace_first P y xs)"

definition put_limit :: "quota_limit \<Rightarrow> quota_limit list \<Rightarrow> quota_limit list" where
  "put_limit lim limits =
     (if list_ex (\<lambda>old. ql_tenant_id old = ql_tenant_id lim \<and> ql_kind old = ql_kind lim) limits
      then replace_first (\<lambda>old. ql_tenant_id old = ql_tenant_id lim \<and> ql_kind old = ql_kind lim) lim limits
      else sort_key limit_key (limits @ [lim]))"

definition set_limit ::
    "string \<Rightarrow> resource_kind \<Rightarrow> u64 \<Rightarrow> quota_ledger \<Rightarrow> (quota_error + unit) \<times> quota_ledger" where
  "set_limit tenant kind max_units l =
     (case quota_validate_text tenant ''tenant_id'' of
        Inl e \<Rightarrow> (Inl e, l)
      | Inr _ \<Rightarrow>
          if max_units = 0 \<or> 1000000000 < max_units
          then (Inl (QuotaInvalid ''limit is outside its bound''), l)
          else if max_units < used l tenant kind
          then (Inl (QuotaExceeded max_units (used l tenant kind) 0), l)
          else (Inr (), l\<lparr>ledger_limits :=
                  put_limit \<lparr>ql_tenant_id = tenant, ql_kind = kind, ql_max_units = max_units\<rparr> (ledger_limits l)\<rparr>))"

fun set_limits :: "quota_limit list \<Rightarrow> quota_ledger \<Rightarrow> (quota_error + unit) \<times> quota_ledger" where
  "set_limits [] l = (Inr (), l)"
| "set_limits (lim # lims) l =
     (case set_limit (ql_tenant_id lim) (ql_kind lim) (ql_max_units lim) l of
        (Inl e, l') \<Rightarrow> (Inl e, l')
      | (Inr _, l') \<Rightarrow> set_limits lims l')"

definition replace_limits :: "quota_limit list \<Rightarrow> quota_ledger \<Rightarrow> (quota_error + unit) \<times> quota_ledger" where
  "replace_limits limits l =
     (case set_limits limits \<lparr>ledger_limits = [], ledger_claims = ledger_claims l\<rparr> of
        (Inl e, _) \<Rightarrow> (Inl e, l)
      | (Inr _, candidate) \<Rightarrow> (Inr (), l\<lparr>ledger_limits := ledger_limits candidate\<rparr>))"

subsection \<open>Claims\<close>

definition over_limit :: "u64 \<Rightarrow> u64 \<Rightarrow> u64 \<Rightarrow> bool" where
  "over_limit used_units units max_units \<longleftrightarrow>
     is_none_or (checked_add used_units units) (\<lambda>total. max_units < total)"

definition track :: "quota_claim \<Rightarrow> quota_ledger \<Rightarrow> (quota_error + unit) \<times> quota_ledger" where
  "track c l =
     (case validate_claim c of
        Inl e \<Rightarrow> (Inl e, l)
      | Inr _ \<Rightarrow>
          (case find_claim l (qc_claim_id c) of
             Some existing \<Rightarrow> (if existing = c then Inr () else Inl ClaimConflict, l)
           | None \<Rightarrow>
               (let used_units = used l (qc_tenant_id c) (qc_kind c);
                    accepted = (Inr (), l\<lparr>ledger_claims := sort_key qc_claim_id (ledger_claims l @ [c])\<rparr>)
                in case find_limit l (qc_tenant_id c) (qc_kind c) of
                     None \<Rightarrow> accepted
                   | Some lim \<Rightarrow>
                       if over_limit used_units (qc_units c) (ql_max_units lim)
                       then (Inl (QuotaExceeded (ql_max_units lim) used_units (qc_units c)), l)
                       else accepted)))"

definition reserve :: "quota_claim \<Rightarrow> quota_ledger \<Rightarrow> (quota_error + unit) \<times> quota_ledger" where
  "reserve c l =
     (case validate_claim c of
        Inl e \<Rightarrow> (Inl e, l)
      | Inr _ \<Rightarrow>
          if list_ex (\<lambda>item. qc_claim_id item = qc_claim_id c) (ledger_claims l) then track c l
          else if find_limit l (qc_tenant_id c) (qc_kind c) = None then (Inl LimitMissing, l)
          else track c l)"

definition raise_claim :: "quota_claim \<Rightarrow> quota_claim \<Rightarrow> quota_ledger \<Rightarrow> quota_ledger" where
  "raise_claim existing c l =
     l\<lparr>ledger_claims := replace_first (\<lambda>item. qc_claim_id item = qc_claim_id c)
        (existing\<lparr>qc_units := qc_units c\<rparr>) (ledger_claims l)\<rparr>"

definition track_resource :: "quota_claim \<Rightarrow> quota_ledger \<Rightarrow> (quota_error + unit) \<times> quota_ledger" where
  "track_resource c l =
     (if qc_resource_id c = None
      then (Inl (QuotaInvalid ''resource claim lacks its exact reservation identity''), l)
      else (case validate_claim c of
        Inl e \<Rightarrow> (Inl e, l)
      | Inr _ \<Rightarrow>
          if qc_allocation_id c \<noteq> None then track c l
          else (case find_claim l (qc_claim_id c) of
             None \<Rightarrow> track c l
           | Some existing \<Rightarrow>
               if qc_tenant_id existing \<noteq> qc_tenant_id c \<or> qc_kind existing \<noteq> qc_kind c
                  \<or> qc_resource_id existing \<noteq> qc_resource_id c
               then (Inl ClaimConflict, l)
               else if qc_units c \<le> qc_units existing then (Inr (), l)
               else (let without = saturating_sub (used l (qc_tenant_id c) (qc_kind c)) (qc_units existing)
                     in case find_limit l (qc_tenant_id c) (qc_kind c) of
                          None \<Rightarrow> (Inr (), raise_claim existing c l)
                        | Some lim \<Rightarrow>
                            if over_limit without (qc_units c) (ql_max_units lim)
                            then (Inl (QuotaExceeded (ql_max_units lim) without (qc_units c)), l)
                            else (Inr (), raise_claim existing c l)))))"

definition retain_claims :: "(quota_claim \<Rightarrow> bool) \<Rightarrow> quota_ledger \<Rightarrow> quota_ledger" where
  "retain_claims P l = l\<lparr>ledger_claims := filter P (ledger_claims l)\<rparr>"

definition release_resource :: "resource_id \<Rightarrow> quota_ledger \<Rightarrow> quota_ledger" where
  "release_resource rid = retain_claims (\<lambda>c. qc_allocation_id c \<noteq> None \<or> qc_resource_id c \<noteq> Some rid)"

definition release_allocation :: "string \<Rightarrow> quota_ledger \<Rightarrow> quota_ledger" where
  "release_allocation aid = retain_claims (\<lambda>c. qc_allocation_id c \<noteq> Some aid)"

definition release :: "string \<Rightarrow> quota_ledger \<Rightarrow> (quota_error + bool) \<times> quota_ledger" where
  "release cid l =
     (case quota_validate_text cid ''claim_id'' of
        Inl e \<Rightarrow> (Inl e, l)
      | Inr _ \<Rightarrow>
          (let l' = retain_claims (\<lambda>c. qc_claim_id c \<noteq> cid) l
           in (Inr (length (ledger_claims l) \<noteq> length (ledger_claims l')), l')))"

subsection \<open>Restored ledgers\<close>

fun ascending_by :: "('a \<Rightarrow> 'b::linorder) \<Rightarrow> 'a list \<Rightarrow> bool" where
  "ascending_by f (x # y # zs) = (f x < f y \<and> ascending_by f (y # zs))"
| "ascending_by f _ = True"

fun check_claims ::
    "quota_claim list \<Rightarrow> (resource_id, bool) btmap \<Rightarrow> quota_ledger \<Rightarrow> quota_error + unit" where
  "check_claims [] seen checked = Inr ()"
| "check_claims (c # cs) seen checked =
     (let shared = (qc_allocation_id c \<noteq> None);
          (duplicate, seen') = (case qc_resource_id c of
            None \<Rightarrow> (False, seen)
          | Some rid \<Rightarrow> (is_some_and (bt_get seen rid) (\<lambda>old. \<not> old \<or> \<not> shared), bt_insert rid shared seen))
      in if duplicate then Inl (QuotaInvalid ''duplicate resource-backed quota claim'')
         else (case track c checked of
                 (Inl e, _) \<Rightarrow> Inl e
               | (Inr _, checked') \<Rightarrow> check_claims cs seen' checked'))"

definition quota_validate :: "quota_ledger \<Rightarrow> quota_error + unit" where
  "quota_validate l =
     (if \<not> ascending_by limit_key (ledger_limits l) \<or> \<not> ascending_by qc_claim_id (ledger_claims l)
      then Inl (QuotaInvalid ''checkpointed quota entries are duplicated or not canonical'')
      else (case set_limits (ledger_limits l) quota_ledger_new of
              (Inl e, _) \<Rightarrow> Inl e
            | (Inr _, checked) \<Rightarrow> check_claims (ledger_claims l) bt_empty checked))"

end
