(* ===== verification/CP_Quota_Props.thy ===== *)
theory CP_Quota_Props
  imports CP_Quota
begin

text \<open>
  Correctness of the quota ledger: its invariant, the exactness of its saturating sums, the abstract ledger it
  refines, and what a validated checkpoint means.
\<close>

subsection \<open>Sums without saturation\<close>

definition charged :: "quota_claim list \<Rightarrow> string \<times> resource_kind \<Rightarrow> nat" where
  "charged claims key = (\<Sum>c \<leftarrow> claims. if claim_key c = key then unat (qc_units c) else 0)"

lemma charged_simps [simp]:
  "charged [] key = 0"
  "charged (c # cs) key = (if claim_key c = key then unat (qc_units c) else 0) + charged cs key"
  "charged (cs @ ds) key = charged cs key + charged ds key"
  by (simp_all add: charged_def)

lemma charged_mset: "mset cs = mset ds \<Longrightarrow> charged cs key = charged ds key"
  by (simp add: charged_def flip: sum_mset_sum_list)

lemma charged_sort [simp]: "charged (sort_key f cs) key = charged cs key"
  by (rule charged_mset) simp

lemma charged_filter_le: "charged (filter P cs) key \<le> charged cs key"
  by (induction cs) auto

lemma fold_saturating:
  "unat (fold (\<lambda>c total. saturating_add total (qc_units c)) (filter (\<lambda>c. claim_key c = key) cs) a)
     = min (unat a + charged cs key) (2 ^ 64 - 1)"
proof (induction cs arbitrary: a)
  case Nil
  have "unat a < 2 ^ LENGTH(64)" by (rule unsigned_less)
  then show ?case by simp
next
  case (Cons c cs)
  then show ?case by (auto simp: saturating_add_unat)
qed

lemma used_unat: "unat (used l tenant kind) = min (charged (ledger_claims l) (tenant, kind)) (2 ^ 64 - 1)"
  using fold_saturating [of "(tenant, kind)" "ledger_claims l" 0] by (simp add: used_def claim_key_def)

subsection \<open>The invariant\<close>

definition limit_valid :: "quota_limit \<Rightarrow> bool" where
  "limit_valid lim \<longleftrightarrow> quota_validate_text (ql_tenant_id lim) ''tenant_id'' = Inr ()
     \<and> ql_max_units lim \<noteq> 0 \<and> ql_max_units lim \<le> 1000000000"

definition quota_wf :: "quota_ledger \<Rightarrow> bool" where
  "quota_wf l \<longleftrightarrow>
     sorted_wrt (<) (map limit_key (ledger_limits l)) \<and> (\<forall>lim \<in> set (ledger_limits l). limit_valid lim)
     \<and> sorted_wrt (<) (map qc_claim_id (ledger_claims l))
     \<and> (\<forall>c \<in> set (ledger_claims l). validate_claim c = Inr ())
     \<and> (\<forall>lim \<in> set (ledger_limits l). charged (ledger_claims l) (limit_key lim) \<le> unat (ql_max_units lim))"

lemma limit_bound: "limit_valid lim \<Longrightarrow> unat (ql_max_units lim) \<le> 1000000000"
  by (simp add: limit_valid_def word_le_nat_alt)

lemma validate_claim_units: "validate_claim c = Inr () \<Longrightarrow> 0 < unat (qc_units c)"
  by (auto simp: validate_claim_def unat_gt_0 split: sum.splits if_splits)

text \<open>The saturating tests decide the exact sums.\<close>

lemma used_within: "max_units \<le> 1000000000 \<Longrightarrow>
    max_units < used l tenant kind \<longleftrightarrow> unat max_units < charged (ledger_claims l) (tenant, kind)"
  by (auto simp: word_less_nat_alt word_le_nat_alt used_unat)

lemma over_limit_iff:
  assumes "max_units \<le> 1000000000" and "unat used_units = min n (2 ^ 64 - 1)" and "0 < unat units"
  shows "over_limit used_units units max_units \<longleftrightarrow> unat max_units < n + unat units"
proof (cases "unat used_units + unat units < 2 ^ 64")
  case True
  with assms(2,3) have "n < 2 ^ 64 - 1" by auto
  with True assms(1,2) show ?thesis
    by (auto simp: over_limit_def checked_add_def word_less_nat_alt word_le_nat_alt unat_word_ariths)
next
  case False
  with assms show ?thesis by (auto simp: over_limit_def checked_add_def word_le_nat_alt)
qed

subsection \<open>Sorted lists keyed by identity\<close>

lemma replace_first_map: "(\<And>x. P x \<Longrightarrow> f x = f y) \<Longrightarrow> map f (replace_first P y xs) = map f xs"
  by (induction xs) auto

lemma set_replace_first: "set (replace_first P y xs) \<subseteq> insert y (set xs)"
  by (induction xs) auto

lemma set_replace_key:
  "sorted_wrt (<) (map f xs) \<Longrightarrow> \<exists>x \<in> set xs. f x = f y \<Longrightarrow>
     set (replace_first (\<lambda>x. f x = f y) y xs) = insert y {x \<in> set xs. f x \<noteq> f y}" for f :: "'a \<Rightarrow> 'b::linorder"
  by (induction xs) auto

subsection \<open>Every operation keeps the invariant\<close>

lemma put_limit_set: "set (put_limit lim limits) \<subseteq> insert lim (set limits)"
  using set_replace_first [of _ lim limits] by (auto simp: put_limit_def)

lemma put_limit_sorted:
  "sorted_wrt (<) (map limit_key limits) \<Longrightarrow> sorted_wrt (<) (map limit_key (put_limit lim limits))"
proof (cases "list_ex (\<lambda>old. ql_tenant_id old = ql_tenant_id lim \<and> ql_kind old = ql_kind lim) limits")
  case True
  assume "sorted_wrt (<) (map limit_key limits)"
  with True show ?thesis by (simp add: put_limit_def replace_first_map limit_key_def)
next
  case False
  assume "sorted_wrt (<) (map limit_key limits)"
  with False show ?thesis
    by (auto simp: put_limit_def list_ex_iff limit_key_def intro!: sorted_insert_key)
qed

lemma set_limit_wf:
  assumes "quota_wf l" and "set_limit tenant kind max_units l = (res, l')"
  shows "quota_wf l' \<and> ledger_claims l' = ledger_claims l"
proof (cases "quota_validate_text tenant ''tenant_id'' = Inr () \<and> max_units \<noteq> 0 \<and> max_units \<le> 1000000000
    \<and> \<not> max_units < used l tenant kind")
  case True
  let ?lim = "\<lparr>ql_tenant_id = tenant, ql_kind = kind, ql_max_units = max_units\<rparr>"
  from True assms(2) have l': "l' = l\<lparr>ledger_limits := put_limit ?lim (ledger_limits l)\<rparr>"
    by (auto simp: set_limit_def not_less split: sum.splits if_splits)
  from True have "limit_valid ?lim" "charged (ledger_claims l) (limit_key ?lim) \<le> unat max_units"
    using used_within [of max_units l tenant kind] by (simp_all add: limit_valid_def limit_key_def)
  with assms(1) show ?thesis
    using put_limit_set [of ?lim "ledger_limits l"] put_limit_sorted [of "ledger_limits l" ?lim]
    by (auto simp: l' quota_wf_def)
next
  case False
  with assms show ?thesis by (auto simp: set_limit_def not_le split: sum.splits if_splits)
qed

lemma set_limits_wf:
  "quota_wf l \<Longrightarrow> set_limits limits l = (res, l') \<Longrightarrow> quota_wf l' \<and> ledger_claims l' = ledger_claims l"
proof (induction limits arbitrary: l)
  case (Cons lim lims)
  obtain r l1 where l1: "set_limit (ql_tenant_id lim) (ql_kind lim) (ql_max_units lim) l = (r, l1)" by fastforce
  from set_limit_wf [OF Cons.prems(1) l1] Cons.IH [of l1] Cons.prems(2) l1 show ?case
    by (cases r) auto
qed simp

lemma replace_limits_wf:
  assumes "quota_wf l" and "replace_limits limits l = (res, l')"
  shows "quota_wf l'"
proof -
  let ?l0 = "\<lparr>ledger_limits = [], ledger_claims = ledger_claims l\<rparr>"
  have "quota_wf ?l0" using assms(1) by (simp add: quota_wf_def)
  then have "quota_wf c \<and> ledger_claims c = ledger_claims l" if "set_limits limits ?l0 = (r, c)" for r c
    using set_limits_wf [OF _ that] by simp
  with assms show ?thesis
    by (auto simp: replace_limits_def quota_wf_def split: prod.splits sum.splits)
qed

lemma find_limit_Some: "find_limit l tenant kind = Some lim \<Longrightarrow> lim \<in> set (ledger_limits l) \<and> limit_key lim = (tenant, kind)"
  by (auto simp: find_limit_def limit_key_def dest!: find_SomeD)

lemma find_limit_iff:
  assumes "quota_wf l"
  shows "find_limit l tenant kind = Some lim \<longleftrightarrow> lim \<in> set (ledger_limits l) \<and> limit_key lim = (tenant, kind)"
proof -
  have "find_limit l tenant kind = find (\<lambda>lim. limit_key lim = (tenant, kind)) (ledger_limits l)"
    by (simp add: find_limit_def limit_key_def)
  with assms show ?thesis by (simp add: find_key_iff quota_wf_def)
qed

definition room_for :: "quota_ledger \<Rightarrow> quota_claim \<Rightarrow> bool" where
  "room_for l c \<longleftrightarrow> is_none_or (find_limit l (qc_tenant_id c) (qc_kind c))
     (\<lambda>lim. charged (ledger_claims l) (claim_key c) + unat (qc_units c) \<le> unat (ql_max_units lim))"

text \<open>Tracking a claim, case by case.\<close>

lemma track_cases:
  assumes "quota_wf l"
  shows "track c l =
    (if validate_claim c \<noteq> Inr () then (map_sum id (\<lambda>_. ()) (validate_claim c), l)
     else case find_claim l (qc_claim_id c) of
       Some old \<Rightarrow> (if old = c then Inr () else Inl ClaimConflict, l)
     | None \<Rightarrow>
         if room_for l c then (Inr (), l\<lparr>ledger_claims := sort_key qc_claim_id (ledger_claims l @ [c])\<rparr>)
         else (Inl (QuotaExceeded (ql_max_units (the (find_limit l (qc_tenant_id c) (qc_kind c))))
                 (used l (qc_tenant_id c) (qc_kind c)) (qc_units c)), l))"
proof (cases "validate_claim c")
  case (Inr u)
  have "over_limit (used l (qc_tenant_id c) (qc_kind c)) (qc_units c) (ql_max_units lim)
      \<longleftrightarrow> unat (ql_max_units lim) < charged (ledger_claims l) (claim_key c) + unat (qc_units c)"
    if "find_limit l (qc_tenant_id c) (qc_kind c) = Some lim" for lim
  proof (rule over_limit_iff)
    from find_limit_Some [OF that] assms show "ql_max_units lim \<le> 1000000000"
      by (auto simp: quota_wf_def limit_valid_def)
    show "0 < unat (qc_units c)" using Inr by (auto intro: validate_claim_units)
  qed (simp add: used_unat claim_key_def)
  with Inr show ?thesis
    by (auto simp: track_def Let_def room_for_def is_none_or_iff not_less split: option.splits)
qed (simp add: track_def)

lemma track_wf:
  assumes "quota_wf l" and "track c l = (res, l')"
  shows "quota_wf l'"
proof (cases "validate_claim c = Inr () \<and> find_claim l (qc_claim_id c) = None \<and> room_for l c")
  case True
  with assms have l': "l' = l\<lparr>ledger_claims := sort_key qc_claim_id (ledger_claims l @ [c])\<rparr>"
    by (simp add: track_cases)
  have "qc_claim_id c \<notin> qc_claim_id ` set (ledger_claims l)" using True by (auto simp: find_claim_def find_None_iff)
  then have "sorted_wrt (<) (map qc_claim_id (sort_key qc_claim_id (ledger_claims l @ [c])))"
    using assms(1) by (intro sorted_insert_key) (auto simp: quota_wf_def)
  moreover have "charged (ledger_claims l @ [c]) (limit_key lim) \<le> unat (ql_max_units lim)"
    if "lim \<in> set (ledger_limits l)" for lim
  proof (cases "limit_key lim = claim_key c")
    case same: True
    with that assms(1) have "find_limit l (qc_tenant_id c) (qc_kind c) = Some lim"
      by (simp add: find_limit_iff claim_key_def)
    with True same show ?thesis by (simp add: room_for_def is_none_or_iff)
  next
    case False
    with assms(1) that show ?thesis by (auto simp: quota_wf_def)
  qed
  ultimately show ?thesis using assms(1) True by (simp add: l' quota_wf_def)
next
  case False
  with assms show ?thesis by (auto simp: track_cases split: if_splits option.splits)
qed

lemma reserve_wf: "quota_wf l \<Longrightarrow> reserve c l = (res, l') \<Longrightarrow> quota_wf l'"
  by (auto simp: reserve_def split: sum.splits if_splits dest: track_wf)

lemma retain_claims_wf: "quota_wf l \<Longrightarrow> quota_wf (retain_claims P l)"
  by (auto simp: quota_wf_def retain_claims_def sorted_wrt_map sorted_wrt_filter
      intro: order_trans [OF charged_filter_le])

lemma charged_replace:
  assumes "find (\<lambda>item. qc_claim_id item = cid) claims = Some old" and "claim_key old = claim_key new"
  shows "charged (replace_first (\<lambda>item. qc_claim_id item = cid) new claims) key
    = (if claim_key new = key then charged claims key - unat (qc_units old) + unat (qc_units new) else charged claims key)"
  using assms
proof (induction claims)
  case (Cons c cs)
  have "unat (qc_units old) \<le> charged cs (claim_key old)" if "find (\<lambda>item. qc_claim_id item = cid) cs = Some old"
    using that by (induction cs) (auto split: if_splits)
  with Cons show ?case by (auto split: if_splits)
qed simp

lemma charged_member: "c \<in> set claims \<Longrightarrow> unat (qc_units c) \<le> charged claims (claim_key c)"
  by (induction claims) auto

lemma find_claim_iff:
  "quota_wf l \<Longrightarrow> find_claim l cid = Some c \<longleftrightarrow> c \<in> set (ledger_claims l) \<and> qc_claim_id c = cid"
  by (simp add: find_claim_def quota_wf_def find_key_iff)

lemma raise_claim_wf:
  assumes wf: "quota_wf l" and old: "find_claim l (qc_claim_id c) = Some old" and c: "validate_claim c = Inr ()"
    and same: "claim_key old = claim_key c" "qc_resource_id old = qc_resource_id c" "qc_allocation_id c = None"
    and room: "is_none_or (find_limit l (qc_tenant_id c) (qc_kind c)) (\<lambda>lim.
      charged (ledger_claims l) (claim_key c) - unat (qc_units old) + unat (qc_units c) \<le> unat (ql_max_units lim))"
  shows "quota_wf (raise_claim old c l)"
proof -
  let ?new = "old\<lparr>qc_units := qc_units c\<rparr>"
  let ?claims = "replace_first (\<lambda>item. qc_claim_id item = qc_claim_id c) ?new (ledger_claims l)"
  have id: "qc_claim_id old = qc_claim_id c" "old \<in> set (ledger_claims l)" using old wf by (auto simp: find_claim_iff)
  then have "validate_claim old = Inr ()" using wf by (simp add: quota_wf_def)
  moreover have "claim_identity_valid ?new = claim_identity_valid old"
    by (simp add: claim_identity_valid_def allocation_id_valid_def split: option.splits)
  ultimately have "validate_claim ?new = Inr ()"
    using c by (auto simp: validate_claim_def split: sum.splits if_splits)
  then have "\<forall>d \<in> set ?claims. validate_claim d = Inr ()"
    using wf set_replace_first [of _ ?new "ledger_claims l"] by (auto simp: quota_wf_def)
  moreover have "map qc_claim_id ?claims = map qc_claim_id (ledger_claims l)" using id by (simp add: replace_first_map)
  moreover have "charged ?claims (limit_key lim) \<le> unat (ql_max_units lim)" if lim: "lim \<in> set (ledger_limits l)" for lim
  proof -
    have "charged ?claims (limit_key lim) = (if claim_key c = limit_key lim
        then charged (ledger_claims l) (limit_key lim) - unat (qc_units old) + unat (qc_units c)
        else charged (ledger_claims l) (limit_key lim))"
      using charged_replace [of _ _ old ?new] old same(1) by (simp add: find_claim_def claim_key_def)
    with room find_limit_iff [OF wf] wf lim show ?thesis
      by (auto simp: is_none_or_iff quota_wf_def claim_key_def)
  qed
  ultimately show ?thesis using wf by (simp add: raise_claim_def quota_wf_def)
qed

lemma track_resource_wf:
  assumes "quota_wf l" and "track_resource c l = (res, l')"
  shows "quota_wf l'"
proof (cases "l' = l \<or> track c l = (res, l')")
  case False
  with assms(2) obtain old where old: "find_claim l (qc_claim_id c) = Some old" "l' = raise_claim old c l"
      "validate_claim c = Inr ()" "claim_key old = claim_key c" "qc_resource_id old = qc_resource_id c"
      "qc_allocation_id c = None"
    and fits: "is_none_or (find_limit l (qc_tenant_id c) (qc_kind c)) (\<lambda>lim. \<not> over_limit
      (saturating_sub (used l (qc_tenant_id c) (qc_kind c)) (qc_units old)) (qc_units c) (ql_max_units lim))"
    by (auto simp: track_resource_def Let_def claim_key_def is_none_or_iff split: sum.splits if_splits option.splits)
  have member: "old \<in> set (ledger_claims l)" using old(1) assms(1) by (simp add: find_claim_iff)
  have "charged (ledger_claims l) (claim_key c) - unat (qc_units old) + unat (qc_units c) \<le> unat (ql_max_units lim)"
    if lim: "find_limit l (qc_tenant_id c) (qc_kind c) = Some lim" for lim
  proof -
    have bound: "lim \<in> set (ledger_limits l)" "limit_key lim = claim_key c" "ql_max_units lim \<le> 1000000000"
      using find_limit_Some [OF lim] assms(1) by (auto simp: claim_key_def quota_wf_def limit_valid_def)
    then have small: "charged (ledger_claims l) (claim_key c) \<le> 1000000000"
      using assms(1) limit_bound by (fastforce simp: quota_wf_def)
    have "unat (qc_units old) \<le> charged (ledger_claims l) (claim_key c)"
      using charged_member [OF member] old(4) by simp
    moreover from this small
    have "unat (saturating_sub (used l (qc_tenant_id c) (qc_kind c)) (qc_units old))
        = charged (ledger_claims l) (claim_key c) - unat (qc_units old)"
      using used_unat [of l "qc_tenant_id c" "qc_kind c"]
      by (auto simp: saturating_sub_def word_le_nat_alt unat_sub_if' claim_key_def)
    ultimately show ?thesis
      using fits lim small over_limit_iff [OF bound(3) _ validate_claim_units [OF old(3)],
          of "saturating_sub (used l (qc_tenant_id c) (qc_kind c)) (qc_units old)"
             "charged (ledger_claims l) (claim_key c) - unat (qc_units old)"]
      by (simp add: is_none_or_iff)
  qed
  then show ?thesis unfolding old(2) using old assms(1) by (intro raise_claim_wf) (auto simp: is_none_or_iff)
qed (use assms track_wf in auto)

subsection \<open>The ledger as a state machine\<close>

inductive quota_step :: "quota_ledger \<Rightarrow> quota_ledger \<Rightarrow> bool" where
  set_limit_step: "set_limit tenant kind max_units l = (res, l') \<Longrightarrow> quota_step l l'"
| replace_limits_step: "replace_limits limits l = (res, l') \<Longrightarrow> quota_step l l'"
| track_step: "track c l = (res, l') \<Longrightarrow> quota_step l l'"
| reserve_step: "reserve c l = (res, l') \<Longrightarrow> quota_step l l'"
| track_resource_step: "track_resource c l = (res, l') \<Longrightarrow> quota_step l l'"
| release_step: "release cid l = (released, l') \<Longrightarrow> quota_step l l'"
| release_resource_step: "quota_step l (release_resource rid l)"
| release_allocation_step: "quota_step l (release_allocation aid l)"

abbreviation quota_reachable :: "quota_ledger \<Rightarrow> bool" where
  "quota_reachable l \<equiv> run_from quota_step quota_ledger_new l"

lemma release_wf: "quota_wf l \<Longrightarrow> release cid l = (res, l') \<Longrightarrow> quota_wf l'"
  by (auto simp: release_def Let_def split: sum.splits intro: retain_claims_wf)

lemma quota_step_wf: "quota_step l l' \<Longrightarrow> quota_wf l \<Longrightarrow> quota_wf l'"
  by (cases rule: quota_step.cases)
    (auto simp: release_resource_def release_allocation_def intro: retain_claims_wf
       dest: set_limit_wf replace_limits_wf track_wf reserve_wf track_resource_wf release_wf)

lemma quota_wf_new: "quota_wf quota_ledger_new"
  by (simp add: quota_wf_def quota_ledger_new_def)

interpretation quota: invariant_system "\<lambda>l. l = quota_ledger_new" quota_step quota_wf
  by unfold_locales (auto intro: quota_step_wf quota_wf_new)

lemma quota_reachable_wf: "quota_reachable l \<Longrightarrow> quota_wf l"
  by (rule quota.inv_reachable) simp

subsection \<open>What a validated ledger is\<close>

definition shares_exclusively :: "quota_claim list \<Rightarrow> bool" where
  "shares_exclusively claims \<longleftrightarrow>
     sorted_wrt (\<lambda>c d. qc_resource_id c \<noteq> None \<and> qc_resource_id c = qc_resource_id d
       \<longrightarrow> qc_allocation_id c \<noteq> None \<and> qc_allocation_id d \<noteq> None) claims"

lemma ascending_by_iff: "ascending_by f xs \<longleftrightarrow> sorted_wrt (<) (map f xs)"
proof (induction f xs rule: ascending_by.induct)
  case (1 f x y zs)
  then show ?case by (auto intro: less_trans)
qed auto

lemma set_limits_ascending:
  assumes "sorted_wrt (<) (map limit_key (done @ lims))"
  shows "(\<forall>lim \<in> set lims. limit_valid lim) \<and>
      set_limits lims \<lparr>ledger_limits = done, ledger_claims = []\<rparr>
        = (Inr (), \<lparr>ledger_limits = done @ lims, ledger_claims = []\<rparr>)
    \<or> \<not> (\<forall>lim \<in> set lims. limit_valid lim) \<and>
      (\<exists>e. fst (set_limits lims \<lparr>ledger_limits = done, ledger_claims = []\<rparr>) = Inl e)"
  using assms
proof (induction lims arbitrary: "done")
  case (Cons lim lims)
  have sorted: "sorted_wrt (<) (map limit_key ((done @ [lim]) @ lims))" using Cons.prems by simp
  have "limit_key old \<noteq> limit_key lim" if "old \<in> set done" for old
    using Cons.prems that by (auto simp: sorted_wrt_append)
  then have "\<not> list_ex (\<lambda>old. ql_tenant_id old = ql_tenant_id lim \<and> ql_kind old = ql_kind lim) done"
    by (auto simp: list_ex_iff limit_key_def)
  moreover have "sort_key limit_key (done @ [lim]) = done @ [lim]"
    using Cons.prems by (intro sort_key_append_last) (simp add: sorted_wrt_append)
  ultimately have "put_limit lim done = done @ [lim]" by (simp add: put_limit_def)
  then have "set_limit (ql_tenant_id lim) (ql_kind lim) (ql_max_units lim) \<lparr>ledger_limits = done, ledger_claims = []\<rparr>
      = (Inr (), \<lparr>ledger_limits = done @ [lim], ledger_claims = []\<rparr>)" if "limit_valid lim"
    using that by (cases lim) (simp add: set_limit_def limit_valid_def used_def not_less)
  moreover have "\<exists>e. set_limit (ql_tenant_id lim) (ql_kind lim) (ql_max_units lim) \<lparr>ledger_limits = done, ledger_claims = []\<rparr>
      = (Inl e, \<lparr>ledger_limits = done, ledger_claims = []\<rparr>)" if "\<not> limit_valid lim"
    using that by (auto simp: set_limit_def limit_valid_def not_le split: sum.splits)
  ultimately show ?case using Cons.IH [OF sorted] by (cases "limit_valid lim") auto
qed simp

abbreviation ledger :: "quota_limit list \<Rightarrow> quota_claim list \<Rightarrow> quota_ledger" where
  "ledger limits claims \<equiv> \<lparr>ledger_limits = limits, ledger_claims = claims\<rparr>"

lemma quota_wf_prefix: "quota_wf (ledger limits (done @ cs)) \<Longrightarrow> quota_wf (ledger limits done)"
  by (fastforce simp: quota_wf_def sorted_wrt_append)

lemma track_ascending:
  assumes "quota_wf (ledger limits done)" and "sorted_wrt (<) (map qc_claim_id (done @ [c]))"
  shows "if quota_wf (ledger limits (done @ [c])) then track c (ledger limits done) = (Inr (), ledger limits (done @ [c]))
    else (\<exists>e. fst (track c (ledger limits done)) = Inl e)"
proof -
  have fresh: "find_claim (ledger limits done) (qc_claim_id c) = None"
    using assms(2) by (auto simp: find_claim_def find_None_iff sorted_wrt_append)
  have "quota_wf (ledger limits (done @ [c])) \<longleftrightarrow> validate_claim c = Inr () \<and> room_for (ledger limits done) c"
  proof
    assume wf: "quota_wf (ledger limits (done @ [c]))"
    then show "validate_claim c = Inr () \<and> room_for (ledger limits done) c"
      by (fastforce simp: room_for_def is_none_or_iff quota_wf_def claim_key_def dest: find_limit_Some)
  next
    assume "validate_claim c = Inr () \<and> room_for (ledger limits done) c"
    with fresh have "track c (ledger limits done) = (Inr (), ledger limits (done @ [c]))"
      using sort_key_append_last [OF assms(2)] by (simp add: track_cases [OF assms(1)])
    with assms(1) show "quota_wf (ledger limits (done @ [c]))" by (rule track_wf)
  qed
  with fresh show ?thesis
    using sort_key_append_last [OF assms(2)]
    by (cases "validate_claim c") (auto simp: track_cases [OF assms(1)])
qed

lemma shares_exclusively_snoc:
  "shares_exclusively (done @ [c]) \<longleftrightarrow> shares_exclusively done \<and> (\<forall>d \<in> set done.
     qc_resource_id d \<noteq> None \<and> qc_resource_id d = qc_resource_id c \<longrightarrow> qc_allocation_id d \<noteq> None \<and> qc_allocation_id c \<noteq> None)"
  unfolding shares_exclusively_def sorted_wrt_append by simp

definition seen_of :: "quota_claim list \<Rightarrow> (resource_id, bool) btmap \<Rightarrow> bool" where
  "seen_of claims seen \<longleftrightarrow>
     (\<forall>rid. bt_get seen rid = None \<longleftrightarrow> (\<forall>c \<in> set claims. qc_resource_id c \<noteq> Some rid))
     \<and> (\<forall>c \<in> set claims. \<forall>rid. qc_resource_id c = Some rid \<longrightarrow> bt_get seen rid = Some (qc_allocation_id c \<noteq> None))"

lemma seen_of_step:
  fixes c :: quota_claim
  assumes "seen_of done seen" and "shares_exclusively done"
  defines "shared \<equiv> qc_allocation_id c \<noteq> None"
  shows "qc_resource_id c = None \<Longrightarrow> seen_of (done @ [c]) seen \<and> shares_exclusively (done @ [c])"
    and "qc_resource_id c = Some rid \<Longrightarrow>
      (is_some_and (bt_get seen rid) (\<lambda>old. \<not> old \<or> \<not> shared) \<longleftrightarrow> \<not> shares_exclusively (done @ [c]))
      \<and> (shares_exclusively (done @ [c]) \<longrightarrow> seen_of (done @ [c]) (bt_insert rid shared seen))"
proof -
  show "qc_resource_id c = None \<Longrightarrow> seen_of (done @ [c]) seen \<and> shares_exclusively (done @ [c])"
    using assms by (auto simp: seen_of_def shares_exclusively_snoc)
  assume rid: "qc_resource_id c = Some rid"
  have "is_some_and (bt_get seen rid) (\<lambda>old. \<not> old \<or> \<not> shared) \<longleftrightarrow> \<not> shares_exclusively (done @ [c])"
  proof (cases "\<exists>d \<in> set done. qc_resource_id d = Some rid")
    case True
    then obtain d where d: "d \<in> set done" "qc_resource_id d = Some rid" by blast
    with assms(1) obtain old where seen: "bt_get seen rid = Some old" by (auto simp: seen_of_def)
    then have old: "\<forall>d \<in> set done. qc_resource_id d = Some rid \<longrightarrow> old = (qc_allocation_id d \<noteq> None)"
      using assms(1) unfolding seen_of_def by fastforce
    have "shares_exclusively (done @ [c]) \<longleftrightarrow> old \<and> shared"
      unfolding shares_exclusively_snoc shared_def rid using old d assms(2) by (cases old) auto
    then show ?thesis by (simp add: seen is_some_and_iff)
  next
    case False
    then have "bt_get seen rid = None" using assms(1) by (auto simp: seen_of_def)
    with False assms rid show ?thesis by (auto simp: is_some_and_iff shares_exclusively_snoc)
  qed
  moreover have "seen_of (done @ [c]) (bt_insert rid shared seen)" if "shares_exclusively (done @ [c])"
    using that assms(1) rid unfolding shared_def
    by (auto simp: seen_of_def bt_get_insert shares_exclusively_snoc)
  ultimately show "(is_some_and (bt_get seen rid) (\<lambda>old. \<not> old \<or> \<not> shared) \<longleftrightarrow> \<not> shares_exclusively (done @ [c]))
      \<and> (shares_exclusively (done @ [c]) \<longrightarrow> seen_of (done @ [c]) (bt_insert rid shared seen))" by blast
qed

lemma check_claims_iff:
  assumes "quota_wf (ledger limits done)" and "sorted_wrt (<) (map qc_claim_id (done @ cs))"
    and "seen_of done seen" and "shares_exclusively done"
  shows "check_claims cs seen (ledger limits done) = Inr () \<longleftrightarrow>
    quota_wf (ledger limits (done @ cs)) \<and> shares_exclusively (done @ cs)"
  using assms
proof (induction cs arbitrary: seen "done")
  case (Cons c cs)
  have split: "done @ c # cs = (done @ [c]) @ cs" by simp
  have sorted: "sorted_wrt (<) (map qc_claim_id (done @ [c]))" "sorted_wrt (<) (map qc_claim_id ((done @ [c]) @ cs))"
    using Cons.prems(2) by (simp_all add: sorted_wrt_append)
  have shares: "shares_exclusively (done @ c # cs) \<Longrightarrow> shares_exclusively (done @ [c])"
    by (auto simp: shares_exclusively_def sorted_wrt_append)
  have wf: "quota_wf (ledger limits (done @ c # cs)) \<Longrightarrow> quota_wf (ledger limits (done @ [c]))"
    unfolding split by (rule quota_wf_prefix)
  let ?seen = "case qc_resource_id c of None \<Rightarrow> seen | Some rid \<Rightarrow> bt_insert rid (qc_allocation_id c \<noteq> None) seen"
  have next_seen: "seen_of (done @ [c]) ?seen" if "shares_exclusively (done @ [c])"
    using that seen_of_step [OF Cons.prems(3,4), of c] by (cases "qc_resource_id c") simp_all
  have "check_claims (c # cs) seen (ledger limits done) =
      (if \<not> shares_exclusively (done @ [c]) then Inl (QuotaInvalid ''duplicate resource-backed quota claim'')
       else case track c (ledger limits done) of (Inl e, _) \<Rightarrow> Inl e | (Inr _, checked') \<Rightarrow> check_claims cs ?seen checked')"
    using seen_of_step [OF Cons.prems(3,4), of c] by (cases "qc_resource_id c") (simp_all add: Let_def split: prod.split sum.split)
  then show ?case
    using track_ascending [OF Cons.prems(1) sorted(1)] Cons.IH [OF _ sorted(2) next_seen] shares wf
    by (cases "track c (ledger limits done)"; cases "shares_exclusively (done @ [c])";
        cases "quota_wf (ledger limits (done @ [c]))") auto
qed (simp add: shares_exclusively_def)

text \<open>
  C35: A restored ledger is accepted exactly when its limits and claims are canonical and valid, the exact sums of
  its claims exceed no limit, and every resource has either one exclusive claim or only allocated ones.
\<close>

theorem validate_accepts_iff:
  "quota_validate l = Inr () \<longleftrightarrow> quota_wf l \<and> shares_exclusively (ledger_claims l)"
proof -
  let ?sorted = "sorted_wrt (<) (map limit_key (ledger_limits l)) \<and> sorted_wrt (<) (map qc_claim_id (ledger_claims l))"
  let ?valid = "\<forall>lim \<in> set (ledger_limits l). limit_valid lim"
  have l: "ledger (ledger_limits l) (ledger_claims l) = l" by simp
  have "quota_validate l = Inr () \<longleftrightarrow> ?sorted \<and> ?valid \<and>
      check_claims (ledger_claims l) bt_empty (ledger (ledger_limits l) []) = Inr ()"
    using set_limits_ascending [of "[]" "ledger_limits l"]
    by (auto simp: quota_validate_def ascending_by_iff quota_ledger_new_def split: prod.split sum.split)
  moreover have "check_claims (ledger_claims l) bt_empty (ledger (ledger_limits l) []) = Inr () \<longleftrightarrow>
      quota_wf l \<and> shares_exclusively (ledger_claims l)" if "?sorted" "?valid"
  proof -
    have "quota_wf (ledger (ledger_limits l) [])" using that by (simp add: quota_wf_def)
    from check_claims_iff [OF this, of "ledger_claims l" bt_empty, unfolded append_Nil l] that show ?thesis
      by (simp add: seen_of_def shares_exclusively_def)
  qed
  ultimately show ?thesis by (auto simp: quota_wf_def)
qed

subsection \<open>The abstract ledger\<close>

record quota_book =
  book_limits :: "string \<times> resource_kind \<rightharpoonup> nat"
  book_claims :: "string \<rightharpoonup> quota_claim"

definition book :: "quota_ledger \<Rightarrow> quota_book" where
  "book l = \<lparr>book_limits = (\<lambda>(tenant, kind). map_option (\<lambda>lim. unat (ql_max_units lim)) (find_limit l tenant kind)),
     book_claims = find_claim l\<rparr>"

definition book_sum :: "quota_book \<Rightarrow> string \<times> resource_kind \<Rightarrow> nat" where
  "book_sum b key = (\<Sum>c | c \<in> ran (book_claims b) \<and> claim_key c = key. unat (qc_units c))"

definition book_accepts :: "quota_book \<Rightarrow> quota_claim \<Rightarrow> bool" where
  "book_accepts b c \<longleftrightarrow> validate_claim c = Inr () \<and>
     (case book_claims b (qc_claim_id c) of
        Some old \<Rightarrow> old = c
      | None \<Rightarrow> \<forall>units. book_limits b (claim_key c) = Some units \<longrightarrow> book_sum b (claim_key c) + unat (qc_units c) \<le> units)"

lemma charged_sum: "distinct claims \<Longrightarrow> charged claims key = (\<Sum>c | c \<in> set claims \<and> claim_key c = key. unat (qc_units c))"
proof (induction claims)
  case (Cons c cs)
  have "{d. d \<in> set (c # cs) \<and> claim_key d = key} = (if claim_key c = key then insert c else id) {d. d \<in> set cs \<and> claim_key d = key}"
    by auto
  with Cons show ?case by simp
qed simp

lemma book_sum_charged: "quota_wf l \<Longrightarrow> book_sum (book l) key = charged (ledger_claims l) key"
proof -
  assume wf: "quota_wf l"
  then have "distinct (ledger_claims l)" by (auto simp: quota_wf_def strict_sorted_iff distinct_map)
  moreover have "ran (find_claim l) = set (ledger_claims l)" using wf by (auto simp: ran_def find_claim_iff)
  ultimately show ?thesis by (simp add: book_sum_def book_def charged_sum)
qed

lemma book_limits_eq:
  "quota_wf l \<Longrightarrow> (\<forall>units. book_limits (book l) (claim_key c) = Some units
     \<longrightarrow> book_sum (book l) (claim_key c) + unat (qc_units c) \<le> units) \<longleftrightarrow> room_for l c"
  by (auto simp: book_sum_charged) (auto simp: book_def room_for_def is_none_or_iff claim_key_def)

lemma book_claims_eq [simp]: "book_claims (book l) = find_claim l"
  by (simp add: book_def)

lemma book_accepts_iff: "quota_wf l \<Longrightarrow> book_accepts (book l) c \<longleftrightarrow> fst (track c l) = Inr ()"
  by (cases "validate_claim c"; cases "find_claim l (qc_claim_id c)")
    (simp_all add: track_cases book_accepts_def book_limits_eq)

lemma find_limit_cong: "ledger_limits l = ledger_limits l' \<Longrightarrow> find_limit l = find_limit l'"
  by (simp add: find_limit_def fun_eq_iff)

lemma book_track:
  assumes wf: "quota_wf l"
  shows "book (snd (track c l)) = (if book_accepts (book l) c
    then (book l)\<lparr>book_claims := (find_claim l)(qc_claim_id c \<mapsto> c)\<rparr> else book l)"
proof (cases "book_accepts (book l) c")
  case True
  show ?thesis
  proof (cases "find_claim l (qc_claim_id c)")
    case (Some old)
    with True wf have "snd (track c l) = l" "old = c" by (auto simp: book_accepts_def track_cases)
    with True Some show ?thesis by (simp add: book_def fun_upd_idem)
  next
    case None
    let ?l = "l\<lparr>ledger_claims := sort_key qc_claim_id (ledger_claims l @ [c])\<rparr>"
    from None True wf have "validate_claim c = Inr ()" "room_for l c" by (simp_all add: book_accepts_def book_limits_eq)
    with None wf have track: "track c l = (Inr (), ?l)" by (simp add: track_cases)
    then have wf': "quota_wf ?l" by (rule track_wf [OF wf])
    have fresh: "qc_claim_id d \<noteq> qc_claim_id c" if "d \<in> set (ledger_claims l)" for d
      using None that by (auto simp: find_claim_def find_None_iff)
    have "find_claim ?l = (find_claim l)(qc_claim_id c \<mapsto> c)"
      by (rule option_map_eqI) (auto simp: find_claim_iff [OF wf'] find_claim_iff [OF wf] fresh)
    moreover have "find_limit ?l = find_limit l" by (rule find_limit_cong) simp
    ultimately show ?thesis using True track by (simp add: book_def)
  qed
next
  case False
  then have "snd (track c l) = l"
    using wf by (cases "validate_claim c") (auto simp: book_accepts_def book_limits_eq track_cases split: option.splits)
  with False show ?thesis by simp
qed

lemma retain_claims_claims [simp]: "ledger_claims (retain_claims P l) = filter P (ledger_claims l)"
  by (simp add: retain_claims_def)

lemma book_retain:
  assumes wf: "quota_wf l"
  shows "book (retain_claims P l) = (book l)\<lparr>book_claims := (\<lambda>cid. Option.bind (find_claim l cid) (\<lambda>c. if P c then Some c else None))\<rparr>"
proof -
  have "find_claim (retain_claims P l) = (\<lambda>cid. Option.bind (find_claim l cid) (\<lambda>c. if P c then Some c else None))"
    by (rule option_map_eqI)
      (auto simp: find_claim_iff [OF wf] find_claim_iff [OF retain_claims_wf [OF wf]] bind_eq_Some_conv)
  moreover have "find_limit (retain_claims P l) = find_limit l" by (rule find_limit_cong) (simp add: retain_claims_def)
  ultimately show ?thesis by (simp add: book_def)
qed

lemma put_limit_members:
  assumes "sorted_wrt (<) (map limit_key limits)"
  shows "set (put_limit lim limits) = insert lim {old \<in> set limits. limit_key old \<noteq> limit_key lim}"
proof -
  have P: "(\<lambda>old. ql_tenant_id old = ql_tenant_id lim \<and> ql_kind old = ql_kind lim) = (\<lambda>old. limit_key old = limit_key lim)"
    by (simp add: limit_key_def fun_eq_iff)
  show ?thesis
    unfolding put_limit_def P list_ex_iff using set_replace_key [OF assms, of lim] by auto
qed

lemma book_set_limit:
  fixes tenant :: string and kind :: resource_kind and units :: u64
  assumes wf: "quota_wf l"
  defines "accepted \<equiv> limit_valid \<lparr>ql_tenant_id = tenant, ql_kind = kind, ql_max_units = units\<rparr>
    \<and> book_sum (book l) (tenant, kind) \<le> unat units"
  shows "(fst (set_limit tenant kind units l) = Inr () \<longleftrightarrow> accepted)
    \<and> book (snd (set_limit tenant kind units l)) = (if accepted
        then (book l)\<lparr>book_limits := (book_limits (book l))((tenant, kind) \<mapsto> unat units)\<rparr> else book l)"
proof -
  let ?lim = "\<lparr>ql_tenant_id = tenant, ql_kind = kind, ql_max_units = units\<rparr>"
  let ?l = "l\<lparr>ledger_limits := put_limit ?lim (ledger_limits l)\<rparr>"
  have "accepted \<longleftrightarrow> quota_validate_text tenant ''tenant_id'' = Inr () \<and> units \<noteq> 0 \<and> \<not> 1000000000 < units
      \<and> \<not> units < used l tenant kind"
    unfolding accepted_def using used_within [of units l tenant kind]
    by (auto simp: limit_valid_def book_sum_charged [OF wf] not_less)
  then have res: "fst (set_limit tenant kind units l) = Inr () \<longleftrightarrow> accepted"
    "snd (set_limit tenant kind units l) = (if accepted then ?l else l)"
    by (auto simp: set_limit_def split: sum.split)
  have "book ?l = (book l)\<lparr>book_limits := (book_limits (book l))((tenant, kind) \<mapsto> unat units)\<rparr>" if "accepted"
  proof -
    have wf': "quota_wf ?l" using set_limit_wf [OF wf, of tenant kind units] res that by (metis prod.collapse)
    have "find_limit ?l t k = (if (t, k) = (tenant, kind) then Some ?lim else find_limit l t k)" for t k
    proof (rule option_eqI)
      fix x
      show "(find_limit ?l t k = Some x) = ((if (t, k) = (tenant, kind) then Some ?lim else find_limit l t k) = Some x)"
        using wf put_limit_members [of "ledger_limits l" ?lim]
        by (auto simp: find_limit_iff [OF wf'] find_limit_iff [OF wf] quota_wf_def limit_key_def)
    qed
    then show ?thesis by (auto simp: book_def find_claim_def fun_eq_iff)
  qed
  with res show ?thesis by simp
qed

subsection \<open>Properties\<close>

definition robots_quota :: quota_ledger where
  "robots_quota = snd (track \<lparr>qc_claim_id = ''lease-1'', qc_tenant_id = ''fleet'', qc_kind = Space, qc_units = 2,
       qc_resource_id = None, qc_allocation_id = None\<rparr>
     (snd (set_limit ''fleet'' Space 5 quota_ledger_new)))"

lemma quota_run_intros:
  "quota_reachable l \<Longrightarrow> quota_reachable (snd (track c l))"
  "quota_reachable l \<Longrightarrow> quota_reachable (snd (set_limit tenant kind units l))"
  by (metis quota_step.intros(1,3) run_step prod.collapse)+

lemma robots_quota_facts:
  "quota_reachable robots_quota"
  "find_limit robots_quota ''fleet'' Space = Some \<lparr>ql_tenant_id = ''fleet'', ql_kind = Space, ql_max_units = 5\<rparr>"
  "used robots_quota ''fleet'' Space = 2"
proof -
  show "quota_reachable robots_quota"
    unfolding robots_quota_def by (intro quota_run_intros run_refl)
qed code_simp+

text \<open>
  C8: No tenant ever holds more than its limit: in every reachable ledger the saturating sum of a limited category is
  the exact sum of its claims, that sum is within the limit, and the reported remainder is exactly what is left.
\<close>

theorem quota_never_exceeded:
  assumes "quota_reachable l" and "find_limit l tenant kind = Some lim"
  shows "unat (used l tenant kind) = (\<Sum>c | c \<in> set (ledger_claims l) \<and> claim_key c = (tenant, kind). unat (qc_units c))
    \<and> used l tenant kind \<le> ql_max_units lim
    \<and> (\<exists>left. remaining l tenant kind = Some left \<and> unat left + unat (used l tenant kind) = unat (ql_max_units lim))"
proof -
  have wf: "quota_wf l" using assms(1) by (rule quota_reachable_wf)
  then have lim: "charged (ledger_claims l) (tenant, kind) \<le> unat (ql_max_units lim)" "unat (ql_max_units lim) \<le> 1000000000"
    using find_limit_Some [OF assms(2)] limit_bound by (auto simp: quota_wf_def)
  then have exact: "unat (used l tenant kind) = charged (ledger_claims l) (tenant, kind)" by (simp add: used_unat)
  have "distinct (ledger_claims l)" using wf by (auto simp: quota_wf_def strict_sorted_iff distinct_map)
  with exact lim assms(2) show ?thesis
    by (auto simp: charged_sum word_le_nat_alt remaining_def saturating_sub_def unat_sub_if')
qed

theorem quota_never_exceeded_witness:
  "used robots_quota ''fleet'' Space = 2
   \<and> (\<exists>left. remaining robots_quota ''fleet'' Space = Some left \<and> unat left + unat (2 :: u64) = unat (5 :: u64))"
  using quota_never_exceeded [OF robots_quota_facts(1,2)] by (simp add: robots_quota_facts(3))

text \<open>
  C9: The ledger implements the book of limits and claims: an accepted claim, limit or release changes exactly that
  entry of the abstract maps, acceptance is decided by the exact sum of the tenant's claims, and a refusal changes
  nothing.
\<close>

theorem ledger_refines_book:
  fixes tenant :: string and kind :: resource_kind and units :: u64
  assumes "quota_reachable l"
  defines "limit_ok \<equiv> limit_valid \<lparr>ql_tenant_id = tenant, ql_kind = kind, ql_max_units = units\<rparr>
    \<and> book_sum (book l) (tenant, kind) \<le> unat units"
  shows "(fst (track c l) = Inr () \<longleftrightarrow> book_accepts (book l) c)
    \<and> book (snd (track c l)) = (if book_accepts (book l) c
        then (book l)\<lparr>book_claims := (book_claims (book l))(qc_claim_id c \<mapsto> c)\<rparr> else book l)
    \<and> (fst (set_limit tenant kind units l) = Inr () \<longleftrightarrow> limit_ok)
    \<and> book (snd (set_limit tenant kind units l)) = (if limit_ok
        then (book l)\<lparr>book_limits := (book_limits (book l))((tenant, kind) \<mapsto> unat units)\<rparr> else book l)
    \<and> book (snd (release cid l)) = (if quota_validate_text cid ''claim_id'' = Inr ()
        then (book l)\<lparr>book_claims := (book_claims (book l))(cid := None)\<rparr> else book l)
    \<and> book (release_allocation aid l) = (book l)\<lparr>book_claims := (\<lambda>cid. Option.bind (book_claims (book l) cid)
        (\<lambda>c. if qc_allocation_id c \<noteq> Some aid then Some c else None))\<rparr>"
proof -
  have wf: "quota_wf l" using assms(1) by (rule quota_reachable_wf)
  have "(\<lambda>k. Option.bind (find_claim l k) (\<lambda>c. if qc_claim_id c \<noteq> cid then Some c else None)) = (find_claim l)(cid := None)"
    by (rule option_map_eqI) (auto simp: bind_eq_Some_conv find_claim_iff [OF wf])
  then have "book (snd (release cid l)) = (if quota_validate_text cid ''claim_id'' = Inr ()
      then (book l)\<lparr>book_claims := (book_claims (book l))(cid := None)\<rparr> else book l)"
    by (auto simp: release_def Let_def book_retain [OF wf] split: sum.split)
  then show ?thesis
    unfolding limit_ok_def
    using book_accepts_iff [OF wf] book_track [OF wf] book_set_limit [OF wf] book_retain [OF wf]
    by (simp add: release_allocation_def)
qed

theorem ledger_refines_book_witness:
  "book (snd (release ''lease-1'' robots_quota)) = (book robots_quota)\<lparr>book_claims := (find_claim robots_quota)(''lease-1'' := None)\<rparr>"
proof -
  have "quota_validate_text ''lease-1'' ''claim_id'' = Inr ()" by code_simp
  with ledger_refines_book [OF robots_quota_facts(1), where cid = "''lease-1''"] show ?thesis by simp
qed

end
