(* ===== verification/RG_Topology.thy ===== *)
theory RG_Topology
  imports RG_Resource
begin

text \<open>
  Deployment geometry and calendars, \<open>core/domain/src/resource_topology.rs\<close>: footprints with signed 64-bit bounds
  in millimetres, openings in the Controller clock, and the registry that declares them.
\<close>

subsection \<open>Signed arithmetic\<close>

type_synonym i64 = "64 word"

definition i64_range :: "int \<Rightarrow> bool" where
  "i64_range x \<longleftrightarrow> - (2 ^ 63) \<le> x \<and> x < 2 ^ 63"

definition i64_checked_add :: "i64 \<Rightarrow> i64 \<Rightarrow> i64 option" where
  "i64_checked_add a b = (if i64_range (sint a + sint b) then Some (a + b) else None)"

definition i64_checked_sub :: "i64 \<Rightarrow> i64 \<Rightarrow> i64 option" where
  "i64_checked_sub a b = (if i64_range (sint a - sint b) then Some (a - b) else None)"

definition i64_from :: "u32 \<Rightarrow> i64" where
  "i64_from x = ucast x"

lemma sint_i64_from [simp]: "sint (i64_from x) = int (unat x)"
proof -
  have "uint x < 2 ^ LENGTH(32)" by (rule unsigned_less)
  then have "uint x < 2 ^ 63" by simp
  moreover have "- (2 ^ 63) \<le> uint x" by (rule order_trans [of _ 0]) simp_all
  ultimately have "signed_take_bit 63 (uint x) = uint x" by (intro signed_take_bit_int_eq_self)
  then show ?thesis by (simp add: i64_from_def signed_ucast_eq)
qed

lemma sint_add_exact: "i64_range (sint a + sint b) \<Longrightarrow> sint (a + b) = sint a + sint b" for a b :: i64
  by (simp add: i64_range_def signed_take_bit_int_eq_self sint_word_ariths)

lemma sint_sub_exact: "i64_range (sint a - sint b) \<Longrightarrow> sint (a - b) = sint a - sint b" for a b :: i64
  by (simp add: i64_range_def signed_take_bit_int_eq_self sint_word_ariths)

subsection \<open>Footprints\<close>

record resource_time_window =
  tw_starts_at :: timestamp
  tw_ends_at :: timestamp

type_synonym mm3 = "i64 \<times> i64 \<times> i64"

record space_footprint =
  fp_conflict_domain :: string
  fp_frame :: string
  fp_anchor_revision :: string
  fp_lower_mm :: mm3
  fp_upper_mm :: mm3
  fp_clearance_mm :: u32

definition axes :: "'a \<times> 'a \<times> 'a \<Rightarrow> 'a list" where
  "axes v = (case v of (x, y, z) \<Rightarrow> [x, y, z])"

definition footprint_validate :: "space_footprint \<Rightarrow> string + unit" where
  "footprint_validate f =
     (if list_ex (\<lambda>value. trim_is_empty value \<or> 256 < length value)
           [fp_conflict_domain f, fp_frame f, fp_anchor_revision f]
         \<or> list_ex (\<lambda>(lower, upper).
             upper \<le>s lower
             \<or> i64_checked_sub lower (i64_from (fp_clearance_mm f)) = None
             \<or> i64_checked_add upper (i64_from (fp_clearance_mm f)) = None)
           (zip (axes (fp_lower_mm f)) (axes (fp_upper_mm f)))
      then Inl ''resource footprint reference, bounds or clearance is invalid'' else Inr ())"

definition footprint_conflicts :: "space_footprint \<Rightarrow> space_footprint \<Rightarrow> bool" where
  "footprint_conflicts f other =
     (if fp_conflict_domain f \<noteq> fp_conflict_domain other then False
      else if footprint_validate f \<noteq> Inr () \<or> footprint_validate other \<noteq> Inr ()
              \<or> fp_frame f \<noteq> fp_frame other \<or> fp_anchor_revision f \<noteq> fp_anchor_revision other then True
      else list_all (\<lambda>((lower, upper), (other_lower, other_upper)).
             lower - i64_from (fp_clearance_mm f) \<le>s other_upper + i64_from (fp_clearance_mm other)
             \<and> other_lower - i64_from (fp_clearance_mm other) \<le>s upper + i64_from (fp_clearance_mm f))
           (zip (zip (axes (fp_lower_mm f)) (axes (fp_upper_mm f)))
                (zip (axes (fp_lower_mm other)) (axes (fp_upper_mm other)))))"

subsection \<open>Entries\<close>

record topology_entry =
  te_resource_id :: resource_id
  te_node_id :: node_id
  te_kind :: resource_kind
  te_space :: "space_footprint option"
  te_time_domain :: "string option"
  te_windows :: "resource_time_window list"

fun windows_check :: "timestamp option \<Rightarrow> resource_time_window list \<Rightarrow> string + unit" where
  "windows_check previous [] = Inr ()"
| "windows_check previous (w # ws) =
     (if tw_ends_at w \<le> tw_starts_at w \<or> is_some_and previous (\<lambda>e. tw_starts_at w \<le> e)
      then Inl ''resource windows overlap or lack canonical positive bounds''
      else windows_check (Some (tw_ends_at w)) ws)"

definition entry_kind_invalid :: "topology_entry \<Rightarrow> bool" where
  "entry_kind_invalid e \<longleftrightarrow>
     (case te_kind e of
        Compute \<Rightarrow> True
      | Space \<Rightarrow> te_space e = None \<or> te_time_domain e \<noteq> None
      | Time \<Rightarrow> te_space e \<noteq> None \<or> te_windows e = []
          \<or> is_none_or (te_time_domain e) (\<lambda>d. trim_is_empty d \<or> 256 < length d))"

definition topology_entry_validate :: "topology_entry \<Rightarrow> string + unit" where
  "topology_entry_validate e =
     (if 128 < length (te_windows e) \<or> entry_kind_invalid e
      then Inl ''resource topology kind, footprint or calendar is invalid''
      else (case te_space e of
              None \<Rightarrow> windows_check None (te_windows e)
            | Some space \<Rightarrow>
                (case footprint_validate space of
                   Inl err \<Rightarrow> Inl err
                 | Inr _ \<Rightarrow> windows_check None (te_windows e))))"

definition permits_interval :: "topology_entry \<Rightarrow> timestamp \<Rightarrow> timestamp option \<Rightarrow> bool" where
  "permits_interval e start finish =
     (if topology_entry_validate e \<noteq> Inr () \<or> is_some_and finish (\<lambda>f. f \<le> start) then False
      else te_windows e = []
        \<or> is_some_and finish (\<lambda>f. list_ex (\<lambda>w. tw_starts_at w \<le> start \<and> f \<le> tw_ends_at w) (te_windows e)))"

definition entry_conflicts :: "topology_entry \<Rightarrow> topology_entry \<Rightarrow> bool" where
  "entry_conflicts e other \<longleftrightarrow>
     te_resource_id e = te_resource_id other
     \<or> (case (te_time_domain e, te_time_domain other) of (Some l, Some r) \<Rightarrow> l = r | _ \<Rightarrow> False)
     \<or> (case (te_space e, te_space other) of (Some l, Some r) \<Rightarrow> footprint_conflicts l r | _ \<Rightarrow> False)"

subsection \<open>The registry\<close>

record topology_registry =
  tg_schema :: string
  tg_registry_id :: string
  tg_revision :: u64
  tg_clock :: string
  tg_stop_timeout_ms :: u64
  tg_booking_duration_ms :: u64
  tg_booking_max_age_ms :: u64
  tg_resources :: "topology_entry list"

fun registry_entries_check ::
    "(string, string \<times> string) btmap \<Rightarrow> resource_id option \<Rightarrow> topology_entry list \<Rightarrow> string + unit" where
  "registry_entries_check references previous [] = Inr ()"
| "registry_entries_check references previous (e # es) =
     (case topology_entry_validate e of
        Inl err \<Rightarrow> Inl err
      | Inr _ \<Rightarrow>
          if is_some_and previous (\<lambda>old. te_resource_id e \<le> old)
          then Inl ''resource topology identities are duplicated or not canonical''
          else (case te_space e of
                  None \<Rightarrow> registry_entries_check references (Some (te_resource_id e)) es
                | Some space \<Rightarrow>
                    (let reference = (fp_frame space, fp_anchor_revision space)
                     in if is_some_and (bt_get references (fp_conflict_domain space)) (\<lambda>old. old \<noteq> reference)
                        then Inl ''one spatial conflict domain cannot hide incompatible frames''
                        else registry_entries_check (bt_insert (fp_conflict_domain space) reference references)
                               (Some (te_resource_id e)) es)))"

definition topology_registry_validate :: "topology_registry \<Rightarrow> string + unit" where
  "topology_registry_validate r =
     (if tg_schema r \<noteq> ''roboguide.resource-topology/v0.1'' \<or> tg_clock r \<noteq> ''controller_receive_time''
         \<or> trim_is_empty (tg_registry_id r) \<or> 128 < length (tg_registry_id r) \<or> tg_revision r = 0
         \<or> tg_stop_timeout_ms r = 0 \<or> 3600000 < tg_stop_timeout_ms r
         \<or> tg_booking_duration_ms r = 0 \<or> 3600000 < tg_booking_duration_ms r
         \<or> tg_booking_max_age_ms r < tg_booking_duration_ms r \<or> 604800000 < tg_booking_max_age_ms r
         \<or> 4096 < length (tg_resources r)
      then Inl ''resource topology schema, clock, identity or bounds are invalid''
      else registry_entries_check bt_empty None (tg_resources r))"

definition registry_entry :: "topology_registry \<Rightarrow> resource_id \<Rightarrow> topology_entry option" where
  "registry_entry r rid = find (\<lambda>e. te_resource_id e = rid) (tg_resources r)"

record topology_reservation =
  tv_revision :: u64
  tv_entry :: topology_entry
  tv_admitted_at :: timestamp
  tv_planned_end :: "timestamp option"

subsection \<open>Exclusion is symmetric and exact\<close>

definition inflated_overlap :: "space_footprint \<Rightarrow> space_footprint \<Rightarrow> nat \<Rightarrow> bool" where
  "inflated_overlap f g axis \<longleftrightarrow>
     sint (axes (fp_lower_mm f) ! axis) - int (unat (fp_clearance_mm f))
       \<le> sint (axes (fp_upper_mm g) ! axis) + int (unat (fp_clearance_mm g))
     \<and> sint (axes (fp_lower_mm g) ! axis) - int (unat (fp_clearance_mm g))
       \<le> sint (axes (fp_upper_mm f) ! axis) + int (unat (fp_clearance_mm f))"

lemma axes_nth [simp]: "axes (x, y, z) ! 0 = x" "axes (x, y, z) ! Suc 0 = y" "axes (x, y, z) ! 2 = z"
  by (simp_all add: axes_def)

lemma footprint_validate_sint:
  assumes "footprint_validate f = Inr ()" and "axis < 3"
  shows "sint (axes (fp_lower_mm f) ! axis) < sint (axes (fp_upper_mm f) ! axis)"
    and "sint (axes (fp_lower_mm f) ! axis - i64_from (fp_clearance_mm f))
      = sint (axes (fp_lower_mm f) ! axis) - int (unat (fp_clearance_mm f))"
    and "sint (axes (fp_upper_mm f) ! axis + i64_from (fp_clearance_mm f))
      = sint (axes (fp_upper_mm f) ! axis) + int (unat (fp_clearance_mm f))"
proof -
  let ?lower = "axes (fp_lower_mm f) ! axis" and ?upper = "axes (fp_upper_mm f) ! axis"
  have lengths: "length (axes (fp_lower_mm f)) = 3" "length (axes (fp_upper_mm f)) = 3"
    by (simp_all add: axes_def split: prod.split)
  then have "(?lower, ?upper) \<in> set (zip (axes (fp_lower_mm f)) (axes (fp_upper_mm f)))"
    using assms(2) by (auto simp: in_set_zip)
  then have ok: "\<not> ?upper \<le>s ?lower" "i64_checked_sub ?lower (i64_from (fp_clearance_mm f)) \<noteq> None"
    "i64_checked_add ?upper (i64_from (fp_clearance_mm f)) \<noteq> None"
    using assms(1) by (auto simp: footprint_validate_def list_ex_iff split: if_splits)
  then show "sint ?lower < sint ?upper" by (simp add: word_sle_eq)
  from ok(2) have "i64_range (sint ?lower - sint (i64_from (fp_clearance_mm f)))"
    by (simp add: i64_checked_sub_def split: if_splits)
  then show "sint (?lower - i64_from (fp_clearance_mm f)) = sint ?lower - int (unat (fp_clearance_mm f))"
    by (simp add: sint_sub_exact)
  from ok(3) have "i64_range (sint ?upper + sint (i64_from (fp_clearance_mm f)))"
    by (simp add: i64_checked_add_def split: if_splits)
  then show "sint (?upper + i64_from (fp_clearance_mm f)) = sint ?upper + int (unat (fp_clearance_mm f))"
    by (simp add: sint_add_exact)
qed

lemma list_all_axes:
  "list_all P (zip (zip (axes a) (axes b)) (zip (axes c) (axes d))) \<longleftrightarrow>
     (\<forall>axis < 3. P ((axes a ! axis, axes b ! axis), (axes c ! axis, axes d ! axis)))"
  by (cases a; cases b; cases c; cases d) (auto simp: axes_def less_Suc_eq numeral_3_eq_3)

lemma footprint_conflicts_iff:
  "footprint_conflicts f g \<longleftrightarrow> fp_conflict_domain f = fp_conflict_domain g
     \<and> (footprint_validate f \<noteq> Inr () \<or> footprint_validate g \<noteq> Inr () \<or> fp_frame f \<noteq> fp_frame g
        \<or> fp_anchor_revision f \<noteq> fp_anchor_revision g \<or> (\<forall>axis < 3. inflated_overlap f g axis))"
  by (cases "footprint_validate f = Inr () \<and> footprint_validate g = Inr ()")
    (auto simp: footprint_conflicts_def list_all_axes inflated_overlap_def word_sle_eq footprint_validate_sint)

lemma footprint_conflicts_sym: "footprint_conflicts f g = footprint_conflicts g f"
  by (auto simp: footprint_conflicts_iff inflated_overlap_def)

lemma entry_conflicts_sym: "entry_conflicts e f = entry_conflicts f e"
  by (auto simp: entry_conflicts_def footprint_conflicts_sym split: option.split)

definition within :: "space_footprint \<Rightarrow> int \<times> int \<times> int \<Rightarrow> bool" where
  "within f p \<longleftrightarrow> (\<forall>axis < 3. sint (axes (fp_lower_mm f) ! axis) \<le> axes p ! axis
     \<and> axes p ! axis \<le> sint (axes (fp_upper_mm f) ! axis))"

definition lane :: "i64 \<Rightarrow> space_footprint" where
  "lane x = \<lparr>fp_conflict_domain = ''hall'', fp_frame = ''map'', fp_anchor_revision = ''r1'', fp_lower_mm = (x, 0, 0),
     fp_upper_mm = (x + 1000, 1000, 2000), fp_clearance_mm = 250\<rparr>"

text \<open>
  C38: Space that does not conflict is separated: two footprints of one conflict domain that are admitted together
  are in the same frame and revision, exclude each other in neither direction, and any point of one keeps, along some
  axis, more than the two clearances from any point of the other; the 64-bit sums never wrap.
\<close>

theorem clearance_kept:
  assumes "\<not> footprint_conflicts f g" and "fp_conflict_domain f = fp_conflict_domain g"
    and "within f p" and "within g q"
  shows "\<not> footprint_conflicts g f \<and> fp_frame f = fp_frame g \<and> fp_anchor_revision f = fp_anchor_revision g
    \<and> (\<exists>axis < 3. int (unat (fp_clearance_mm f)) + int (unat (fp_clearance_mm g)) < \<bar>axes p ! axis - axes q ! axis\<bar>)"
proof -
  from assms(1,2) obtain axis where axis: "axis < 3" "\<not> inflated_overlap f g axis"
    and same: "fp_frame f = fp_frame g" "fp_anchor_revision f = fp_anchor_revision g"
    by (auto simp: footprint_conflicts_iff)
  moreover have "sint (axes (fp_lower_mm f) ! axis) \<le> axes p ! axis" "axes p ! axis \<le> sint (axes (fp_upper_mm f) ! axis)"
    "sint (axes (fp_lower_mm g) ! axis) \<le> axes q ! axis" "axes q ! axis \<le> sint (axes (fp_upper_mm g) ! axis)"
    using assms(3,4) axis(1) by (auto simp: within_def)
  ultimately have "int (unat (fp_clearance_mm f)) + int (unat (fp_clearance_mm g)) < \<bar>axes p ! axis - axes q ! axis\<bar>"
    by (auto simp: inflated_overlap_def)
  with axis(1) same assms(1) show ?thesis by (auto simp: footprint_conflicts_sym [of g f])
qed

theorem clearance_kept_witness:
  "\<not> footprint_conflicts (lane 0) (lane 1501)
   \<and> (\<exists>axis < 3. int (unat (fp_clearance_mm (lane 0))) + int (unat (fp_clearance_mm (lane 1501)))
        < \<bar>axes (1000, 0, 0) ! axis - axes (1501, 0, 0) ! axis\<bar>)"
proof -
  have "\<not> footprint_conflicts (lane 0) (lane 1501)" by code_simp
  moreover have "within (lane 0) (1000, 0, 0)" "within (lane 1501) (1501, 0, 0)"
    by (auto simp: within_def lane_def axes_def less_Suc_eq numeral_3_eq_3)
  moreover have "fp_conflict_domain (lane 0) = fp_conflict_domain (lane 1501)" by (simp add: lane_def)
  ultimately show ?thesis using clearance_kept by blast
qed

end
