(* ===== verification/RG_Decision.thy ===== *)
theory RG_Decision
  imports RG_State_Model RG_Resource
begin

text \<open>
  Admission of State evidence to a decision, \<open>core/domain/src/decision_policy.rs\<close>, and the planning costs derived
  from it, \<open>core/domain/src/scheduling_cost.rs\<close>. Two JSON values are equal when their canonical encodings are; the
  decoding of a cost payload by \<open>serde_json\<close> is a parameter.
\<close>

subsection \<open>Orders of the evidence identities\<close>

definition source_rank :: "state_source \<Rightarrow> nat \<times> string \<times> string" where
  "source_rank s = (case s of NodeSource node system \<Rightarrow> (0, node, system) | RoboGuideSource component \<Rightarrow> (1, component, []))"

definition semantic_rank :: "state_semantic \<Rightarrow> nat" where
  "semantic_rank s = (case s of Desired \<Rightarrow> 0 | Committed \<Rightarrow> 1 | Reported \<Rightarrow> 2 | Observed \<Rightarrow> 3 | Derived \<Rightarrow> 4 | Belief \<Rightarrow> 5)"

datatype decision_kind =
  BeliefFusion | Schedule | Match | Commit | Bind | Rebind | Readiness | Satisfaction

definition decision_rank :: "decision_kind \<Rightarrow> nat" where
  "decision_rank d = (case d of BeliefFusion \<Rightarrow> 0 | Schedule \<Rightarrow> 1 | Match \<Rightarrow> 2 | Commit \<Rightarrow> 3 | Bind \<Rightarrow> 4
     | Rebind \<Rightarrow> 5 | Readiness \<Rightarrow> 6 | Satisfaction \<Rightarrow> 7)"

instantiation state_source :: linorder
begin

definition less_eq_state_source :: "state_source \<Rightarrow> state_source \<Rightarrow> bool" where
  "less_eq_state_source a b \<longleftrightarrow> source_rank a \<le> source_rank b"

definition less_state_source :: "state_source \<Rightarrow> state_source \<Rightarrow> bool" where
  "less_state_source a b \<longleftrightarrow> source_rank a < source_rank b"

instance
proof
  fix a b :: state_source
  assume "a \<le> b" "b \<le> a"
  then have "source_rank a = source_rank b" unfolding less_eq_state_source_def by (rule order_antisym)
  then show "a = b" unfolding source_rank_def by (simp split: state_source.splits)
qed (auto simp: less_eq_state_source_def less_state_source_def not_le intro: order_trans)

end

instantiation state_semantic :: linorder
begin

definition less_eq_state_semantic :: "state_semantic \<Rightarrow> state_semantic \<Rightarrow> bool" where
  "less_eq_state_semantic a b \<longleftrightarrow> semantic_rank a \<le> semantic_rank b"

definition less_state_semantic :: "state_semantic \<Rightarrow> state_semantic \<Rightarrow> bool" where
  "less_state_semantic a b \<longleftrightarrow> semantic_rank a < semantic_rank b"

instance
proof
  fix a b :: state_semantic
  assume "a \<le> b" "b \<le> a"
  then have "semantic_rank a = semantic_rank b" unfolding less_eq_state_semantic_def by (rule order_antisym)
  then show "a = b" unfolding semantic_rank_def by (simp split: state_semantic.splits)
qed (auto simp: less_eq_state_semantic_def less_state_semantic_def)

end

instantiation decision_kind :: linorder
begin

definition less_eq_decision_kind :: "decision_kind \<Rightarrow> decision_kind \<Rightarrow> bool" where
  "less_eq_decision_kind a b \<longleftrightarrow> decision_rank a \<le> decision_rank b"

definition less_decision_kind :: "decision_kind \<Rightarrow> decision_kind \<Rightarrow> bool" where
  "less_decision_kind a b \<longleftrightarrow> decision_rank a < decision_rank b"

instance
proof
  fix a b :: decision_kind
  assume "a \<le> b" "b \<le> a"
  then have "decision_rank a = decision_rank b" unfolding less_eq_decision_kind_def by (rule order_antisym)
  then show "a = b" unfolding decision_rank_def by (simp split: decision_kind.splits)
qed (auto simp: less_eq_decision_kind_def less_decision_kind_def)

end

subsection \<open>Policies\<close>

datatype conflict_reducer = RequireEquivalent | HighestConfidence

datatype evidence_disposition =
  EvAccepted | EvUnknown | EvStale | EvLowConfidence | EvUnauthorized | EvConflict

record evidence_evaluation =
  ev_disposition :: evidence_disposition
  ev_record :: "state_record option"

definition evidence_rejected :: "evidence_disposition \<Rightarrow> evidence_evaluation" where
  "evidence_rejected d = \<lparr>ev_disposition = d, ev_record = None\<rparr>"

datatype decision_policy_error = InvalidField string | InvalidBound string | EmptyAdmissionSet string

record decision_policy =
  dp_schema :: string
  dp_policy_id :: string
  dp_revision :: u64
  dp_object :: state_object_ref
  dp_channel_id :: string
  dp_allowed_semantics :: "state_semantic btset"
  dp_allowed_sources :: "state_source btset"
  dp_max_age_ms :: u64
  dp_min_confidence_millionths :: "u32 option"
  dp_allowed_decisions :: "decision_kind btset"
  dp_reducer :: conflict_reducer
  dp_payload_schema :: "string option"

definition policy_schema_v0_1 :: string where
  "policy_schema_v0_1 = ''roboguide.decision-evidence-policy/v0.1''"

definition decision_policy_new ::
    "string \<Rightarrow> u64 \<Rightarrow> state_object_ref \<Rightarrow> string \<Rightarrow> state_semantic btset \<Rightarrow> state_source btset \<Rightarrow> u64 \<Rightarrow> u32 option
       \<Rightarrow> decision_kind btset \<Rightarrow> conflict_reducer \<Rightarrow> decision_policy_error + decision_policy" where
  "decision_policy_new policy_id revision object channel_id semantics sources max_age min_confidence decisions reducer =
     (if revision = 0 then Inl (InvalidBound ''revision'')
      else if trim_is_empty policy_id then Inl (InvalidField ''policy_id'')
      else if trim_is_empty channel_id then Inl (InvalidField ''channel_id'')
      else if bt_len semantics = 0 then Inl (EmptyAdmissionSet ''allowed_semantics'')
      else if bt_len sources = 0 then Inl (EmptyAdmissionSet ''allowed_sources'')
      else if bt_len decisions = 0 then Inl (EmptyAdmissionSet ''allowed_decisions'')
      else if max_age = 0 then Inl (InvalidBound ''max_age_ms'')
      else if is_some_and min_confidence (\<lambda>c. 1000000 < c) then Inl (InvalidBound ''min_confidence_millionths'')
      else Inr \<lparr>dp_schema = policy_schema_v0_1, dp_policy_id = policy_id, dp_revision = revision, dp_object = object,
             dp_channel_id = channel_id, dp_allowed_semantics = semantics, dp_allowed_sources = sources,
             dp_max_age_ms = max_age, dp_min_confidence_millionths = min_confidence,
             dp_allowed_decisions = decisions, dp_reducer = reducer, dp_payload_schema = None\<rparr>)"

definition decision_policy_validate :: "decision_policy \<Rightarrow> decision_policy_error + unit" where
  "decision_policy_validate p =
     (if dp_schema p \<noteq> policy_schema_v0_1 then Inl (InvalidField ''schema'')
      else if is_some_and (dp_payload_schema p) trim_is_empty then Inl (InvalidField ''payload_schema'')
      else if 64 < bt_len (dp_allowed_sources p) then Inl (InvalidBound ''allowed_sources'')
      else (case decision_policy_new (dp_policy_id p) (dp_revision p) (dp_object p) (dp_channel_id p)
                   (dp_allowed_semantics p) (dp_allowed_sources p) (dp_max_age_ms p)
                   (dp_min_confidence_millionths p) (dp_allowed_decisions p) (dp_reducer p) of
              Inl e \<Rightarrow> Inl e
            | Inr _ \<Rightarrow> Inr ()))"

subsection \<open>Evaluation\<close>

definition evidence_matches :: "decision_policy \<Rightarrow> state_record \<Rightarrow> bool" where
  "evidence_matches p r \<longleftrightarrow>
     sk_object (sr_key r) = dp_object p \<and> sk_channel_id (sr_key r) = dp_channel_id p
     \<and> bts_member (sk_semantic (sr_key r)) (dp_allowed_semantics p)
     \<and> bts_member (sk_source (sr_key r)) (dp_allowed_sources p)
     \<and> is_none_or (dp_payload_schema p) (\<lambda>schema. schema = sr_payload_schema r)"

definition evidence_fresh :: "decision_policy \<Rightarrow> timestamp \<Rightarrow> state_record \<Rightarrow> bool" where
  "evidence_fresh p now r \<longleftrightarrow>
     sr_received_at r \<le> now \<and> \<not> state_record_is_stale_at r now
     \<and> saturating_sub now (sr_received_at r) \<le> dp_max_age_ms p"

definition evidence_confident :: "decision_policy \<Rightarrow> state_record \<Rightarrow> bool" where
  "evidence_confident p r \<longleftrightarrow>
     is_none_or (dp_min_confidence_millionths p)
       (\<lambda>minimum. is_some_and (sr_confidence_millionths r) (\<lambda>c. minimum \<le> c))"

definition confidence_or_default :: "state_record \<Rightarrow> u32" where
  "confidence_or_default r = (case sr_confidence_millionths r of None \<Rightarrow> 0 | Some c \<Rightarrow> c)"

text \<open>\<open>Iterator::max_by\<close> keeps the later of two elements that compare equal.\<close>

definition latest_key :: "state_record \<Rightarrow> timestamp \<times> u64 \<times> state_source" where
  "latest_key r = (sr_received_at r, sr_sequence r, sk_source (sr_key r))"

definition later_of :: "state_record \<Rightarrow> state_record \<Rightarrow> state_record" where
  "later_of best r = (if latest_key r < latest_key best then best else r)"

definition select_latest :: "state_record list \<Rightarrow> state_record" where
  "select_latest records = foldl later_of (hd records) (tl records)"

definition admit_equal :: "state_record list \<Rightarrow> evidence_evaluation" where
  "admit_equal records =
     (if list_ex (\<lambda>r. sr_value r \<noteq> sr_value (hd records)) records then evidence_rejected EvConflict
      else \<lparr>ev_disposition = EvAccepted, ev_record = Some (select_latest records)\<rparr>)"

definition highest_confidence :: "state_record list \<Rightarrow> u32" where
  "highest_confidence records = fold (\<lambda>r m. max m (confidence_or_default r)) records 0"

definition reduced_records :: "conflict_reducer \<Rightarrow> state_record list \<Rightarrow> state_record list" where
  "reduced_records reducer records =
     (case reducer of
        RequireEquivalent \<Rightarrow> records
      | HighestConfidence \<Rightarrow> filter (\<lambda>r. confidence_or_default r = highest_confidence records) records)"

definition evaluate :: "decision_policy \<Rightarrow> state_record list \<Rightarrow> decision_kind \<Rightarrow> timestamp \<Rightarrow> evidence_evaluation" where
  "evaluate p records decision now =
     (if decision_policy_validate p \<noteq> Inr () \<or> \<not> bts_member decision (dp_allowed_decisions p)
      then evidence_rejected EvUnauthorized
      else let matching = filter (evidence_matches p) records in
        if matching = [] then evidence_rejected EvUnknown
        else let fresh = filter (evidence_fresh p now) matching in
          if fresh = [] then evidence_rejected EvStale
          else let confident = filter (evidence_confident p) fresh in
            if confident = [] then evidence_rejected EvLowConfidence
            else admit_equal (reduced_records (dp_reducer p) confident))"

subsection \<open>Planning costs\<close>

definition scheduling_metrics_schema :: string where
  "scheduling_metrics_schema = ''roboguide.scheduling-metrics/v0.1''"

record scheduling_metrics =
  sm_schema_version :: string
  sm_queue_delay_ms :: "u64 option"
  sm_travel_distance_um :: "u64 option"
  sm_traffic_delay_ms :: "u64 option"
  sm_load_millionths :: "u64 option"
  sm_gpu_memory_bytes :: "u64 option"

datatype scheduling_metric = QueueDelayMs | TravelDistanceUm | TrafficDelayMs | LoadMillionths | GpuMemoryBytes

record cost_term =
  ctm_metric :: scheduling_metric
  ctm_weight :: u32
  ctm_units_per_cost :: u64
  ctm_maximum :: u64
  ctm_prefer_higher :: bool

record cost_policy =
  cp_tenant_id :: string
  cp_enabled :: bool
  cp_node_id :: node_id
  cp_policy :: decision_policy
  cp_terms :: "cost_term list"

datatype cost_failure = InvalidPayload | MetricUnavailable | MetricOutOfRange

definition checked_mul :: "u64 \<Rightarrow> u64 \<Rightarrow> u64 option" where
  "checked_mul a b = (if unat a * unat b < 2 ^ 64 then Some (a * b) else None)"

lemma checked_mul_code [code]:
  "checked_mul a b = (if uint a * uint b < 18446744073709551616 then Some (a * b) else None)"
proof -
  have "unat a * unat b < 2 ^ 64 \<longleftrightarrow> int (unat a * unat b) < int (2 ^ 64)" by (simp only: of_nat_less_iff)
  then show ?thesis by (simp add: checked_mul_def)
qed

definition add_cost :: "u64 \<Rightarrow> u32 \<Rightarrow> u64 \<Rightarrow> u64 option" where
  "add_cost normalized weight acc =
     Option.bind (checked_mul normalized (ucast weight)) (\<lambda>cost. checked_add acc cost)"

fun cost_terms_check :: "scheduling_metric list \<Rightarrow> u64 \<Rightarrow> cost_term list \<Rightarrow> string + unit" where
  "cost_terms_check metrics maximum_score [] = Inr ()"
| "cost_terms_check metrics maximum_score (t # ts) =
     (if ctm_metric t \<in> set metrics \<or> ctm_weight t = 0 \<or> 1000000 < ctm_weight t \<or> ctm_units_per_cost t = 0
         \<or> ctm_maximum t = 0 \<or> 1125899906842624 < ctm_maximum t
      then Inl ''scheduling cost metric, weight, unit or bound is invalid''
      else (case add_cost (ctm_maximum t div ctm_units_per_cost t) (ctm_weight t) maximum_score of
              None \<Rightarrow> Inl ''scheduling cost aggregate exceeds its integer bound''
            | Some score \<Rightarrow> cost_terms_check (ctm_metric t # metrics) score ts))"

text \<open>The text of a rejected evidence policy, the \<open>Display\<close> of its error.\<close>

fun policy_error_text :: "decision_policy_error \<Rightarrow> string" where
  "policy_error_text (InvalidField field) = ''decision policy '' @ field @ '' is blank''"
| "policy_error_text (InvalidBound field) = ''decision policy '' @ field @ '' is invalid''"
| "policy_error_text (EmptyAdmissionSet field) = ''decision policy '' @ field @ '' must not be empty''"

definition cost_policy_validate :: "cost_policy \<Rightarrow> string + unit" where
  "cost_policy_validate p =
     (case decision_policy_validate (cp_policy p) of
        Inl e \<Rightarrow> Inl (policy_error_text e)
      | Inr _ \<Rightarrow>
          if trim_is_empty (cp_tenant_id p) \<or> 128 < length (cp_tenant_id p)
             \<or> 128 < length (dp_policy_id (cp_policy p))
             \<or> dp_payload_schema (cp_policy p) \<noteq> Some scheduling_metrics_schema
             \<or> dp_allowed_decisions (cp_policy p) \<noteq> bts_of_list [Schedule]
             \<or> cp_terms p = [] \<or> 5 < length (cp_terms p)
             \<or> list_ex (\<lambda>source. state_source_node_id source \<noteq> Some (cp_node_id p))
                 (bt_keys (dp_allowed_sources (cp_policy p)))
          then Inl ''scheduling cost source, tenant or explicit interpretation is invalid''
          else cost_terms_check [] 0 (cp_terms p))"

fun metric_value :: "scheduling_metric \<Rightarrow> scheduling_metrics \<Rightarrow> u64 option" where
  "metric_value QueueDelayMs m = sm_queue_delay_ms m"
| "metric_value TravelDistanceUm m = sm_travel_distance_um m"
| "metric_value TrafficDelayMs m = sm_traffic_delay_ms m"
| "metric_value LoadMillionths m = sm_load_millionths m"
| "metric_value GpuMemoryBytes m = sm_gpu_memory_bytes m"

definition normalized_cost :: "cost_term \<Rightarrow> u64 \<Rightarrow> u64" where
  "normalized_cost t value =
     (if ctm_prefer_higher t then ctm_maximum t - value else value) div ctm_units_per_cost t"

fun score_terms :: "scheduling_metrics \<Rightarrow> u64 \<Rightarrow> cost_term list \<Rightarrow> cost_failure + u64" where
  "score_terms m acc [] = Inr acc"
| "score_terms m acc (t # ts) =
     (case metric_value (ctm_metric t) m of
        None \<Rightarrow> Inl MetricUnavailable
      | Some value \<Rightarrow>
          if ctm_maximum t < value then Inl MetricOutOfRange
          else (case add_cost (normalized_cost t value) (ctm_weight t) acc of
                  None \<Rightarrow> Inl MetricOutOfRange
                | Some acc' \<Rightarrow> score_terms m acc' ts))"

definition score :: "cost_policy \<Rightarrow> scheduling_metrics \<Rightarrow> cost_failure + u64" where
  "score p m =
     (if sm_schema_version m \<noteq> scheduling_metrics_schema then Inl InvalidPayload
      else score_terms m 0 (cp_terms p))"

record cost_assessment =
  ca_registry_digest :: string
  ca_policy :: cost_policy
  ca_disposition :: evidence_disposition
  ca_failure :: "cost_failure option"
  ca_record :: "state_record option"
  ca_score :: "u64 option"
  ca_decided_at :: timestamp

definition scored :: "(string \<Rightarrow> scheduling_metrics option) \<Rightarrow> cost_policy \<Rightarrow> state_record \<Rightarrow> cost_failure + u64" where
  "scored decode p r = (case decode (sr_value r) of None \<Rightarrow> Inl InvalidPayload | Some m \<Rightarrow> score p m)"

definition ok_of :: "'e + 'a \<Rightarrow> 'a option" where
  "ok_of x = (case x of Inl _ \<Rightarrow> None | Inr a \<Rightarrow> Some a)"

definition err_of :: "'e + 'a \<Rightarrow> 'e option" where
  "err_of x = (case x of Inl e \<Rightarrow> Some e | Inr _ \<Rightarrow> None)"

definition cost_assessment_validate :: "(string \<Rightarrow> scheduling_metrics option) \<Rightarrow> cost_assessment \<Rightarrow> string + unit" where
  "cost_assessment_validate decode a =
     (case cost_policy_validate (ca_policy a) of
        Inl e \<Rightarrow> Inl e
      | Inr _ \<Rightarrow>
          if \<not> cp_enabled (ca_policy a) \<or> length (ca_registry_digest a) \<noteq> 71
             \<or> \<not> is_some_and (strip_prefix ''sha256:'' (ca_registry_digest a)) (list_all is_lower_hex)
          then Inl ''scheduling cost original policy identity is invalid''
          else (case ca_record a of
            Some r \<Rightarrow>
              (let admitted = evaluate (cp_policy (ca_policy a)) [r] Schedule (ca_decided_at a);
                   result = scored decode (ca_policy a) r
               in if ca_disposition a \<noteq> EvAccepted \<or> ev_disposition admitted \<noteq> EvAccepted
                     \<or> state_source_node_id (sk_source (sr_key r)) \<noteq> Some (cp_node_id (ca_policy a))
                     \<or> sr_source_epoch r = None \<or> ca_score a \<noteq> ok_of result \<or> ca_failure a \<noteq> err_of result
                  then Inl ''scheduling cost original source or score changed'' else Inr ())
          | None \<Rightarrow>
              if ca_disposition a = EvAccepted \<or> ca_score a \<noteq> None \<or> ca_failure a \<noteq> None
              then Inl ''scheduling cost lacks original admitted source'' else Inr ()))"

end
