(* ===== verification/RG_Requirement.thy ===== *)
theory RG_Requirement
  imports RG_Command RG_State_Model
begin

text \<open>
  What a Task asks for, \<open>core/domain/src/task_requirement.rs\<close>, \<open>capability_requirement.rs\<close> and
  \<open>duration_estimate.rs\<close>: Roles with their capability, resource and Memory demands, Tasks with their timing, and
  attributed duration evidence. The numeric comparison of capability attributes, which goes through \<open>f64\<close>, is not
  modelled.
\<close>

subsection \<open>Capabilities\<close>

datatype capability_kind = CapMobility | CapTransport | CapCompute | CapObservation

datatype constraint_operator = EqualsValue | AtLeast | AtMost

record capability_constraint =
  cn_attribute :: string
  cn_operator :: constraint_operator
  cn_value :: execution_value

definition capability_constraint_new ::
    "string \<Rightarrow> constraint_operator \<Rightarrow> execution_value \<Rightarrow> domain_error + capability_constraint" where
  "capability_constraint_new attribute operator value =
     (if trim_is_empty attribute then Inl (EmptyValue ''capability constraint attribute'')
      else Inr \<lparr>cn_attribute = attribute, cn_operator = operator, cn_value = value\<rparr>)"

record capability_requirement =
  cr_contract :: contract_ref
  cr_constraints :: "capability_constraint list"

text \<open>The first element of a list that repeats an earlier one, as found by inserting into a set.\<close>

fun first_duplicate :: "'a list \<Rightarrow> 'a list \<Rightarrow> 'a option" where
  "first_duplicate seen [] = None"
| "first_duplicate seen (x # xs) = (if x \<in> set seen then Some x else first_duplicate (x # seen) xs)"

definition capability_requirement_new ::
    "contract_ref \<Rightarrow> capability_constraint list \<Rightarrow> domain_error + capability_requirement" where
  "capability_requirement_new contract constraints =
     (case first_duplicate [] (map cn_attribute constraints) of
        Some attribute \<Rightarrow> Inl (InvalidMissionPlan
          (''capability '' @ contract_ref_display contract @ '' repeats constraint '' @ attribute))
      | None \<Rightarrow> Inr \<lparr>cr_contract = contract, cr_constraints = constraints\<rparr>)"

definition capability_exact :: "contract_ref \<Rightarrow> capability_requirement" where
  "capability_exact contract = \<lparr>cr_contract = contract, cr_constraints = []\<rparr>"

subsection \<open>Roles\<close>

record role_requirement =
  rq_role_id :: role_id
  rq_legacy_capability :: "capability_kind option"
  rq_actor_id :: "actor_id option"
  rq_legacy_contract :: "contract_ref option"
  rq_capabilities :: "capability_requirement list"
  rq_resource_kind :: "resource_kind option"
  rq_resources :: "resource_requirement list"
  rq_memories :: "memory_requirement list"

definition compatibility_demand :: "resource_kind \<Rightarrow> resource_requirement" where
  "compatibility_demand kind = \<lparr>rr_kind = kind, rr_units = 1, rr_allocation_mode = Exclusive, rr_resource_class = None\<rparr>"

lemma compatibility_demand_positive: "resource_requirement_new kind 1 = Inr (compatibility_demand kind)"
  by (simp add: resource_requirement_new_def compatibility_demand_def)

definition demands_of_kind :: "resource_kind option \<Rightarrow> resource_requirement list" where
  "demands_of_kind kind = (case kind of None \<Rightarrow> [] | Some k \<Rightarrow> [compatibility_demand k])"

definition role_requirement_new :: "role_id \<Rightarrow> capability_kind \<Rightarrow> resource_kind option \<Rightarrow> role_requirement" where
  "role_requirement_new role capability kind =
     \<lparr>rq_role_id = role, rq_legacy_capability = Some capability, rq_actor_id = None, rq_legacy_contract = None,
      rq_capabilities = [], rq_resource_kind = kind, rq_resources = demands_of_kind kind, rq_memories = []\<rparr>"

definition role_requirement_with_actor ::
    "role_id \<Rightarrow> actor_id \<Rightarrow> capability_kind \<Rightarrow> contract_ref \<Rightarrow> resource_kind option \<Rightarrow> role_requirement" where
  "role_requirement_with_actor role actor capability contract kind =
     \<lparr>rq_role_id = role, rq_legacy_capability = Some capability, rq_actor_id = Some actor,
      rq_legacy_contract = Some contract, rq_capabilities = [capability_exact contract],
      rq_resource_kind = kind, rq_resources = demands_of_kind kind, rq_memories = []\<rparr>"

definition single_kind :: "resource_requirement list \<Rightarrow> resource_kind option" where
  "single_kind resources = (case resources of [r] \<Rightarrow> Some (rr_kind r) | _ \<Rightarrow> None)"

definition role_requirement_scheduled ::
    "role_id \<Rightarrow> actor_id option \<Rightarrow> capability_kind \<Rightarrow> contract_ref option \<Rightarrow> resource_requirement list
       \<Rightarrow> domain_error + role_requirement" where
  "role_requirement_scheduled role actor capability contract resources =
     (if first_duplicate [] (map rr_kind resources) \<noteq> None
      then Inl (InvalidMissionPlan (''role '' @ role @ '' has duplicate resource kinds''))
      else Inr \<lparr>rq_role_id = role, rq_legacy_capability = Some capability, rq_actor_id = actor,
             rq_legacy_contract = contract, rq_capabilities = (case contract of None \<Rightarrow> [] | Some c \<Rightarrow> [capability_exact c]),
             rq_resource_kind = single_kind resources, rq_resources = resources, rq_memories = []\<rparr>)"

definition role_requirement_normalized ::
    "role_id \<Rightarrow> actor_id option \<Rightarrow> capability_requirement list \<Rightarrow> resource_requirement list
       \<Rightarrow> domain_error + role_requirement" where
  "role_requirement_normalized role actor capabilities resources =
     (if capabilities = [] then Inl (EmptyValue ''role capability requirements'')
      else (case first_duplicate [] (map cr_contract capabilities) of
        Some duplicate \<Rightarrow> Inl (InvalidMissionPlan
          (''role '' @ role @ '' repeats capability '' @ contract_ref_display duplicate))
      | None \<Rightarrow>
          if first_duplicate [] (map rr_kind resources) \<noteq> None
          then Inl (InvalidMissionPlan (''role '' @ role @ '' has duplicate resource kinds''))
          else Inr \<lparr>rq_role_id = role, rq_legacy_capability = None, rq_actor_id = actor,
                 rq_legacy_contract = None, rq_capabilities = capabilities,
                 rq_resource_kind = single_kind resources, rq_resources = resources, rq_memories = []\<rparr>))"

definition with_memories :: "role_requirement \<Rightarrow> memory_requirement list \<Rightarrow> domain_error + role_requirement" where
  "with_memories r memories =
     (case memory_validate_set memories of
        Inl reason \<Rightarrow> Inl (InvalidMissionPlan reason)
      | Inr _ \<Rightarrow> Inr (r\<lparr>rq_memories := memories\<rparr>))"

definition required_contract :: "role_requirement \<Rightarrow> contract_ref option" where
  "required_contract r =
     (case rq_capabilities r of [] \<Rightarrow> rq_legacy_contract r | c # _ \<Rightarrow> Some (cr_contract c))"

definition capability_requirements :: "role_requirement \<Rightarrow> capability_requirement list" where
  "capability_requirements r =
     (if rq_capabilities r = []
      then (case rq_legacy_contract r of Some contract \<Rightarrow> [capability_exact contract] | None \<Rightarrow> rq_capabilities r)
      else rq_capabilities r)"

definition resource_requirements :: "role_requirement \<Rightarrow> resource_requirement list" where
  "resource_requirements r =
     (case (rq_resources r = [], rq_resource_kind r) of
        (True, Some kind) \<Rightarrow> [compatibility_demand kind]
      | _ \<Rightarrow> rq_resources r)"

subsection \<open>Tasks\<close>

record task_requirement =
  tq_task_ref :: task_ref
  tq_roles :: "role_requirement list"
  tq_timing :: task_timing

definition task_timing_default :: task_timing where
  "task_timing_default = \<lparr>tt_earliest_start_offset_ms = 0, tt_latest_start_offset_ms = None,
     tt_completion_deadline_offset_ms = None, tt_estimated_duration_ms = None\<rparr>"

definition task_requirement_new :: "mission_id \<Rightarrow> task_id \<Rightarrow> role_requirement list \<Rightarrow> domain_error + task_requirement" where
  "task_requirement_new mission task roles =
     (if roles = [] then Inl (EmptyValue ''task roles'')
      else (case first_duplicate [] (map rq_role_id roles) of
        Some duplicate \<Rightarrow> Inl (InvalidMissionPlan (''duplicate role id '' @ duplicate))
      | None \<Rightarrow> Inr \<lparr>tq_task_ref = TaskRef mission task, tq_roles = roles, tq_timing = task_timing_default\<rparr>))"

definition task_requirement_scheduled ::
    "mission_id \<Rightarrow> task_id \<Rightarrow> role_requirement list \<Rightarrow> task_timing \<Rightarrow> domain_error + task_requirement" where
  "task_requirement_scheduled mission task roles timing =
     (case task_requirement_new mission task roles of
        Inl e \<Rightarrow> Inl e
      | Inr t \<Rightarrow> Inr (t\<lparr>tq_timing := timing\<rparr>))"

subsection \<open>Duration evidence\<close>

record duration_estimate =
  de_task_ref :: task_ref
  de_duration_ms :: u64
  de_source :: state_source
  de_received_at :: timestamp
  de_valid_for_ms :: u64

definition duration_estimate_new ::
    "task_ref \<Rightarrow> u64 \<Rightarrow> state_source \<Rightarrow> timestamp \<Rightarrow> u64 \<Rightarrow> domain_error + duration_estimate" where
  "duration_estimate_new task duration source received_at valid_for =
     (if duration = 0 then Inl (InvalidDuration ''task duration estimate'')
      else if valid_for = 0 then Inl (InvalidDuration ''task duration estimate validity'')
      else Inr \<lparr>de_task_ref = task, de_duration_ms = duration, de_source = source, de_received_at = received_at,
             de_valid_for_ms = valid_for\<rparr>)"

definition is_fresh_at :: "duration_estimate \<Rightarrow> timestamp \<Rightarrow> bool" where
  "is_fresh_at e now \<longleftrightarrow> de_received_at e \<le> now \<and> now - de_received_at e \<le> de_valid_for_ms e"

subsection \<open>Accepted Tasks have different Roles\<close>

lemma first_duplicate_None: "first_duplicate seen xs = None \<longleftrightarrow> distinct xs \<and> set xs \<inter> set seen = {}"
  by (induction seen xs rule: first_duplicate.induct) auto

lemma task_requirement_roles:
  "task_requirement_new mission task roles = Inr t \<Longrightarrow> tq_roles t = roles \<and> roles \<noteq> [] \<and> distinct (map rq_role_id roles)"
  by (auto simp: task_requirement_new_def first_duplicate_None split: if_splits option.splits)

end
