(* ===== verification/CP_Capacity.thy ===== *)
theory CP_Capacity
  imports RG_Topology RG_Decision RG_Requirement "HOL-Library.Option_ord"
begin

text \<open>
  The input of Control's Scheduler, \<open>core/control/src/scheduler/mod.rs\<close>, and the weighted calendar arithmetic of
  \<open>core/control/src/scheduler/capacity.rs\<close>: occupancies, snapshots with their cost evidence, the interval sweep, and
  the test whether a resource can still carry a demand beside the choices already made.
\<close>

subsection \<open>Errors and selections\<close>

datatype scheduler_error =
    InvalidCandidateSet string
  | UnknownCandidate node_id
  | NoFeasibleSelection role_id
  | SearchLimited
  | InvalidTimeWindow
  | InvalidDurationEstimate string
  | InvalidCostEvidence string

record role_selection =
  rs_role_id :: role_id
  rs_node_id :: node_id
  rs_resource_ids :: "resource_id list"
  rs_resource_units :: "u32 list"
  rs_resource_requirements :: "resource_requirement list"
  rs_resource_capacities :: "u32 list"

definition role_selection_new :: "role_id \<Rightarrow> node_id \<Rightarrow> resource_id list \<Rightarrow> u32 list \<Rightarrow> role_selection" where
  "role_selection_new role node ids units =
     \<lparr>rs_role_id = role, rs_node_id = node, rs_resource_ids = ids, rs_resource_units = units,
      rs_resource_requirements = [], rs_resource_capacities = []\<rparr>"

text \<open>\<open>None\<close> is the panic of the \<open>expect\<close> on a selected resource that the registration lacks.\<close>

fun capacities_of :: "resource list \<Rightarrow> resource_id list \<Rightarrow> u32 list option" where
  "capacities_of resources [] = Some []"
| "capacities_of resources (i # ids) =
     (case find (\<lambda>r. res_id r = i) resources of
        None \<Rightarrow> None
      | Some r \<Rightarrow> map_option ((#) (res_capacity r)) (capacities_of resources ids))"

definition with_resources :: "role_selection \<Rightarrow> role_requirement \<Rightarrow> resource list \<Rightarrow> role_selection option" where
  "with_resources s role resources =
     (if list_ex (\<lambda>d. rr_allocation_mode d = Divisible) (resource_requirements role)
      then map_option (\<lambda>caps. s\<lparr>rs_resource_requirements := resource_requirements role, rs_resource_capacities := caps\<rparr>)
             (capacities_of resources (rs_resource_ids s))
      else Some s)"

subsection \<open>Snapshots\<close>

record scheduling_occupancy =
  oc_resource_id :: resource_id
  oc_starts_at :: timestamp
  oc_ends_at :: "timestamp option"
  oc_units :: "u32 option"
  oc_owner_axis :: "string option"

definition occupancy_new :: "resource_id \<Rightarrow> timestamp \<Rightarrow> timestamp option \<Rightarrow> scheduling_occupancy" where
  "occupancy_new rid starts ends =
     \<lparr>oc_resource_id = rid, oc_starts_at = starts, oc_ends_at = ends, oc_units = None, oc_owner_axis = None\<rparr>"

definition quantitative ::
    "resource_id \<Rightarrow> timestamp \<Rightarrow> timestamp option \<Rightarrow> u32 \<Rightarrow> string option \<Rightarrow> scheduling_occupancy" where
  "quantitative rid starts ends units axis =
     \<lparr>oc_resource_id = rid, oc_starts_at = starts, oc_ends_at = ends, oc_units = Some units, oc_owner_axis = axis\<rparr>"

record context_capacity =
  cc_owner_axis :: string
  cc_units :: u32
  cc_parent_starts_at :: "timestamp option"

record role_constraint =
  rk_role_id :: role_id
  rk_node_id :: node_id
  rk_resource_ids :: "resource_id list"

record cost_evidence =
  ce_node_id :: node_id
  ce_source_id :: string
  ce_received_at :: timestamp
  ce_valid_for_ms :: u64
  ce_queue_delay_ms :: u64
  ce_travel_distance_um :: u64
  ce_traffic_delay_ms :: u64
  ce_load_millionths :: u32
  ce_gpu_memory_bytes :: "u64 option"

definition cost_evidence_validate_at :: "cost_evidence \<Rightarrow> timestamp \<Rightarrow> scheduler_error + unit" where
  "cost_evidence_validate_at c now =
     (if trim_is_empty (ce_source_id c) \<or> 256 < length (ce_source_id c)
         \<or> ce_valid_for_ms c = 0 \<or> 3600000 < ce_valid_for_ms c \<or> 1000000 < ce_load_millionths c
         \<or> 86400000 < ce_queue_delay_ms c \<or> 10000000000 < ce_travel_distance_um c \<or> 86400000 < ce_traffic_delay_ms c
         \<or> is_some_and (ce_gpu_memory_bytes c) (\<lambda>v. 1125899906842624 < v)
         \<or> ce_valid_for_ms c < saturating_sub now (ce_received_at c) \<or> now < ce_received_at c
      then Inl (InvalidCostEvidence ''source, freshness or metric bounds are invalid'') else Inr ())"

definition evidence_score :: "cost_evidence \<Rightarrow> int" where
  "evidence_score c =
     uint (ce_queue_delay_ms c) * 1000 + uint (ce_travel_distance_um c) + uint (ce_traffic_delay_ms c) * 1000
     + uint (ce_load_millionths c)
     + uint ((1125899906842624 - (case ce_gpu_memory_bytes c of None \<Rightarrow> 0 | Some v \<Rightarrow> v)) div (1024 * 1024))"

record scheduling_snapshot =
  sn_topology_recovery_interval :: "(task_ref \<times> timestamp) option"
  sn_resource_topology :: "topology_registry option"
  sn_version :: u64
  sn_occupancies :: "scheduling_occupancy list"
  sn_context_capacities :: "(role_id, context_capacity) btmap"
  sn_role_constraints :: "(role_id, role_constraint) btmap"
  sn_cost_evidence :: "(node_id, cost_evidence) btmap"
  sn_policy_cost_evidence :: "(node_id, cost_assessment) btmap"

definition snapshot_empty :: scheduling_snapshot where
  "snapshot_empty = \<lparr>sn_topology_recovery_interval = None, sn_resource_topology = None, sn_version = 0,
     sn_occupancies = [], sn_context_capacities = bt_empty, sn_role_constraints = bt_empty,
     sn_cost_evidence = bt_empty, sn_policy_cost_evidence = bt_empty\<rparr>"

definition snapshot_new :: "u64 \<Rightarrow> scheduling_occupancy list \<Rightarrow> scheduling_snapshot" where
  "snapshot_new version occupancies =
     snapshot_empty\<lparr>sn_version := version,
       sn_occupancies := sort_key (\<lambda>o'. (oc_resource_id o', oc_starts_at o', oc_ends_at o')) occupancies\<rparr>"

definition with_role_constraints :: "scheduling_snapshot \<Rightarrow> role_constraint list \<Rightarrow> scheduling_snapshot" where
  "with_role_constraints s constraints = s\<lparr>sn_role_constraints := bt_of_list (map (\<lambda>c. (rk_role_id c, c)) constraints)\<rparr>"

fun try_with_cost_evidence ::
    "timestamp \<Rightarrow> cost_evidence list \<Rightarrow> scheduling_snapshot \<Rightarrow> scheduler_error + scheduling_snapshot" where
  "try_with_cost_evidence now [] s = Inr s"
| "try_with_cost_evidence now (c # cs) s =
     (case cost_evidence_validate_at c now of
        Inl e \<Rightarrow> Inl e
      | Inr _ \<Rightarrow>
          if bt_contains (sn_cost_evidence s) (ce_node_id c)
          then Inl (InvalidCostEvidence ''duplicate Node cost evidence'')
          else try_with_cost_evidence now cs
                 (s\<lparr>sn_cost_evidence := bt_insert (ce_node_id c) c (sn_cost_evidence s)\<rparr>))"

fun with_policy_cost_evidence ::
    "(string \<Rightarrow> scheduling_metrics option) \<Rightarrow> cost_assessment list \<Rightarrow> scheduling_snapshot
       \<Rightarrow> scheduler_error + scheduling_snapshot" where
  "with_policy_cost_evidence decode [] s = Inr s"
| "with_policy_cost_evidence decode (a # as) s =
     (case cost_assessment_validate decode a of
        Inl e \<Rightarrow> Inl (InvalidCostEvidence e)
      | Inr _ \<Rightarrow>
          if bt_contains (sn_policy_cost_evidence s) (cp_node_id (ca_policy a))
          then Inl (InvalidCostEvidence ''duplicate candidate cost policy'')
          else with_policy_cost_evidence decode as
                 (s\<lparr>sn_policy_cost_evidence := bt_insert (cp_node_id (ca_policy a)) a (sn_policy_cost_evidence s)\<rparr>))"

text \<open>The largest \<open>u128\<close>, the cost of a candidate without usable evidence.\<close>

definition u128_max :: int where
  "u128_max = 340282366920938463463374607431768211455"

definition assessment_current :: "cost_assessment \<Rightarrow> timestamp \<Rightarrow> state_record \<Rightarrow> bool" where
  "assessment_current a now r \<longleftrightarrow>
     ca_decided_at a \<le> now \<and> \<not> state_record_is_stale_at r now
     \<and> saturating_sub now (sr_received_at r) \<le> dp_max_age_ms (cp_policy (ca_policy a))"

definition candidate_cost :: "scheduling_snapshot \<Rightarrow> node_id \<Rightarrow> timestamp \<Rightarrow> int" where
  "candidate_cost s node now =
     (case bt_get (sn_policy_cost_evidence s) node of
        Some a \<Rightarrow>
          (if is_some_and (ca_record a) (assessment_current a now)
           then (case ca_score a of None \<Rightarrow> u128_max | Some c \<Rightarrow> uint c) else u128_max)
      | None \<Rightarrow>
          (case bt_get (sn_cost_evidence s) node of
             None \<Rightarrow> u128_max
           | Some c \<Rightarrow> if cost_evidence_validate_at c now = Inr () then evidence_score c else u128_max))"

subsection \<open>The interval sweep\<close>

text \<open>The running sums are \<open>i128\<close>; fewer than \<open>2 ^ 64\<close> terms of 32 bits cannot leave that range, so they are integers here.\<close>

definition add_change :: "timestamp \<Rightarrow> int \<Rightarrow> (timestamp, int) btmap \<Rightarrow> (timestamp, int) btmap" where
  "add_change t d m = bt_insert t ((case bt_get m t of None \<Rightarrow> 0 | Some v \<Rightarrow> v) + d) m"

definition outside :: "timestamp \<Rightarrow> timestamp option \<Rightarrow> scheduling_occupancy \<Rightarrow> bool" where
  "outside start finish occ \<longleftrightarrow>
     is_some_and finish (\<lambda>f. f \<le> oc_starts_at occ) \<or> is_some_and (oc_ends_at occ) (\<lambda>e. e \<le> start)"

fun collect_changes ::
    "timestamp \<Rightarrow> timestamp option \<Rightarrow> scheduling_occupancy list \<Rightarrow> (timestamp, int) btmap \<Rightarrow> (timestamp, int) btmap option" where
  "collect_changes start finish [] changes = Some changes"
| "collect_changes start finish (occ # occs) changes =
     (if outside start finish occ then collect_changes start finish occs changes
      else (case oc_units occ of
        None \<Rightarrow> None
      | Some occupied \<Rightarrow>
          (let opened = add_change (max start (oc_starts_at occ)) (uint occupied) changes;
               closed = (case oc_ends_at occ of
                 None \<Rightarrow> opened
               | Some ended \<Rightarrow> if is_none_or finish (\<lambda>f. ended < f) then add_change ended (- uint occupied) opened else opened)
           in collect_changes start finish occs closed)))"

fun sweep :: "int \<Rightarrow> int list \<Rightarrow> int \<Rightarrow> bool" where
  "sweep active [] capacity = True"
| "sweep active (change # changes) capacity =
     (if active + change < 0 \<or> capacity < active + change then False else sweep (active + change) changes capacity)"

definition interval_available ::
    "scheduling_occupancy list \<Rightarrow> timestamp \<Rightarrow> timestamp option \<Rightarrow> u32 \<Rightarrow> u32 \<Rightarrow> bool" where
  "interval_available occupancies start finish units capacity =
     (if capacity < units \<or> is_some_and finish (\<lambda>f. f \<le> start) then False
      else (case collect_changes start finish occupancies (bt_insert start (uint units) bt_empty) of
              None \<Rightarrow> False
            | Some changes \<Rightarrow> sweep 0 (bt_values changes) (uint capacity)))"

subsection \<open>Demands beside the choices already made\<close>

fun pair_demands :: "resource_id list \<Rightarrow> resource_requirement list \<Rightarrow> (resource_id \<times> resource_requirement option) list" where
  "pair_demands [] demands = []"
| "pair_demands (i # ids) [] = (i, None) # pair_demands ids []"
| "pair_demands (i # ids) (d # demands) = (i, Some d) # pair_demands ids demands"

definition occupy_demand ::
    "scheduling_snapshot \<Rightarrow> role_id \<Rightarrow> timestamp \<Rightarrow> timestamp option \<Rightarrow> resource_id \<times> resource_requirement option
       \<Rightarrow> scheduling_occupancy list \<times> string btset \<Rightarrow> scheduling_occupancy list \<times> string btset" where
  "occupy_demand s role start finish choice acc =
     (case (choice, acc) of ((i, demand), (occupied, parents)) \<Rightarrow>
        (case demand of
           None \<Rightarrow> (occupied @ [occupancy_new i start finish], parents)
         | Some d \<Rightarrow>
             if rr_allocation_mode d = Exclusive then (occupied @ [occupancy_new i start finish], parents)
             else (case bt_get (sn_context_capacities s) role of
                None \<Rightarrow> (occupied @ [quantitative i start finish (rr_units d) None], parents)
              | Some c \<Rightarrow>
                  (let borrowed = occupied @ [quantitative i start finish (rr_units d) (Some (cc_owner_axis c))]
                   in if is_none_or (cc_parent_starts_at c) (\<lambda>starts. start < starts)
                         \<and> \<not> bts_member (cc_owner_axis c) parents
                      then (borrowed @ [quantitative i start (cc_parent_starts_at c) (cc_units c) None],
                            bts_insert (cc_owner_axis c) parents)
                      else (borrowed, parents)))))"

definition selected_occupancies ::
    "scheduling_snapshot \<Rightarrow> role_selection list \<Rightarrow> timestamp \<Rightarrow> timestamp option \<Rightarrow> scheduling_occupancy list" where
  "selected_occupancies s selected start finish =
     fst (fold (\<lambda>sel. fold (occupy_demand s (rs_role_id sel) start finish)
                  (pair_demands (rs_resource_ids sel) (rs_resource_requirements sel)))
            selected (sn_occupancies s, bt_empty))"

definition overlaps :: "timestamp \<Rightarrow> timestamp option \<Rightarrow> timestamp \<Rightarrow> timestamp option \<Rightarrow> bool" where
  "overlaps left left_end right right_end \<longleftrightarrow>
     is_none_or left_end (\<lambda>e. right < e) \<and> is_none_or right_end (\<lambda>e. left < e)"

definition topology_admits ::
    "topology_registry \<Rightarrow> resource \<Rightarrow> timestamp \<Rightarrow> timestamp option \<Rightarrow> scheduling_occupancy list \<Rightarrow> bool" where
  "topology_admits registry r start finish occupancies =
     (if res_kind r \<in> {Space, Time} \<and> registry_entry registry (res_id r) = None then False
      else (case registry_entry registry (res_id r) of
        None \<Rightarrow> True
      | Some entry \<Rightarrow>
          \<not> (\<not> permits_interval entry start finish
             \<or> list_ex (\<lambda>occ. oc_resource_id occ \<noteq> res_id r
                   \<and> overlaps start finish (oc_starts_at occ) (oc_ends_at occ)
                   \<and> is_some_and (registry_entry registry (oc_resource_id occ)) (entry_conflicts entry)) occupancies)))"

definition physical :: "resource_id \<Rightarrow> scheduling_occupancy list \<Rightarrow> scheduling_occupancy list" where
  "physical rid = filter (\<lambda>occ. oc_resource_id occ = rid \<and> oc_owner_axis occ = None)"

definition borrowed_from :: "resource_id \<Rightarrow> string \<Rightarrow> scheduling_occupancy list \<Rightarrow> scheduling_occupancy list" where
  "borrowed_from rid axis = filter (\<lambda>occ. oc_resource_id occ = rid \<and> oc_owner_axis occ = Some axis)"

definition context_available ::
    "scheduling_snapshot \<Rightarrow> context_capacity \<Rightarrow> resource \<Rightarrow> resource_requirement \<Rightarrow> timestamp \<Rightarrow> timestamp option
       \<Rightarrow> role_selection list \<Rightarrow> scheduling_occupancy list \<Rightarrow> bool" where
  "context_available s c r demand start finish selected occupancies =
     (let parent_selected = list_ex (\<lambda>sel. is_some_and (bt_get (sn_context_capacities s) (rs_role_id sel))
            (\<lambda>other. cc_owner_axis other = cc_owner_axis c)) selected;
          needs_parent = (\<not> parent_selected \<and> is_none_or (cc_parent_starts_at c) (\<lambda>starts. start < starts));
          physical_ok = (if needs_parent
            then interval_available (physical (res_id r) occupancies) start (cc_parent_starts_at c) (cc_units c) (res_capacity r)
            else interval_available (physical (res_id r) occupancies) start None 0 (res_capacity r))
      in physical_ok
         \<and> interval_available (borrowed_from (res_id r) (cc_owner_axis c) occupancies) start finish (rr_units demand) (cc_units c))"

definition capacity_available ::
    "scheduling_snapshot \<Rightarrow> role_id \<Rightarrow> resource \<Rightarrow> resource_requirement \<Rightarrow> timestamp \<Rightarrow> timestamp option
       \<Rightarrow> role_selection list \<Rightarrow> bool" where
  "capacity_available s role r demand start finish selected =
     (let occupancies = selected_occupancies s selected start finish
      in if is_some_and (sn_resource_topology s) (\<lambda>registry. \<not> topology_admits registry r start finish occupancies) then False
         else if rr_allocation_mode demand = Exclusive
         then interval_available (physical (res_id r) occupancies) start finish (res_capacity r) (res_capacity r)
         else (case bt_get (sn_context_capacities s) role of
                 Some c \<Rightarrow> context_available s c r demand start finish selected occupancies
               | None \<Rightarrow> interval_available (physical (res_id r) occupancies) start finish (rr_units demand) (res_capacity r)))"

end
