(* ===== verification/CP_Scheduler.thy ===== *)
theory CP_Scheduler
  imports CP_Capacity
begin

text \<open>
  The bounded joint Scheduler of Control, \<open>core/control/src/scheduler/policy.rs\<close>, with the Candidate Sets of
  \<open>matching.rs\<close> and the search preferences of \<open>initial_preferences.rs\<close>. Shared Node State is a parameter: the function
  that gives the registered resources of a Node, which is all the Scheduler reads of it. A mutable argument is a
  component of \<open>search_state\<close>; \<open>SPanic\<close> is a panic.
\<close>

subsection \<open>Candidates\<close>

record role_candidates =
  rc_role_id :: role_id
  rc_node_ids :: "node_id list"

definition valid_evidence_digest :: "string \<Rightarrow> bool" where
  "valid_evidence_digest value \<longleftrightarrow>
     length value = 71 \<and> is_some_and (strip_prefix ''sha256:'' value) (list_all is_lower_hex)"

record initial_preferences =
  ip_task_ref :: task_ref
  ip_priorities :: "(role_id, (node_id, u32) btmap) btmap"
  ip_source_digest :: string
  ip_received_at :: timestamp
  ip_expires_at :: timestamp

definition initial_preferences_new ::
    "task_ref \<Rightarrow> (role_id, (node_id, u32) btmap) btmap \<Rightarrow> string \<Rightarrow> timestamp \<Rightarrow> timestamp \<Rightarrow> initial_preferences option" where
  "initial_preferences_new task priorities digest received expires =
     (let ranked = sum_list (map bt_len (bt_values priorities))
      in if bt_len priorities = 0 \<or> ranked = 0 \<or> 128 < ranked
            \<or> list_ex (\<lambda>nodes. bt_len nodes = 0) (bt_values priorities)
            \<or> list_ex (\<lambda>nodes. list_ex (\<lambda>rank. rank = - 1) (bt_values nodes)) (bt_values priorities)
            \<or> \<not> valid_evidence_digest digest \<or> expires \<le> received \<or> 600000 < expires - received
         then None
         else Some \<lparr>ip_task_ref = task, ip_priorities = priorities, ip_source_digest = digest,
                ip_received_at = received, ip_expires_at = expires\<rparr>)"

definition priority :: "initial_preferences \<Rightarrow> role_id \<Rightarrow> node_id \<Rightarrow> timestamp \<Rightarrow> u32" where
  "priority p role node decided =
     (if decided < ip_received_at p \<or> ip_expires_at p \<le> decided then - 1
      else (case Option.bind (bt_get (ip_priorities p) role) (\<lambda>nodes. bt_get nodes node) of
              None \<Rightarrow> - 1 | Some rank \<Rightarrow> rank))"

record candidate_set =
  cs_task_ref :: task_ref
  cs_roles :: "role_candidates list"
  cs_role_operations :: "(role_id, operation_ref) btmap"
  cs_role_actors :: "(role_id, actor_id) btmap"
  cs_distinct_actor_groups :: "actor_id btset list"
  cs_candidate_entities :: "(node_id, string) btmap"
  cs_initial_preferences :: "initial_preferences option"

definition candidate_set_new :: "task_ref \<Rightarrow> role_candidates list \<Rightarrow> candidate_set" where
  "candidate_set_new task roles =
     \<lparr>cs_task_ref = task, cs_roles = roles, cs_role_operations = bt_empty, cs_role_actors = bt_empty,
      cs_distinct_actor_groups = [], cs_candidate_entities = bt_empty, cs_initial_preferences = None\<rparr>"

definition for_role :: "candidate_set \<Rightarrow> role_id \<Rightarrow> role_candidates option" where
  "for_role c role = find (\<lambda>r. rc_role_id r = role) (cs_roles c)"

definition initial_priority :: "candidate_set \<Rightarrow> role_id \<Rightarrow> node_id \<Rightarrow> timestamp \<Rightarrow> u32" where
  "initial_priority c role node decided =
     (case cs_initial_preferences c of
        None \<Rightarrow> - 1
      | Some p \<Rightarrow> if cs_task_ref c = ip_task_ref p then priority p role node decided else - 1)"

subsection \<open>Decisions\<close>

record role_assignment =
  ra_role_id :: role_id
  ra_node_id :: node_id
  ra_resource_ids :: "resource_id list"

definition to_role_assignment :: "role_selection \<Rightarrow> role_assignment" where
  "to_role_assignment s = \<lparr>ra_role_id = rs_role_id s, ra_node_id = rs_node_id s, ra_resource_ids = rs_resource_ids s\<rparr>"

record scheduling_context =
  sx_mission_accepted_at :: timestamp
  sx_now :: timestamp
  sx_duration_estimate :: "duration_estimate option"

record scheduling_decision =
  sd_task_ref :: task_ref
  sd_selections :: "role_selection list"
  sd_starts_at :: timestamp
  sd_ends_at :: "timestamp option"
  sd_latest_activation_at :: "timestamp option"
  sd_snapshot_version :: u64
  sd_expansions :: u32
  sd_duration_estimate :: "duration_estimate option"
  sd_cost_evidence :: "cost_evidence list"
  sd_policy_cost_evidence :: "cost_assessment list"

definition proposed_assignments :: "scheduling_decision \<Rightarrow> role_assignment list" where
  "proposed_assignments d = map to_role_assignment (sd_selections d)"

datatype scheduling_outcome =
    SelectedNow scheduling_decision
  | SelectedFuture scheduling_decision
  | Deferred
  | WindowMissed

text \<open>The takeover authorization that a recovery Candidate Set may carry is not read by the Scheduler and is left out.\<close>

record recovery_candidate_set =
  rv_stopped_owner_allowed :: bool
  rv_group_id :: group_id
  rv_task_ref :: task_ref
  rv_role_id :: role_id
  rv_previous_node_id :: node_id
  rv_candidate_node_ids :: "node_id list"
  rv_operation :: "operation_ref option"

record recovery_decision =
  rd_group_id :: group_id
  rd_task_ref :: task_ref
  rd_role_id :: role_id
  rd_previous_node_id :: node_id
  rd_replacement_node_id :: node_id
  rd_resource_ids :: "resource_id list"
  rd_policy_cost_evidence :: "cost_assessment list"

datatype recovery_outcome = NoSelection | RecoverySelected recovery_decision

datatype scheduling_event =
    TaskSchedulingSelected task_ref "role_assignment list"
  | RecoverySchedulingNoSelection group_id task_ref role_id
  | RecoverySchedulingSelected group_id task_ref role_id node_id node_id "resource_id list"

datatype 'a sched_result = SOk 'a | SErr scheduler_error | SPanic

subsection \<open>Resource choices\<close>

type_synonym resource_choice = "resource_id list \<times> u32 list"

definition resource_matches :: "resource \<Rightarrow> resource_requirement \<Rightarrow> bool" where
  "resource_matches r d \<longleftrightarrow>
     res_kind r = rr_kind d \<and> rr_units d \<le> res_capacity r \<and> res_allocation_mode r = rr_allocation_mode d
     \<and> res_resource_class r = rr_resource_class d"

definition conflicts_with_chosen :: "scheduling_snapshot \<Rightarrow> resource_id list \<Rightarrow> resource_id \<Rightarrow> bool" where
  "conflicts_with_chosen s ids rid \<longleftrightarrow>
     is_some_and (sn_resource_topology s) (\<lambda>registry.
       is_some_and (registry_entry registry rid) (\<lambda>entry.
         list_ex (\<lambda>other. is_some_and (registry_entry registry other) (entry_conflicts entry)) ids))"

definition usable_resources ::
    "resource list \<Rightarrow> role_requirement \<Rightarrow> scheduling_snapshot \<Rightarrow> timestamp \<Rightarrow> timestamp option \<Rightarrow> role_selection list
       \<Rightarrow> role_constraint option \<Rightarrow> resource_requirement \<Rightarrow> resource list" where
  "usable_resources resources role s start finish selected limit_to demand =
     sort_key res_id (filter (\<lambda>r. resource_matches r demand
         \<and> is_none_or limit_to (\<lambda>c. res_id r \<in> set (rk_resource_ids c))
         \<and> capacity_available s (rq_role_id role) r demand start finish selected) resources)"

definition extend_choice :: "scheduling_snapshot \<Rightarrow> resource_requirement \<Rightarrow> resource list \<Rightarrow> resource_choice \<Rightarrow> resource_choice list" where
  "extend_choice s demand resources choice =
     (case choice of (ids, units) \<Rightarrow>
        map (\<lambda>r. (ids @ [res_id r], units @ [rr_units demand]))
          (filter (\<lambda>r. res_id r \<notin> set ids \<and> \<not> conflicts_with_chosen s ids (res_id r)) resources))"

fun combine_demands ::
    "(resource_requirement \<Rightarrow> resource list) \<Rightarrow> scheduling_snapshot \<Rightarrow> resource_requirement list
       \<Rightarrow> resource_choice list \<Rightarrow> resource_choice list" where
  "combine_demands usable s [] combinations = combinations"
| "combine_demands usable s (d # ds) combinations =
     combine_demands usable s ds (concat (map (extend_choice s d (usable d)) combinations))"

definition resource_choices ::
    "resource list \<Rightarrow> role_requirement \<Rightarrow> scheduling_snapshot \<Rightarrow> timestamp \<Rightarrow> timestamp option \<Rightarrow> role_selection list
       \<Rightarrow> role_constraint option \<Rightarrow> resource_choice list" where
  "resource_choices resources role s start finish selected limit_to =
     (let demands = resource_requirements role
      in if demands = [] then [([], [])]
         else if is_some_and limit_to (\<lambda>c. length (rk_resource_ids c) \<noteq> length demands) then []
         else (let combinations = combine_demands (usable_resources resources role s start finish selected limit_to) s demands [([], [])]
               in case limit_to of
                    None \<Rightarrow> combinations
                  | Some c \<Rightarrow> filter (\<lambda>(ids, _). ids = rk_resource_ids c) combinations))"

subsection \<open>Joint search\<close>

type_synonym node_reader = "node_id \<Rightarrow> resource list option"

record search_input =
  in_nodes :: node_reader
  in_candidates :: candidate_set
  in_snapshot :: scheduling_snapshot
  in_starts_at :: timestamp
  in_ends_at :: "timestamp option"
  in_limit :: u32

record search_state =
  ss_selections :: "role_selection list"
  ss_entities :: "(actor_id, string) btmap"
  ss_expansions :: u32

definition actor_entity :: "candidate_set \<Rightarrow> role_id \<Rightarrow> node_id \<Rightarrow> (actor_id \<times> string) option" where
  "actor_entity c role node =
     (case (bt_get (cs_role_actors c) role, bt_get (cs_candidate_entities c) node) of
        (Some actor, Some entity) \<Rightarrow> Some (actor, entity) | _ \<Rightarrow> None)"

definition share_distinct_group :: "candidate_set \<Rightarrow> actor_id \<Rightarrow> actor_id \<Rightarrow> bool" where
  "share_distinct_group c a b \<longleftrightarrow> list_ex (\<lambda>grp. bts_member a grp \<and> bts_member b grp) (cs_distinct_actor_groups c)"

definition actor_continuity_broken :: "candidate_set \<Rightarrow> (actor_id, string) btmap \<Rightarrow> role_id \<Rightarrow> node_id \<Rightarrow> bool" where
  "actor_continuity_broken c entities role node \<longleftrightarrow>
     is_some_and (actor_entity c role node) (\<lambda>(actor, entity).
       is_some_and (bt_get entities actor) (\<lambda>previous. previous \<noteq> entity))"

definition distinctness_broken :: "candidate_set \<Rightarrow> (actor_id, string) btmap \<Rightarrow> role_id \<Rightarrow> node_id \<Rightarrow> bool" where
  "distinctness_broken c entities role node \<longleftrightarrow>
     is_some_and (actor_entity c role node) (\<lambda>(actor, entity).
       list_ex (\<lambda>grp. bts_member actor grp) (cs_distinct_actor_groups c)
       \<and> is_some_and (find (\<lambda>(other, e). e = entity \<and> share_distinct_group c other actor) (bt_entries entities))
           (\<lambda>(other, _). other \<noteq> actor))"

definition node_skipped :: "search_input \<Rightarrow> role_requirement \<Rightarrow> (actor_id, string) btmap \<Rightarrow> node_id \<Rightarrow> bool" where
  "node_skipped inp role entities node \<longleftrightarrow>
     is_some_and (bt_get (sn_role_constraints (in_snapshot inp)) (rq_role_id role)) (\<lambda>c. rk_node_id c \<noteq> node)
     \<or> actor_continuity_broken (in_candidates inp) entities (rq_role_id role) node
     \<or> distinctness_broken (in_candidates inp) entities (rq_role_id role) node"

definition push_choice :: "search_input \<Rightarrow> role_requirement \<Rightarrow> node_id \<Rightarrow> role_selection \<Rightarrow> u32 \<Rightarrow> search_state \<Rightarrow> search_state" where
  "push_choice inp role node sel expansions st =
     st\<lparr>ss_selections := ss_selections st @ [sel],
        ss_entities := (case actor_entity (in_candidates inp) (rq_role_id role) node of
          None \<Rightarrow> ss_entities st | Some (actor, entity) \<Rightarrow> bt_insert actor entity (ss_entities st)),
        ss_expansions := expansions\<rparr>"

definition undo :: "(actor_id \<times> string option) option \<Rightarrow> search_state \<Rightarrow> search_state" where
  "undo previous st =
     st\<lparr>ss_entities := (case previous of
          None \<Rightarrow> ss_entities st
        | Some (actor, Some entity) \<Rightarrow> bt_insert actor entity (ss_entities st)
        | Some (actor, None) \<Rightarrow> bt_remove actor (ss_entities st)),
        ss_selections := butlast (ss_selections st)\<rparr>"

type_synonym search_step = "search_state \<Rightarrow> (bool \<times> search_state) sched_result"

fun try_choices ::
    "search_step \<Rightarrow> search_input \<Rightarrow> role_requirement \<Rightarrow> node_id \<Rightarrow> resource list \<Rightarrow> resource_choice list \<Rightarrow> search_step" where
  "try_choices continue inp role node resources [] st = SOk (False, st)"
| "try_choices continue inp role node resources ((ids, units) # choices) st =
     (case checked_add (ss_expansions st) 1 of
        None \<Rightarrow> SErr SearchLimited
      | Some expansions \<Rightarrow>
          if in_limit inp < expansions then SErr SearchLimited
          else (case with_resources (role_selection_new (rq_role_id role) node ids units) role resources of
             None \<Rightarrow> SPanic
           | Some sel \<Rightarrow>
               (let previous = map_option (\<lambda>(actor, _). (actor, bt_get (ss_entities st) actor))
                      (actor_entity (in_candidates inp) (rq_role_id role) node)
                in case continue (push_choice inp role node sel expansions st) of
                     SOk (True, st') \<Rightarrow> SOk (True, st')
                   | SOk (False, st') \<Rightarrow> try_choices continue inp role node resources choices (undo previous st')
                   | SErr e \<Rightarrow> SErr e
                   | SPanic \<Rightarrow> SPanic)))"

fun try_nodes :: "search_step \<Rightarrow> search_input \<Rightarrow> role_requirement \<Rightarrow> node_id list \<Rightarrow> search_step" where
  "try_nodes continue inp role [] st = SOk (False, st)"
| "try_nodes continue inp role (node # nodes) st =
     (if node_skipped inp role (ss_entities st) node then try_nodes continue inp role nodes st
      else (case in_nodes inp node of
        None \<Rightarrow> SErr (UnknownCandidate node)
      | Some resources \<Rightarrow>
          (case try_choices continue inp role node resources
                  (resource_choices resources role (in_snapshot inp) (in_starts_at inp) (in_ends_at inp)
                     (ss_selections st) (bt_get (sn_role_constraints (in_snapshot inp)) (rq_role_id role))) st of
             SOk (True, st') \<Rightarrow> SOk (True, st')
           | SOk (False, st') \<Rightarrow> try_nodes continue inp role nodes st'
           | SErr e \<Rightarrow> SErr e
           | SPanic \<Rightarrow> SPanic)))"

definition ordered_nodes :: "search_input \<Rightarrow> role_id \<Rightarrow> node_id list \<Rightarrow> node_id list" where
  "ordered_nodes inp role nodes =
     remdups_adj (sort_key (\<lambda>node. (candidate_cost (in_snapshot inp) node (in_starts_at inp),
        initial_priority (in_candidates inp) role node (in_starts_at inp), node)) nodes)"

primrec search_roles :: "role_requirement list \<Rightarrow> search_input \<Rightarrow> search_step" where
  "search_roles [] inp st = SOk (True, st)"
| "search_roles (role # roles) inp st =
     (case for_role (in_candidates inp) (rq_role_id role) of
        None \<Rightarrow> SPanic
      | Some c \<Rightarrow>
          try_nodes (search_roles roles inp) inp role (ordered_nodes inp (rq_role_id role) (rc_node_ids c)) st)"

subsection \<open>Scheduling a Task\<close>

record scheduler =
  bs_max_expansions :: u32

definition scheduler_new :: scheduler where
  "scheduler_new = \<lparr>bs_max_expansions = 10000\<rparr>"

definition with_max_expansions :: "u32 \<Rightarrow> scheduler" where
  "with_max_expansions limit = \<lparr>bs_max_expansions = (if limit = 0 then 1 else limit)\<rparr>"

definition validate_duration_estimate ::
    "task_requirement \<Rightarrow> duration_estimate option \<Rightarrow> timestamp \<Rightarrow> scheduler_error + duration_estimate option" where
  "validate_duration_estimate req estimate now =
     (case estimate of
        None \<Rightarrow> Inr None
      | Some e \<Rightarrow>
          if de_task_ref e \<noteq> tq_task_ref req then Inl (InvalidDurationEstimate ''evidence belongs to another Task'')
          else if \<not> is_fresh_at e now then Inl (InvalidDurationEstimate ''evidence is stale or from the future'')
          else Inr (Some e))"

definition validate_candidate_set :: "task_requirement \<Rightarrow> candidate_set \<Rightarrow> scheduler_error + unit" where
  "validate_candidate_set req c =
     (if cs_task_ref c \<noteq> tq_task_ref req then Inl (InvalidCandidateSet ''normal candidates belong to another task'')
      else (let candidate_roles = bts_of_list (map rc_role_id (cs_roles c));
                required_roles = bts_of_list (map rq_role_id (tq_roles req))
            in if candidate_roles \<noteq> required_roles \<or> bt_len candidate_roles \<noteq> length (cs_roles c)
               then Inl (InvalidCandidateSet ''normal candidates must exactly and uniquely cover Task roles'')
               else Inr ()))"

definition checked_timestamp_add :: "timestamp \<Rightarrow> u64 \<Rightarrow> scheduler_error + timestamp" where
  "checked_timestamp_add t d = (case checked_add t d of None \<Rightarrow> Inl InvalidTimeWindow | Some u \<Rightarrow> Inr u)"

definition add_offset :: "timestamp \<Rightarrow> u64 option \<Rightarrow> scheduler_error + timestamp option" where
  "add_offset t offset =
     (case offset of
        None \<Rightarrow> Inr None
      | Some d \<Rightarrow> (case checked_timestamp_add t d of Inl _ \<Rightarrow> Inl InvalidTimeWindow | Inr u \<Rightarrow> Inr (Some u)))"

text \<open>The values that are fixed before the loop over the candidate starts.\<close>

record start_window =
  sw_estimate :: "duration_estimate option"
  sw_duration_ms :: "u64 option"
  sw_earliest :: timestamp
  sw_completion_deadline :: "timestamp option"
  sw_latest_activation_at :: "timestamp option"

definition earlier_bound :: "timestamp option \<Rightarrow> timestamp option \<Rightarrow> timestamp option" where
  "earlier_bound a b =
     (case (a, b) of
        (Some x, Some y) \<Rightarrow> Some (min x y) | (Some x, None) \<Rightarrow> Some x | (None, Some y) \<Rightarrow> Some y | (None, None) \<Rightarrow> None)"

text \<open>\<open>Inr None\<close> is the early return of a missed window.\<close>

definition task_window :: "task_requirement \<Rightarrow> scheduling_context \<Rightarrow> scheduler_error + start_window option" where
  "task_window req ctx =
     (let timing = tq_timing req; accepted = sx_mission_accepted_at ctx in
      case validate_duration_estimate req (sx_duration_estimate ctx) (sx_now ctx) of
        Inl e \<Rightarrow> Inl e
      | Inr estimate \<Rightarrow>
     (let duration = (case estimate of Some e \<Rightarrow> Some (de_duration_ms e) | None \<Rightarrow> tt_estimated_duration_ms timing) in
      case checked_timestamp_add accepted (tt_earliest_start_offset_ms timing) of
        Inl e \<Rightarrow> Inl e
      | Inr first \<Rightarrow>
     (let earliest = max first (sx_now ctx) in
      case add_offset accepted (tt_latest_start_offset_ms timing) of
        Inl e \<Rightarrow> Inl e
      | Inr latest \<Rightarrow>
     (case add_offset accepted (tt_completion_deadline_offset_ms timing) of
        Inl e \<Rightarrow> Inl e
      | Inr deadline \<Rightarrow>
          if is_some_and deadline (\<lambda>e. is_some_and duration (\<lambda>d. e < d)) then Inr None
          else (let start_deadline = (case (deadline, duration) of (Some e, Some d) \<Rightarrow> Some (e - d) | (e, None) \<Rightarrow> e | (None, Some _) \<Rightarrow> None);
                    activation = earlier_bound latest start_deadline
                in if is_some_and activation (\<lambda>l. l < earliest) then Inr None
                   else Inr (Some \<lparr>sw_estimate = estimate, sw_duration_ms = duration, sw_earliest = earliest,
                          sw_completion_deadline = deadline, sw_latest_activation_at = activation\<rparr>))))))"

definition candidate_starts :: "start_window \<Rightarrow> scheduling_snapshot \<Rightarrow> timestamp list" where
  "candidate_starts w s =
     filter (\<lambda>t. sw_earliest w \<le> t) (remdups_adj (sort (sw_earliest w #
       (if sw_duration_ms w = None then []
        else List.map_filter oc_ends_at (sn_occupancies s)
          @ (case sn_resource_topology s of
               None \<Rightarrow> []
             | Some topology \<Rightarrow> map tw_starts_at (concat (map te_windows (tg_resources topology))))))))"

definition make_decision ::
    "task_requirement \<Rightarrow> scheduling_snapshot \<Rightarrow> start_window \<Rightarrow> timestamp \<Rightarrow> timestamp option \<Rightarrow> search_state \<Rightarrow> scheduling_decision" where
  "make_decision req s w starts ends st =
     \<lparr>sd_task_ref = tq_task_ref req, sd_selections = ss_selections st, sd_starts_at = starts, sd_ends_at = ends,
      sd_latest_activation_at = sw_latest_activation_at w, sd_snapshot_version = sn_version s,
      sd_expansions = ss_expansions st, sd_duration_estimate = sw_estimate w,
      sd_cost_evidence = bt_values (sn_cost_evidence s), sd_policy_cost_evidence = bt_values (sn_policy_cost_evidence s)\<rparr>"

fun try_starts ::
    "scheduler \<Rightarrow> node_reader \<Rightarrow> task_requirement \<Rightarrow> candidate_set \<Rightarrow> scheduling_snapshot \<Rightarrow> timestamp \<Rightarrow> start_window
       \<Rightarrow> u32 \<Rightarrow> timestamp list \<Rightarrow> scheduling_outcome sched_result" where
  "try_starts b nodes req c s now w expansions [] = SOk Deferred"
| "try_starts b nodes req c s now w expansions (t # ts) =
     (if is_some_and (sw_latest_activation_at w) (\<lambda>l. l < t) then SOk Deferred
      else (case add_offset t (sw_duration_ms w) of
        Inl e \<Rightarrow> SErr e
      | Inr ends \<Rightarrow>
          if is_some_and (sw_completion_deadline w) (\<lambda>d. d < (case ends of None \<Rightarrow> t | Some e \<Rightarrow> e))
          then try_starts b nodes req c s now w expansions ts
          else (case search_roles (tq_roles req)
                  \<lparr>in_nodes = nodes, in_candidates = c, in_snapshot = s, in_starts_at = t, in_ends_at = ends,
                   in_limit = bs_max_expansions b\<rparr>
                  \<lparr>ss_selections = [], ss_entities = bt_empty, ss_expansions = expansions\<rparr> of
             SErr e \<Rightarrow> SErr e
           | SPanic \<Rightarrow> SPanic
           | SOk (False, st) \<Rightarrow> try_starts b nodes req c s now w (ss_expansions st) ts
           | SOk (True, st) \<Rightarrow>
               if now < t \<and> ends = None then SOk Deferred
               else SOk ((if t \<le> now then SelectedNow else SelectedFuture) (make_decision req s w t ends st)))))"

definition schedule_task_with_snapshot_and_estimate ::
    "scheduler \<Rightarrow> node_reader \<Rightarrow> task_requirement \<Rightarrow> candidate_set \<Rightarrow> scheduling_snapshot \<Rightarrow> scheduling_context
       \<Rightarrow> scheduling_outcome sched_result" where
  "schedule_task_with_snapshot_and_estimate b nodes req c s ctx =
     (case validate_candidate_set req c of
        Inl e \<Rightarrow> SErr e
      | Inr _ \<Rightarrow>
          (case task_window req ctx of
             Inl e \<Rightarrow> SErr e
           | Inr None \<Rightarrow> SOk WindowMissed
           | Inr (Some w) \<Rightarrow> try_starts b nodes req c s (sx_now ctx) w 0 (candidate_starts w s)))"

definition schedule_task_with_snapshot ::
    "scheduler \<Rightarrow> node_reader \<Rightarrow> task_requirement \<Rightarrow> candidate_set \<Rightarrow> scheduling_snapshot \<Rightarrow> timestamp \<Rightarrow> timestamp
       \<Rightarrow> scheduling_outcome sched_result" where
  "schedule_task_with_snapshot b nodes req c s accepted now =
     schedule_task_with_snapshot_and_estimate b nodes req c s
       \<lparr>sx_mission_accepted_at = accepted, sx_now = now, sx_duration_estimate = None\<rparr>"

text \<open>An event sink is the list of appended entries: receive time, correlation, cause and payload.\<close>

type_synonym event_entry = "timestamp \<times> string \<times> string option \<times> scheduling_event"

definition schedule_task ::
    "scheduler \<Rightarrow> node_reader \<Rightarrow> task_requirement \<Rightarrow> candidate_set \<Rightarrow> timestamp \<Rightarrow> string \<Rightarrow> event_entry list
       \<Rightarrow> scheduling_decision sched_result \<times> event_entry list" where
  "schedule_task b nodes req c now correlation events =
     (if cs_task_ref c \<noteq> tq_task_ref req
      then (SErr (InvalidCandidateSet ''normal candidates belong to another task''), events)
      else (let select = (\<lambda>d. (SOk d, events @ [(now, correlation, None, TaskSchedulingSelected (tq_task_ref req) (proposed_assignments d))]));
                nothing = ((case tq_roles req of [] \<Rightarrow> SPanic | role # _ \<Rightarrow> SErr (NoFeasibleSelection (rq_role_id role))), events)
            in case schedule_task_with_snapshot b nodes req c snapshot_empty now now of
                 SErr e \<Rightarrow> (SErr e, events)
               | SPanic \<Rightarrow> (SPanic, events)
               | SOk (SelectedNow d) \<Rightarrow> select d
               | SOk (SelectedFuture d) \<Rightarrow> select d
               | SOk Deferred \<Rightarrow> nothing
               | SOk WindowMissed \<Rightarrow> nothing))"

subsection \<open>Scheduling a recovery\<close>

fun select_first ::
    "node_reader \<Rightarrow> role_requirement \<Rightarrow> scheduling_snapshot \<Rightarrow> timestamp \<Rightarrow> timestamp option \<Rightarrow> node_id list
       \<Rightarrow> role_selection option sched_result" where
  "select_first nodes role s starts ends [] = SOk None"
| "select_first nodes role s starts ends (node # rest) =
     (case nodes node of
        None \<Rightarrow> SErr (UnknownCandidate node)
      | Some resources \<Rightarrow>
          (case resource_choices resources role s starts ends [] None of
             [] \<Rightarrow> select_first nodes role s starts ends rest
           | (ids, units) # _ \<Rightarrow>
               (case with_resources (role_selection_new (rq_role_id role) node ids units) role resources of
                  None \<Rightarrow> SPanic | Some sel \<Rightarrow> SOk (Some sel))))"

definition select_role ::
    "node_reader \<Rightarrow> role_requirement \<Rightarrow> node_id list \<Rightarrow> scheduling_snapshot \<Rightarrow> timestamp \<Rightarrow> timestamp option
       \<Rightarrow> role_selection option sched_result" where
  "select_role nodes role candidates s starts ends =
     select_first nodes role s starts ends
       (remdups_adj (sort_key (\<lambda>node. (candidate_cost s node starts, node)) candidates))"

definition recovery_end :: "scheduling_snapshot \<Rightarrow> task_ref \<Rightarrow> timestamp option" where
  "recovery_end s task =
     (case sn_topology_recovery_interval s of
        None \<Rightarrow> None | Some (owner, finish) \<Rightarrow> if owner = task then Some finish else None)"

definition schedule_recovery ::
    "node_reader \<Rightarrow> task_requirement \<Rightarrow> recovery_candidate_set \<Rightarrow> scheduling_snapshot \<Rightarrow> timestamp \<Rightarrow> string \<Rightarrow> event_entry list
       \<Rightarrow> recovery_outcome sched_result \<times> event_entry list" where
  "schedule_recovery nodes req c s now correlation events =
     (if rv_task_ref c \<noteq> tq_task_ref req
      then (SErr (InvalidCandidateSet ''recovery candidates belong to another task''), events)
      else (case find (\<lambda>role. rq_role_id role = rv_role_id c) (tq_roles req) of
        None \<Rightarrow> (SErr (InvalidCandidateSet (''task requirement omits recovery role '' @ rv_role_id c)), events)
      | Some role \<Rightarrow>
          (case select_role nodes role (rv_candidate_node_ids c) s now (recovery_end s (rv_task_ref c)) of
             SErr e \<Rightarrow> (SErr e, events)
           | SPanic \<Rightarrow> (SPanic, events)
           | SOk None \<Rightarrow>
               (SOk NoSelection, events @ [(now, correlation, None,
                  RecoverySchedulingNoSelection (rv_group_id c) (rv_task_ref c) (rv_role_id c))])
           | SOk (Some sel) \<Rightarrow>
               (SOk (RecoverySelected \<lparr>rd_group_id = rv_group_id c, rd_task_ref = rv_task_ref c, rd_role_id = rv_role_id c,
                    rd_previous_node_id = rv_previous_node_id c, rd_replacement_node_id = rs_node_id sel,
                    rd_resource_ids = rs_resource_ids sel, rd_policy_cost_evidence = bt_values (sn_policy_cost_evidence s)\<rparr>),
                events @ [(now, correlation, None,
                  RecoverySchedulingSelected (rv_group_id c) (rv_task_ref c) (rv_role_id c) (rv_previous_node_id c)
                    (rs_node_id sel) (rs_resource_ids sel))]))))"

end
