(* ===== verification/CP_Search.thy ===== *)
theory CP_Search
  imports CP_Scheduler
begin

text \<open>
  The joint search against a declarative plan: which resource choices exist for a Role, what a joint plan is, and that
  the backtracking search of \<open>search_roles\<close> finds one exactly when there is one, restoring its state on the way.
\<close>

subsection \<open>Resource choices\<close>

fun free_picks ::
    "(resource_requirement \<Rightarrow> resource list) \<Rightarrow> scheduling_snapshot \<Rightarrow> resource_id list \<Rightarrow> resource_requirement list \<Rightarrow> resource_id list \<Rightarrow> bool" where
  "free_picks usable s chosen [] picks \<longleftrightarrow> picks = []"
| "free_picks usable s chosen (d # ds) [] \<longleftrightarrow> False"
| "free_picks usable s chosen (d # ds) (i # picks) \<longleftrightarrow>
     i \<in> res_id ` set (usable d) \<and> i \<notin> set chosen \<and> \<not> conflicts_with_chosen s chosen i
     \<and> free_picks usable s (chosen @ [i]) ds picks"

lemma extend_choice_iff:
  "(ids, units) \<in> set (extend_choice s d resources (chosen, taken)) \<longleftrightarrow>
     (\<exists>i. ids = chosen @ [i] \<and> units = taken @ [rr_units d] \<and> i \<in> res_id ` set resources \<and> i \<notin> set chosen
        \<and> \<not> conflicts_with_chosen s chosen i)"
  by (auto simp: extend_choice_def)

lemma free_picks_Cons:
  "free_picks usable s chosen (d # ds) picks \<longleftrightarrow>
     (\<exists>i rest. picks = i # rest \<and> i \<in> res_id ` set (usable d) \<and> i \<notin> set chosen \<and> \<not> conflicts_with_chosen s chosen i
        \<and> free_picks usable s (chosen @ [i]) ds rest)"
  by (cases picks) auto

lemma combine_demands_iff:
  "(ids, units) \<in> set (combine_demands usable s ds combinations) \<longleftrightarrow>
     (\<exists>chosen taken picks. (chosen, taken) \<in> set combinations \<and> free_picks usable s chosen ds picks
        \<and> ids = chosen @ picks \<and> units = taken @ map rr_units ds)"
proof (induction usable s ds combinations rule: combine_demands.induct)
  case (2 usable s d ds combinations)
  have "(ids, units) \<in> set (combine_demands usable s (d # ds) combinations) \<longleftrightarrow>
      (\<exists>chosen taken picks. (\<exists>c t. (c, t) \<in> set combinations \<and> (chosen, taken) \<in> set (extend_choice s d (usable d) (c, t)))
         \<and> free_picks usable s chosen ds picks \<and> ids = chosen @ picks \<and> units = taken @ map rr_units ds)"
    unfolding combine_demands.simps 2 by auto
  also have "\<dots> \<longleftrightarrow> (\<exists>c t picks. (c, t) \<in> set combinations \<and> free_picks usable s c (d # ds) picks
        \<and> ids = c @ picks \<and> units = t @ map rr_units (d # ds))"
    unfolding extend_choice_iff free_picks_Cons by (rule iffI; elim exE conjE; hypsubst; force)
  finally show ?case .
qed auto

lemma resource_choices_iff:
  "(ids, units) \<in> set (resource_choices resources role s start finish selected limit_to) \<longleftrightarrow>
     free_picks (usable_resources resources role s start finish selected limit_to) s [] (resource_requirements role) ids
     \<and> units = map rr_units (resource_requirements role)
     \<and> (resource_requirements role = [] \<or> is_none_or limit_to (\<lambda>c. ids = rk_resource_ids c))"
proof -
  have len: "free_picks usable s chosen ds picks \<Longrightarrow> length picks = length ds" for usable chosen ds picks
    by (induction usable s chosen ds picks rule: free_picks.induct) auto
  show ?thesis
    by (auto simp: resource_choices_def Let_def combine_demands_iff dest: len split: option.split)
qed

subsection \<open>Joint plans\<close>

definition bind_entity :: "search_input \<Rightarrow> role_requirement \<Rightarrow> node_id \<Rightarrow> (actor_id, string) btmap \<Rightarrow> (actor_id, string) btmap" where
  "bind_entity inp role node entities =
     (case actor_entity (in_candidates inp) (rq_role_id role) node of
        None \<Rightarrow> entities | Some (actor, entity) \<Rightarrow> bt_insert actor entity entities)"

definition choices_at :: "search_input \<Rightarrow> role_requirement \<Rightarrow> resource list \<Rightarrow> role_selection list \<Rightarrow> resource_choice list" where
  "choices_at inp role resources selected =
     resource_choices resources role (in_snapshot inp) (in_starts_at inp) (in_ends_at inp) selected
       (bt_get (sn_role_constraints (in_snapshot inp)) (rq_role_id role))"

definition selection_of :: "role_requirement \<Rightarrow> node_id \<Rightarrow> resource list \<Rightarrow> resource_choice \<Rightarrow> role_selection option" where
  "selection_of role node resources choice =
     with_resources (role_selection_new (rq_role_id role) node (fst choice) (snd choice)) role resources"

definition role_choice ::
    "search_input \<Rightarrow> role_requirement \<Rightarrow> role_selection list \<Rightarrow> (actor_id, string) btmap \<Rightarrow> node_id \<Rightarrow> role_selection \<Rightarrow> bool" where
  "role_choice inp role selected entities node sel \<longleftrightarrow>
     \<not> node_skipped inp role entities node
     \<and> (\<exists>resources choice. in_nodes inp node = Some resources \<and> choice \<in> set (choices_at inp role resources selected)
          \<and> selection_of role node resources choice = Some sel)"

fun joint_plan ::
    "search_input \<Rightarrow> role_requirement list \<Rightarrow> role_selection list \<Rightarrow> (actor_id, string) btmap \<Rightarrow> role_selection list \<Rightarrow> bool" where
  "joint_plan inp [] selected entities plan \<longleftrightarrow> plan = []"
| "joint_plan inp (role # roles) selected entities [] \<longleftrightarrow> False"
| "joint_plan inp (role # roles) selected entities (sel # plan) \<longleftrightarrow>
     is_some_and (for_role (in_candidates inp) (rq_role_id role)) (\<lambda>c. rs_node_id sel \<in> set (rc_node_ids c))
     \<and> role_choice inp role selected entities (rs_node_id sel) sel
     \<and> joint_plan inp roles (selected @ [sel]) (bind_entity inp role (rs_node_id sel) entities) plan"

lemma selection_of_fields:
  assumes "selection_of role node resources (ids, units) = Some sel"
  shows "rs_role_id sel = rq_role_id role" "rs_node_id sel = node" "rs_resource_ids sel = ids" "rs_resource_units sel = units"
    "rs_resource_requirements sel = (if list_ex (\<lambda>d. rr_allocation_mode d = Divisible) (resource_requirements role)
       then resource_requirements role else [])"
  using assms by (auto simp: selection_of_def with_resources_def role_selection_new_def split: if_splits)

lemma free_picks_set: "free_picks usable s chosen ds picks \<Longrightarrow> set picks \<subseteq> (\<Union>d \<in> set ds. res_id ` set (usable d))"
  by (induction usable s chosen ds picks rule: free_picks.induct) auto

lemma capacities_of_total: "set ids \<subseteq> res_id ` set resources \<Longrightarrow> capacities_of resources ids \<noteq> None"
  by (induction resources ids rule: capacities_of.induct) (auto simp: find_None_iff split: option.split)

lemma usable_resources_set: "set (usable_resources resources role s start finish selected limit_to d) \<subseteq> set resources"
  by (auto simp: usable_resources_def)

lemma resource_choice_total:
  assumes "(ids, units) \<in> set (resource_choices resources role s start finish selected limit_to)"
  shows "with_resources (role_selection_new (rq_role_id role) node ids units) role resources \<noteq> None"
proof -
  have "set ids \<subseteq> res_id ` set resources"
    using assms usable_resources_set by (fastforce simp: resource_choices_iff dest!: free_picks_set)
  from capacities_of_total [OF this] show ?thesis by (auto simp: with_resources_def role_selection_new_def)
qed

lemma selection_of_total: "choice \<in> set (choices_at inp role resources selected) \<Longrightarrow> selection_of role node resources choice \<noteq> None"
  using resource_choice_total by (cases choice) (auto simp: choices_at_def selection_of_def)

subsection \<open>The search decides whether a plan exists\<close>

definition unknown_candidate :: "search_input \<Rightarrow> node_id \<Rightarrow> bool" where
  "unknown_candidate inp node \<longleftrightarrow>
     in_nodes inp node = None \<and> (\<exists>c \<in> set (cs_roles (in_candidates inp)). node \<in> set (rc_node_ids c))"

definition settled ::
    "search_input \<Rightarrow> (role_selection list \<Rightarrow> bool) \<Rightarrow> search_state \<Rightarrow> (bool \<times> search_state) sched_result \<Rightarrow> bool" where
  "settled inp P st result \<longleftrightarrow>
     (case result of
        SOk (found, st') \<Rightarrow>
          (ss_expansions st \<le> in_limit inp \<longrightarrow> ss_expansions st' \<le> in_limit inp)
          \<and> (if found then \<exists>plan. P plan \<and> ss_selections st' = ss_selections st @ plan
             else (\<forall>plan. \<not> P plan) \<and> ss_selections st' = ss_selections st \<and> ss_entities st' = ss_entities st)
      | SErr e \<Rightarrow> e = SearchLimited \<or> (\<exists>node. e = UnknownCandidate node \<and> unknown_candidate inp node)
      | SPanic \<Rightarrow> False)"

definition decides ::
    "search_input \<Rightarrow> (role_selection list \<Rightarrow> (actor_id, string) btmap \<Rightarrow> role_selection list \<Rightarrow> bool) \<Rightarrow> search_step \<Rightarrow> bool" where
  "decides inp P step \<longleftrightarrow> (\<forall>st. settled inp (P (ss_selections st) (ss_entities st)) st (step st))"

lemma push_choice_fields:
  "ss_selections (push_choice inp role node sel n st) = ss_selections st @ [sel]"
  "ss_entities (push_choice inp role node sel n st) = bind_entity inp role node (ss_entities st)"
  "ss_expansions (push_choice inp role node sel n st) = n"
  by (simp_all add: push_choice_def bind_entity_def)

lemma undo_restores:
  assumes "ss_entities st' = bind_entity inp role node (ss_entities st)" and "ss_selections st' = ss_selections st @ [sel]"
    and "previous = map_option (\<lambda>(actor, _). (actor, bt_get (ss_entities st) actor))
           (actor_entity (in_candidates inp) (rq_role_id role) node)"
  shows "undo previous st' = st'\<lparr>ss_entities := ss_entities st, ss_selections := ss_selections st\<rparr>"
proof -
  have "(case previous of None \<Rightarrow> ss_entities st' | Some (actor, Some entity) \<Rightarrow> bt_insert actor entity (ss_entities st')
      | Some (actor, None) \<Rightarrow> bt_remove actor (ss_entities st')) = ss_entities st"
    using assms(1,3) by (auto simp: bind_entity_def bt_get_insert bt_get_remove intro!: bt_eqI split: option.splits)
  with assms(2) show ?thesis by (simp add: undo_def)
qed

lemma try_choices_settled:
  assumes "decides inp P continue" and "\<forall>choice \<in> set choices. selection_of role node resources choice \<noteq> None"
  shows "settled inp (\<lambda>plan. \<exists>sel rest. (\<exists>choice \<in> set choices. selection_of role node resources choice = Some sel)
      \<and> plan = sel # rest \<and> P (ss_selections st @ [sel]) (bind_entity inp role node (ss_entities st)) rest)
    st (try_choices continue inp role node resources choices st)"
  using assms(2)
proof (induction choices arbitrary: st)
  case Nil
  then show ?case by (simp add: settled_def)
next
  case (Cons choice choices)
  obtain ids units where choice: "choice = (ids, units)" by fastforce
  from Cons.prems obtain sel where sel: "selection_of role node resources choice = Some sel" by auto
  then have wr: "with_resources (role_selection_new (rq_role_id role) node ids units) role resources = Some sel"
    by (simp add: selection_of_def choice)
  let ?previous = "map_option (\<lambda>(actor, _). (actor, bt_get (ss_entities st) actor))
    (actor_entity (in_candidates inp) (rq_role_id role) node)"
  show ?case
  proof (cases "checked_add (ss_expansions st) 1")
    case None
    then show ?thesis by (simp add: settled_def choice)
  next
    case (Some n)
    show ?thesis
    proof (cases "in_limit inp < n")
      case True
      with Some show ?thesis by (simp add: settled_def choice)
    next
      case False
      let ?st = "push_choice inp role node sel n st"
      have go: "settled inp (P (ss_selections st @ [sel]) (bind_entity inp role node (ss_entities st))) ?st (continue ?st)"
        using assms(1) [unfolded decides_def, THEN spec, of ?st] by (simp add: push_choice_fields)
      show ?thesis
      proof (cases "\<exists>st'. continue ?st = SOk (False, st')")
        case True
        then obtain st' where st': "continue ?st = SOk (False, st')" by blast
        with go False have kept: "ss_selections st' = ss_selections ?st" "ss_entities st' = ss_entities ?st"
          "\<And>rest. \<not> P (ss_selections st @ [sel]) (bind_entity inp role node (ss_entities st)) rest"
          "ss_expansions st' \<le> in_limit inp"
          by (auto simp: settled_def push_choice_fields)
        have undo: "undo ?previous st' = st'\<lparr>ss_entities := ss_entities st, ss_selections := ss_selections st\<rparr>"
          using kept(1,2) by (intro undo_restores) (simp_all add: push_choice_fields)
        from Cons.prems Cons.IH [of "undo ?previous st'"] show ?thesis
          using Some False wr st' kept(3,4) sel by (auto simp: settled_def choice undo split: sched_result.splits prod.splits) blast
      next
        case found: False
        then show ?thesis using go Some False wr sel
          by (auto simp: settled_def choice push_choice_fields split: sched_result.splits prod.splits bool.splits)
      qed
    qed
  qed
qed

lemma settled_cong: "(\<And>plan. P plan \<longleftrightarrow> Q plan) \<Longrightarrow> settled inp P st result \<longleftrightarrow> settled inp Q st result"
proof -
  assume "\<And>plan. P plan \<longleftrightarrow> Q plan"
  then have "P = Q" by blast
  then show ?thesis by simp
qed

lemma settled_later:
  assumes "settled inp Q st' result" and "\<And>plan. \<not> P plan" and "ss_selections st' = ss_selections st"
    and "ss_entities st' = ss_entities st" and "ss_expansions st \<le> in_limit inp \<longrightarrow> ss_expansions st' \<le> in_limit inp"
  shows "settled inp (\<lambda>plan. P plan \<or> Q plan) st result"
  using assms by (auto simp: settled_def split: sched_result.splits prod.splits)

lemma settled_here:
  assumes "settled inp P st result" and "\<nexists>st'. result = SOk (False, st')"
  shows "settled inp (\<lambda>plan. P plan \<or> Q plan) st result"
  using assms by (auto simp: settled_def split: sched_result.splits prod.splits)

lemma try_nodes_settled:
  assumes "decides inp P continue"
    and "\<forall>node \<in> set nodes. \<exists>c \<in> set (cs_roles (in_candidates inp)). node \<in> set (rc_node_ids c)"
  shows "settled inp (\<lambda>plan. \<exists>node sel rest. node \<in> set nodes \<and> role_choice inp role (ss_selections st) (ss_entities st) node sel
      \<and> plan = sel # rest \<and> P (ss_selections st @ [sel]) (bind_entity inp role node (ss_entities st)) rest)
    st (try_nodes continue inp role nodes st)"
  using assms(2)
proof (induction nodes arbitrary: st)
  case Nil
  then show ?case by (simp add: settled_def)
next
  case (Cons node nodes)
  let ?here = "\<lambda>plan. \<exists>sel rest. role_choice inp role (ss_selections st) (ss_entities st) node sel
      \<and> plan = sel # rest \<and> P (ss_selections st @ [sel]) (bind_entity inp role node (ss_entities st)) rest"
  let ?later = "\<lambda>plan. \<exists>n sel rest. n \<in> set nodes \<and> role_choice inp role (ss_selections st) (ss_entities st) n sel
      \<and> plan = sel # rest \<and> P (ss_selections st @ [sel]) (bind_entity inp role n (ss_entities st)) rest"
  have later: "settled inp ?later st' (try_nodes continue inp role nodes st')"
    if "ss_selections st' = ss_selections st" "ss_entities st' = ss_entities st" for st'
    using Cons.IH [of st'] Cons.prems that by simp
  have "settled inp (\<lambda>plan. ?here plan \<or> ?later plan) st (try_nodes continue inp role (node # nodes) st)"
  proof (cases "node_skipped inp role (ss_entities st) node")
    case True
    with settled_later [OF later, where P = ?here] show ?thesis by (simp add: role_choice_def)
  next
    case unskipped: False
    show ?thesis
    proof (cases "in_nodes inp node")
      case None
      with unskipped Cons.prems show ?thesis by (auto simp: settled_def unknown_candidate_def)
    next
      case (Some resources)
      let ?choices = "choices_at inp role resources (ss_selections st)"
      let ?result = "try_choices continue inp role node resources ?choices st"
      have "settled inp (\<lambda>plan. \<exists>sel rest. (\<exists>choice \<in> set ?choices. selection_of role node resources choice = Some sel)
          \<and> plan = sel # rest \<and> P (ss_selections st @ [sel]) (bind_entity inp role node (ss_entities st)) rest) st ?result"
        using try_choices_settled [OF assms(1)] selection_of_total by blast
      then have here: "settled inp ?here st ?result"
        by (rule settled_cong [THEN iffD1, rotated]) (auto simp: role_choice_def Some unskipped)
      show ?thesis
      proof (cases "\<exists>st'. ?result = SOk (False, st')")
        case True
        then obtain st' where st': "?result = SOk (False, st')" by blast
        with here have kept: "ss_selections st' = ss_selections st" "ss_entities st' = ss_entities st" "\<And>plan. \<not> ?here plan"
          "ss_expansions st \<le> in_limit inp \<longrightarrow> ss_expansions st' \<le> in_limit inp"
          by (simp_all add: settled_def)
        have "try_nodes continue inp role (node # nodes) st = try_nodes continue inp role nodes st'"
          using unskipped Some st' by (simp add: choices_at_def)
        with settled_later [OF later [OF kept(1,2)], where P = ?here, OF kept(3,1,2,4)] show ?thesis by simp
      next
        case False
        then have "try_nodes continue inp role (node # nodes) st = ?result"
          using unskipped Some by (auto simp: choices_at_def split: sched_result.split prod.split bool.split)
        with settled_here [OF here False] show ?thesis by simp
      qed
    qed
  qed
  then show ?case by (rule settled_cong [THEN iffD1, rotated]) auto
qed

lemma set_ordered_nodes [simp]: "set (ordered_nodes inp role nodes) = set nodes"
  by (simp add: ordered_nodes_def)

theorem search_roles_decides:
  assumes "\<forall>role \<in> set roles. for_role (in_candidates inp) (rq_role_id role) \<noteq> None"
  shows "decides inp (joint_plan inp roles) (search_roles roles inp)"
  using assms
proof (induction roles)
  case Nil
  then show ?case by (simp add: decides_def settled_def)
next
  case (Cons role roles)
  then obtain c where c: "for_role (in_candidates inp) (rq_role_id role) = Some c" by auto
  then have "c \<in> set (cs_roles (in_candidates inp))" by (auto simp: for_role_def find_Some_iff)
  then have nodes: "\<forall>node \<in> set (ordered_nodes inp (rq_role_id role) (rc_node_ids c)).
      \<exists>c \<in> set (cs_roles (in_candidates inp)). node \<in> set (rc_node_ids c)" by auto
  have IH: "decides inp (joint_plan inp roles) (search_roles roles inp)" using Cons by simp
  have node: "role_choice inp role selected entities node sel \<Longrightarrow> rs_node_id sel = node" for selected entities node sel
    by (auto simp: role_choice_def dest: selection_of_fields)
  have "joint_plan inp (role # roles) selected entities plan \<longleftrightarrow>
      (\<exists>node sel rest. node \<in> set (rc_node_ids c) \<and> role_choice inp role selected entities node sel \<and> plan = sel # rest
         \<and> joint_plan inp roles (selected @ [sel]) (bind_entity inp role node entities) rest)" for selected entities plan
    using node by (cases plan) (auto simp: c)
  with try_nodes_settled [OF IH nodes] show ?case
    by (simp add: decides_def c cong: settled_cong)
qed

end
