(* ===== verification/CP_Capacity_Props.thy ===== *)
theory CP_Capacity_Props
  imports CP_Capacity
begin

text \<open>
  The interval sweep decides the pointwise capacity condition: at every instant of the window the units in use and the
  units asked for fit the capacity, and no whole-resource occupancy is active.
\<close>

subsection \<open>The pointwise condition\<close>

definition active_at :: "timestamp \<Rightarrow> scheduling_occupancy \<Rightarrow> bool" where
  "active_at t occ \<longleftrightarrow> oc_starts_at occ \<le> t \<and> is_none_or (oc_ends_at occ) (\<lambda>e. t < e)"

definition in_window :: "timestamp \<Rightarrow> timestamp option \<Rightarrow> timestamp \<Rightarrow> bool" where
  "in_window start finish t \<longleftrightarrow> start \<le> t \<and> is_none_or finish (\<lambda>f. t < f)"

definition occupied_units :: "scheduling_occupancy \<Rightarrow> int" where
  "occupied_units occ = (case oc_units occ of None \<Rightarrow> 0 | Some u \<Rightarrow> uint u)"

definition load_at :: "scheduling_occupancy list \<Rightarrow> timestamp \<Rightarrow> int" where
  "load_at occs t = (\<Sum>occ \<leftarrow> occs. if active_at t occ then occupied_units occ else 0)"

definition occupancy_wf :: "scheduling_occupancy \<Rightarrow> bool" where
  "occupancy_wf occ \<longleftrightarrow> is_none_or (oc_ends_at occ) (\<lambda>e. oc_starts_at occ < e)"

definition fits :: "scheduling_occupancy list \<Rightarrow> timestamp \<Rightarrow> timestamp option \<Rightarrow> u32 \<Rightarrow> u32 \<Rightarrow> bool" where
  "fits occs start finish units capacity \<longleftrightarrow>
     units \<le> capacity \<and> in_window start finish start
     \<and> (\<forall>t. in_window start finish t \<longrightarrow>
          (\<forall>occ \<in> set occs. active_at t occ \<longrightarrow> oc_units occ \<noteq> None) \<and> load_at occs t + uint units \<le> uint capacity)"

lemma load_at_simps [simp]:
  "load_at [] t = 0" "load_at (occ # occs) t = (if active_at t occ then occupied_units occ else 0) + load_at occs t"
  "load_at (occs @ occs') t = load_at occs t + load_at occs' t"
  by (simp_all add: load_at_def)

lemma occupied_units_nonneg [simp]: "0 \<le> occupied_units occ"
  by (simp add: occupied_units_def split: option.split)

lemma load_at_nonneg [simp]: "0 \<le> load_at occs t"
  by (induction occs) auto

subsection \<open>Prefix sums of the changes\<close>

definition prefix_sum :: "(timestamp \<times> int) list \<Rightarrow> timestamp \<Rightarrow> int" where
  "prefix_sum es t = (\<Sum>(k, v) \<leftarrow> es. if k \<le> t then v else 0)"

lemma prefix_sum_simps [simp]:
  "prefix_sum [] t = 0" "prefix_sum ((k, v) # es) t = (if k \<le> t then v else 0) + prefix_sum es t"
  by (simp_all add: prefix_sum_def)

lemma prefix_sum_before: "\<forall>k \<in> fst ` set es. t < k \<Longrightarrow> prefix_sum es t = 0"
  by (induction es) (auto simp flip: not_le)

lemma prefix_sum_ins:
  "sorted_wrt (<) (map fst es) \<Longrightarrow>
     prefix_sum (ins_entry k v es) t = prefix_sum es t + (if k \<le> t then v - (case map_of es k of None \<Rightarrow> 0 | Some w \<Rightarrow> w) else 0)"
proof (induction k v es rule: ins_entry.induct)
  case (2 k v k' v' es)
  have "k < k' \<Longrightarrow> map_of es k = None"
    using 2(2) by (force simp: map_of_eq_None_iff)
  with 2 show ?case by (auto simp: not_less_iff_gr_or_eq)
qed simp

lemma bt_entries_sorted: "sorted_wrt (<) (map fst (bt_entries m))"
  using bt_entries_ascending [of m] by (simp add: bt_keys_def)

lemma prefix_sum_add_change:
  "prefix_sum (bt_entries (add_change u d m)) t = prefix_sum (bt_entries m) t + (if u \<le> t then d else 0)"
  by (simp add: add_change_def bt_insert.rep_eq prefix_sum_ins [OF bt_entries_sorted] bt_get_def split: option.split)

lemma sweep_iff:
  assumes "sorted_wrt (<) (map fst es)"
  shows "sweep a (map snd es) capacity \<longleftrightarrow>
    (\<forall>k \<in> fst ` set es. 0 \<le> a + prefix_sum es k \<and> a + prefix_sum es k \<le> capacity)"
  using assms
proof (induction es arbitrary: a)
  case (Cons e es)
  obtain k v where e: "e = (k, v)" by (cases e)
  have later: "k < k'" if "k' \<in> fst ` set es" for k' using Cons.prems that by (auto simp: e)
  then have "prefix_sum es k = 0" by (intro prefix_sum_before) blast
  moreover have "prefix_sum ((k, v) # es) k' = v + prefix_sum es k'" if "k' \<in> fst ` set es" for k'
    using less_imp_le [OF later [OF that]] by simp
  moreover have "sorted_wrt (<) (map fst es)" using Cons.prems by simp
  note Cons.IH [OF this, of "a + v"]
  ultimately show ?case by (auto simp: e add.assoc)
qed simp

lemma bt_values_map: "bt_values m = map snd (bt_entries m)"
  by (simp add: bt_values_def)

subsection \<open>The changes of a calendar\<close>

definition relevant_load :: "timestamp \<Rightarrow> timestamp option \<Rightarrow> scheduling_occupancy list \<Rightarrow> timestamp \<Rightarrow> int" where
  "relevant_load start finish occs t = load_at (filter (\<lambda>occ. \<not> outside start finish occ) occs) t"

lemma outside_inactive: "in_window start finish t \<Longrightarrow> outside start finish occ \<Longrightarrow> \<not> active_at t occ"
  by (auto simp: in_window_def outside_def active_at_def is_some_and_iff is_none_or_iff)

lemma relevant_load_eq: "in_window start finish t \<Longrightarrow> relevant_load start finish occs t = load_at occs t"
  unfolding relevant_load_def by (induction occs) (auto dest: outside_inactive)

lemma occupancy_changes:
  assumes "in_window start finish t" and "\<not> outside start finish occ" and "occupancy_wf occ" and "oc_units occ = Some u"
  shows "(if max start (oc_starts_at occ) \<le> t then uint u else 0)
    + (case oc_ends_at occ of None \<Rightarrow> 0 | Some e \<Rightarrow> if is_none_or finish (\<lambda>f. e < f) \<and> e \<le> t then - uint u else 0)
    = (if active_at t occ then occupied_units occ else 0)"
  using assms
  by (cases "oc_ends_at occ"; cases finish)
    (auto simp: in_window_def outside_def active_at_def occupancy_wf_def occupied_units_def)

lemma collect_changes_sum:
  assumes "collect_changes start finish occs changes = Some changes'" and "in_window start finish t"
    and "\<forall>occ \<in> set occs. occupancy_wf occ"
  shows "prefix_sum (bt_entries changes') t = prefix_sum (bt_entries changes) t + relevant_load start finish occs t"
  using assms
proof (induction start finish occs changes rule: collect_changes.induct)
  case (2 start finish occ occs changes)
  show ?case
  proof (cases "outside start finish occ")
    case False
    with 2(3) obtain u where u: "oc_units occ = Some u" by (auto split: option.splits)
    define opened where "opened = add_change (max start (oc_starts_at occ)) (uint u) changes"
    define closed where "closed = (case oc_ends_at occ of None \<Rightarrow> opened
      | Some e \<Rightarrow> if is_none_or finish (\<lambda>f. e < f) then add_change e (- uint u) opened else opened)"
    have "prefix_sum (bt_entries closed) t = prefix_sum (bt_entries changes) t + (if active_at t occ then occupied_units occ else 0)"
      using occupancy_changes [OF 2(4) False _ u] 2(5)
      by (auto simp: closed_def opened_def prefix_sum_add_change split: option.splits)
    moreover have "collect_changes start finish occs closed = Some changes'"
      using 2(3) False u unfolding closed_def opened_def by (simp add: Let_def)
    ultimately show ?thesis
      using 2(2) [OF False u opened_def closed_def] 2(4,5) False by (simp add: relevant_load_def)
  qed (use 2 in \<open>simp add: relevant_load_def\<close>)
qed (simp add: relevant_load_def)

lemma collect_changes_keys:
  assumes "collect_changes start finish occs changes = Some changes'" and "in_window start finish start"
    and "\<forall>occ \<in> set occs. occupancy_wf occ" and "\<forall>k \<in> set (bt_keys changes). in_window start finish k"
  shows "(\<forall>k \<in> set (bt_keys changes'). in_window start finish k) \<and> set (bt_keys changes) \<subseteq> set (bt_keys changes')"
  using assms
proof (induction start finish occs changes rule: collect_changes.induct)
  case (2 start finish occ occs changes)
  show ?case
  proof (cases "outside start finish occ")
    case False
    with 2(3) obtain u where u: "oc_units occ = Some u" by (auto split: option.splits)
    define opened where "opened = add_change (max start (oc_starts_at occ)) (uint u) changes"
    define closed where "closed = (case oc_ends_at occ of None \<Rightarrow> opened
      | Some e \<Rightarrow> if is_none_or finish (\<lambda>f. e < f) then add_change e (- uint u) opened else opened)"
    have "\<forall>k \<in> set (bt_keys closed). in_window start finish k"
      using 2(4,6) False
      by (auto simp: closed_def opened_def add_change_def bt_keys_iff in_window_def outside_def is_none_or_iff
        is_some_and_iff not_le max_def split: option.splits if_splits)
    moreover have "set (bt_keys changes) \<subseteq> set (bt_keys closed)"
      by (auto simp: closed_def opened_def add_change_def bt_keys_iff split: option.split)
    moreover have "collect_changes start finish occs closed = Some changes'"
      using 2(3) False u unfolding closed_def opened_def by (simp add: Let_def)
    ultimately show ?thesis
      using 2(2) [OF False u opened_def closed_def] 2(4,5) by auto
  qed (use 2 in simp)
qed simp

subsection \<open>The sweep is exact\<close>

lemma prefix_sum_between:
  "k \<le> t \<Longrightarrow> \<forall>k' \<in> fst ` set es. k' \<le> t \<longrightarrow> k' \<le> k \<Longrightarrow> prefix_sum es t = prefix_sum es k"
  by (induction es) (auto dest: order_trans)

lemma outside_iff:
  assumes "occupancy_wf occ" and "in_window start finish start"
  shows "\<not> outside start finish occ \<longleftrightarrow> (\<exists>t. in_window start finish t \<and> active_at t occ)"
proof
  assume "\<not> outside start finish occ"
  then have "in_window start finish (max start (oc_starts_at occ)) \<and> active_at (max start (oc_starts_at occ)) occ"
    using assms by (auto simp: outside_def in_window_def active_at_def occupancy_wf_def is_none_or_iff is_some_and_iff not_le)
  then show "\<exists>t. in_window start finish t \<and> active_at t occ" by blast
qed (auto dest: outside_inactive)

lemma collect_changes_None:
  "collect_changes start finish occs changes = None \<longleftrightarrow> (\<exists>occ \<in> set occs. \<not> outside start finish occ \<and> oc_units occ = None)"
  by (induction start finish occs changes rule: collect_changes.induct) (auto simp: Let_def split: option.split)

lemma sweep_changes:
  assumes changes: "collect_changes start finish occs (bt_insert start (uint units) bt_empty) = Some changes"
    and start: "in_window start finish start" and wf: "\<forall>occ \<in> set occs. occupancy_wf occ"
  shows "sweep 0 (bt_values changes) c \<longleftrightarrow> (\<forall>t. in_window start finish t \<longrightarrow> load_at occs t + uint units \<le> c)"
proof -
  let ?sum = "prefix_sum (bt_entries changes)"
  have init: "bt_entries (bt_insert start (uint units) bt_empty) = [(start, uint units)]"
    by (simp add: bt_insert.rep_eq bt_empty.rep_eq)
  have sum: "?sum t = load_at occs t + uint units" if "in_window start finish t" for t
    using collect_changes_sum [OF changes that wf] relevant_load_eq [OF that] that by (simp add: init in_window_def)
  have keys: "\<forall>k \<in> set (bt_keys changes). in_window start finish k" "start \<in> set (bt_keys changes)"
    using collect_changes_keys [OF changes start wf] start by (auto simp: bt_keys_iff)
  have "sweep 0 (bt_values changes) c \<longleftrightarrow> (\<forall>k \<in> set (bt_keys changes). ?sum k \<le> c)"
    unfolding bt_values_map sweep_iff [OF bt_entries_sorted] using keys(1) sum by (auto simp: bt_keys_def)
  moreover have "?sum t \<le> c" if low: "\<forall>k \<in> set (bt_keys changes). ?sum k \<le> c" and t: "in_window start finish t" for t
  proof -
    let ?K = "{k \<in> set (bt_keys changes). k \<le> t}"
    have "start \<in> ?K" using keys(2) t by (simp add: in_window_def)
    then have "Max ?K \<in> ?K" by (intro Max_in) auto
    moreover have "\<forall>k \<in> ?K. k \<le> Max ?K" by simp
    ultimately have "?sum t = ?sum (Max ?K)" by (intro prefix_sum_between) (auto simp: bt_keys_def)
    with low \<open>Max ?K \<in> ?K\<close> show ?thesis by simp
  qed
  ultimately show ?thesis using sum keys(1) by (metis (no_types, lifting))
qed

lemma interval_available_iff_fits:
  assumes "\<forall>occ \<in> set occs. occupancy_wf occ"
  shows "interval_available occs start finish units capacity \<longleftrightarrow> fits occs start finish units capacity"
proof (cases "units \<le> capacity \<and> in_window start finish start")
  case True
  then have start: "in_window start finish start" by simp
  have guard: "\<not> (capacity < units \<or> is_some_and finish (\<lambda>f. f \<le> start))"
    using True by (auto simp: in_window_def is_none_or_iff is_some_and_iff)
  let ?collected = "collect_changes start finish occs (bt_insert start (uint units) bt_empty)"
  have whole: "?collected = None \<longleftrightarrow> (\<exists>t. in_window start finish t \<and> (\<exists>occ \<in> set occs. active_at t occ \<and> oc_units occ = None))"
    unfolding collect_changes_None using outside_iff [OF _ start] assms by blast
  show ?thesis
  proof (cases ?collected)
    case None
    then show ?thesis using guard True whole by (auto simp: interval_available_def fits_def)
  next
    case (Some changes)
    then show ?thesis
      using guard True whole sweep_changes [OF Some start assms] by (auto simp: interval_available_def fits_def)
  qed
qed (auto simp: interval_available_def fits_def in_window_def is_none_or_iff is_some_and_iff not_less)

definition shift_calendar :: "scheduling_occupancy list" where
  "shift_calendar = [quantitative ''cpu'' 0 (Some 10) 3 None, quantitative ''cpu'' 10 (Some 20) 3 None]"

text \<open>
  C40: The half-open sweep is exact: a weighted interval is available precisely when at every instant of the window no
  whole-resource occupancy is active and the units in use plus the requested units fit the capacity, with touching
  intervals not overlapping and unknown ends lasting forever.
\<close>

theorem interval_available_exact:
  assumes "\<forall>occ \<in> set occs. occupancy_wf occ"
  shows "interval_available occs start finish units capacity \<longleftrightarrow> fits occs start finish units capacity"
  using assms by (rule interval_available_iff_fits)

theorem interval_available_exact_witness:
  "fits shift_calendar 0 (Some 20) 1 4 \<and> \<not> fits shift_calendar 0 (Some 20) 2 4 \<and> fits shift_calendar 20 None 4 4"
proof -
  have "\<forall>occ \<in> set shift_calendar. occupancy_wf occ"
    by (simp add: shift_calendar_def quantitative_def occupancy_wf_def)
  moreover have "interval_available shift_calendar 0 (Some 20) 1 4" "\<not> interval_available shift_calendar 0 (Some 20) 2 4"
    "interval_available shift_calendar 20 None 4 4"
    by code_simp+
  ultimately show ?thesis using interval_available_exact by blast
qed

end
