(* ===== verification/CP_Plan.thy ===== *)
theory CP_Plan
  imports CP_Search CP_Capacity_Props
begin

text \<open>
  What a joint plan guarantees: one fitting selection per Role, physical continuity and distinctness of the Actors, no
  resource booked beyond its capacity, and that a plan can be moved back to the latest candidate start before it.
\<close>

subsection \<open>Selections\<close>

definition selection_ok :: "search_input \<Rightarrow> role_requirement \<Rightarrow> role_selection \<Rightarrow> bool" where
  "selection_ok inp role sel \<longleftrightarrow>
     rs_role_id sel = rq_role_id role
     \<and> is_some_and (for_role (in_candidates inp) (rq_role_id role)) (\<lambda>c. rs_node_id sel \<in> set (rc_node_ids c))
     \<and> is_some_and (in_nodes inp (rs_node_id sel)) (\<lambda>resources.
          list_all2 (\<lambda>d i. \<exists>r \<in> set resources. res_id r = i \<and> resource_matches r d) (resource_requirements role) (rs_resource_ids sel))
     \<and> distinct (rs_resource_ids sel) \<and> rs_resource_units sel = map rr_units (resource_requirements role)
     \<and> is_none_or (bt_get (sn_role_constraints (in_snapshot inp)) (rq_role_id role))
         (\<lambda>k. rs_node_id sel = rk_node_id k \<and> (resource_requirements role = [] \<or> rs_resource_ids sel = rk_resource_ids k))"

lemma free_picks_all2:
  assumes "free_picks usable s chosen ds picks" and "distinct chosen"
  shows "list_all2 (\<lambda>d i. i \<in> res_id ` set (usable d)) ds picks \<and> distinct (chosen @ picks)"
  using assms by (induction usable s chosen ds picks rule: free_picks.induct) auto

lemma role_choiceE:
  assumes "role_choice inp role selected entities node sel"
  obtains resources where "in_nodes inp node = Some resources" "rs_role_id sel = rq_role_id role" "rs_node_id sel = node"
    "\<not> node_skipped inp role entities node" "distinct (rs_resource_ids sel)"
    "rs_resource_units sel = map rr_units (resource_requirements role)"
    "free_picks (usable_resources resources role (in_snapshot inp) (in_starts_at inp) (in_ends_at inp) selected
       (bt_get (sn_role_constraints (in_snapshot inp)) (rq_role_id role))) (in_snapshot inp) []
       (resource_requirements role) (rs_resource_ids sel)"
    "resource_requirements role = [] \<or>
       is_none_or (bt_get (sn_role_constraints (in_snapshot inp)) (rq_role_id role)) (\<lambda>c. rs_resource_ids sel = rk_resource_ids c)"
    "rs_resource_requirements sel = (if list_ex (\<lambda>d. rr_allocation_mode d = Divisible) (resource_requirements role)
       then resource_requirements role else [])"
proof -
  from assms obtain resources ids units where nodes: "in_nodes inp node = Some resources"
    and choice: "(ids, units) \<in> set (choices_at inp role resources selected)"
    and sel: "selection_of role node resources (ids, units) = Some sel"
    and skip: "\<not> node_skipped inp role entities node"
    by (auto simp: role_choice_def)
  note fields = selection_of_fields [OF sel]
  note picks = choice [unfolded choices_at_def resource_choices_iff, folded fields(3,4)]
  then have "distinct (rs_resource_ids sel)" using free_picks_all2 [of _ _ "[]"] by fastforce
  with that [OF nodes fields(1,2) skip] picks fields(5) show thesis by blast
qed

lemma usable_resources_iff:
  "r \<in> set (usable_resources resources role s start finish selected limit_to d) \<longleftrightarrow>
     r \<in> set resources \<and> resource_matches r d \<and> is_none_or limit_to (\<lambda>c. res_id r \<in> set (rk_resource_ids c))
     \<and> capacity_available s (rq_role_id role) r d start finish selected"
  by (auto simp: usable_resources_def)

lemma joint_plan_selections: "joint_plan inp roles selected entities plan \<Longrightarrow> list_all2 (selection_ok inp) roles plan"
proof (induction inp roles selected entities plan rule: joint_plan.induct)
  case (3 inp role roles selected entities sel plan)
  from 3(2) have choice: "role_choice inp role selected entities (rs_node_id sel) sel" by simp
  obtain resources where r: "in_nodes inp (rs_node_id sel) = Some resources"
    and f: "rs_role_id sel = rq_role_id role" "\<not> node_skipped inp role entities (rs_node_id sel)"
      "distinct (rs_resource_ids sel)" "rs_resource_units sel = map rr_units (resource_requirements role)"
    and picks: "free_picks (usable_resources resources role (in_snapshot inp) (in_starts_at inp) (in_ends_at inp) selected
       (bt_get (sn_role_constraints (in_snapshot inp)) (rq_role_id role))) (in_snapshot inp) []
       (resource_requirements role) (rs_resource_ids sel)"
    and k: "resource_requirements role = [] \<or>
       is_none_or (bt_get (sn_role_constraints (in_snapshot inp)) (rq_role_id role)) (\<lambda>c. rs_resource_ids sel = rk_resource_ids c)"
    using role_choiceE [OF choice] by metis
  have "list_all2 (\<lambda>d i. \<exists>r \<in> set resources. res_id r = i \<and> resource_matches r d) (resource_requirements role) (rs_resource_ids sel)"
    using free_picks_all2 [OF picks] by (auto simp: usable_resources_iff elim!: list_all2_mono)
  moreover have "is_none_or (bt_get (sn_role_constraints (in_snapshot inp)) (rq_role_id role)) (\<lambda>k. rs_node_id sel = rk_node_id k)"
    using f(2) by (auto simp: node_skipped_def is_none_or_iff is_some_and_iff)
  ultimately have "selection_ok inp role sel"
    using 3(2) r f k by (auto simp: selection_ok_def is_none_or_iff)
  with 3 show ?case by simp
qed auto

subsection \<open>Actors and physical entities\<close>

definition coherent :: "candidate_set \<Rightarrow> (actor_id \<times> string) set \<Rightarrow> bool" where
  "coherent c B \<longleftrightarrow> (\<forall>(a, e) \<in> B. \<forall>(a', e') \<in> B.
     (a = a' \<longrightarrow> e = e') \<and> (a \<noteq> a' \<and> share_distinct_group c a a' \<longrightarrow> e \<noteq> e'))"

definition bindings :: "search_input \<Rightarrow> role_requirement list \<Rightarrow> role_selection list \<Rightarrow> (actor_id \<times> string) set" where
  "bindings inp roles plan =
     {b. \<exists>i < length plan. i < length roles \<and> actor_entity (in_candidates inp) (rq_role_id (roles ! i)) (rs_node_id (plan ! i)) = Some b}"

lemma bindings_simps [simp]:
  "bindings inp roles [] = {}"
  "bindings inp (role # roles) (sel # plan) =
     set_option (actor_entity (in_candidates inp) (rq_role_id role) (rs_node_id sel)) \<union> bindings inp roles plan"
  by (auto simp: bindings_def less_Suc_eq_0_disj)

lemma not_skipped_coherent:
  assumes "\<not> node_skipped inp role entities node" and "coherent (in_candidates inp) (set (bt_entries entities))"
  shows "set (bt_entries (bind_entity inp role node entities)) =
      set (bt_entries entities) \<union> set_option (actor_entity (in_candidates inp) (rq_role_id role) node)
    \<and> coherent (in_candidates inp) (set (bt_entries (bind_entity inp role node entities)))"
proof (cases "actor_entity (in_candidates inp) (rq_role_id role) node")
  case (Some b)
  obtain a e where b: "b = (a, e)" by fastforce
  let ?E = "set (bt_entries entities)" and ?share = "share_distinct_group (in_candidates inp)"
  have same: "e' = e" if "(a, e') \<in> ?E" for e'
    using assms(1) that Some b
    by (auto simp: node_skipped_def actor_continuity_broken_def is_some_and_iff bt_entries_iff)
  have other: "\<not> ?share a' a" if "(a', e) \<in> ?E" "a' \<noteq> a" for a'
  proof
    assume share: "?share a' a"
    let ?find = "find (\<lambda>(other, e'). e' = e \<and> ?share other a) (bt_entries entities)"
    have "?find \<noteq> None" using that(1) share by (auto simp: find_None_iff)
    then obtain p where p: "?find = Some p" by blast
    from find_SomeD [OF this] p obtain o' where o': "?find = Some (o', e)" "(o', e) \<in> ?E" "?share o' a" by force
    have "o' \<noteq> a" using o'(2) that share assms(2) by (auto simp: coherent_def)
    with o' share Some b assms(1) show False
      by (auto simp: node_skipped_def distinctness_broken_def is_some_and_iff share_distinct_group_def list_ex_iff)
  qed
  have other': "\<not> ?share a a'" if "(a', e) \<in> ?E" "a' \<noteq> a" for a'
    using other [OF that] by (auto simp: share_distinct_group_def list_ex_iff)
  have "set (bt_entries (bt_insert a e entities)) = insert (a, e) ?E"
    using same by (auto simp: bt_entries_iff bt_get_insert split: if_splits)
  moreover have "coherent (in_candidates inp) (insert (a, e) ?E)"
    using assms(2) same other other' unfolding coherent_def by blast
  ultimately show ?thesis by (simp add: bind_entity_def Some b)
qed (use assms in \<open>simp add: bind_entity_def\<close>)

lemma joint_plan_coherent:
  assumes "joint_plan inp roles selected entities plan" and "coherent (in_candidates inp) (set (bt_entries entities))"
  shows "coherent (in_candidates inp) (set (bt_entries entities) \<union> bindings inp roles plan)"
  using assms
proof (induction inp roles selected entities plan rule: joint_plan.induct)
  case (3 inp role roles selected entities sel plan)
  then have "\<not> node_skipped inp role entities (rs_node_id sel)" by (simp add: role_choice_def)
  note step = not_skipped_coherent [OF this 3(3)]
  have "coherent (in_candidates inp) (set (bt_entries (bind_entity inp role (rs_node_id sel) entities)) \<union> bindings inp roles plan)"
    using 3(2) conjunct2 [OF step] by (intro 3(1)) simp_all
  with step show ?case by (simp only: bindings_simps Un_assoc)
qed auto

subsection \<open>Occupancies of a plan\<close>

definition occupancy_of :: "timestamp \<Rightarrow> timestamp option \<Rightarrow> resource_requirement \<Rightarrow> resource_id \<Rightarrow> scheduling_occupancy" where
  "occupancy_of start finish d i =
     (if rr_allocation_mode d = Exclusive then occupancy_new i start finish else quantitative i start finish (rr_units d) None)"

definition booked :: "timestamp \<Rightarrow> timestamp option \<Rightarrow> role_selection \<Rightarrow> scheduling_occupancy list" where
  "booked start finish sel =
     map (\<lambda>(i, d). case d of None \<Rightarrow> occupancy_new i start finish | Some d \<Rightarrow> occupancy_of start finish d i)
       (pair_demands (rs_resource_ids sel) (rs_resource_requirements sel))"

lemma fold_occupy_demand:
  assumes "bt_get (sn_context_capacities s) role = None"
  shows "fold (occupy_demand s role start finish) ps (occs, parents) =
    (occs @ map (\<lambda>(i, d). case d of None \<Rightarrow> occupancy_new i start finish | Some d \<Rightarrow> occupancy_of start finish d i) ps, parents)"
  using assms by (induction ps arbitrary: occs) (auto simp: occupy_demand_def occupancy_of_def split: option.split)

lemma selected_occupancies_free:
  assumes "sn_context_capacities s = bt_empty"
  shows "selected_occupancies s selected start finish = sn_occupancies s @ concat (map (booked start finish) selected)"
proof -
  have "fold (\<lambda>sel. fold (occupy_demand s (rs_role_id sel) start finish)
          (pair_demands (rs_resource_ids sel) (rs_resource_requirements sel))) selected (occs, parents) =
      (occs @ concat (map (booked start finish) selected), parents)" for occs parents
    using assms by (induction selected arbitrary: occs) (auto simp: fold_occupy_demand booked_def)
  then show ?thesis by (simp add: selected_occupancies_def)
qed

lemma pair_demands_full: "list_all2 Q ds ids \<Longrightarrow> pair_demands ids ds = map2 (\<lambda>i d. (i, Some d)) ids ds"
  by (induction rule: list_all2_induct) auto

lemma pair_demands_none: "pair_demands ids [] = map (\<lambda>i. (i, None)) ids"
  by (induction ids) auto

lemma booked_role:
  assumes "list_all2 Q (resource_requirements role) (rs_resource_ids sel)"
    and "rs_resource_requirements sel = (if list_ex (\<lambda>d. rr_allocation_mode d = Divisible) (resource_requirements role)
       then resource_requirements role else [])"
  shows "booked start finish sel = map2 (occupancy_of start finish) (resource_requirements role) (rs_resource_ids sel)"
proof (cases "list_ex (\<lambda>d. rr_allocation_mode d = Divisible) (resource_requirements role)")
  case True
  with assms show ?thesis
    by (auto simp: booked_def pair_demands_full zip_commute [of "rs_resource_ids sel"] split: prod.split)
next
  case False
  then have "\<forall>d \<in> set (resource_requirements role). rr_allocation_mode d = Exclusive"
    using resource_allocation_mode.exhaust by (auto simp: list_ex_iff)
  with assms(1) have "map (\<lambda>i. occupancy_new i start finish) (rs_resource_ids sel) =
      map2 (occupancy_of start finish) (resource_requirements role) (rs_resource_ids sel)"
    by (induction rule: list_all2_induct) (auto simp: occupancy_of_def)
  with assms(2) False show ?thesis by (simp add: booked_def pair_demands_none comp_def)
qed

definition held :: "u32 \<Rightarrow> scheduling_occupancy \<Rightarrow> int" where
  "held capacity occ = (case oc_units occ of None \<Rightarrow> uint capacity | Some u \<Rightarrow> uint u)"

definition held_at :: "u32 \<Rightarrow> scheduling_occupancy list \<Rightarrow> timestamp \<Rightarrow> int" where
  "held_at capacity occs t = (\<Sum>occ \<leftarrow> occs. if active_at t occ then held capacity occ else 0)"

lemma held_at_simps [simp]:
  "held_at capacity [] t = 0"
  "held_at capacity (occ # occs) t = (if active_at t occ then held capacity occ else 0) + held_at capacity occs t"
  "held_at capacity (occs @ occs') t = held_at capacity occs t + held_at capacity occs' t"
  by (simp_all add: held_at_def)

lemma physical_append [simp]: "physical rid (xs @ ys) = physical rid xs @ physical rid ys"
  by (simp add: physical_def)

lemma held_at_load: "\<forall>occ \<in> set occs. active_at t occ \<longrightarrow> oc_units occ \<noteq> None \<Longrightarrow> held_at capacity occs t = load_at occs t"
  by (induction occs) (auto simp: held_def occupied_units_def)

lemma physical_occupancy [simp]: "physical rid (occupancy_of start finish d i # occs) =
    (if i = rid then [occupancy_of start finish d i] else []) @ physical rid occs"
  by (simp add: physical_def occupancy_of_def occupancy_new_def quantitative_def)

definition asked :: "u32 \<Rightarrow> resource_requirement \<Rightarrow> u32" where
  "asked capacity d = (if rr_allocation_mode d = Exclusive then capacity else rr_units d)"

lemma held_at_booked:
  assumes "list_all2 Q ds ids" and "distinct ids" and "in_window start finish t"
  shows "(rid \<notin> set ids \<longrightarrow> held_at capacity (physical rid (map2 (occupancy_of start finish) ds ids)) t = 0)
    \<and> (rid \<in> set ids \<longrightarrow> (\<exists>d. Q d rid \<and>
         held_at capacity (physical rid (map2 (occupancy_of start finish) ds ids)) t = uint (asked capacity d)))"
  using assms
proof (induction rule: list_all2_induct)
  case Nil
  then show ?case by (simp add: physical_def)
next
  case (Cons d ds i ids)
  have "active_at t (occupancy_of start finish d i)"
    using Cons.prems by (simp add: active_at_def in_window_def occupancy_of_def occupancy_new_def quantitative_def)
  moreover have "held capacity (occupancy_of start finish d i) = uint (asked capacity d)"
    by (simp add: held_def asked_def occupancy_of_def occupancy_new_def quantitative_def)
  ultimately show ?case using Cons by auto
qed

subsection \<open>No overbooking\<close>

definition calendar_ok :: "scheduling_snapshot \<Rightarrow> bool" where
  "calendar_ok s \<longleftrightarrow> sn_context_capacities s = bt_empty \<and> list_all occupancy_wf (sn_occupancies s)"

definition occupied :: "search_input \<Rightarrow> role_selection list \<Rightarrow> scheduling_occupancy list" where
  "occupied inp selected =
     sn_occupancies (in_snapshot inp) @ concat (map (booked (in_starts_at inp) (in_ends_at inp)) selected)"

lemma occupied_snoc [simp]: "occupied inp (selected @ [sel]) = occupied inp selected @ booked (in_starts_at inp) (in_ends_at inp) sel"
  by (simp add: occupied_def)

lemma booked_wf:
  assumes "in_window start finish start" and "occ \<in> set (booked start finish sel)"
  shows "occupancy_wf occ"
  using assms by (auto simp: booked_def occupancy_of_def occupancy_new_def quantitative_def occupancy_wf_def in_window_def split: option.splits)

text \<open>Whether a window of a free calendar can take a demand, pointwise.\<close>

definition admits :: "scheduling_snapshot \<Rightarrow> resource \<Rightarrow> resource_requirement \<Rightarrow> timestamp \<Rightarrow> timestamp option \<Rightarrow> scheduling_occupancy list \<Rightarrow> bool" where
  "admits s r d start finish occs \<longleftrightarrow>
     is_none_or (sn_resource_topology s) (\<lambda>registry. topology_admits registry r start finish occs)
     \<and> fits (physical (res_id r) occs) start finish (asked (res_capacity r) d) (res_capacity r)"

lemma capacity_available_iff:
  assumes "calendar_ok s"
  shows "capacity_available s role r d start finish selected \<longleftrightarrow>
    admits s r d start finish (sn_occupancies s @ concat (map (booked start finish) selected))"
proof -
  let ?occs = "sn_occupancies s @ concat (map (booked start finish) selected)"
  have free: "sn_context_capacities s = bt_empty" using assms by (simp add: calendar_ok_def)
  have "interval_available (physical (res_id r) ?occs) start finish u c \<longleftrightarrow> fits (physical (res_id r) ?occs) start finish u c" for u c
  proof (cases "in_window start finish start")
    case True
    with assms booked_wf [OF True] have "\<forall>occ \<in> set (physical (res_id r) ?occs). occupancy_wf occ"
      by (auto simp: physical_def calendar_ok_def list_all_iff)
    then show ?thesis by (rule interval_available_iff_fits)
  next
    case False
    then show ?thesis
      by (auto simp: fits_def interval_available_def in_window_def is_none_or_iff is_some_and_iff not_less)
  qed
  then show ?thesis
    by (auto simp: capacity_available_def admits_def asked_def free Let_def selected_occupancies_free [OF free]
        is_some_and_iff is_none_or_iff)
qed

lemma joint_plan_admits:
  assumes "role_choice inp role selected entities node sel" and "calendar_ok (in_snapshot inp)"
  obtains resources where "in_nodes inp node = Some resources"
    "list_all2 (\<lambda>d i. \<exists>r \<in> set resources. res_id r = i
       \<and> admits (in_snapshot inp) r d (in_starts_at inp) (in_ends_at inp) (occupied inp selected))
     (resource_requirements role) (rs_resource_ids sel)"
    "booked (in_starts_at inp) (in_ends_at inp) sel =
       map2 (occupancy_of (in_starts_at inp) (in_ends_at inp)) (resource_requirements role) (rs_resource_ids sel)"
    "distinct (rs_resource_ids sel)"
proof -
  obtain resources where r: "in_nodes inp node = Some resources" "distinct (rs_resource_ids sel)"
    and picks: "free_picks (usable_resources resources role (in_snapshot inp) (in_starts_at inp) (in_ends_at inp) selected
       (bt_get (sn_role_constraints (in_snapshot inp)) (rq_role_id role))) (in_snapshot inp) []
       (resource_requirements role) (rs_resource_ids sel)"
    and reqs: "rs_resource_requirements sel = (if list_ex (\<lambda>d. rr_allocation_mode d = Divisible) (resource_requirements role)
       then resource_requirements role else [])"
    using role_choiceE [OF assms(1)] by metis
  have all: "list_all2 (\<lambda>d i. \<exists>r \<in> set resources. res_id r = i
      \<and> admits (in_snapshot inp) r d (in_starts_at inp) (in_ends_at inp) (occupied inp selected))
      (resource_requirements role) (rs_resource_ids sel)"
    using free_picks_all2 [OF picks]
    by (auto simp: usable_resources_iff capacity_available_iff [OF assms(2)] occupied_def elim!: list_all2_mono)
  from that [OF r(1) all booked_role [OF all reqs] r(2)] show thesis .
qed

definition capacities_agree :: "node_reader \<Rightarrow> bool" where
  "capacities_agree nodes \<longleftrightarrow> (\<forall>n n' rs rs'. nodes n = Some rs \<longrightarrow> nodes n' = Some rs' \<longrightarrow>
     (\<forall>r \<in> set rs. \<forall>r' \<in> set rs'. res_id r = res_id r' \<longrightarrow> res_capacity r = res_capacity r'))"

definition chosen_ids :: "role_selection list \<Rightarrow> resource_id set" where
  "chosen_ids selected = (\<Union>sel \<in> set selected. set (rs_resource_ids sel))"

definition within_capacity :: "search_input \<Rightarrow> role_selection list \<Rightarrow> bool" where
  "within_capacity inp selected \<longleftrightarrow> (\<forall>node resources. \<forall>r \<in> set resources. in_nodes inp node = Some resources
     \<longrightarrow> res_id r \<in> chosen_ids selected \<longrightarrow> (\<forall>t. in_window (in_starts_at inp) (in_ends_at inp) t
       \<longrightarrow> held_at (res_capacity r) (physical (res_id r) (occupied inp selected)) t \<le> uint (res_capacity r)))"

lemma within_capacity_step:
  assumes "role_choice inp role selected entities node sel" and ok: "calendar_ok (in_snapshot inp)"
    and agree: "capacities_agree (in_nodes inp)" and IH: "within_capacity inp selected"
  shows "within_capacity inp (selected @ [sel])"
  unfolding within_capacity_def
proof (intro allI ballI impI)
  fix node' resources' r t
  assume r: "r \<in> set resources'" "in_nodes inp node' = Some resources'" and id: "res_id r \<in> chosen_ids (selected @ [sel])"
    and t: "in_window (in_starts_at inp) (in_ends_at inp) t"
  obtain resources where res: "in_nodes inp node = Some resources" and all: "list_all2 (\<lambda>d i. \<exists>r \<in> set resources. res_id r = i
       \<and> admits (in_snapshot inp) r d (in_starts_at inp) (in_ends_at inp) (occupied inp selected))
     (resource_requirements role) (rs_resource_ids sel)" and booked: "booked (in_starts_at inp) (in_ends_at inp) sel =
       map2 (occupancy_of (in_starts_at inp) (in_ends_at inp)) (resource_requirements role) (rs_resource_ids sel)"
    and dist: "distinct (rs_resource_ids sel)"
    by (rule joint_plan_admits [OF assms(1) ok])
  let ?held = "\<lambda>occs. held_at (res_capacity r) (physical (res_id r) occs) t"
  note new = held_at_booked [OF all dist t, of "res_id r" "res_capacity r", folded booked]
  show "?held (occupied inp (selected @ [sel])) \<le> uint (res_capacity r)"
  proof (cases "res_id r \<in> set (rs_resource_ids sel)")
    case True
    from conjunct2 [OF new, rule_format, OF True] obtain d r' where d: "?held (booked (in_starts_at inp) (in_ends_at inp) sel) = uint (asked (res_capacity r) d)"
      and r': "r' \<in> set resources" "res_id r' = res_id r"
        "admits (in_snapshot inp) r' d (in_starts_at inp) (in_ends_at inp) (occupied inp selected)"
      by blast
    have "res_capacity r' = res_capacity r" using agree res r r' unfolding capacities_agree_def by blast
    with r'(2,3) t d show ?thesis by (auto simp: admits_def fits_def held_at_load)
  next
    case False
    with id have "res_id r \<in> chosen_ids selected" by (auto simp: chosen_ids_def)
    with IH r t have "?held (occupied inp selected) \<le> uint (res_capacity r)" unfolding within_capacity_def by blast
    with conjunct1 [OF new, rule_format, OF False] show ?thesis by simp
  qed
qed

lemma joint_plan_within_capacity:
  assumes "joint_plan inp roles selected entities plan" and "calendar_ok (in_snapshot inp)"
    and "capacities_agree (in_nodes inp)" and "within_capacity inp selected"
  shows "within_capacity inp (selected @ plan)"
  using assms
proof (induction inp roles selected entities plan rule: joint_plan.induct)
  case (3 inp role roles selected entities sel plan)
  then have "within_capacity inp (selected @ [sel])" by (auto intro: within_capacity_step)
  with 3 show ?case by simp
qed auto

subsection \<open>No topological conflict\<close>

definition conflict_between :: "topology_registry \<Rightarrow> resource_id \<Rightarrow> resource_id \<Rightarrow> bool" where
  "conflict_between registry i j \<longleftrightarrow>
     is_some_and (registry_entry registry i) (\<lambda>e. is_some_and (registry_entry registry j) (entry_conflicts e))"

definition separated :: "search_input \<Rightarrow> role_selection list \<Rightarrow> bool" where
  "separated inp selected \<longleftrightarrow> is_none_or (sn_resource_topology (in_snapshot inp)) (\<lambda>registry.
     \<forall>i \<in> chosen_ids selected.
       (\<forall>j \<in> chosen_ids selected. i \<noteq> j \<longrightarrow> \<not> conflict_between registry i j)
       \<and> (\<forall>occ \<in> set (sn_occupancies (in_snapshot inp)). oc_resource_id occ \<noteq> i
            \<and> overlaps (in_starts_at inp) (in_ends_at inp) (oc_starts_at occ) (oc_ends_at occ)
            \<longrightarrow> \<not> conflict_between registry i (oc_resource_id occ)))"

lemma conflict_between_sym: "conflict_between registry i j \<longleftrightarrow> conflict_between registry j i"
  by (auto simp: conflict_between_def is_some_and_iff entry_conflicts_sym)

lemma conflicts_with_chosen_iff:
  "sn_resource_topology s = Some registry \<Longrightarrow> conflicts_with_chosen s ids i \<longleftrightarrow> (\<exists>j \<in> set ids. conflict_between registry i j)"
  by (auto simp: conflicts_with_chosen_def conflict_between_def is_some_and_iff list_ex_iff)

lemma free_picks_separated:
  assumes "free_picks usable s chosen ds picks" and "sn_resource_topology s = Some registry"
    and "\<forall>i \<in> set chosen. \<forall>j \<in> set chosen. i \<noteq> j \<longrightarrow> \<not> conflict_between registry i j"
  shows "\<forall>i \<in> set (chosen @ picks). \<forall>j \<in> set (chosen @ picks). i \<noteq> j \<longrightarrow> \<not> conflict_between registry i j"
  using assms
proof (induction usable s chosen ds picks rule: free_picks.induct)
  case (3 usable s chosen d ds i picks)
  have "\<forall>j \<in> set chosen. \<not> conflict_between registry i j \<and> \<not> conflict_between registry j i"
    using 3(2) conflicts_with_chosen_iff [OF 3(3)] by (metis conflict_between_sym free_picks.simps(3))
  with 3(4) have "\<forall>i' \<in> set (chosen @ [i]). \<forall>j \<in> set (chosen @ [i]). i' \<noteq> j \<longrightarrow> \<not> conflict_between registry i' j" by auto
  with 3 show ?case by simp
qed simp_all

lemma booked_ids:
  "i \<in> set (rs_resource_ids sel) \<Longrightarrow>
     \<exists>occ \<in> set (booked start finish sel). oc_resource_id occ = i \<and> oc_starts_at occ = start \<and> oc_ends_at occ = finish"
proof -
  have keys: "map fst (pair_demands ids ds) = ids" for ids ds by (induction ids ds rule: pair_demands.induct) auto
  assume "i \<in> set (rs_resource_ids sel)"
  then have "i \<in> fst ` set (pair_demands (rs_resource_ids sel) (rs_resource_requirements sel))"
    by (simp only: keys flip: set_map)
  then obtain d where d: "(i, d) \<in> set (pair_demands (rs_resource_ids sel) (rs_resource_requirements sel))" by auto
  let ?occ = "case d of None \<Rightarrow> occupancy_new i start finish | Some d \<Rightarrow> occupancy_of start finish d i"
  have "?occ \<in> set (booked start finish sel)" using d by (force simp: booked_def)
  moreover have "oc_resource_id ?occ = i \<and> oc_starts_at ?occ = start \<and> oc_ends_at ?occ = finish"
    by (simp add: occupancy_of_def occupancy_new_def quantitative_def split: option.split)
  ultimately show ?thesis by blast
qed

lemma admits_separated:
  assumes "admits s r d start finish occs" and "sn_resource_topology s = Some registry" and "occ \<in> set occs"
    and "oc_resource_id occ \<noteq> res_id r" and "overlaps start finish (oc_starts_at occ) (oc_ends_at occ)"
  shows "\<not> conflict_between registry (res_id r) (oc_resource_id occ)"
  using assms by (auto simp: admits_def topology_admits_def conflict_between_def is_some_and_iff list_ex_iff split: if_splits) blast+

lemma role_choice_picks:
  "role_choice inp role selected entities node sel \<Longrightarrow>
     \<exists>usable. free_picks usable (in_snapshot inp) [] (resource_requirements role) (rs_resource_ids sel)"
  by (elim role_choiceE) blast

lemma separated_step:
  assumes choice: "role_choice inp role selected entities node sel" and ok: "calendar_ok (in_snapshot inp)"
    and IH: "separated inp selected"
  shows "separated inp (selected @ [sel])"
proof (cases "sn_resource_topology (in_snapshot inp)")
  case (Some registry)
  let ?free = "\<lambda>i j. i \<noteq> j \<longrightarrow> \<not> conflict_between registry i j"
  obtain resources where all: "list_all2 (\<lambda>d i. \<exists>r \<in> set resources. res_id r = i
       \<and> admits (in_snapshot inp) r d (in_starts_at inp) (in_ends_at inp) (occupied inp selected))
     (resource_requirements role) (rs_resource_ids sel)"
    by (rule joint_plan_admits [OF choice ok])
  have new: "\<exists>r d. res_id r = i \<and> admits (in_snapshot inp) r d (in_starts_at inp) (in_ends_at inp) (occupied inp selected)"
    if "i \<in> set (rs_resource_ids sel)" for i
    using all that by (force simp: list_all2_conv_all_nth in_set_conv_nth)
  have calendar: "\<not> conflict_between registry i (oc_resource_id occ)"
    if "i \<in> set (rs_resource_ids sel)" "occ \<in> set (occupied inp selected)" "oc_resource_id occ \<noteq> i"
      "overlaps (in_starts_at inp) (in_ends_at inp) (oc_starts_at occ) (oc_ends_at occ)" for i occ
    using new [OF that(1)] admits_separated [OF _ Some that(2)] that(3,4) by auto
  have window: "overlaps (in_starts_at inp) (in_ends_at inp) (in_starts_at inp) (in_ends_at inp)" if "i \<in> set (rs_resource_ids sel)" for i
    using new [OF that] by (auto simp: admits_def fits_def in_window_def overlaps_def)
  have old: "?free i j \<and> ?free j i" if "i \<in> set (rs_resource_ids sel)" "j \<in> chosen_ids selected" for i j
  proof -
    from that(2) obtain occ where "occ \<in> set (occupied inp selected)" "oc_resource_id occ = j"
      "oc_starts_at occ = in_starts_at inp" "oc_ends_at occ = in_ends_at inp"
      by (fastforce simp: chosen_ids_def occupied_def dest: booked_ids)
    with calendar [OF that(1)] window [OF that(1)] show ?thesis using conflict_between_sym by metis
  qed
  have own: "\<forall>i \<in> set (rs_resource_ids sel). \<forall>j \<in> set (rs_resource_ids sel). ?free i j"
    using role_choice_picks [OF choice] free_picks_separated [OF _ Some, of _ "[]"] by auto
  have "chosen_ids (selected @ [sel]) = chosen_ids selected \<union> set (rs_resource_ids sel)" by (auto simp: chosen_ids_def)
  with IH old own calendar show ?thesis
    unfolding separated_def Some is_none_or_simps by (auto simp: occupied_def)
qed (simp add: separated_def)

lemma joint_plan_separated:
  assumes "joint_plan inp roles selected entities plan" and "calendar_ok (in_snapshot inp)" and "separated inp selected"
  shows "separated inp (selected @ plan)"
  using assms
proof (induction inp roles selected entities plan rule: joint_plan.induct)
  case (3 inp role roles selected entities sel plan)
  then have "separated inp (selected @ [sel])" by (auto intro: separated_step)
  with 3 show ?case by simp
qed auto

end
