(* ===== verification/CP_Start.thy ===== *)
theory CP_Start
  imports CP_Plan
begin

text \<open>
  The candidate starts of the Scheduler suffice: in a calendar without Context envelopes, a joint plan at any start can
  be moved back to the latest candidate start before it, so the loop over the candidates finds the earliest start.
\<close>

subsection \<open>Moving a window back\<close>

definition slot_back :: "scheduling_snapshot \<Rightarrow> timestamp \<Rightarrow> timestamp \<Rightarrow> timestamp \<Rightarrow> timestamp \<Rightarrow> bool" where
  "slot_back s start finish start' finish' \<longleftrightarrow>
     start' \<le> start \<and> finish' \<le> finish \<and> (start < finish \<longrightarrow> start' < finish')
     \<and> (\<forall>occ \<in> set (sn_occupancies s). \<forall>e. oc_ends_at occ = Some e \<longrightarrow> e \<le> start \<longrightarrow> e \<le> start')
     \<and> (\<forall>registry. sn_resource_topology s = Some registry \<longrightarrow>
          (\<forall>entry \<in> set (tg_resources registry). \<forall>w \<in> set (te_windows entry). tw_starts_at w \<le> start \<longrightarrow> tw_starts_at w \<le> start'))"

definition retime :: "timestamp \<Rightarrow> timestamp option \<Rightarrow> scheduling_occupancy \<Rightarrow> scheduling_occupancy" where
  "retime start finish occ = occ\<lparr>oc_starts_at := start, oc_ends_at := finish\<rparr>"

lemma retime_fields [simp]:
  "oc_resource_id (retime start finish occ) = oc_resource_id occ" "oc_units (retime start finish occ) = oc_units occ"
  "oc_owner_axis (retime start finish occ) = oc_owner_axis occ"
  "oc_starts_at (retime start finish occ) = start" "oc_ends_at (retime start finish occ) = finish"
  "active_at t (retime start finish occ) \<longleftrightarrow> in_window start finish t"
  "occupied_units (retime start finish occ) = occupied_units occ"
  by (simp_all add: retime_def active_at_def in_window_def occupied_units_def)

lemma booked_retime: "booked start finish sel = map (retime start finish) (booked 0 None sel)"
  by (auto simp: booked_def retime_def occupancy_of_def occupancy_new_def quantitative_def split: option.split)

lemma concat_booked_retime:
  "concat (map (booked start finish) selected) = map (retime start finish) (concat (map (booked 0 None) selected))"
  by (induction selected) (simp_all add: booked_retime [of start finish])

lemma physical_retime: "physical rid (map (retime start finish) occs) = map (retime start finish) (physical rid occs)"
  by (induction occs) (simp_all add: physical_def)

lemma load_at_retime: "in_window start finish t \<Longrightarrow> load_at (map (retime start finish) occs) t = sum_list (map occupied_units occs)"
  by (induction occs) auto

lemma load_at_mono: "\<forall>occ \<in> set occs. active_at t occ \<longrightarrow> active_at u occ \<Longrightarrow> load_at occs t \<le> load_at occs u"
  by (induction occs) (auto intro: add_mono add_increasing)

lemma fits_back:
  assumes "fits (calendar @ map (retime start (Some finish)) own) start (Some finish) units capacity"
    and "start' \<le> start" "finish' \<le> finish" "start < finish \<longrightarrow> start' < finish'"
    and ends: "\<forall>occ \<in> set calendar. \<forall>e. oc_ends_at occ = Some e \<longrightarrow> e \<le> start \<longrightarrow> e \<le> start'"
  shows "fits (calendar @ map (retime start' (Some finish')) own) start' (Some finish') units capacity"
  unfolding fits_def
proof (intro conjI allI impI)
  have start: "start < finish" using assms(1) by (simp add: fits_def in_window_def)
  then show "in_window start' (Some finish') start'" using assms(4) by (simp add: in_window_def)
  fix t assume t: "in_window start' (Some finish') t"
  let ?u = "max t start"
  have u: "in_window start (Some finish) ?u" using t start assms(3) by (auto simp: in_window_def)
  have active: "\<forall>occ \<in> set calendar. active_at t occ \<longrightarrow> active_at ?u occ"
    using t ends by (fastforce simp: active_at_def in_window_def is_none_or_iff le_max_iff_disj not_le [symmetric])
  have fit: "\<forall>occ \<in> set calendar. active_at ?u occ \<longrightarrow> oc_units occ \<noteq> None" "\<forall>occ \<in> set own. oc_units occ \<noteq> None"
    "load_at calendar ?u + sum_list (map occupied_units own) + uint units \<le> uint capacity"
    using assms(1) u unfolding fits_def by (simp_all add: load_at_retime image_Un ball_Un)
  show "load_at (calendar @ map (retime start' (Some finish')) own) t + uint units \<le> uint capacity"
    using load_at_mono [OF active] fit(3) t by (simp add: load_at_retime)
  show "\<forall>occ \<in> set (calendar @ map (retime start' (Some finish')) own). active_at t occ \<longrightarrow> oc_units occ \<noteq> None"
    using active fit(1,2) by auto
qed (use assms(1) in \<open>simp add: fits_def\<close>)

lemma permits_back:
  assumes "permits_interval entry start (Some finish)" and "start' \<le> start" "finish' \<le> finish" "start < finish \<longrightarrow> start' < finish'"
    and "\<forall>w \<in> set (te_windows entry). tw_starts_at w \<le> start \<longrightarrow> tw_starts_at w \<le> start'"
  shows "permits_interval entry start' (Some finish')"
  using assms by (fastforce simp: permits_interval_def list_ex_iff not_le split: if_splits)

lemma topology_back:
  assumes "topology_admits registry r start (Some finish) (calendar @ map (retime start (Some finish)) own)"
    and "start' \<le> start" "finish' \<le> finish" "start < finish \<longrightarrow> start' < finish'"
    and ends: "\<forall>occ \<in> set calendar. \<forall>e. oc_ends_at occ = Some e \<longrightarrow> e \<le> start \<longrightarrow> e \<le> start'"
    and windows: "\<forall>entry \<in> set (tg_resources registry). \<forall>w \<in> set (te_windows entry). tw_starts_at w \<le> start \<longrightarrow> tw_starts_at w \<le> start'"
  shows "topology_admits registry r start' (Some finish') (calendar @ map (retime start' (Some finish')) own)"
proof (cases "registry_entry registry (res_id r)")
  case None
  with assms(1) show ?thesis by (simp add: topology_admits_def split: if_splits)
next
  case (Some entry)
  then have "entry \<in> set (tg_resources registry)" by (auto simp: registry_entry_def dest: find_SomeD)
  with windows have w: "\<forall>w \<in> set (te_windows entry). tw_starts_at w \<le> start \<longrightarrow> tw_starts_at w \<le> start'" by blast
  have permits: "permits_interval entry start (Some finish)" using assms(1) Some by (auto simp: topology_admits_def split: if_splits)
  then have "start < finish" by (auto simp: permits_interval_def not_le split: if_splits)
  then have same: "overlaps start (Some finish) start (Some finish)" by (simp add: overlaps_def)
  have before: "overlaps start (Some finish) (oc_starts_at occ) (oc_ends_at occ)"
    if "occ \<in> set calendar" "overlaps start' (Some finish') (oc_starts_at occ) (oc_ends_at occ)" for occ
    using that ends assms(3) by (fastforce simp: overlaps_def is_none_or_iff not_le [symmetric])
  let ?clash = "\<lambda>occ. is_some_and (registry_entry registry (oc_resource_id occ)) (entry_conflicts entry)"
  have clear: "\<forall>occ \<in> set calendar. overlaps start (Some finish) (oc_starts_at occ) (oc_ends_at occ)
      \<longrightarrow> oc_resource_id occ = res_id r \<or> \<not> ?clash occ"
    "\<forall>occ \<in> set own. oc_resource_id occ = res_id r \<or> \<not> ?clash occ"
    using assms(1) Some same by (simp_all add: topology_admits_def list_ex_iff ball_Un image_Un split: if_splits)
  show ?thesis
    using permits_back [OF permits assms(2,3,4) w] clear before Some by (auto simp: topology_admits_def list_ex_iff)
qed

lemma admits_back:
  assumes "slot_back s start finish start' finish'"
    and "admits s r d start (Some finish) (sn_occupancies s @ concat (map (booked start (Some finish)) selected))"
  shows "admits s r d start' (Some finish') (sn_occupancies s @ concat (map (booked start' (Some finish')) selected))"
proof -
  have slot: "start' \<le> start" "finish' \<le> finish" "start < finish \<longrightarrow> start' < finish'"
    "\<forall>occ \<in> set (sn_occupancies s). \<forall>e. oc_ends_at occ = Some e \<longrightarrow> e \<le> start \<longrightarrow> e \<le> start'"
    using assms(1) by (auto simp: slot_back_def)
  then have "\<forall>occ \<in> set (physical (res_id r) (sn_occupancies s)). \<forall>e. oc_ends_at occ = Some e \<longrightarrow> e \<le> start \<longrightarrow> e \<le> start'"
    by (auto simp: physical_def)
  from fits_back [OF _ slot(1-3) this] topology_back [OF _ slot] assms show ?thesis
    unfolding admits_def concat_booked_retime [of start "Some finish"] concat_booked_retime [of start' "Some finish'"]
      physical_append physical_retime slot_back_def
    by (cases "sn_resource_topology s") auto
qed

lemma free_picks_mono:
  assumes "free_picks usable s chosen ds picks" and "\<forall>d \<in> set ds. set (usable d) \<subseteq> set (usable' d)"
  shows "free_picks usable' s chosen ds picks"
  using assms by (induction usable s chosen ds picks rule: free_picks.induct) auto

definition move_slot :: "timestamp \<Rightarrow> timestamp option \<Rightarrow> search_input \<Rightarrow> search_input" where
  "move_slot start finish inp = inp\<lparr>in_starts_at := start, in_ends_at := finish\<rparr>"

lemma move_slot_fields [simp]:
  "in_nodes (move_slot start finish inp) = in_nodes inp" "in_candidates (move_slot start finish inp) = in_candidates inp"
  "in_snapshot (move_slot start finish inp) = in_snapshot inp" "in_starts_at (move_slot start finish inp) = start"
  "in_ends_at (move_slot start finish inp) = finish"
  "bind_entity (move_slot start finish inp) = bind_entity inp" "node_skipped (move_slot start finish inp) = node_skipped inp"
  by (simp_all add: move_slot_def bind_entity_def node_skipped_def fun_eq_iff)

lemma role_choice_back:
  assumes "role_choice inp role selected entities node sel" and ok: "calendar_ok (in_snapshot inp)"
    and slot: "in_ends_at inp = Some finish" "slot_back (in_snapshot inp) (in_starts_at inp) finish start' finish'"
  shows "role_choice (move_slot start' (Some finish') inp) role selected entities node sel"
proof -
  let ?k = "bt_get (sn_role_constraints (in_snapshot inp)) (rq_role_id role)"
  have "set (usable_resources resources role (in_snapshot inp) (in_starts_at inp) (in_ends_at inp) selected ?k d)
      \<subseteq> set (usable_resources resources role (in_snapshot inp) start' (Some finish') selected ?k d)" for resources d
    using admits_back [OF slot(2)] by (auto simp: usable_resources_iff capacity_available_iff [OF ok] slot(1))
  then have "choice \<in> set (choices_at (move_slot start' (Some finish') inp) role resources selected)"
    if "choice \<in> set (choices_at inp role resources selected)" for choice resources
    using that by (cases choice) (auto simp: choices_at_def resource_choices_iff elim!: free_picks_mono)
  with assms(1) show ?thesis unfolding role_choice_def by auto metis
qed

lemma joint_plan_back:
  assumes "joint_plan inp roles selected entities plan" and "calendar_ok (in_snapshot inp)"
    and "in_ends_at inp = Some finish" and "slot_back (in_snapshot inp) (in_starts_at inp) finish start' finish'"
  shows "joint_plan (move_slot start' (Some finish') inp) roles selected entities plan"
  using assms by (induction inp roles selected entities plan rule: joint_plan.induct) (auto intro: role_choice_back)

subsection \<open>Feasible starts\<close>

definition slot_input ::
    "scheduler \<Rightarrow> node_reader \<Rightarrow> candidate_set \<Rightarrow> scheduling_snapshot \<Rightarrow> timestamp \<Rightarrow> timestamp option \<Rightarrow> search_input" where
  "slot_input b nodes c s starts ends =
     \<lparr>in_nodes = nodes, in_candidates = c, in_snapshot = s, in_starts_at = starts, in_ends_at = ends,
      in_limit = bs_max_expansions b\<rparr>"

definition start_allowed :: "start_window \<Rightarrow> timestamp \<Rightarrow> timestamp option \<Rightarrow> bool" where
  "start_allowed w starts ends \<longleftrightarrow>
     is_none_or (sw_latest_activation_at w) (\<lambda>l. starts \<le> l)
     \<and> is_none_or (sw_completion_deadline w) (\<lambda>d. (case ends of None \<Rightarrow> starts | Some e \<Rightarrow> e) \<le> d)"

definition feasible_start ::
    "scheduler \<Rightarrow> node_reader \<Rightarrow> task_requirement \<Rightarrow> candidate_set \<Rightarrow> scheduling_snapshot \<Rightarrow> start_window \<Rightarrow> timestamp \<Rightarrow> bool" where
  "feasible_start b nodes req c s w t \<longleftrightarrow>
     sw_earliest w \<le> t
     \<and> (\<exists>ends plan. add_offset t (sw_duration_ms w) = Inr ends \<and> start_allowed w t ends
          \<and> joint_plan (slot_input b nodes c s t ends) (tq_roles req) [] bt_empty plan)"

lemma set_candidate_starts:
  "t \<in> set (candidate_starts w s) \<longleftrightarrow> sw_earliest w \<le> t \<and> (t = sw_earliest w \<or> sw_duration_ms w \<noteq> None \<and>
     ((\<exists>occ \<in> set (sn_occupancies s). oc_ends_at occ = Some t)
      \<or> (\<exists>registry. sn_resource_topology s = Some registry \<and>
           (\<exists>entry \<in> set (tg_resources registry). \<exists>x \<in> set (te_windows entry). tw_starts_at x = t))))"
  by (force simp: candidate_starts_def List.map_filter_def simp del: sort_key_simps split: option.split)

lemma candidate_starts_ascending: "sorted_wrt (<) (candidate_starts w s)"
proof -
  have "sorted_wrt (<) (filter P (remdups_adj (sort xs)))" for P and xs :: "timestamp list"
    by (simp add: strict_sorted_iff sorted_wrt_filter distinct_remdups_adj_sorted sorted_remdups_adj)
  then show ?thesis unfolding candidate_starts_def .
qed

lemma add_offset_back:
  assumes "add_offset t (Some d) = Inr ends" and "t' \<le> t"
  obtains finish finish' where "ends = Some finish" "add_offset t' (Some d) = Inr (Some finish')" "finish' \<le> finish"
    "t < finish \<longrightarrow> t' < finish'"
proof -
  have t': "unat t' \<le> unat t" using assms(2) by (simp add: word_le_nat_alt)
  from assms(1) obtain finish where f: "ends = Some finish" "checked_add t d = Some finish"
    by (cases "checked_add t d") (auto simp: add_offset_def checked_timestamp_add_def)
  then have u: "unat finish = unat t + unat d" "unat t + unat d < 2 ^ 64"
    by (auto simp: checked_add_def unat_word_ariths split: if_splits)
  then have "checked_add t' d = Some (t' + d)" "unat (t' + d) = unat t' + unat d"
    using t' by (auto simp: checked_add_def unat_word_ariths)
  with that [of finish "t' + d"] f(1) u t' show thesis
    by (simp add: add_offset_def checked_timestamp_add_def word_le_nat_alt word_less_nat_alt)
qed

lemma feasible_candidate:
  assumes "feasible_start b nodes req c s w t" and "sw_duration_ms w = Some d" and "calendar_ok s"
  obtains t' where "t' \<in> set (candidate_starts w s)" "t' \<le> t" "feasible_start b nodes req c s w t'"
proof -
  from assms(1,2) obtain ends plan where t: "sw_earliest w \<le> t" "add_offset t (Some d) = Inr ends" "start_allowed w t ends"
    and plan: "joint_plan (slot_input b nodes c s t ends) (tq_roles req) [] bt_empty plan"
    by (auto simp: feasible_start_def)
  let ?S = "{x \<in> set (candidate_starts w s). x \<le> t}"
  define t' where "t' = Max ?S"
  have early: "sw_earliest w \<in> ?S" using t(1) by (simp add: set_candidate_starts)
  have "finite ?S" by simp
  from Max_in [OF this] early have "t' \<in> ?S" unfolding t'_def by blast
  then have t': "t' \<in> set (candidate_starts w s)" "t' \<le> t" by simp_all
  have upper: "x \<le> t'" if "x \<in> ?S" for x using that unfolding t'_def by (intro Max_ge) auto
  obtain finish finish' where f: "ends = Some finish" "add_offset t' (Some d) = Inr (Some finish')" "finish' \<le> finish"
    "t < finish \<longrightarrow> t' < finish'"
    using t(2) t'(2) by (rule add_offset_back)
  have cand: "x \<le> t'" if "x \<le> t" "sw_earliest w \<le> x \<longrightarrow> x \<in> set (candidate_starts w s)" for x
    using that upper [of x] upper [OF early] by (cases "sw_earliest w \<le> x") auto
  have "slot_back s t finish t' finish'"
    unfolding slot_back_def using t'(2) f(3,4) by (auto intro!: cand simp: set_candidate_starts assms(2)) blast+
  with plan have "joint_plan (move_slot t' (Some finish') (slot_input b nodes c s t ends)) (tq_roles req) [] bt_empty plan"
    using assms(3) f(1) by (intro joint_plan_back) (auto simp: slot_input_def)
  moreover have "move_slot t' (Some finish') (slot_input b nodes c s t ends) = slot_input b nodes c s t' (Some finish')"
    by (simp add: move_slot_def slot_input_def)
  moreover have "start_allowed w t' (Some finish')"
    using t(3) f(1,3) t'(2) by (auto simp: start_allowed_def is_none_or_iff)
  ultimately have "feasible_start b nodes req c s w t'"
    using f(2) upper [OF early] assms(2) by (auto simp: feasible_start_def)
  with that t' show thesis by blast
qed

subsection \<open>The loop over the candidate starts\<close>

definition found_at ::
    "scheduler \<Rightarrow> node_reader \<Rightarrow> task_requirement \<Rightarrow> candidate_set \<Rightarrow> scheduling_snapshot \<Rightarrow> start_window \<Rightarrow> timestamp list
       \<Rightarrow> scheduling_decision \<Rightarrow> bool" where
  "found_at b nodes req c s w ts dec \<longleftrightarrow>
     (\<exists>t ends st. t \<in> set ts \<and> dec = make_decision req s w t ends st \<and> add_offset t (sw_duration_ms w) = Inr ends
        \<and> start_allowed w t ends \<and> ss_expansions st \<le> bs_max_expansions b
        \<and> joint_plan (slot_input b nodes c s t ends) (tq_roles req) [] bt_empty (ss_selections st)
        \<and> (\<forall>t' \<in> set ts. t' < t \<longrightarrow> \<not> feasible_start b nodes req c s w t'))"

definition starts_settled ::
    "scheduler \<Rightarrow> node_reader \<Rightarrow> task_requirement \<Rightarrow> candidate_set \<Rightarrow> scheduling_snapshot \<Rightarrow> timestamp \<Rightarrow> start_window
       \<Rightarrow> timestamp list \<Rightarrow> scheduling_outcome sched_result \<Rightarrow> bool" where
  "starts_settled b nodes req c s now w ts result \<longleftrightarrow>
     (case result of
        SOk (SelectedNow dec) \<Rightarrow> found_at b nodes req c s w ts dec \<and> sd_starts_at dec \<le> now
      | SOk (SelectedFuture dec) \<Rightarrow> found_at b nodes req c s w ts dec \<and> now < sd_starts_at dec
      | SOk Deferred \<Rightarrow> sw_duration_ms w = None \<or> (\<forall>t \<in> set ts. \<not> feasible_start b nodes req c s w t)
      | SOk WindowMissed \<Rightarrow> False
      | SErr e \<Rightarrow> e = SearchLimited
          \<or> e = InvalidTimeWindow \<and> (\<exists>t \<in> set ts. is_some_and (sw_duration_ms w) (\<lambda>d. checked_add t d = None))
          \<or> (\<exists>node. e = UnknownCandidate node \<and> nodes node = None \<and> (\<exists>r \<in> set (cs_roles c). node \<in> set (rc_node_ids r)))
      | SPanic \<Rightarrow> False)"

lemma not_feasible_overflow: "add_offset t (sw_duration_ms w) = Inl e \<Longrightarrow> \<not> feasible_start b nodes req c s w t"
  by (simp add: feasible_start_def)

lemma add_offset_Inl: "add_offset t offset = Inl e \<longleftrightarrow> e = InvalidTimeWindow \<and> is_some_and offset (\<lambda>d. checked_add t d = None)"
  by (auto simp: add_offset_def checked_timestamp_add_def split: option.split)

lemma starts_settled_later:
  assumes "starts_settled b nodes req c s now w ts result" and "\<not> feasible_start b nodes req c s w t"
  shows "starts_settled b nodes req c s now w (t # ts) result"
proof -
  have found: "found_at b nodes req c s w ts dec \<Longrightarrow> found_at b nodes req c s w (t # ts) dec" for dec
    using assms(2) unfolding found_at_def by (metis list.set_intros(2) set_ConsD)
  show ?thesis using assms by (auto simp: starts_settled_def intro: found split: sched_result.splits scheduling_outcome.splits)
qed

lemma starts_settled_search:
  assumes settled: "settled (slot_input b nodes c s t ends) (joint_plan (slot_input b nodes c s t ends) (tq_roles req) [] bt_empty)
      \<lparr>ss_selections = [], ss_entities = bt_empty, ss_expansions = expansions\<rparr> result"
    and t: "add_offset t (sw_duration_ms w) = Inr ends" "start_allowed w t ends" "expansions \<le> bs_max_expansions b"
      "sorted_wrt (<) (t # ts)" "\<forall>t \<in> set (t # ts). sw_earliest w \<le> t"
    and IH: "\<And>n. n \<le> bs_max_expansions b \<Longrightarrow> starts_settled b nodes req c s now w ts (rest n)"
  shows "starts_settled b nodes req c s now w (t # ts)
    (case result of SErr e \<Rightarrow> SErr e | SPanic \<Rightarrow> SPanic | SOk (False, st) \<Rightarrow> rest (ss_expansions st)
      | SOk (True, st) \<Rightarrow> if now < t \<and> ends = None then SOk Deferred
          else SOk ((if t \<le> now then SelectedNow else SelectedFuture) (make_decision req s w t ends st)))"
proof -
  have limit: "in_limit (slot_input b nodes c s t ends) = bs_max_expansions b" by (simp add: slot_input_def)
  consider (error) e where "result = SErr e" | (found) st where "result = SOk (True, st)" | (none) st where "result = SOk (False, st)"
    using settled by (cases result) (auto simp: settled_def split: prod.splits)
  then show ?thesis
  proof cases
    case error
    with settled show ?thesis by (auto simp: settled_def starts_settled_def unknown_candidate_def slot_input_def)
  next
    case found
    with settled t(3) limit have st: "ss_expansions st \<le> bs_max_expansions b"
      "joint_plan (slot_input b nodes c s t ends) (tq_roles req) [] bt_empty (ss_selections st)"
      by (auto simp: settled_def)
    show ?thesis
    proof (cases "now < t \<and> ends = None")
      case True
      then have "sw_duration_ms w = None" using t(1) by (auto simp: add_offset_def split: option.splits sum.splits)
      with True found show ?thesis by (simp add: starts_settled_def)
    next
      case False
      have "found_at b nodes req c s w (t # ts) (make_decision req s w t ends st)"
        unfolding found_at_def using t(1,2,4) st by (intro exI [of _ t] exI [of _ ends] exI [of _ st]) auto
      with False found show ?thesis by (auto simp: starts_settled_def make_decision_def)
    qed
  next
    case none
    with settled t(3) limit have st: "ss_expansions st \<le> bs_max_expansions b"
      "\<And>plan. \<not> joint_plan (slot_input b nodes c s t ends) (tq_roles req) [] bt_empty plan"
      by (auto simp: settled_def)
    then have "\<not> feasible_start b nodes req c s w t" using t(1) by (auto simp: feasible_start_def)
    with starts_settled_later [OF IH [OF st(1)]] none show ?thesis by simp
  qed
qed

lemma try_starts_settled:
  assumes "\<forall>role \<in> set (tq_roles req). for_role c (rq_role_id role) \<noteq> None"
    and "expansions \<le> bs_max_expansions b" and "sorted_wrt (<) ts" and "\<forall>t \<in> set ts. sw_earliest w \<le> t"
  shows "starts_settled b nodes req c s now w ts (try_starts b nodes req c s now w expansions ts)"
  using assms(2-4)
proof (induction ts arbitrary: expansions)
  case (Cons t ts)
  let ?rest = "\<lambda>n. try_starts b nodes req c s now w n ts"
  have IH: "n \<le> bs_max_expansions b \<Longrightarrow> starts_settled b nodes req c s now w ts (?rest n)" for n
    using Cons.IH Cons.prems by simp
  show ?case
  proof (cases "is_some_and (sw_latest_activation_at w) (\<lambda>l. l < t)")
    case True
    with Cons.prems(2) have "\<forall>t' \<in> set (t # ts). is_some_and (sw_latest_activation_at w) (\<lambda>l. l < t')"
      by (auto simp: is_some_and_iff)
    then have "\<forall>t' \<in> set (t # ts). \<not> feasible_start b nodes req c s w t'"
      by (auto simp: feasible_start_def start_allowed_def is_some_and_iff is_none_or_iff)
    with True show ?thesis by (simp add: starts_settled_def)
  next
    case latest: False
    show ?thesis
    proof (cases "add_offset t (sw_duration_ms w)")
      case (Inl e)
      with latest show ?thesis using Inl [unfolded add_offset_Inl] by (simp add: starts_settled_def)
    next
      case (Inr ends)
      show ?thesis
      proof (cases "start_allowed w t ends")
        case False
        then have "is_some_and (sw_completion_deadline w) (\<lambda>d. d < (case ends of None \<Rightarrow> t | Some e \<Rightarrow> e))"
          using latest by (auto simp: start_allowed_def is_some_and_iff is_none_or_iff not_le)
        moreover have "\<not> feasible_start b nodes req c s w t" using False Inr by (auto simp: feasible_start_def)
        ultimately show ?thesis
          using latest Inr starts_settled_later [OF IH [OF Cons.prems(1)]] by simp
      next
        case True
        then have deadline: "\<not> is_some_and (sw_completion_deadline w) (\<lambda>d. d < (case ends of None \<Rightarrow> t | Some e \<Rightarrow> e))"
          by (auto simp: start_allowed_def is_some_and_iff is_none_or_iff not_less)
        let ?inp = "slot_input b nodes c s t ends"
        let ?st = "\<lparr>ss_selections = [], ss_entities = bt_empty, ss_expansions = expansions\<rparr>"
        let ?result = "search_roles (tq_roles req) ?inp ?st"
        have step: "try_starts b nodes req c s now w expansions (t # ts) =
            (case ?result of SErr e \<Rightarrow> SErr e | SPanic \<Rightarrow> SPanic | SOk (False, st) \<Rightarrow> ?rest (ss_expansions st)
              | SOk (True, st) \<Rightarrow> if now < t \<and> ends = None then SOk Deferred
                  else SOk ((if t \<le> now then SelectedNow else SelectedFuture) (make_decision req s w t ends st)))"
          using latest Inr deadline by (simp add: slot_input_def)
        have settled: "settled ?inp (joint_plan ?inp (tq_roles req) [] bt_empty) ?st ?result"
          using search_roles_decides [of "tq_roles req" ?inp] assms(1) unfolding decides_def
          by (auto simp: slot_input_def dest!: spec [of _ ?st])
        show ?thesis unfolding step
          by (rule starts_settled_search [OF settled Inr True Cons.prems(1-3) IH])
      qed
    qed
  qed
qed (simp add: starts_settled_def)

end
