(* ===== verification/CP_Scheduler_Props.thy ===== *)
theory CP_Scheduler_Props
  imports CP_Start
begin

text \<open>
  What a scheduling decision guarantees: it fits its Task, it books no resource beyond its capacity, it starts at the
  earliest instant at which a joint plan exists, and every refusal has a stated cause.
\<close>

subsection \<open>From the calls to the loop\<close>

definition decision_of :: "scheduling_outcome \<Rightarrow> scheduling_decision option" where
  "decision_of outcome = (case outcome of SelectedNow d \<Rightarrow> Some d | SelectedFuture d \<Rightarrow> Some d | _ \<Rightarrow> None)"

lemma validate_candidate_set_covers:
  assumes "validate_candidate_set req c = Inr ()"
  shows "\<forall>role \<in> set (tq_roles req). for_role c (rq_role_id role) \<noteq> None"
proof
  fix role assume "role \<in> set (tq_roles req)"
  moreover have "set (map rc_role_id (cs_roles c)) = set (map rq_role_id (tq_roles req))"
    using assms by (auto simp: validate_candidate_set_def Let_def bts_of_list_eq_iff split: if_splits)
  ultimately obtain r where "r \<in> set (cs_roles c)" "rc_role_id r = rq_role_id role" by (metis (no_types, lifting) imageE image_eqI set_map)
  then show "for_role c (rq_role_id role) \<noteq> None" by (auto simp: for_role_def find_None_iff)
qed

lemma loop_settled:
  assumes "validate_candidate_set req c = Inr ()"
  shows "starts_settled b nodes req c s now w (candidate_starts w s) (try_starts b nodes req c s now w 0 (candidate_starts w s))"
  by (intro try_starts_settled validate_candidate_set_covers [OF assms] candidate_starts_ascending)
    (auto simp: set_candidate_starts)

lemma schedule_cases:
  assumes "schedule_task_with_snapshot_and_estimate b nodes req c s ctx = result"
  obtains (candidates) e where "validate_candidate_set req c = Inl e" "result = SErr e"
  | (window) e where "validate_candidate_set req c = Inr ()" "task_window req ctx = Inl e" "result = SErr e"
  | (missed) "validate_candidate_set req c = Inr ()" "task_window req ctx = Inr None" "result = SOk WindowMissed"
  | (loop) w where "validate_candidate_set req c = Inr ()" "task_window req ctx = Inr (Some w)"
      "starts_settled b nodes req c s (sx_now ctx) w (candidate_starts w s) result"
  using assms loop_settled [of req c]
  by (cases "validate_candidate_set req c"; cases "task_window req ctx")
    (auto simp: schedule_task_with_snapshot_and_estimate_def split: option.splits)

lemma selected_found:
  assumes "schedule_task_with_snapshot_and_estimate b nodes req c s ctx = SOk outcome" and "decision_of outcome = Some dec"
  obtains w where "task_window req ctx = Inr (Some w)" "found_at b nodes req c s w (candidate_starts w s) dec"
    "outcome = (if sd_starts_at dec \<le> sx_now ctx then SelectedNow dec else SelectedFuture dec)"
  using assms(1) by (rule schedule_cases)
    (use assms(2) in \<open>auto simp: decision_of_def starts_settled_def split: scheduling_outcome.splits\<close>)

lemma found_plan:
  assumes "found_at b nodes req c s w ts dec"
  shows "joint_plan (slot_input b nodes c s (sd_starts_at dec) (sd_ends_at dec)) (tq_roles req) [] bt_empty (sd_selections dec)"
    "sd_starts_at dec \<in> set ts" "add_offset (sd_starts_at dec) (sw_duration_ms w) = Inr (sd_ends_at dec)"
    "start_allowed w (sd_starts_at dec) (sd_ends_at dec)" "sd_expansions dec \<le> bs_max_expansions b"
    "sd_task_ref dec = tq_task_ref req"
    "\<forall>t \<in> set ts. t < sd_starts_at dec \<longrightarrow> \<not> feasible_start b nodes req c s w t"
  using assms by (auto simp: found_at_def make_decision_def)

subsection \<open>Timing\<close>

definition expected_duration :: "task_requirement \<Rightarrow> scheduling_context \<Rightarrow> u64 option" where
  "expected_duration req ctx =
     (case sx_duration_estimate ctx of Some e \<Rightarrow> Some (de_duration_ms e) | None \<Rightarrow> tt_estimated_duration_ms (tq_timing req))"

definition keeps_timing :: "task_requirement \<Rightarrow> scheduling_context \<Rightarrow> timestamp \<Rightarrow> timestamp option \<Rightarrow> bool" where
  "keeps_timing req ctx starts ends \<longleftrightarrow>
     (let timing = tq_timing req; after = (\<lambda>offset. unat (sx_mission_accepted_at ctx) + unat offset)
      in sx_now ctx \<le> starts \<and> after (tt_earliest_start_offset_ms timing) \<le> unat starts
         \<and> is_none_or (tt_latest_start_offset_ms timing) (\<lambda>l. unat starts \<le> after l)
         \<and> is_none_or (tt_completion_deadline_offset_ms timing) (\<lambda>d. unat (case ends of None \<Rightarrow> starts | Some e \<Rightarrow> e) \<le> after d)
         \<and> (case expected_duration req ctx of
              None \<Rightarrow> ends = None | Some d \<Rightarrow> is_some_and ends (\<lambda>e. unat e = unat starts + unat d)))"

lemma add_offset_Inr:
  "add_offset t offset = Inr u \<longleftrightarrow> (case offset of None \<Rightarrow> u = None | Some d \<Rightarrow> is_some_and u (\<lambda>e. checked_add t d = Some e))"
  by (cases offset; cases u) (auto simp: add_offset_def checked_timestamp_add_def is_some_and_def split: option.split)

definition open_window ::
    "task_requirement \<Rightarrow> scheduling_context \<Rightarrow> duration_estimate option \<Rightarrow> timestamp \<Rightarrow> timestamp option \<Rightarrow> timestamp option
       \<Rightarrow> start_window option" where
  "open_window req ctx estimate first latest deadline =
     (if is_some_and deadline (\<lambda>e. is_some_and (expected_duration req ctx) (\<lambda>d. e < d)) then None
       else (let activation = earlier_bound latest (case (deadline, expected_duration req ctx) of
                 (Some e, Some d) \<Rightarrow> Some (e - d) | (e, None) \<Rightarrow> e | (None, Some _) \<Rightarrow> None)
             in if is_some_and activation (\<lambda>l. l < max first (sx_now ctx)) then None
                else Some \<lparr>sw_estimate = estimate, sw_duration_ms = expected_duration req ctx, sw_earliest = max first (sx_now ctx),
                       sw_completion_deadline = deadline, sw_latest_activation_at = activation\<rparr>))"

lemma task_window_cases:
  assumes "task_window req ctx = Inr result"
  obtains estimate first latest deadline where
    "validate_duration_estimate req (sx_duration_estimate ctx) (sx_now ctx) = Inr estimate"
    "checked_add (sx_mission_accepted_at ctx) (tt_earliest_start_offset_ms (tq_timing req)) = Some first"
    "add_offset (sx_mission_accepted_at ctx) (tt_latest_start_offset_ms (tq_timing req)) = Inr latest"
    "add_offset (sx_mission_accepted_at ctx) (tt_completion_deadline_offset_ms (tq_timing req)) = Inr deadline"
    "result = open_window req ctx estimate first latest deadline"
proof -
  have duration: "(case estimate of Some e \<Rightarrow> Some (de_duration_ms e) | None \<Rightarrow> tt_estimated_duration_ms (tq_timing req)) =
      expected_duration req ctx" if "validate_duration_estimate req (sx_duration_estimate ctx) (sx_now ctx) = Inr estimate" for estimate
    using that by (auto simp: validate_duration_estimate_def expected_duration_def split: option.splits if_splits)
  from assms show thesis
    by (auto simp: task_window_def open_window_def checked_timestamp_add_def Let_def duration split: sum.splits option.splits if_splits
        intro!: that)
qed

lemma window_keeps_timing:
  assumes "task_window req ctx = Inr (Some w)" and "sw_earliest w \<le> starts" and "start_allowed w starts ends"
    and "add_offset starts (sw_duration_ms w) = Inr ends"
  shows "keeps_timing req ctx starts ends"
  using assms(1)
proof (rule task_window_cases)
  fix estimate first latest deadline
  assume first: "checked_add (sx_mission_accepted_at ctx) (tt_earliest_start_offset_ms (tq_timing req)) = Some first"
    and latest: "add_offset (sx_mission_accepted_at ctx) (tt_latest_start_offset_ms (tq_timing req)) = Inr latest"
    and deadline: "add_offset (sx_mission_accepted_at ctx) (tt_completion_deadline_offset_ms (tq_timing req)) = Inr deadline"
    and w: "Some w = open_window req ctx estimate first latest deadline"
  have fields: "sw_duration_ms w = expected_duration req ctx" "sw_earliest w = max first (sx_now ctx)"
    "sw_completion_deadline w = deadline" "is_none_or latest (\<lambda>l. is_some_and (sw_latest_activation_at w) (\<lambda>a. a \<le> l))"
    using w by (auto simp: open_window_def Let_def earlier_bound_def is_none_or_def is_some_and_def split: if_splits option.splits)
  have "is_none_or latest (\<lambda>l. starts \<le> l)" using fields(4) assms(3)
    by (auto simp: start_allowed_def is_none_or_iff is_some_and_iff)
  moreover have "unat first \<le> unat starts" "sx_now ctx \<le> starts" using assms(2) fields(2) by (auto simp flip: word_le_nat_alt)
  ultimately show ?thesis
    using first latest deadline assms(3,4) fields(1,3)
    by (auto simp: keeps_timing_def Let_def add_offset_Inr start_allowed_def is_none_or_def is_some_and_def word_le_nat_alt
        dest!: checked_add_Some_unat split: option.splits)
qed

lemma missed_window:
  assumes "task_window req ctx = Inr None"
  shows "\<not> keeps_timing req ctx starts ends"
  using assms
proof (rule task_window_cases)
  fix estimate first latest deadline
  assume first: "checked_add (sx_mission_accepted_at ctx) (tt_earliest_start_offset_ms (tq_timing req)) = Some first"
    and latest: "add_offset (sx_mission_accepted_at ctx) (tt_latest_start_offset_ms (tq_timing req)) = Inr latest"
    and deadline: "add_offset (sx_mission_accepted_at ctx) (tt_completion_deadline_offset_ms (tq_timing req)) = Inr deadline"
    and none: "None = open_window req ctx estimate first latest deadline"
  show ?thesis
  proof
    assume "keeps_timing req ctx starts ends"
    then have "unat first \<le> unat starts" "sx_now ctx \<le> starts" "is_none_or latest (\<lambda>l. starts \<le> l)"
      "is_none_or deadline (\<lambda>d. unat (case ends of None \<Rightarrow> starts | Some e \<Rightarrow> e) \<le> unat d)"
      "case expected_duration req ctx of None \<Rightarrow> ends = None | Some d \<Rightarrow> is_some_and ends (\<lambda>e. unat e = unat starts + unat d)"
      using first latest deadline
      by (auto simp: keeps_timing_def Let_def add_offset_Inr is_none_or_def is_some_and_def word_le_nat_alt
          dest!: checked_add_Some_unat split: option.splits)
    with none show False
      by (auto simp: open_window_def Let_def earlier_bound_def is_none_or_def is_some_and_def word_le_nat_alt word_less_nat_alt unat_sub_if'
          max_def min_def split: if_splits option.splits)
  qed
qed

subsection \<open>Refusals\<close>

definition refusal_cause ::
    "node_reader \<Rightarrow> task_requirement \<Rightarrow> candidate_set \<Rightarrow> scheduling_snapshot \<Rightarrow> scheduling_context \<Rightarrow> scheduler_error \<Rightarrow> bool" where
  "refusal_cause nodes req c s ctx e \<longleftrightarrow>
     validate_candidate_set req c = Inl e
     \<or> task_window req ctx = Inl e
     \<or> e = SearchLimited
     \<or> e = InvalidTimeWindow \<and> (\<exists>w d. task_window req ctx = Inr (Some w) \<and> sw_duration_ms w = Some d
         \<and> (\<exists>t \<in> set (candidate_starts w s). 2 ^ 64 \<le> unat t + unat d))
     \<or> (\<exists>node. e = UnknownCandidate node \<and> nodes node = None \<and> (\<exists>r \<in> set (cs_roles c). node \<in> set (rc_node_ids r)))"

lemma schedule_no_panic: "schedule_task_with_snapshot_and_estimate b nodes req c s ctx \<noteq> SPanic"
  by (rule schedule_cases [of b nodes req c s ctx, OF refl]) (auto simp: starts_settled_def)

lemma schedule_refusal:
  assumes "schedule_task_with_snapshot_and_estimate b nodes req c s ctx = SErr e"
  shows "refusal_cause nodes req c s ctx e"
  using assms
  by (rule schedule_cases) (auto simp: starts_settled_def refusal_cause_def is_some_and_iff checked_add_None_iff)

lemma schedule_missed:
  assumes "schedule_task_with_snapshot_and_estimate b nodes req c s ctx = SOk WindowMissed"
  shows "\<not> keeps_timing req ctx starts ends"
  using assms by (rule schedule_cases) (auto simp: starts_settled_def intro: missed_window [THEN notE])

lemma select_first_no_panic: "select_first nodes role s starts ends ns \<noteq> SPanic"
proof (induction ns)
  case (Cons node ns)
  have "with_resources (role_selection_new (rq_role_id role) node ids units) role resources \<noteq> None"
    if "resource_choices resources role s starts ends [] None = (ids, units) # rest" for resources ids units rest
    using resource_choice_total [of ids units resources role s starts ends "[]" None] that by simp
  with Cons show ?case by (auto split: option.split list.split) (metis option.distinct(1))
qed simp

subsection \<open>A lift that needs two machines\<close>

definition gpu :: resource where
  "gpu = \<lparr>res_id = ''gpu'', res_kind = Compute, res_capacity = 4, res_allocation_mode = Divisible,
     res_resource_class = Some ''compute.units/v1''\<rparr>"

definition bay :: "string \<Rightarrow> resource" where
  "bay name = \<lparr>res_id = name, res_kind = Space, res_capacity = 1, res_allocation_mode = Exclusive, res_resource_class = None\<rparr>"

definition fleet :: node_reader where
  "fleet node = (if node = ''arm'' then Some [gpu, bay ''bench''] else if node = ''cart'' then Some [bay ''dock''] else None)"

definition lift_role :: "string \<Rightarrow> resource_requirement \<Rightarrow> role_requirement" where
  "lift_role name demand =
     \<lparr>rq_role_id = name, rq_legacy_capability = None, rq_actor_id = Some name, rq_legacy_contract = None, rq_capabilities = [],
      rq_resource_kind = Some (rr_kind demand), rq_resources = [demand], rq_memories = []\<rparr>"

definition lift :: task_requirement where
  "lift = \<lparr>tq_task_ref = TaskRef ''m'' ''lift'',
     tq_roles = [lift_role ''hold'' \<lparr>rr_kind = Compute, rr_units = 2, rr_allocation_mode = Divisible,
                   rr_resource_class = Some ''compute.units/v1''\<rparr>,
                 lift_role ''carry'' (compatibility_demand Space)],
     tq_timing = \<lparr>tt_earliest_start_offset_ms = 0, tt_latest_start_offset_ms = None,
       tt_completion_deadline_offset_ms = Some 200, tt_estimated_duration_ms = Some 50\<rparr>\<rparr>"

definition lift_candidates :: candidate_set where
  "lift_candidates = (candidate_set_new (tq_task_ref lift)
      [\<lparr>rc_role_id = ''hold'', rc_node_ids = [''arm'']\<rparr>, \<lparr>rc_role_id = ''carry'', rc_node_ids = [''arm'', ''cart'']\<rparr>])
     \<lparr>cs_role_actors := bt_of_list [(''hold'', ''holder''), (''carry'', ''carrier'')],
      cs_distinct_actor_groups := [bts_of_list [''holder'', ''carrier'']],
      cs_candidate_entities := bt_of_list [(''arm'', ''robot-1''), (''cart'', ''robot-2'')]\<rparr>"

definition dock_entry :: topology_entry where
  "dock_entry = \<lparr>te_resource_id = ''dock'', te_node_id = ''cart'', te_kind = Space,
     te_space = Some \<lparr>fp_conflict_domain = ''hall'', fp_frame = ''map'', fp_anchor_revision = ''1'', fp_lower_mm = (0, 0, 0),
       fp_upper_mm = (1000, 1000, 2000), fp_clearance_mm = 250\<rparr>,
     te_time_domain = None, te_windows = [\<lparr>tw_starts_at = 60, tw_ends_at = 300\<rparr>]\<rparr>"

definition lift_snapshot :: scheduling_snapshot where
  "lift_snapshot = (snapshot_new 7 [quantitative ''gpu'' 0 (Some 100) 3 None])
     \<lparr>sn_resource_topology := Some \<lparr>tg_schema = ''roboguide.resource-topology/v0.1'', tg_registry_id = ''hall'', tg_revision = 1,
        tg_clock = ''controller_receive_time'', tg_stop_timeout_ms = 1000, tg_booking_duration_ms = 1000,
        tg_booking_max_age_ms = 2000, tg_resources = [dock_entry]\<rparr>\<rparr>"

definition lift_context :: scheduling_context where
  "lift_context = \<lparr>sx_mission_accepted_at = 0, sx_now = 10, sx_duration_estimate = None\<rparr>"

definition lift_outcome :: "scheduling_outcome sched_result" where
  "lift_outcome = schedule_task_with_snapshot_and_estimate scheduler_new fleet lift lift_candidates lift_snapshot lift_context"

definition lift_facts :: "scheduling_outcome sched_result \<Rightarrow> bool" where
  "lift_facts result \<longleftrightarrow> (case result of
     SOk (SelectedFuture d) \<Rightarrow> sd_starts_at d = 100 \<and> sd_ends_at d = Some 150 \<and> map rs_node_id (sd_selections d) = [''arm'', ''cart'']
       \<and> map rs_resource_ids (sd_selections d) = [[''gpu''], [''dock'']]
   | _ \<Rightarrow> False)"

lemma lift_facts: "lift_facts lift_outcome"
  by code_simp

lemma lift_selected:
  obtains d where "schedule_task_with_snapshot_and_estimate scheduler_new fleet lift lift_candidates lift_snapshot lift_context = SOk (SelectedFuture d)"
    "sd_starts_at d = 100" "sd_ends_at d = Some 150" "map rs_node_id (sd_selections d) = [''arm'', ''cart'']"
    "map rs_resource_ids (sd_selections d) = [[''gpu''], [''dock'']]"
  using lift_facts by (auto simp: lift_facts_def lift_outcome_def split: sched_result.splits scheduling_outcome.splits)

lemma lift_calendar: "calendar_ok lift_snapshot" "capacities_agree fleet"
  by (simp_all add: calendar_ok_def lift_snapshot_def snapshot_new_def snapshot_empty_def quantitative_def occupancy_wf_def
      capacities_agree_def fleet_def gpu_def bay_def)

text \<open>
  Why the capacity property below leaves Context envelopes out: \<open>selected_occupancies\<close> counts the parent envelope of an owner axis on the
  first selected resource only, and \<open>capacity_available\<close> then asks no physical units of a second resource of the same
  axis. Two Roles of one ContextRole are placed on two pools, of which the second is already fully held.
\<close>

definition pool :: "string \<Rightarrow> resource" where
  "pool name = gpu\<lparr>res_id := name\<rparr>"

definition twin_role :: "string \<Rightarrow> role_requirement" where
  "twin_role name = (lift_role name \<lparr>rr_kind = Compute, rr_units = 2, rr_allocation_mode = Divisible,
     rr_resource_class = Some ''compute.units/v1''\<rparr>)\<lparr>rq_actor_id := Some ''holder''\<rparr>"

definition twin_snapshot :: scheduling_snapshot where
  "twin_snapshot = (snapshot_new 7 [quantitative ''g2'' 0 None 4 None])
     \<lparr>sn_context_capacities := bt_of_list (map (\<lambda>role.
        (role, \<lparr>cc_owner_axis = ''g/holder'', cc_units = 2, cc_parent_starts_at = None\<rparr>)) [''left'', ''right''])\<rparr>"

definition twin_outcome :: "scheduling_outcome sched_result" where
  "twin_outcome = schedule_task_with_snapshot_and_estimate scheduler_new
     (\<lambda>node. if node = ''arm'' then Some [pool ''g1'', pool ''g2''] else None)
     (lift\<lparr>tq_roles := map twin_role [''left'', ''right'']\<rparr>)
     ((candidate_set_new (tq_task_ref lift) (map (\<lambda>role. \<lparr>rc_role_id = role, rc_node_ids = [''arm'']\<rparr>) [''left'', ''right'']))
       \<lparr>cs_role_actors := bt_of_list [(''left'', ''holder''), (''right'', ''holder'')],
        cs_candidate_entities := bt_of_list [(''arm'', ''robot-1'')]\<rparr>)
     twin_snapshot lift_context"

lemma context_axis_overbooks:
  "case twin_outcome of
     SOk (SelectedNow d) \<Rightarrow> map rs_resource_ids (sd_selections d) = [[''g1''], [''g2'']]
       \<and> map rs_resource_units (sd_selections d) = [[2], [2]]
       \<and> map (\<lambda>occ. (oc_resource_id occ, oc_starts_at occ, oc_ends_at occ, oc_units occ)) (sn_occupancies twin_snapshot)
           = [(''g2'', 0, None, Some (res_capacity (pool ''g2'')))]
   | _ \<Rightarrow> False"
  by code_simp

subsection \<open>Properties\<close>

text \<open>
  C12: A decision fits its Task: it names exactly the Task's Roles in their order, each on one of its candidate Nodes with
  one distinct registered resource per demand that matches the demand and any retained constraint; an Actor keeps one
  physical entity and Actors that must be distinct have different ones; the interval satisfies every timing bound in
  exact arithmetic, the expansion budget is kept, and it is selected now exactly when the start has come.
\<close>

theorem decision_fits_task:
  assumes "schedule_task_with_snapshot_and_estimate b nodes req c s ctx = SOk outcome" and "decision_of outcome = Some dec"
  defines "inp \<equiv> slot_input b nodes c s (sd_starts_at dec) (sd_ends_at dec)"
  shows "sd_task_ref dec = tq_task_ref req
    \<and> list_all2 (selection_ok inp) (tq_roles req) (sd_selections dec)
    \<and> coherent c (bindings inp (tq_roles req) (sd_selections dec))
    \<and> keeps_timing req ctx (sd_starts_at dec) (sd_ends_at dec)
    \<and> sd_expansions dec \<le> bs_max_expansions b
    \<and> outcome = (if sd_starts_at dec \<le> sx_now ctx then SelectedNow dec else SelectedFuture dec)"
proof -
  obtain w where w: "task_window req ctx = Inr (Some w)" "found_at b nodes req c s w (candidate_starts w s) dec"
    "outcome = (if sd_starts_at dec \<le> sx_now ctx then SelectedNow dec else SelectedFuture dec)"
    using assms(1,2) by (rule selected_found)
  note found = found_plan [OF w(2), folded inp_def]
  have "sw_earliest w \<le> sd_starts_at dec" using found(2) by (simp add: set_candidate_starts)
  from window_keeps_timing [OF w(1) this found(4,3)] joint_plan_selections [OF found(1)]
    joint_plan_coherent [OF found(1)] found(5,6) w(3) show ?thesis
    by (simp add: coherent_def inp_def slot_input_def bt_empty.rep_eq)
qed

theorem decision_fits_task_witness:
  "\<exists>d. schedule_task_with_snapshot_and_estimate scheduler_new fleet lift lift_candidates lift_snapshot lift_context = SOk (SelectedFuture d)
     \<and> map rs_node_id (sd_selections d) = [''arm'', ''cart'']
     \<and> list_all2 (selection_ok (slot_input scheduler_new fleet lift_candidates lift_snapshot 100 (Some 150)))
         (tq_roles lift) (sd_selections d)
     \<and> keeps_timing lift lift_context 100 (Some 150)"
proof (rule lift_selected)
  fix d
  assume d: "schedule_task_with_snapshot_and_estimate scheduler_new fleet lift lift_candidates lift_snapshot lift_context = SOk (SelectedFuture d)"
    "sd_starts_at d = 100" "sd_ends_at d = Some 150" "map rs_node_id (sd_selections d) = [''arm'', ''cart'']"
  from decision_fits_task [OF d(1), of d] d show ?thesis by (auto simp: decision_of_def)
qed

text \<open>
  C11: A decision never overbooks a calendar without Context envelopes, when every occupancy of the calendar is a
  non-empty interval and no two Nodes register one resource with different capacities: at every instant of the selected interval the
  units held by the calendar and by the whole plan on each selected resource, a whole-resource occupancy counting as the
  full capacity, stay within its capacity; and no two selected resources, nor a selected one and an overlapping
  occupancy, conflict in the resource topology.
\<close>

theorem plan_never_overbooks:
  assumes "schedule_task_with_snapshot_and_estimate b nodes req c s ctx = SOk outcome" and "decision_of outcome = Some dec"
    and "calendar_ok s" and "capacities_agree nodes"
  shows "within_capacity (slot_input b nodes c s (sd_starts_at dec) (sd_ends_at dec)) (sd_selections dec)
    \<and> separated (slot_input b nodes c s (sd_starts_at dec) (sd_ends_at dec)) (sd_selections dec)"
proof -
  obtain w where "found_at b nodes req c s w (candidate_starts w s) dec"
    using assms(1,2) by (rule selected_found)
  note plan = found_plan(1) [OF this]
  from joint_plan_within_capacity [OF plan] joint_plan_separated [OF plan] assms(3,4) show ?thesis
    by (simp add: slot_input_def within_capacity_def separated_def chosen_ids_def is_none_or_iff)
qed

theorem plan_never_overbooks_witness:
  "\<exists>d. schedule_task_with_snapshot_and_estimate scheduler_new fleet lift lift_candidates lift_snapshot lift_context = SOk (SelectedFuture d)
     \<and> map rs_resource_ids (sd_selections d) = [[''gpu''], [''dock'']]
     \<and> within_capacity (slot_input scheduler_new fleet lift_candidates lift_snapshot 100 (Some 150)) (sd_selections d)"
proof (rule lift_selected)
  fix d
  assume d: "schedule_task_with_snapshot_and_estimate scheduler_new fleet lift lift_candidates lift_snapshot lift_context = SOk (SelectedFuture d)"
    "sd_starts_at d = 100" "sd_ends_at d = Some 150" "map rs_resource_ids (sd_selections d) = [[''gpu''], [''dock'']]"
  from plan_never_overbooks [OF d(1) _ lift_calendar, of d] d show ?thesis by (auto simp: decision_of_def)
qed

text \<open>
  C10: A Task that can run is scheduled, as early as possible: for a known duration and a calendar without Context envelopes,
  whenever the Scheduler answers within its budget and some start inside the window admits a joint plan, it selects the
  earliest such start of all instants, not only of those it tried; it defers exactly when there is none.
\<close>

theorem earliest_feasible_start:
  assumes "schedule_task_with_snapshot_and_estimate b nodes req c s ctx = SOk outcome"
    and "task_window req ctx = Inr (Some w)" and "sw_duration_ms w = Some d" and "calendar_ok s"
  shows "if \<exists>t. feasible_start b nodes req c s w t
    then \<exists>dec. decision_of outcome = Some dec \<and> feasible_start b nodes req c s w (sd_starts_at dec)
      \<and> (\<forall>t. feasible_start b nodes req c s w t \<longrightarrow> sd_starts_at dec \<le> t)
    else outcome = Deferred"
proof -
  let ?feasible = "feasible_start b nodes req c s w"
  have settled: "starts_settled b nodes req c s (sx_now ctx) w (candidate_starts w s) (SOk outcome)"
    using assms(1) by (rule schedule_cases) (use assms(2) in auto)
  have candidate: "\<exists>t' \<in> set (candidate_starts w s). t' \<le> t \<and> ?feasible t'" if "?feasible t" for t
    using feasible_candidate [OF that assms(3,4)] by blast
  have selected: "?feasible (sd_starts_at dec) \<and> (\<forall>t. ?feasible t \<longrightarrow> sd_starts_at dec \<le> t)"
    if "found_at b nodes req c s w (candidate_starts w s) dec" for dec
  proof -
    note found = found_plan [OF that]
    have "?feasible (sd_starts_at dec)"
      using found(1-4) by (auto simp: feasible_start_def set_candidate_starts)
    moreover have "sd_starts_at dec \<le> t" if "?feasible t" for t
      using candidate [OF that] found(7) by (meson le_less_trans not_le)
    ultimately show ?thesis by blast
  qed
  from settled assms(3) selected candidate show ?thesis
    by (cases outcome) (auto simp: starts_settled_def decision_of_def)
qed

theorem earliest_feasible_start_witness:
  "\<exists>w d. task_window lift lift_context = Inr (Some w)
     \<and> schedule_task_with_snapshot_and_estimate scheduler_new fleet lift lift_candidates lift_snapshot lift_context = SOk (SelectedFuture d)
     \<and> sd_starts_at d = 100 \<and> \<not> feasible_start scheduler_new fleet lift lift_candidates lift_snapshot w 99"
proof (rule lift_selected)
  fix d
  assume d: "schedule_task_with_snapshot_and_estimate scheduler_new fleet lift lift_candidates lift_snapshot lift_context = SOk (SelectedFuture d)"
    "sd_starts_at d = 100"
  obtain w where w: "task_window lift lift_context = Inr (Some w)" "sw_duration_ms w = Some 50"
    by (auto simp: task_window_def lift_def lift_context_def validate_duration_estimate_def checked_timestamp_add_def
        checked_add_code add_offset_def Let_def earlier_bound_def)
  from earliest_feasible_start [OF d(1) w lift_calendar(1)] d(2)
  have "\<not> feasible_start scheduler_new fleet lift lift_candidates lift_snapshot w 99"
    by (auto simp: decision_of_def split: if_splits)
  with d w show ?thesis by blast
qed

text \<open>
  C13: Every refusal has a cause and no trace: the Scheduler never panics on a Task with Roles, an error is a rejected
  Candidate Set, a rejected estimate or window, an exhausted budget, a candidate interval beyond the 64-bit clock or a
  candidate Node that is unknown, a missed window means that no interval at all keeps the Task's timing, and exactly
  the successful calls append their event.
\<close>

theorem scheduler_refusals_explained:
  fixes b :: scheduler and nodes :: node_reader and c :: candidate_set and s :: scheduling_snapshot and ctx :: scheduling_context
    and now :: timestamp and correlation :: string and events :: "event_entry list" and rc :: recovery_candidate_set
  assumes "tq_roles req \<noteq> []"
  defines "attempt \<equiv> schedule_task_with_snapshot_and_estimate b nodes req c s ctx"
    and "task \<equiv> schedule_task b nodes req c now correlation events"
    and "recovery \<equiv> schedule_recovery nodes req rc s now correlation events"
  shows "attempt \<noteq> SPanic \<and> fst task \<noteq> SPanic \<and> fst recovery \<noteq> SPanic
    \<and> (\<forall>e. attempt = SErr e \<longrightarrow> refusal_cause nodes req c s ctx e)
    \<and> (attempt = SOk WindowMissed \<longrightarrow> (\<forall>starts ends. \<not> keeps_timing req ctx starts ends))
    \<and> snd task = events @ (case fst task of
        SOk d \<Rightarrow> [(now, correlation, None, TaskSchedulingSelected (tq_task_ref req) (proposed_assignments d))] | _ \<Rightarrow> [])
    \<and> length (snd recovery) = length events + (case fst recovery of SOk _ \<Rightarrow> 1 | _ \<Rightarrow> 0)"
proof -
  have "fst task \<noteq> SPanic"
    using assms(1) schedule_no_panic unfolding task_def schedule_task_def schedule_task_with_snapshot_def
    by (auto simp: Let_def split: sched_result.split scheduling_outcome.split list.split)
  moreover have "fst recovery \<noteq> SPanic"
    using select_first_no_panic unfolding recovery_def schedule_recovery_def select_role_def
    by (auto split: sched_result.split option.split)
  moreover have "snd task = events @ (case fst task of
      SOk d \<Rightarrow> [(now, correlation, None, TaskSchedulingSelected (tq_task_ref req) (proposed_assignments d))] | _ \<Rightarrow> [])"
    unfolding task_def schedule_task_def by (auto simp: Let_def split: sched_result.split scheduling_outcome.split list.split)
  moreover have "length (snd recovery) = length events + (case fst recovery of SOk _ \<Rightarrow> 1 | _ \<Rightarrow> 0)"
    unfolding recovery_def schedule_recovery_def by (auto split: sched_result.split option.split)
  moreover note schedule_no_panic [of b nodes req c s ctx, folded attempt_def]
    schedule_refusal [of b nodes req c s ctx, folded attempt_def] schedule_missed [of b nodes req c s ctx, folded attempt_def]
  ultimately show ?thesis by (intro conjI allI impI) simp_all
qed

theorem scheduler_refusals_explained_witness:
  "refusal_cause (\<lambda>_. None) lift lift_candidates lift_snapshot lift_context (UnknownCandidate ''arm'')
   \<and> snd (schedule_task scheduler_new (\<lambda>_. None) lift lift_candidates 0 ''k'' []) = []"
proof -
  have "(case schedule_task_with_snapshot_and_estimate scheduler_new (\<lambda>_. None) lift lift_candidates lift_snapshot lift_context of
      SErr (UnknownCandidate node) \<Rightarrow> node = ''arm'' | _ \<Rightarrow> False)" by code_simp
  then have error: "schedule_task_with_snapshot_and_estimate scheduler_new (\<lambda>_. None) lift lift_candidates lift_snapshot lift_context =
      SErr (UnknownCandidate ''arm'')" by (auto split: sched_result.splits scheduler_error.splits)
  have task: "(case fst (schedule_task scheduler_new (\<lambda>_. None) lift lift_candidates 0 ''k'' []) of SErr _ \<Rightarrow> True | _ \<Rightarrow> False)"
    by code_simp
  have "tq_roles lift \<noteq> []" by (simp add: lift_def)
  from scheduler_refusals_explained [OF this, where b = scheduler_new and nodes = "\<lambda>_. None" and c = lift_candidates
      and s = lift_snapshot and ctx = lift_context and now = 0 and correlation = "''k''" and events = "[]"]
    error task show ?thesis by (auto split: sched_result.splits)
qed

end
