(* ===== verification/RG_Decision_Props.thy ===== *)
theory RG_Decision_Props
  imports RG_Decision
begin

text \<open>
  What the admission of evidence guarantees, whatever the order of the records, and the exactness of planning costs.
\<close>

subsection \<open>The selected record\<close>

lemma foldl_later_of:
  "foldl later_of best rs \<in> set (best # rs) \<and> (\<forall>r \<in> set (best # rs). latest_key r \<le> latest_key (foldl later_of best rs))"
proof (induction rs arbitrary: best)
  case (Cons r rs)
  have "later_of best r \<in> {best, r}" "latest_key best \<le> latest_key (later_of best r)"
    "latest_key r \<le> latest_key (later_of best r)"
    by (auto simp: later_of_def)
  moreover have "latest_key (later_of best r) \<le> latest_key (foldl later_of (later_of best r) rs)"
    using Cons.IH [of "later_of best r"] by simp
  ultimately have "latest_key best \<le> latest_key (foldl later_of (later_of best r) rs)"
    "latest_key r \<le> latest_key (foldl later_of (later_of best r) rs)"
    by (blast intro: order_trans)+
  with Cons.IH [of "later_of best r"] \<open>later_of best r \<in> {best, r}\<close> show ?case by auto
qed simp

lemma select_latest_props:
  assumes "records \<noteq> []"
  shows "select_latest records \<in> set records"
    and "r \<in> set records \<Longrightarrow> latest_key r \<le> latest_key (select_latest records)"
  using foldl_later_of [of "hd records" "tl records"] assms by (simp_all add: select_latest_def)

lemma highest_confidence_Max: "highest_confidence records = Max (insert 0 (confidence_or_default ` set records))"
proof -
  have "fold (\<lambda>r m. max m (confidence_or_default r)) rs a = fold max (map confidence_or_default rs) a" for rs a
    by (induction rs arbitrary: a) (simp_all add: max.commute)
  then show ?thesis
    by (simp add: highest_confidence_def Max.set_eq_fold [symmetric])
qed

lemma highest_confidence_ge: "r \<in> set records \<Longrightarrow> confidence_or_default r \<le> highest_confidence records"
  by (simp add: highest_confidence_Max)

lemma highest_confidence_attained:
  assumes "records \<noteq> []"
  shows "\<exists>r \<in> set records. confidence_or_default r = highest_confidence records"
proof -
  have "highest_confidence records \<in> insert 0 (confidence_or_default ` set records)"
    unfolding highest_confidence_Max by (rule Max_in) auto
  then consider "highest_confidence records = 0" | "highest_confidence records \<in> confidence_or_default ` set records"
    by blast
  then show ?thesis
  proof cases
    case 1
    with assms have "confidence_or_default (hd records) \<le> 0" by (metis highest_confidence_ge list.set_sel(1))
    with 1 assms show ?thesis by (intro bexI [of _ "hd records"]) auto
  qed auto
qed

lemma set_reduced_records:
  "set (reduced_records reducer records) = {r \<in> set records. reducer = HighestConfidence \<longrightarrow>
     (\<forall>r' \<in> set records. confidence_or_default r' \<le> confidence_or_default r)}"
proof (cases reducer)
  case HighestConfidence
  have "confidence_or_default r = highest_confidence records \<longleftrightarrow>
      (\<forall>r' \<in> set records. confidence_or_default r' \<le> confidence_or_default r)" if "r \<in> set records" for r
    using that highest_confidence_ge [of _ records] highest_confidence_attained [of records]
    by (metis empty_iff list.set(1) order_antisym)
  with HighestConfidence show ?thesis by (auto simp: reduced_records_def)
qed (simp add: reduced_records_def)

lemma reduced_records_nonempty: "records \<noteq> [] \<Longrightarrow> reduced_records reducer records \<noteq> []"
  using highest_confidence_attained [of records]
  by (auto simp: reduced_records_def filter_empty_conv split: conflict_reducer.split)

subsection \<open>Admission as a set of candidates\<close>

definition authorizes :: "decision_policy \<Rightarrow> decision_kind \<Rightarrow> bool" where
  "authorizes p d \<longleftrightarrow> decision_policy_validate p = Inr () \<and> bts_member d (dp_allowed_decisions p)"

definition admissible :: "decision_policy \<Rightarrow> timestamp \<Rightarrow> state_record set \<Rightarrow> state_record set" where
  "admissible p now records =
     {r \<in> records. evidence_matches p r \<and> evidence_fresh p now r \<and> evidence_confident p r}"

definition contenders :: "decision_policy \<Rightarrow> timestamp \<Rightarrow> state_record set \<Rightarrow> state_record set" where
  "contenders p now records = {r \<in> admissible p now records. dp_reducer p = HighestConfidence \<longrightarrow>
     (\<forall>r' \<in> admissible p now records. confidence_or_default r' \<le> confidence_or_default r)}"

lemma admit_equal_cases:
  assumes "records \<noteq> []"
  shows "admit_equal records =
    (if \<forall>r \<in> set records. \<forall>r' \<in> set records. sr_value r = sr_value r'
     then \<lparr>ev_disposition = EvAccepted, ev_record = Some (select_latest records)\<rparr> else evidence_rejected EvConflict)"
proof -
  have swap: "(if \<not> A then x else y) = (if A then y else x)" for A and x y :: evidence_evaluation by simp
  have "list_ex (\<lambda>r. sr_value r \<noteq> sr_value (hd records)) records \<longleftrightarrow>
      \<not> (\<forall>r \<in> set records. \<forall>r' \<in> set records. sr_value r = sr_value r')"
    unfolding list_ex_iff using list.set_sel(1) [OF assms] by metis
  then show ?thesis unfolding admit_equal_def by (simp only: swap)
qed

lemma evaluate_cases:
  "evaluate p records d now =
     (if \<not> authorizes p d then evidence_rejected EvUnauthorized
      else if \<forall>r \<in> set records. \<not> evidence_matches p r then evidence_rejected EvUnknown
      else if \<forall>r \<in> set records. evidence_matches p r \<longrightarrow> \<not> evidence_fresh p now r then evidence_rejected EvStale
      else if admissible p now (set records) = {} then evidence_rejected EvLowConfidence
      else admit_equal (reduced_records (dp_reducer p)
        (filter (evidence_confident p) (filter (evidence_fresh p now) (filter (evidence_matches p) records)))))"
  by (auto simp: evaluate_def authorizes_def admissible_def Let_def filter_empty_conv)

lemma evaluate_admitted:
  fixes records :: "state_record list"
  assumes "admissible p now (set records) \<noteq> {}" and "authorizes p d"
  defines "chosen \<equiv> reduced_records (dp_reducer p)
      (filter (evidence_confident p) (filter (evidence_fresh p now) (filter (evidence_matches p) records)))"
  shows "evaluate p records d now =
      (if \<forall>r \<in> contenders p now (set records). \<forall>r' \<in> contenders p now (set records). sr_value r = sr_value r'
       then \<lparr>ev_disposition = EvAccepted, ev_record = Some (select_latest chosen)\<rparr> else evidence_rejected EvConflict)"
    and "set chosen = contenders p now (set records)" and "chosen \<noteq> []"
proof -
  let ?confident = "filter (evidence_confident p) (filter (evidence_fresh p now) (filter (evidence_matches p) records))"
  have set: "set ?confident = admissible p now (set records)" by (auto simp: admissible_def)
  then have "?confident \<noteq> []" using assms(1) by (metis empty_set)
  then show "chosen \<noteq> []" unfolding chosen_def by (rule reduced_records_nonempty)
  show contenders: "set chosen = contenders p now (set records)"
    unfolding chosen_def set_reduced_records set contenders_def by simp
  have "evaluate p records d now = admit_equal chosen"
    using assms(1,2) unfolding evaluate_cases chosen_def by (auto simp: admissible_def)
  then show "evaluate p records d now =
      (if \<forall>r \<in> contenders p now (set records). \<forall>r' \<in> contenders p now (set records). sr_value r = sr_value r'
       then \<lparr>ev_disposition = EvAccepted, ev_record = Some (select_latest chosen)\<rparr> else evidence_rejected EvConflict)"
    using admit_equal_cases [OF \<open>chosen \<noteq> []\<close>] by (simp only: contenders)
qed

lemma evidence_fresh_window:
  assumes "evidence_fresh p now r"
  shows "sr_received_at r \<le> now" "unat now < unat (sr_received_at r) + unat (sr_valid_for_ms r)"
    "unat now \<le> unat (sr_received_at r) + unat (dp_max_age_ms p)"
proof -
  show le: "sr_received_at r \<le> now" using assms by (simp add: evidence_fresh_def)
  have "now < saturating_add (sr_received_at r) (sr_valid_for_ms r)"
    using assms by (simp add: evidence_fresh_def state_record_is_stale_at_def not_le)
  then show "unat now < unat (sr_received_at r) + unat (sr_valid_for_ms r)"
    by (simp add: word_less_nat_alt saturating_add_unat)
  show "unat now \<le> unat (sr_received_at r) + unat (dp_max_age_ms p)"
    using assms le by (auto simp: evidence_fresh_def saturating_sub_def word_le_nat_alt unat_sub_if')
qed

subsection \<open>Properties of the admission\<close>

definition dock_object :: state_object_ref where
  "dock_object = \<lparr>so_class = WorldObject, so_object_type = ''dock'', so_object_id = ''d1''\<rparr>"

definition dock_report :: "node_id \<Rightarrow> u64 \<Rightarrow> u32 \<Rightarrow> string \<Rightarrow> state_record" where
  "dock_report node received confidence value =
     \<lparr>sr_schema = ''roboguide.state-record/v0.1'', sr_key = \<lparr>sk_object = dock_object, sk_semantic = Observed,
        sk_source = NodeSource node ''eyes'', sk_channel_id = ''free''\<rparr>, sr_payload_schema = ''dock/v1'',
      sr_value = value, sr_source_observed_at = None, sr_received_at = received, sr_valid_for_ms = 100,
      sr_confidence_millionths = Some confidence, sr_source_epoch = None, sr_sequence = 1\<rparr>"

definition dock_policy :: decision_policy where
  "dock_policy = \<lparr>dp_schema = policy_schema_v0_1, dp_policy_id = ''dock-free'', dp_revision = 1, dp_object = dock_object,
     dp_channel_id = ''free'', dp_allowed_semantics = bts_of_list [Observed],
     dp_allowed_sources = bts_of_list [NodeSource ''a'' ''eyes'', NodeSource ''b'' ''eyes''], dp_max_age_ms = 50,
     dp_min_confidence_millionths = Some 500000, dp_allowed_decisions = bts_of_list [Commit],
     dp_reducer = HighestConfidence, dp_payload_schema = None\<rparr>"

lemma dock_evaluation:
  "evaluate dock_policy [dock_report ''a'' 10 600000 ''no'', dock_report ''b'' 5 900000 ''yes''] Commit 20
     = \<lparr>ev_disposition = EvAccepted, ev_record = Some (dock_report ''b'' 5 900000 ''yes'')\<rparr>"
  by code_simp

text \<open>
  C36: Evidence admitted to a decision is authorized and current, and only less confident evidence may disagree with it:
  the selected record was supplied, matches the policy's object, channel, meaning and source, was received no later than
  now, is inside its own validity and the policy's age, and meets the confidence floor. Under the rule that requires
  equivalent evidence every admissible record says the same and none is newer. Under the highest-confidence rule this
  holds of the records that are as confident as the selected one; a less confident record may say something else.
\<close>

theorem accepted_evidence_sound:
  assumes "evaluate p records d now = \<lparr>ev_disposition = EvAccepted, ev_record = selected\<rparr>"
  shows "\<exists>r. selected = Some r \<and> r \<in> set records \<and> authorizes p d \<and> evidence_matches p r \<and> evidence_confident p r
    \<and> sr_received_at r \<le> now \<and> unat now < unat (sr_received_at r) + unat (sr_valid_for_ms r)
    \<and> unat now \<le> unat (sr_received_at r) + unat (dp_max_age_ms p)
    \<and> (\<forall>r' \<in> admissible p now (set records).
         dp_reducer p = HighestConfidence \<and> confidence_or_default r' < confidence_or_default r
         \<or> sr_value r' = sr_value r \<and> latest_key r' \<le> latest_key r)"
proof -
  have auth: "authorizes p d" and some: "admissible p now (set records) \<noteq> {}"
    using assms by (auto simp: evaluate_cases evidence_rejected_def split: if_splits)
  define chosen where "chosen = reduced_records (dp_reducer p)
      (filter (evidence_confident p) (filter (evidence_fresh p now) (filter (evidence_matches p) records)))"
  note admitted = evaluate_admitted [OF some auth, folded chosen_def]
  let ?r = "select_latest chosen" and ?C = "contenders p now (set records)"
  have same: "\<forall>r \<in> ?C. \<forall>r' \<in> ?C. sr_value r = sr_value r'" and r: "selected = Some ?r"
    using assms unfolding admitted(1) by (simp_all only: evidence_rejected_def split: if_splits) auto
  have "?r \<in> ?C" and latest: "\<And>r'. r' \<in> ?C \<Longrightarrow> latest_key r' \<le> latest_key ?r"
    using select_latest_props [OF admitted(3)] by (simp_all only: admitted(2))
  then have mine: "?r \<in> admissible p now (set records)" by (simp add: contenders_def)
  have "dp_reducer p = HighestConfidence \<and> confidence_or_default r' < confidence_or_default ?r
      \<or> sr_value r' = sr_value ?r \<and> latest_key r' \<le> latest_key ?r" if r': "r' \<in> admissible p now (set records)" for r'
  proof (cases "r' \<in> ?C")
    case True
    with same \<open>?r \<in> ?C\<close> latest show ?thesis by blast
  next
    case False
    with r' \<open>?r \<in> ?C\<close> show ?thesis by (force simp: contenders_def intro: less_le_trans)
  qed
  with r auth mine evidence_fresh_window show ?thesis by (auto simp: admissible_def)
qed

theorem accepted_evidence_sound_witness:
  "dock_report ''a'' 10 600000 ''no'' \<in> admissible dock_policy 20 {dock_report ''a'' 10 600000 ''no''}
   \<and> (\<exists>r. Some (dock_report ''b'' 5 900000 ''yes'') = Some r \<and> authorizes dock_policy Commit \<and> sr_received_at r \<le> 20)"
proof -
  have "dock_report ''a'' 10 600000 ''no'' \<in> admissible dock_policy 20 {dock_report ''a'' 10 600000 ''no''}"
    unfolding admissible_def mem_Collect_eq by code_simp
  with accepted_evidence_sound [OF dock_evaluation] show ?thesis by blast
qed

text \<open>
  C37: The order in which the records are held does not change what is decided: two listings of the same records give
  the same disposition, and if one is accepted, the same value with the same receive time, sequence and source. When two
  records agree in these three, \<open>max_by\<close> returns the one listed last, so which of them is returned may differ; when
  no two do, the whole evaluation is the same.
\<close>

theorem evidence_order_irrelevant:
  assumes "set records = set records'"
  shows "ev_disposition (evaluate p records d now) = ev_disposition (evaluate p records' d now)
    \<and> map_option sr_value (ev_record (evaluate p records d now)) = map_option sr_value (ev_record (evaluate p records' d now))
    \<and> map_option latest_key (ev_record (evaluate p records d now))
        = map_option latest_key (ev_record (evaluate p records' d now))
    \<and> (inj_on latest_key (set records) \<longrightarrow> evaluate p records d now = evaluate p records' d now)"
proof (cases "authorizes p d \<and> admissible p now (set records) \<noteq> {}")
  case True
  let ?chosen = "\<lambda>rs. reduced_records (dp_reducer p)
      (filter (evidence_confident p) (filter (evidence_fresh p now) (filter (evidence_matches p) rs)))"
  let ?C = "contenders p now (set records)"
  have some: "admissible p now (set records) \<noteq> {}" "admissible p now (set records') \<noteq> {}" "authorizes p d"
    using True assms by auto
  note one = evaluate_admitted [OF some(1,3)] and two = evaluate_admitted [OF some(2,3), folded assms]
  have in_C: "select_latest (?chosen records) \<in> ?C" "select_latest (?chosen records') \<in> ?C"
    using select_latest_props(1) [OF one(3)] select_latest_props(1) [OF two(3)] by (simp_all only: one(2) two(2))
  have "latest_key (select_latest (?chosen records)) = latest_key (select_latest (?chosen records'))"
    using in_C select_latest_props(2) [OF one(3)] select_latest_props(2) [OF two(3)]
    by (intro order_antisym) (simp_all only: one(2) two(2))
  moreover from this have "select_latest (?chosen records) = select_latest (?chosen records')" if "inj_on latest_key (set records)"
    using that in_C by (auto simp: contenders_def admissible_def dest: inj_onD)
  moreover define same where "same \<longleftrightarrow> (\<forall>r \<in> ?C. \<forall>r' \<in> ?C. sr_value r = sr_value r')"
  moreover have "sr_value (select_latest (?chosen records)) = sr_value (select_latest (?chosen records'))" if same
    using that in_C unfolding same_def by blast
  ultimately show ?thesis
    unfolding one(1) [folded same_def] two(1) [folded same_def] by (cases same) (simp_all add: evidence_rejected_def)
next
  case False
  then show ?thesis using assms by (auto simp: evaluate_cases)
qed

theorem evidence_order_irrelevant_witness:
  "ev_disposition (evaluate dock_policy [dock_report ''b'' 5 900000 ''yes'', dock_report ''a'' 10 600000 ''no''] Commit 20)
     = EvAccepted"
  using evidence_order_irrelevant
    [of "[dock_report ''a'' 10 600000 ''no'', dock_report ''b'' 5 900000 ''yes'']"
        "[dock_report ''b'' 5 900000 ''yes'', dock_report ''a'' 10 600000 ''no'']" dock_policy Commit 20]
  by (simp add: dock_evaluation insert_commute)

subsection \<open>Planning costs are exact\<close>

lemma checked_add_unat:
  "checked_add a b = Some s \<longleftrightarrow> unat a + unat b < 2 ^ 64 \<and> unat s = unat a + unat b" for a b s :: u64
proof (cases "unat a + unat b < 2 ^ 64")
  case True
  then have "unat (a + b) = unat a + unat b" by (simp add: unat_word_ariths)
  with True show ?thesis by (auto simp: checked_add_def word_unat_eq_iff)
qed (simp add: checked_add_def)

lemma add_cost_unat:
  "add_cost n w acc = Some s \<longleftrightarrow> unat acc + unat n * unat w < 2 ^ 64 \<and> unat s = unat acc + unat n * unat w"
proof -
  have "unat w < 2 ^ LENGTH(32)" by (rule unsigned_less)
  then have w: "unat (ucast w :: u64) = unat w" by (simp add: unsigned_ucast_eq take_bit_nat_eq_self_iff)
  show ?thesis
  proof (cases "unat n * unat w < 2 ^ 64")
    case True
    then have "unat (n * ucast w) = unat n * unat w" by (simp add: unat_word_ariths w)
    moreover have "add_cost n w acc = checked_add acc (n * ucast w)"
      using True by (simp add: add_cost_def checked_mul_def w)
    ultimately show ?thesis by (simp add: checked_add_unat)
  qed (simp add: add_cost_def checked_mul_def w)
qed

definition term_bound :: "cost_term \<Rightarrow> nat" where
  "term_bound t = unat (ctm_maximum t) div unat (ctm_units_per_cost t) * unat (ctm_weight t)"

definition term_cost :: "scheduling_metrics \<Rightarrow> cost_term \<Rightarrow> nat" where
  "term_cost m t = (case metric_value (ctm_metric t) m of None \<Rightarrow> 0 | Some value \<Rightarrow>
     (if ctm_prefer_higher t then unat (ctm_maximum t) - unat value else unat value)
       div unat (ctm_units_per_cost t) * unat (ctm_weight t))"

definition observed_within :: "scheduling_metrics \<Rightarrow> cost_term \<Rightarrow> bool" where
  "observed_within m t \<longleftrightarrow> (\<exists>value. metric_value (ctm_metric t) m = Some value \<and> value \<le> ctm_maximum t)"

lemma unat_div_word: "unat (a div b) = unat a div unat b" for a b :: u64
  by (simp add: unat_div)

lemma cost_terms_check_bound:
  "cost_terms_check metrics acc ts = Inr () \<Longrightarrow> unat acc + (\<Sum>t \<leftarrow> ts. term_bound t) < 2 ^ 64"
proof (induction metrics acc ts rule: cost_terms_check.induct)
  case (1 metrics acc)
  have "unat acc < 2 ^ LENGTH(64)" by (rule unsigned_less)
  then show ?case by simp
next
  case (2 metrics acc t ts)
  then obtain s where "add_cost (ctm_maximum t div ctm_units_per_cost t) (ctm_weight t) acc = Some s"
      "cost_terms_check (ctm_metric t # metrics) s ts = Inr ()"
    by (auto split: if_splits option.splits)
  with 2 show ?case by (auto simp: add_cost_unat term_bound_def unat_div_word split: if_splits)
qed

lemma observed_cost:
  assumes "metric_value (ctm_metric t) m = Some value" and "value \<le> ctm_maximum t"
  shows "unat (normalized_cost t value) * unat (ctm_weight t) = term_cost m t" and "term_cost m t \<le> term_bound t"
proof -
  have "unat value \<le> unat (ctm_maximum t)" using assms(2) by (simp add: word_le_nat_alt)
  then show "unat (normalized_cost t value) * unat (ctm_weight t) = term_cost m t" "term_cost m t \<le> term_bound t"
    using assms by (auto simp: normalized_cost_def term_cost_def term_bound_def unat_div_word unat_sub_if' word_le_nat_alt
      intro!: mult_le_mono1 div_le_mono)
qed

lemma score_terms_exact:
  assumes "unat acc + (\<Sum>t \<leftarrow> ts. term_bound t) < 2 ^ 64"
  shows "if \<forall>t \<in> set ts. observed_within m t
    then \<exists>s. score_terms m acc ts = Inr s \<and> unat s = unat acc + (\<Sum>t \<leftarrow> ts. term_cost m t)
    else \<exists>e. score_terms m acc ts = Inl e"
  using assms
proof (induction ts arbitrary: acc)
  case (Cons t ts)
  show ?case
  proof (cases "observed_within m t")
    case True
    then obtain v where v: "metric_value (ctm_metric t) m = Some v" "v \<le> ctm_maximum t"
      by (auto simp: observed_within_def)
    note cost = observed_cost [OF v]
    have "unat acc + unat (normalized_cost t v) * unat (ctm_weight t) < 2 ^ 64"
      using Cons.prems cost by simp
    moreover from this cost(1) have "unat (word_of_nat (unat acc + term_cost m t) :: u64) = unat acc + term_cost m t"
      by (simp add: unsigned_of_nat take_bit_nat_eq_self_iff del: of_nat_add)
    ultimately obtain s where s: "add_cost (normalized_cost t v) (ctm_weight t) acc = Some s"
        "unat s = unat acc + term_cost m t"
      using add_cost_unat [of "normalized_cost t v" "ctm_weight t" acc] cost(1) by metis
    with Cons.IH [of s] Cons.prems cost(2) True v show ?thesis by (auto simp: not_less)
  next
    case False
    then show ?thesis by (auto simp: observed_within_def not_le split: option.split)
  qed
qed simp

definition queue_policy :: cost_policy where
  "queue_policy = \<lparr>cp_tenant_id = ''fleet'', cp_enabled = True, cp_node_id = ''a'',
     cp_policy = dock_policy\<lparr>dp_allowed_sources := bts_of_list [NodeSource ''a'' ''eyes''],
       dp_allowed_decisions := bts_of_list [Schedule], dp_payload_schema := Some scheduling_metrics_schema\<rparr>,
     cp_terms = [\<lparr>ctm_metric = QueueDelayMs, ctm_weight = 3, ctm_units_per_cost = 10, ctm_maximum = 1000, ctm_prefer_higher = False\<rparr>,
       \<lparr>ctm_metric = GpuMemoryBytes, ctm_weight = 2, ctm_units_per_cost = 1024, ctm_maximum = 1048576, ctm_prefer_higher = True\<rparr>]\<rparr>"

definition queue_metrics :: scheduling_metrics where
  "queue_metrics = \<lparr>sm_schema_version = scheduling_metrics_schema, sm_queue_delay_ms = Some 250, sm_travel_distance_um = None,
     sm_traffic_delay_ms = None, sm_load_millionths = None, sm_gpu_memory_bytes = Some 1024\<rparr>"

text \<open>
  C39: A validated cost policy never overflows: if every weighted metric was observed within its bound, the score is
  the exact weighted sum of the normalized measurements and at most the sum of the term bounds; otherwise there is no
  score.
\<close>

theorem score_exact:
  assumes "cost_policy_validate p = Inr ()" and "sm_schema_version m = scheduling_metrics_schema"
  shows "if \<forall>t \<in> set (cp_terms p). observed_within m t
    then \<exists>s. score p m = Inr s \<and> unat s = (\<Sum>t \<leftarrow> cp_terms p. term_cost m t)
      \<and> unat s \<le> (\<Sum>t \<leftarrow> cp_terms p. term_bound t)
    else \<exists>e. score p m = Inl e"
proof -
  have "cost_terms_check [] 0 (cp_terms p) = Inr ()"
    using assms(1) by (auto simp: cost_policy_validate_def split: sum.splits if_splits)
  from cost_terms_check_bound [OF this] score_terms_exact [of 0 "cp_terms p" m]
  have "if \<forall>t \<in> set (cp_terms p). observed_within m t
    then \<exists>s. score p m = Inr s \<and> unat s = (\<Sum>t \<leftarrow> cp_terms p. term_cost m t) else \<exists>e. score p m = Inl e"
    using assms(2) by (auto simp: score_def split: if_splits)
  moreover have "(\<Sum>t \<leftarrow> cp_terms p. term_cost m t) \<le> (\<Sum>t \<leftarrow> cp_terms p. term_bound t)"
    if "\<forall>t \<in> set (cp_terms p). observed_within m t"
    using that observed_cost(2) by (intro sum_list_mono) (auto simp: observed_within_def)
  ultimately show ?thesis by (auto split: if_splits)
qed

theorem score_exact_witness:
  "\<exists>s. score queue_policy queue_metrics = Inr s \<and> unat s = 75 + 2046"
proof -
  have ok: "cost_policy_validate queue_policy = Inr ()" by code_simp
  have schema: "sm_schema_version queue_metrics = scheduling_metrics_schema" by (simp add: queue_metrics_def)
  have "\<forall>t \<in> set (cp_terms queue_policy). observed_within queue_metrics t"
    by (simp add: queue_policy_def queue_metrics_def observed_within_def)
  moreover have "(\<Sum>t \<leftarrow> cp_terms queue_policy. term_cost queue_metrics t) = 75 + 2046"
    by (simp add: queue_policy_def queue_metrics_def term_cost_def)
  ultimately show ?thesis using score_exact [OF ok schema] by auto
qed

end
