(* ===== verification/RG_Mission.thy ===== *)
theory RG_Mission
  imports RG_Requirement
begin

text \<open>
  Mission plans of \<open>core/domain\<close>: logical Actors and their binding semantics (\<open>actor.rs\<close>), the evidence basis of a
  Task (\<open>task_satisfaction.rs\<close>), planned Tasks, the acyclic Task graph and the accepted plan (\<open>mission.rs\<close>,
  \<open>mission_plan.rs\<close>), and the session that an accepted plan gives to physical executions (\<open>execution/session.rs\<close>).
\<close>

subsection \<open>Actors and their binding semantics\<close>

record mission_actor =
  ma_id :: actor_id
  ma_physical_entity :: "string option"

definition mission_actor_new :: "actor_id \<Rightarrow> mission_actor" where
  "mission_actor_new aid = \<lparr>ma_id = aid, ma_physical_entity = None\<rparr>"

definition mission_actor_grounded :: "actor_id \<Rightarrow> string \<Rightarrow> mission_actor" where
  "mission_actor_grounded aid entity = \<lparr>ma_id = aid, ma_physical_entity = Some entity\<rparr>"

definition is_grounded :: "mission_actor \<Rightarrow> bool" where
  "is_grounded a \<longleftrightarrow> ma_physical_entity a \<noteq> None"

record binding_constraint =
  bc_context_id :: context_id
  bc_context_role_ids :: "context_role_id btset"
  bc_actor_ids :: "actor_id btset"

record binding_semantics =
  bs_actor_grounding :: "(actor_id, string) btmap"
  bs_context_constraints :: "binding_constraint list"

text \<open>\<open>None\<close> is the panic of a constraint over a ContextRole that its Context does not declare.\<close>

definition binding_constraint_of :: "coordination_context \<Rightarrow> distinct_constraint \<Rightarrow> binding_constraint option" where
  "binding_constraint_of c constraint =
     map_option (\<lambda>roles. \<lparr>bc_context_id = cc_context_id c, bc_context_role_ids = dc_context_role_ids constraint,
         bc_actor_ids = bts_of_list (map cr_actor_id roles)\<rparr>)
       (those (map (context_role_of c) (bt_keys (dc_context_role_ids constraint))))"

definition binding_semantics_collect :: "mission_actor list \<Rightarrow> coordination_context list \<Rightarrow> binding_semantics option" where
  "binding_semantics_collect actors contexts =
     map_option (\<lambda>constraints.
         \<lparr>bs_actor_grounding = bt_of_list (List.map_filter
              (\<lambda>a. map_option (\<lambda>entity. (ma_id a, entity)) (ma_physical_entity a)) actors),
          bs_context_constraints = constraints\<rparr>)
       (those (concat (map (\<lambda>c. map (binding_constraint_of c) (cc_executor_constraints c)) contexts)))"

definition distinct_peers :: "binding_semantics \<Rightarrow> context_id \<Rightarrow> actor_id \<Rightarrow> actor_id btset" where
  "distinct_peers b cid actor =
     bts_remove actor
       (fold (\<lambda>constraint peers.
           if bc_context_id constraint = cid \<and> bts_member actor (bc_actor_ids constraint)
           then fold bts_insert (bt_keys (bc_actor_ids constraint)) peers else peers)
         (bs_context_constraints b) bt_empty)"

definition context_actor_groups :: "binding_semantics \<Rightarrow> context_id \<Rightarrow> actor_id btset list" where
  "context_actor_groups b cid =
     map bc_actor_ids (filter (\<lambda>constraint. bc_context_id constraint = cid) (bs_context_constraints b))"

definition requires_physical_entities :: "binding_semantics \<Rightarrow> bool" where
  "requires_physical_entities b \<longleftrightarrow> bt_len (bs_actor_grounding b) \<noteq> 0 \<or> bs_context_constraints b \<noteq> []"

subsection \<open>Goals and Tasks\<close>

record verifier_spec =
  vs_verifier :: contract_ref
  vs_predicate :: string
  vs_max_evidence_age_ms :: u64

definition verifier_spec_new :: "contract_ref \<Rightarrow> string \<Rightarrow> u64 \<Rightarrow> domain_error + verifier_spec" where
  "verifier_spec_new verifier predicate age =
     (if trim_is_empty predicate then Inl (EmptyValue ''task satisfaction predicate'')
      else if age = 0 then Inl (InvalidDuration ''task satisfaction evidence age'')
      else Inr \<lparr>vs_verifier = verifier, vs_predicate = predicate, vs_max_evidence_age_ms = age\<rparr>)"

datatype satisfaction_basis = ExecutionReport | VerifierEvidence verifier_spec

record mission_goal =
  mg_mission_id :: mission_id
  mg_objective :: string

definition mission_goal_new :: "mission_id \<Rightarrow> string \<Rightarrow> domain_error + mission_goal" where
  "mission_goal_new mission objective =
     (if trim_is_empty objective then Inl (EmptyValue ''mission objective'')
      else Inr \<lparr>mg_mission_id = mission, mg_objective = objective\<rparr>)"

record planned_task =
  pt_description :: string
  pt_requirement :: task_requirement
  pt_execution_intents :: "(role_id, execution_intent) btmap"
  pt_dependencies :: "task_id list"
  pt_continuity :: task_continuity
  pt_satisfaction_basis :: satisfaction_basis
  pt_expected_effect :: string

definition pt_task_id :: "planned_task \<Rightarrow> task_id" where
  "pt_task_id t = tr_task_id (tq_task_ref (pt_requirement t))"

definition pt_mission_id :: "planned_task \<Rightarrow> mission_id" where
  "pt_mission_id t = tr_mission_id (tq_task_ref (pt_requirement t))"

definition pt_role_ids :: "planned_task \<Rightarrow> role_id list" where
  "pt_role_ids t = map rq_role_id (tq_roles (pt_requirement t))"

definition planned_task_new_with_completion ::
    "string \<Rightarrow> task_requirement \<Rightarrow> (role_id, execution_intent) btmap \<Rightarrow> task_id list \<Rightarrow> task_continuity
       \<Rightarrow> string \<Rightarrow> satisfaction_basis \<Rightarrow> domain_error + planned_task" where
  "planned_task_new_with_completion description requirement intents dependencies continuity effect basis =
     (let task = tr_task_id (tq_task_ref requirement); required = map rq_role_id (tq_roles requirement) in
      if trim_is_empty description then Inl (EmptyValue ''task description'')
      else if trim_is_empty effect then Inl (EmptyValue ''task expected effect'')
      else if bt_len (bts_of_list dependencies) \<noteq> length dependencies
      then Inl (InvalidMissionPlan (''task '' @ task @ '' has duplicate dependencies''))
      else if list_ex (\<lambda>d. d = task) dependencies
      then Inl (InvalidMissionPlan (''task '' @ task @ '' depends on itself''))
      else if bts_of_list required \<noteq> bts_of_list (bt_keys intents)
      then Inl (InvalidMissionPlan (''task '' @ task @ '' execution intents must exactly cover its roles''))
      else if list_ex (\<lambda>role. role \<notin> set required) (bt_keys (tc_context_roles continuity) @ bt_keys (tc_resource_scopes continuity))
      then Inl (InvalidMissionPlan (''task '' @ task @ '' continuity references an unknown role''))
      else Inr \<lparr>pt_description = description, pt_requirement = requirement, pt_execution_intents = intents,
             pt_dependencies = dependencies, pt_continuity = continuity, pt_satisfaction_basis = basis,
             pt_expected_effect = effect\<rparr>)"

definition planned_task_new_with_satisfaction ::
    "string \<Rightarrow> task_requirement \<Rightarrow> (role_id, execution_intent) btmap \<Rightarrow> task_id list \<Rightarrow> task_continuity
       \<Rightarrow> satisfaction_basis \<Rightarrow> domain_error + planned_task" where
  "planned_task_new_with_satisfaction description requirement intents dependencies continuity basis =
     planned_task_new_with_completion description requirement intents dependencies continuity description basis"

definition planned_task_new ::
    "string \<Rightarrow> task_requirement \<Rightarrow> (role_id, execution_intent) btmap \<Rightarrow> task_id list \<Rightarrow> task_continuity
       \<Rightarrow> domain_error + planned_task" where
  "planned_task_new description requirement intents dependencies continuity =
     planned_task_new_with_satisfaction description requirement intents dependencies continuity ExecutionReport"

subsection \<open>The Task graph\<close>

record task_graph =
  tg_mission_id :: mission_id
  tg_tasks :: "planned_task list"

fun graph_dependencies ::
    "mission_id \<Rightarrow> planned_task list \<Rightarrow> (task_id, task_id btset) btmap \<Rightarrow> domain_error + (task_id, task_id btset) btmap" where
  "graph_dependencies mission [] m = Inr m"
| "graph_dependencies mission (t # ts) m =
     (if pt_mission_id t \<noteq> mission
      then Inl (InvalidMissionPlan (''task '' @ pt_task_id t @ '' belongs to another mission''))
      else if bt_contains m (pt_task_id t)
      then Inl (InvalidMissionPlan (''duplicate task id '' @ pt_task_id t))
      else graph_dependencies mission ts (bt_insert (pt_task_id t) (bts_of_list (pt_dependencies t)) m))"

definition graph_known :: "(task_id, task_id btset) btmap \<Rightarrow> domain_error + unit" where
  "graph_known m =
     check_each (\<lambda>(task, prerequisites).
       case find (\<lambda>d. \<not> bt_contains m d) (bt_keys prerequisites) of
         None \<Rightarrow> Inr ()
       | Some unknown \<Rightarrow> Inl (InvalidMissionPlan (''task '' @ task @ '' depends on unknown task '' @ unknown)))
       (bt_entries m)"

text \<open>The pruning loop is the one that \<open>validate_slot\<close> runs over a session, with its own error.\<close>

definition graph_order :: "(task_id, task_id btset) btmap \<Rightarrow> domain_error + unit" where
  "graph_order m =
     (case session_order m of
        Inl _ \<Rightarrow> Inl (InvalidMissionPlan ''task graph contains a cycle'')
      | Inr _ \<Rightarrow> Inr ())"

definition task_graph_new :: "mission_id \<Rightarrow> planned_task list \<Rightarrow> domain_error + task_graph" where
  "task_graph_new mission tasks =
     (if tasks = [] then Inl (InvalidMissionPlan ''task graph must not be empty'')
      else (case graph_dependencies mission tasks bt_empty of
        Inl e \<Rightarrow> Inl e
      | Inr dependencies \<Rightarrow>
          (case graph_known dependencies of
             Inl e \<Rightarrow> Inl e
           | Inr _ \<Rightarrow>
               (case graph_order dependencies of
                  Inl e \<Rightarrow> Inl e
                | Inr _ \<Rightarrow> Inr \<lparr>tg_mission_id = mission, tg_tasks = tasks\<rparr>))))"

definition graph_task :: "task_graph \<Rightarrow> task_id \<Rightarrow> planned_task option" where
  "graph_task g task = find (\<lambda>t. pt_task_id t = task) (tg_tasks g)"

definition ready_tasks :: "task_graph \<Rightarrow> task_id btset \<Rightarrow> planned_task list" where
  "ready_tasks g completed =
     filter (\<lambda>t. \<not> bts_member (pt_task_id t) completed \<and> list_all (\<lambda>d. bts_member d completed) (pt_dependencies t))
       (tg_tasks g)"

text \<open>
  \<open>task_depends_on\<close> recurses along the dependencies. \<open>depends_within n\<close> is the recursion with at most \<open>n\<close> nested calls,
  \<open>None\<close> when they do not suffice; in an accepted graph one more than the number of Tasks always suffices.
\<close>

fun any_within :: "('a \<Rightarrow> bool option) \<Rightarrow> 'a list \<Rightarrow> bool option" where
  "any_within f [] = Some False"
| "any_within f (x # xs) =
     (case f x of None \<Rightarrow> None | Some True \<Rightarrow> Some True | Some False \<Rightarrow> any_within f xs)"

primrec depends_within :: "nat \<Rightarrow> task_graph \<Rightarrow> task_id \<Rightarrow> task_id \<Rightarrow> bool option" where
  "depends_within 0 g task candidate = None"
| "depends_within (Suc n) g task candidate =
     (case graph_task g task of
        None \<Rightarrow> Some False
      | Some t \<Rightarrow> any_within (\<lambda>d. if d = candidate then Some True else depends_within n g d candidate) (pt_dependencies t))"

definition task_depends_on :: "task_graph \<Rightarrow> task_id \<Rightarrow> task_id \<Rightarrow> bool" where
  "task_depends_on g task candidate \<longleftrightarrow> depends_within (Suc (length (tg_tasks g))) g task candidate = Some True"

subsection \<open>The accepted plan\<close>

record mission_plan =
  pl_goal :: mission_goal
  pl_actors :: "mission_actor list"
  pl_task_graph :: task_graph
  pl_contexts :: "coordination_context list"
  pl_declared_binding_contract :: bool
  pl_declared_memory_contract :: bool
  pl_declared_capacity_contract :: bool
  pl_declared_scoped_memory_contract :: bool

definition invalid_plan :: "string \<Rightarrow> domain_error + 'a" where
  "invalid_plan reason = Inl (InvalidMissionPlan reason)"

definition task_context :: "coordination_context list \<Rightarrow> planned_task \<Rightarrow> coordination_context option" where
  "task_context contexts t = find (\<lambda>c. cc_context_id c = tc_context_id (pt_continuity t)) contexts"

definition role_actor :: "planned_task \<Rightarrow> role_id \<Rightarrow> actor_id option" where
  "role_actor t role =
     (case find (\<lambda>r. rq_role_id r = role) (tq_roles (pt_requirement t)) of None \<Rightarrow> None | Some r \<Rightarrow> rq_actor_id r)"

definition check_context_roles :: "coordination_context \<Rightarrow> planned_task \<Rightarrow> domain_error + unit" where
  "check_context_roles c t =
     check_each (\<lambda>(role, context_role).
       case context_role_of c context_role of
         None \<Rightarrow> invalid_plan (''task '' @ pt_task_id t @ '' role '' @ role @ '' references an unknown context role'')
       | Some declared \<Rightarrow>
           if role_actor t role \<noteq> Some (cr_actor_id declared)
           then invalid_plan (''task '' @ pt_task_id t @ '' role '' @ role @ '' actor differs from its context role'')
           else Inr ()) (bt_entries (tc_context_roles (pt_continuity t)))"

definition check_resource_scopes :: "planned_task \<Rightarrow> domain_error + unit" where
  "check_resource_scopes t =
     check_each (\<lambda>(role, scope).
       if scope = ContextScope \<and> bt_get (tc_context_roles (pt_continuity t)) role = None
       then invalid_plan (''task '' @ pt_task_id t @ '' context-scoped role '' @ role @ '' has no ContextRole'')
       else Inr ()) (bt_entries (tc_resource_scopes (pt_continuity t)))"

definition capacity_envelope ::
    "coordination_context \<Rightarrow> planned_task \<Rightarrow> role_id \<Rightarrow> resource_requirement \<Rightarrow> resource_requirement option" where
  "capacity_envelope c t role demand =
     (case bt_get (tc_context_roles (pt_continuity t)) role of
        None \<Rightarrow> None
      | Some context_role \<Rightarrow>
          (case context_role_of c context_role of
             None \<Rightarrow> None
           | Some declared \<Rightarrow> find (\<lambda>item. rr_kind item = rr_kind demand \<and> rr_resource_class item = rr_resource_class demand)
               (cr_resource_envelope declared)))"

definition check_demand ::
    "coordination_context \<Rightarrow> planned_task \<Rightarrow> role_id \<Rightarrow> resource_requirement \<Rightarrow> domain_error + unit" where
  "check_demand c t role demand =
     (if rr_allocation_mode demand \<noteq> Divisible then Inr ()
      else if rr_kind demand \<noteq> Compute \<or> rr_units demand = 0
         \<or> is_none_or (rr_resource_class demand) (\<lambda>class. trim_is_empty class \<or> 128 < length class)
      then invalid_plan ''shared allocation requires explicit typed positive Compute units''
      else if task_continuity_resource_scope (pt_continuity t) role = ContextScope
         \<and> is_none_or (capacity_envelope c t role demand) (\<lambda>limit. rr_units limit < rr_units demand)
      then invalid_plan ''Context borrower exceeds or lacks its original typed capacity envelope''
      else Inr ())"

definition check_demands :: "coordination_context \<Rightarrow> planned_task \<Rightarrow> domain_error + unit" where
  "check_demands c t =
     check_each (\<lambda>role. check_each (check_demand c t (rq_role_id role)) (resource_requirements role))
       (tq_roles (pt_requirement t))"

definition task_coupling_mode :: "coordination_context \<Rightarrow> planned_task \<Rightarrow> execution_coupling_mode" where
  "task_coupling_mode c t =
     (case tc_coupling_mode_override (pt_continuity t) of None \<Rightarrow> cc_coupling_mode c | Some mode \<Rightarrow> mode)"

definition check_plan_task :: "coordination_context list \<Rightarrow> planned_task \<Rightarrow> domain_error + unit" where
  "check_plan_task contexts t =
     (case task_context contexts t of
        None \<Rightarrow> invalid_plan (''task '' @ pt_task_id t @ '' references an unknown context'')
      | Some c \<Rightarrow>
          (case check_context_roles c t of
             Inl e \<Rightarrow> Inl e
           | Inr _ \<Rightarrow>
               (case check_resource_scopes t of
                  Inl e \<Rightarrow> Inl e
                | Inr _ \<Rightarrow>
                    (case check_demands c t of
                       Inl e \<Rightarrow> Inl e
                     | Inr _ \<Rightarrow> validate_mechanisms_for c (task_coupling_mode c t)))))"

definition validate_relation_endpoint ::
    "task_graph \<Rightarrow> coordination_context \<Rightarrow> planned_execution_ref \<Rightarrow> domain_error + unit" where
  "validate_relation_endpoint g c endpoint =
     (case graph_task g (per_task_id endpoint) of
        None \<Rightarrow> invalid_plan (''execution relation references unknown Task '' @ per_task_id endpoint)
      | Some t \<Rightarrow>
          if tc_context_id (pt_continuity t) \<noteq> cc_context_id c
          then invalid_plan (''execution relation endpoint '' @ per_task_id endpoint @ '':'' @ per_role_id endpoint
            @ '' belongs to another Context'')
          else if \<not> list_ex (\<lambda>role. role = per_role_id endpoint) (pt_role_ids t)
          then invalid_plan (''execution relation references unknown Role '' @ per_role_id endpoint @ '' in Task ''
            @ per_task_id endpoint)
          else Inr ())"

definition check_relation ::
    "task_graph \<Rightarrow> coordination_context \<Rightarrow> execution_relation_spec \<Rightarrow> domain_error + unit" where
  "check_relation g c relation =
     (let source = per_task_id (ers_source relation); target = per_task_id (ers_target relation) in
      if ers_kind relation \<noteq> relation_type_kind (ers_relation_type relation)
      then invalid_plan (''execution relation '' @ ers_relation_id relation @ '' has inconsistent kind and typed relation'')
      else (case validate_relation_endpoint g c (ers_source relation) of
        Inl e \<Rightarrow> Inl e
      | Inr _ \<Rightarrow>
          (case validate_relation_endpoint g c (ers_target relation) of
             Inl e \<Rightarrow> Inl e
           | Inr _ \<Rightarrow>
               if source \<noteq> target \<and> (task_depends_on g source target \<or> task_depends_on g target source)
               then invalid_plan (''execution relation '' @ ers_relation_id relation @ '' connects Tasks ordered by the DAG'')
               else Inr ())))"

definition plan_identities ::
    "mission_goal \<Rightarrow> mission_actor list \<Rightarrow> task_graph \<Rightarrow> coordination_context list \<Rightarrow> domain_error + unit" where
  "plan_identities goal actors g contexts =
     (if mg_mission_id goal \<noteq> tg_mission_id g then invalid_plan ''goal and task graph mission ids differ''
      else if bt_len (bts_of_list (map cc_context_id contexts)) \<noteq> length contexts
      then invalid_plan ''Mission Plan has duplicate context ids''
      else if bt_len (bts_of_list (map ma_id actors)) \<noteq> length actors
      then invalid_plan ''Mission Plan actors must be unique''
      else if list_ex (\<lambda>role. cr_actor_id role \<notin> set (map ma_id actors)) (concat (map cc_roles contexts))
      then invalid_plan ''ContextRole references an undeclared Mission Actor''
      else if bt_len (bts_of_list (map ers_relation_id (concat (map cc_relations contexts))))
           \<noteq> sum_list (map (\<lambda>c. length (cc_relations c)) contexts)
      then invalid_plan ''Mission Plan has duplicate execution relation ids''
      else Inr ())"

definition declares_binding :: "mission_actor list \<Rightarrow> coordination_context list \<Rightarrow> bool" where
  "declares_binding actors contexts \<longleftrightarrow>
     list_ex is_grounded actors \<or> list_ex (\<lambda>c. cc_executor_constraints c \<noteq> []) contexts"

definition mission_plan_new_with_actors ::
    "mission_goal \<Rightarrow> mission_actor list \<Rightarrow> task_graph \<Rightarrow> coordination_context list \<Rightarrow> domain_error + mission_plan" where
  "mission_plan_new_with_actors goal actors g contexts =
     (case plan_identities goal actors g contexts of
        Inl e \<Rightarrow> Inl e
      | Inr _ \<Rightarrow>
          (case check_each (check_plan_task contexts) (tg_tasks g) of
             Inl e \<Rightarrow> Inl e
           | Inr _ \<Rightarrow>
               (case check_each (\<lambda>c. check_each (check_relation g c) (cc_relations c)) contexts of
                  Inl e \<Rightarrow> Inl e
                | Inr _ \<Rightarrow> Inr \<lparr>pl_goal = goal, pl_actors = actors, pl_task_graph = g, pl_contexts = contexts,
                    pl_declared_binding_contract = declares_binding actors contexts, pl_declared_memory_contract = False,
                    pl_declared_capacity_contract = False, pl_declared_scoped_memory_contract = False\<rparr>)))"

definition mission_plan_new :: "mission_goal \<Rightarrow> task_graph \<Rightarrow> coordination_context list \<Rightarrow> domain_error + mission_plan" where
  "mission_plan_new goal g contexts =
     mission_plan_new_with_actors goal
       (map mission_actor_new (bt_keys (bts_of_list (map cr_actor_id (concat (map cc_roles contexts)))))) g contexts"

definition with_v0_8_contract :: "mission_plan \<Rightarrow> mission_plan" where
  "with_v0_8_contract p = p\<lparr>pl_declared_binding_contract := True\<rparr>"

definition with_v0_9_contract :: "mission_plan \<Rightarrow> mission_plan" where
  "with_v0_9_contract p = p\<lparr>pl_declared_binding_contract := True, pl_declared_memory_contract := True\<rparr>"

definition with_v0_10_contract :: "mission_plan \<Rightarrow> mission_plan" where
  "with_v0_10_contract p = p\<lparr>pl_declared_binding_contract := True, pl_declared_memory_contract := True,
     pl_declared_capacity_contract := True\<rparr>"

definition with_v0_11_contract :: "mission_plan \<Rightarrow> mission_plan" where
  "with_v0_11_contract p = (with_v0_10_contract p)\<lparr>pl_declared_scoped_memory_contract := True\<rparr>"

definition plan_roles :: "mission_plan \<Rightarrow> role_requirement list" where
  "plan_roles p = concat (map (\<lambda>t. tq_roles (pt_requirement t)) (tg_tasks (pl_task_graph p)))"

definition schema_version :: "mission_plan \<Rightarrow> string" where
  "schema_version p =
     (if pl_declared_scoped_memory_contract p
         \<or> list_ex (\<lambda>role. list_ex (\<lambda>m. mr_source_contract m \<noteq> None) (rq_memories role)) (plan_roles p)
      then ''roboguide.mission-plan/v0.11''
      else if pl_declared_capacity_contract p
         \<or> list_ex (\<lambda>role. cr_resource_envelope role \<noteq> []) (concat (map cc_roles (pl_contexts p)))
         \<or> list_ex (\<lambda>role. list_ex (\<lambda>d. rr_allocation_mode d = Divisible) (resource_requirements role)) (plan_roles p)
      then ''roboguide.mission-plan/v0.10''
      else if pl_declared_memory_contract p \<or> list_ex (\<lambda>role. rq_memories role \<noteq> []) (plan_roles p)
      then ''roboguide.mission-plan/v0.9''
      else if pl_declared_binding_contract p \<or> declares_binding (pl_actors p) (pl_contexts p)
      then ''roboguide.mission-plan/v0.8''
      else ''roboguide.mission-plan/v0.7'')"

definition plan_binding_semantics :: "mission_plan \<Rightarrow> binding_semantics option" where
  "plan_binding_semantics p = binding_semantics_collect (pl_actors p) (pl_contexts p)"

subsection \<open>What a plan asks of its Actors\<close>

text \<open>The entry of an Actor is created by its first Role, and keeps each item once, in order of appearance.\<close>

definition add_items :: "actor_id option \<Rightarrow> 'a list \<Rightarrow> (actor_id, 'a list) btmap \<Rightarrow> (actor_id, 'a list) btmap" where
  "add_items actor items m =
     (case actor of
        None \<Rightarrow> m
      | Some a \<Rightarrow> bt_update a (\<lambda>entry. fold (\<lambda>item entry. if item \<in> set entry then entry else entry @ [item]) items entry)
          (bt_or_insert a [] m))"

definition actor_operations :: "mission_plan \<Rightarrow> (actor_id, operation_ref list) btmap" where
  "actor_operations p =
     fold (\<lambda>t. fold (\<lambda>role. add_items (rq_actor_id role)
         (case bt_get (pt_execution_intents t) (rq_role_id role) of None \<Rightarrow> [] | Some intent \<Rightarrow> [ei_operation intent]))
       (tq_roles (pt_requirement t))) (tg_tasks (pl_task_graph p)) bt_empty"

definition actor_requirements :: "mission_plan \<Rightarrow> (actor_id, capability_requirement list) btmap" where
  "actor_requirements p =
     fold (\<lambda>t. fold (\<lambda>role. add_items (rq_actor_id role) (capability_requirements role)) (tq_roles (pt_requirement t)))
       (tg_tasks (pl_task_graph p)) bt_empty"

subsection \<open>The session of an accepted plan\<close>

definition task_slot :: "planned_task \<Rightarrow> bool \<Rightarrow> role_requirement \<Rightarrow> string + session_slot" where
  "task_slot t alone role =
     (case rq_actor_id role of
        None \<Rightarrow> Inl (''v0.8 Task '' @ pt_task_id t @ '' Role '' @ rq_role_id role @ '' has no Actor'')
      | Some actor \<Rightarrow> Inr \<lparr>sl_task_id = pt_task_id t, sl_role_id = rq_role_id role, sl_actor_id = actor,
             sl_dependencies = sort (pt_dependencies t), sl_independent = alone\<rparr>)"

definition task_slots :: "mission_plan \<Rightarrow> planned_task \<Rightarrow> string + session_slot list" where
  "task_slots p t =
     (case task_context (pl_contexts p) t of
        None \<Rightarrow> Inl (''Task '' @ pt_task_id t @ '' has no accepted Context'')
      | Some c \<Rightarrow> collect_results (task_slot t (task_coupling_mode c t = Independent \<and> cc_relations c = []))
          (tq_roles (pt_requirement t)))"

definition slot_key :: "session_slot \<Rightarrow> task_id \<times> role_id" where
  "slot_key slot = (sl_task_id slot, sl_role_id slot)"

definition from_plan :: "session_digest \<Rightarrow> mission_plan \<Rightarrow> group_id \<Rightarrow> string + session_descriptor option" where
  "from_plan digest p grp =
     (if schema_version p \<noteq> ''roboguide.mission-plan/v0.8'' then Inr None
      else (case collect_results (task_slots p) (tg_tasks (pl_task_graph p)) of
        Inl e \<Rightarrow> Inl e
      | Inr per_task \<Rightarrow>
          (let slots = sort_key slot_key (concat per_task) in
           if slots = [] \<or> bt_len (bts_of_list (map slot_key slots)) \<noteq> length slots
           then Inl ''execution session contains no slots or duplicate Task/Role slots''
           else (let s = \<lparr>sd_schema_version = ''roboguide.execution-session/v0.1'', sd_mission_id = mg_mission_id (pl_goal p),
                       sd_group_id = grp, sd_slots = slots, sd_digest = []\<rparr>
                 in case canonical_digest digest s of
                      Inl e \<Rightarrow> Inl e
                    | Inr d \<Rightarrow> Inr (Some (s\<lparr>sd_digest := d\<rparr>))))))"

end
