(* ===== verification/RG_Mission_Props.thy ===== *)
theory RG_Mission_Props
  imports RG_Mission
begin

text \<open>
  What an accepted Mission plan guarantees: its Tasks can be run to the end in any order that respects readiness, its
  relations connect Tasks that can run together, and every one of its Roles passes the session check of a physical
  execution.
\<close>

subsection \<open>The accepted graph\<close>

definition task_edges :: "planned_task list \<Rightarrow> (task_id \<times> task_id) set" where
  "task_edges tasks = {(d, t). \<exists>task \<in> set tasks. pt_task_id task = t \<and> d \<in> set (pt_dependencies task)}"

definition graph_ok :: "mission_id \<Rightarrow> planned_task list \<Rightarrow> bool" where
  "graph_ok mission tasks \<longleftrightarrow>
     tasks \<noteq> [] \<and> (\<forall>t \<in> set tasks. pt_mission_id t = mission) \<and> distinct (map pt_task_id tasks)
     \<and> (\<forall>t \<in> set tasks. set (pt_dependencies t) \<subseteq> pt_task_id ` set tasks) \<and> acyclic (task_edges tasks)"

lemma graph_dependencies_Inr:
  "graph_dependencies mission tasks m = Inr m' \<longleftrightarrow>
     (\<forall>t \<in> set tasks. pt_mission_id t = mission \<and> \<not> bt_contains m (pt_task_id t)) \<and> distinct (map pt_task_id tasks)
     \<and> m' = fold (\<lambda>t. bt_insert (pt_task_id t) (bts_of_list (pt_dependencies t))) tasks m"
proof (induction mission tasks m rule: graph_dependencies.induct)
  case (2 mission t ts m)
  have fresh: "bt_contains (bt_insert (pt_task_id t) (bts_of_list (pt_dependencies t)) m) k \<longleftrightarrow> k = pt_task_id t \<or> bt_contains m k" for k
    by (simp add: bt_contains_def bt_get_insert)
  show ?case
  proof (cases "pt_mission_id t = mission \<and> \<not> bt_contains m (pt_task_id t)")
    case True
    have "(\<forall>u \<in> set ts. pt_task_id u \<noteq> pt_task_id t) \<longleftrightarrow> pt_task_id t \<notin> pt_task_id ` set ts" by (metis image_iff)
    with 2 True show ?thesis by (simp add: fresh ball_conj_distrib conj_ac)
  qed auto
qed auto

lemma fold_dependencies_get:
  assumes "distinct (map pt_task_id tasks)"
  shows "bt_get (fold (\<lambda>t. bt_insert (pt_task_id t) (bts_of_list (pt_dependencies t))) tasks m) k = Some deps \<longleftrightarrow>
     (\<exists>t \<in> set tasks. pt_task_id t = k \<and> deps = bts_of_list (pt_dependencies t))
     \<or> k \<notin> pt_task_id ` set tasks \<and> bt_get m k = Some deps"
  using assms by (induction tasks arbitrary: m) (auto simp: bt_get_insert image_iff)

lemma graph_known_iff: "graph_known m = Inr () \<longleftrightarrow> session_closed m"
proof -
  have each: "check_each f xs = Inr () \<longleftrightarrow> (\<forall>x \<in> set xs. f x = Inr ())" for f :: "'a \<Rightarrow> domain_error + unit" and xs
    by (induction xs) (auto split: sum.splits)
  have found: "(case find P xs of None \<Rightarrow> Inr () | Some u \<Rightarrow> Inl (f u)) = Inr () \<longleftrightarrow> (\<forall>x \<in> set xs. \<not> P x)"
    for P and f :: "'a \<Rightarrow> domain_error" and xs
    by (induction xs) auto
  have "graph_known m = Inr () \<longleftrightarrow> (\<forall>t deps. bt_get m t = Some deps \<longrightarrow> (\<forall>d. bts_member d deps \<longrightarrow> bt_contains m d))"
    unfolding graph_known_def each Ball_def split_paired_All by (simp add: found bts_member_keys bt_entries_iff Ball_def)
  then show ?thesis by (auto simp: session_closed_def session_edges_def)
qed

lemma task_graph_new_iff:
  "task_graph_new mission tasks = Inr g \<longleftrightarrow> graph_ok mission tasks \<and> g = \<lparr>tg_mission_id = mission, tg_tasks = tasks\<rparr>"
proof -
  define m where "m = fold (\<lambda>t. bt_insert (pt_task_id t) (bts_of_list (pt_dependencies t))) tasks bt_empty"
  have edges: "session_edges m = task_edges tasks" "bt_contains m k \<longleftrightarrow> k \<in> pt_task_id ` set tasks"
    if "distinct (map pt_task_id tasks)" for k
    unfolding session_edges_def task_edges_def bt_contains_iff m_def fold_dependencies_get [OF that] by auto
  have order: "graph_order m = Inr () \<longleftrightarrow> acyclic (task_edges tasks)" if "distinct (map pt_task_id tasks)" "session_closed m"
    using session_order_iff [OF that(2)] edges(1) [OF that(1)] by (auto simp: graph_order_def split: sum.splits)
  have closed: "session_closed m \<longleftrightarrow> (\<forall>t \<in> set tasks. set (pt_dependencies t) \<subseteq> pt_task_id ` set tasks)"
    if "distinct (map pt_task_id tasks)"
    unfolding session_closed_def edges(1) [OF that] edges(2) [OF that] by (auto simp: task_edges_def)
  have dependencies: "graph_dependencies mission tasks bt_empty = Inr m \<longleftrightarrow>
     (\<forall>t \<in> set tasks. pt_mission_id t = mission) \<and> distinct (map pt_task_id tasks)"
    by (simp add: graph_dependencies_Inr m_def bt_contains_iff)
  have built: "graph_dependencies mission tasks bt_empty = Inr m' \<Longrightarrow> m' = m" for m'
    by (simp add: graph_dependencies_Inr m_def)
  have accepted: "task_graph_new mission tasks = Inr g \<longleftrightarrow>
     tasks \<noteq> [] \<and> graph_dependencies mission tasks bt_empty = Inr m \<and> graph_known m = Inr () \<and> graph_order m = Inr ()
     \<and> g = \<lparr>tg_mission_id = mission, tg_tasks = tasks\<rparr>"
  proof (cases "graph_dependencies mission tasks bt_empty")
    case (Inr m')
    then have "m' = m" by (rule built)
    with Inr show ?thesis unfolding task_graph_new_def by (cases "graph_known m"; cases "graph_order m") auto
  qed (simp add: task_graph_new_def)
  show ?thesis
  proof (cases "distinct (map pt_task_id tasks)")
    case True
    show ?thesis
      unfolding accepted graph_ok_def graph_known_iff dependencies closed [OF True, symmetric]
      using order [OF True] by (cases "session_closed m") simp_all
  next
    case False
    then show ?thesis by (simp add: accepted graph_ok_def dependencies)
  qed
qed

lemma graph_task_iff:
  "distinct (map pt_task_id (tg_tasks g)) \<Longrightarrow> graph_task g k = Some t \<longleftrightarrow> t \<in> set (tg_tasks g) \<and> pt_task_id t = k"
  unfolding graph_task_def by (auto simp: find_Some_iff distinct_conv_nth in_set_conv_nth)

lemma task_edges_ids:
  assumes "graph_ok mission tasks"
  shows "task_edges tasks \<subseteq> (pt_task_id ` set tasks) \<times> (pt_task_id ` set tasks)"
proof
  fix x assume "x \<in> task_edges tasks"
  then obtain t where t: "t \<in> set tasks" "snd x = pt_task_id t" "fst x \<in> set (pt_dependencies t)"
    by (auto simp: task_edges_def)
  moreover have "set (pt_dependencies t) \<subseteq> pt_task_id ` set tasks" using assms t(1) by (simp add: graph_ok_def)
  ultimately show "x \<in> (pt_task_id ` set tasks) \<times> (pt_task_id ` set tasks)" by (cases x) auto
qed

lemma task_edges_closed: "graph_ok mission tasks \<Longrightarrow> (d, t) \<in> (task_edges tasks)\<^sup>+ \<Longrightarrow> d \<in> pt_task_id ` set tasks"
  using task_edges_ids tranclD [of d t "task_edges tasks"] by blast

lemma task_edges_wf: "graph_ok mission tasks \<Longrightarrow> wf (task_edges tasks)"
  by (rule finite_acyclic_wf) (auto simp: graph_ok_def intro: finite_subset [OF task_edges_ids])

subsection \<open>Running the Tasks\<close>

text \<open>Whatever is completed, some Task is ready unless all are completed: a Task with no open Task before it.\<close>

lemma ready_tasks_empty_iff:
  assumes "graph_ok mission (tg_tasks g)"
  shows "ready_tasks g completed = [] \<longleftrightarrow> (\<forall>t \<in> set (tg_tasks g). bts_member (pt_task_id t) completed)"
proof
  assume none: "ready_tasks g completed = []"
  show "\<forall>t \<in> set (tg_tasks g). bts_member (pt_task_id t) completed"
  proof (rule ccontr)
    assume "\<not> (\<forall>t \<in> set (tg_tasks g). bts_member (pt_task_id t) completed)"
    then obtain k where "k \<in> {k \<in> pt_task_id ` set (tg_tasks g). \<not> bts_member k completed}" by blast
    then obtain u where u: "u \<in> {k \<in> pt_task_id ` set (tg_tasks g). \<not> bts_member k completed}"
      and least: "\<And>d. (d, u) \<in> task_edges (tg_tasks g) \<Longrightarrow> d \<notin> {k \<in> pt_task_id ` set (tg_tasks g). \<not> bts_member k completed}"
      by (rule wfE_min [OF task_edges_wf [OF assms]]) blast
    from u obtain t where t: "t \<in> set (tg_tasks g)" "pt_task_id t = u" "\<not> bts_member u completed" by blast
    have "bts_member d completed" if "d \<in> set (pt_dependencies t)" for d
      using least [of d] that t assms by (auto simp: task_edges_def graph_ok_def)
    with t none show False by (auto simp: ready_tasks_def filter_empty_conv list_all_iff)
  qed
qed (auto simp: ready_tasks_def filter_empty_conv)

text \<open>One Task at a time, chosen by \<open>pick\<close> among the ready ones.\<close>

primrec run_tasks :: "(planned_task list \<Rightarrow> planned_task) \<Rightarrow> task_graph \<Rightarrow> nat \<Rightarrow> task_id list" where
  "run_tasks pick g 0 = []"
| "run_tasks pick g (Suc n) =
     (let order = run_tasks pick g n; ready = ready_tasks g (bts_of_list order)
      in if ready = [] then order else order @ [pt_task_id (pick ready)])"

definition in_order :: "task_graph \<Rightarrow> task_id list \<Rightarrow> bool" where
  "in_order g order \<longleftrightarrow> distinct order \<and> set order \<subseteq> pt_task_id ` set (tg_tasks g)
     \<and> (\<forall>i < length order. \<forall>t \<in> set (tg_tasks g). pt_task_id t = order ! i \<longrightarrow> set (pt_dependencies t) \<subseteq> set (take i order))"

lemma in_order_snoc:
  assumes "graph_ok mission (tg_tasks g)" and "in_order g order" and "t \<in> set (ready_tasks g (bts_of_list order))"
  shows "in_order g (order @ [pt_task_id t])"
proof -
  have t: "t \<in> set (tg_tasks g)" "pt_task_id t \<notin> set order" "set (pt_dependencies t) \<subseteq> set order"
    using assms(3) by (auto simp: ready_tasks_def list_all_iff)
  have earlier: "set (pt_dependencies u) \<subseteq> set (take i (order @ [pt_task_id t]))"
    if i: "i < length (order @ [pt_task_id t])" and u: "u \<in> set (tg_tasks g)" "pt_task_id u = (order @ [pt_task_id t]) ! i" for i u
  proof (cases "i < length order")
    case True
    with u(2) have "pt_task_id u = order ! i" by (simp add: nth_append)
    with assms(2) True u(1) have "set (pt_dependencies u) \<subseteq> set (take i order)" unfolding in_order_def by blast
    with True show ?thesis by simp
  next
    case False
    with i have i': "i = length order" by simp
    with u have "pt_task_id u = pt_task_id t" by simp
    moreover have "inj_on pt_task_id (set (tg_tasks g))" using assms(1) by (simp add: graph_ok_def distinct_map)
    ultimately have "u = t" using u(1) t(1) by (simp add: inj_on_eq_iff)
    with i' t(3) show ?thesis by simp
  qed
  have "distinct (order @ [pt_task_id t])" "set (order @ [pt_task_id t]) \<subseteq> pt_task_id ` set (tg_tasks g)"
    using assms(2) t(1,2) by (simp_all add: in_order_def)
  then show ?thesis unfolding in_order_def by (intro conjI allI impI ballI earlier)
qed

lemma run_tasks_in_order:
  assumes ok: "graph_ok mission (tg_tasks g)" and pick: "\<And>ready. ready \<noteq> [] \<Longrightarrow> pick ready \<in> set ready"
  shows "in_order g (run_tasks pick g n) \<and> length (run_tasks pick g n) = min n (length (tg_tasks g))"
proof (induction n)
  case (Suc n)
  define order where "order = run_tasks pick g n"
  define ready where "ready = ready_tasks g (bts_of_list order)"
  have order: "in_order g order" "length order = min n (length (tg_tasks g))" using Suc by (simp_all add: order_def)
  have size: "card (pt_task_id ` set (tg_tasks g)) = length (tg_tasks g)"
    using ok distinct_card [of "map pt_task_id (tg_tasks g)"] by (simp add: graph_ok_def)
  have all: "ready = [] \<longleftrightarrow> pt_task_id ` set (tg_tasks g) \<subseteq> set order"
    unfolding ready_def ready_tasks_empty_iff [OF ok] by auto
  have sub: "set order \<subseteq> pt_task_id ` set (tg_tasks g)" and "card (set order) = length order"
    using order(1) distinct_card [of order] by (simp_all add: in_order_def)
  have "ready = [] \<longleftrightarrow> length (tg_tasks g) \<le> length order"
  proof
    assume "ready = []"
    then have "card (pt_task_id ` set (tg_tasks g)) \<le> card (set order)" by (intro card_mono) (simp_all only: all finite_set)
    then show "length (tg_tasks g) \<le> length order" by (simp only: size \<open>card (set order) = length order\<close>)
  next
    assume "length (tg_tasks g) \<le> length order"
    then have "set order = pt_task_id ` set (tg_tasks g)"
      by (intro card_seteq sub) (simp_all only: size \<open>card (set order) = length order\<close> finite_set finite_imageI)
    then show "ready = []" by (simp only: all order_refl)
  qed
  moreover have "in_order g (order @ [pt_task_id (pick ready)])" if "ready \<noteq> []"
    using in_order_snoc [OF ok order(1)] pick [OF that] by (simp add: ready_def)
  ultimately show ?case using order by (auto simp: Let_def order_def [symmetric] ready_def [symmetric])
qed (simp add: in_order_def)

subsection \<open>Transitive dependencies\<close>

lemma any_within_Some: "(\<And>x. x \<in> set xs \<Longrightarrow> f x = Some (P x)) \<Longrightarrow> any_within f xs = Some (\<exists>x \<in> set xs. P x)"
proof (induction xs)
  case (Cons x xs)
  then show ?case by (cases "P x") auto
qed simp

definition ancestors :: "task_graph \<Rightarrow> task_id \<Rightarrow> task_id set" where
  "ancestors g task = {d. (d, task) \<in> (task_edges (tg_tasks g))\<^sup>+}"

lemma ancestors_unfold:
  assumes "graph_ok mission (tg_tasks g)" and "graph_task g task = Some t"
  shows "ancestors g task = (\<Union>d \<in> set (pt_dependencies t). insert d (ancestors g d))"
proof -
  have dist: "distinct (map pt_task_id (tg_tasks g))" using assms(1) by (simp add: graph_ok_def)
  have "(d, task) \<in> task_edges (tg_tasks g) \<longleftrightarrow> d \<in> set (pt_dependencies t)" for d
  proof -
    have "u = t" if "u \<in> set (tg_tasks g)" "pt_task_id u = task" for u
      using graph_task_iff [OF dist] that assms(2) by (metis option.inject)
    then show ?thesis using assms(2) by (auto simp: task_edges_def graph_task_iff [OF dist])
  qed
  moreover have "(x, task) \<in> E\<^sup>+ \<longleftrightarrow> (\<exists>d. (d, task) \<in> E \<and> (x = d \<or> (x, d) \<in> E\<^sup>+))" for x and E :: "(task_id \<times> task_id) set"
    by (metis r_into_trancl trancl_into_trancl trancl.cases)
  ultimately show ?thesis unfolding ancestors_def by auto
qed

lemma ancestors_none: "graph_task g task = None \<Longrightarrow> ancestors g task = {}"
  by (auto simp: ancestors_def graph_task_def find_None_iff task_edges_def elim: tranclE)

lemma ancestors_smaller:
  assumes "graph_ok mission (tg_tasks g)" and "graph_task g task = Some t" and "d \<in> set (pt_dependencies t)"
  shows "card (ancestors g d) < card (ancestors g task)"
proof (rule psubset_card_mono)
  have "ancestors g task \<subseteq> pt_task_id ` set (tg_tasks g)"
    using task_edges_closed [OF assms(1)] by (auto simp: ancestors_def)
  then show "finite (ancestors g task)" by (rule finite_subset) simp
  have "d \<notin> ancestors g d" using assms(1) by (simp add: ancestors_def graph_ok_def acyclic_def)
  then show "ancestors g d \<subset> ancestors g task" unfolding ancestors_unfold [OF assms(1,2)] using assms(3) by auto
qed

lemma depends_within_ancestors:
  assumes "graph_ok mission (tg_tasks g)"
  shows "card (ancestors g task) < n \<Longrightarrow> depends_within n g task candidate = Some (candidate \<in> ancestors g task)"
proof (induction n arbitrary: task)
  case (Suc n)
  show ?case
  proof (cases "graph_task g task")
    case None
    then show ?thesis by (simp add: ancestors_none)
  next
    case (Some t)
    have "any_within (\<lambda>d. if d = candidate then Some True else depends_within n g d candidate) (pt_dependencies t)
        = Some (\<exists>d \<in> set (pt_dependencies t). d = candidate \<or> candidate \<in> ancestors g d)"
      using Suc ancestors_smaller [OF assms Some] by (intro any_within_Some) fastforce
    with Some show ?thesis by (auto simp: ancestors_unfold [OF assms Some])
  qed
qed simp

lemma task_depends_on_iff:
  assumes "graph_ok mission (tg_tasks g)"
  shows "depends_within (Suc (length (tg_tasks g))) g task candidate = Some (candidate \<in> ancestors g task)"
    and "task_depends_on g task candidate \<longleftrightarrow> candidate \<in> ancestors g task"
proof -
  have "ancestors g task \<subseteq> pt_task_id ` set (tg_tasks g)"
    using task_edges_closed [OF assms] by (auto simp: ancestors_def)
  then have "card (ancestors g task) \<le> length (tg_tasks g)"
    by (meson List.finite_set card_image_le card_length card_mono finite_imageI order_trans)
  then show within: "depends_within (Suc (length (tg_tasks g))) g task candidate = Some (candidate \<in> ancestors g task)"
    by (intro depends_within_ancestors [OF assms]) simp
  show "task_depends_on g task candidate \<longleftrightarrow> candidate \<in> ancestors g task"
    unfolding task_depends_on_def within by simp
qed

subsection \<open>Relations of an accepted plan\<close>

lemma check_each_Inr: "check_each f xs = Inr () \<longleftrightarrow> (\<forall>x \<in> set xs. f x = Inr ())"
  by (induction xs) (auto split: sum.splits)

lemma mission_plan_parts:
  assumes "mission_plan_new_with_actors goal actors g contexts = Inr p"
  shows "plan_identities goal actors g contexts = Inr ()" "\<forall>t \<in> set (tg_tasks g). check_plan_task contexts t = Inr ()"
    "\<forall>c \<in> set contexts. \<forall>r \<in> set (cc_relations c). check_relation g c r = Inr ()"
    "pl_goal p = goal \<and> pl_task_graph p = g \<and> pl_contexts p = contexts \<and> pl_actors p = actors"
  using assms by (auto simp: mission_plan_new_with_actors_def check_each_Inr split: sum.splits)

definition downward_closed :: "task_graph \<Rightarrow> task_id btset \<Rightarrow> bool" where
  "downward_closed g completed \<longleftrightarrow>
     (\<forall>t \<in> set (tg_tasks g). bts_member (pt_task_id t) completed \<longrightarrow> (\<forall>d \<in> set (pt_dependencies t). bts_member d completed))"

lemma unordered_tasks_ready_together:
  assumes ok: "graph_ok mission (tg_tasks g)" and s: "s \<in> set (tg_tasks g)" and t: "t \<in> set (tg_tasks g)"
    and unordered: "pt_task_id s \<notin> ancestors g (pt_task_id t)" "pt_task_id t \<notin> ancestors g (pt_task_id s)"
  shows "\<exists>completed. downward_closed g completed \<and> {s, t} \<subseteq> set (ready_tasks g completed)"
proof -
  define before where "before = ancestors g (pt_task_id s) \<union> ancestors g (pt_task_id t)"
  have "before \<subseteq> pt_task_id ` set (tg_tasks g)" using task_edges_closed [OF ok] by (auto simp: before_def ancestors_def)
  then obtain ids where ids: "set ids = before" by (meson finite_imageI finite_list finite_set finite_subset)
  have own: "k \<notin> ancestors g k" for k using ok by (simp add: ancestors_def graph_ok_def acyclic_def)
  have edge: "(d, pt_task_id u) \<in> task_edges (tg_tasks g)" if "u \<in> set (tg_tasks g)" "d \<in> set (pt_dependencies u)" for u d
    using that unfolding task_edges_def by blast
  have direct: "d \<in> ancestors g (pt_task_id u)" if "u \<in> set (tg_tasks g)" "d \<in> set (pt_dependencies u)" for u d
    unfolding ancestors_def using edge [OF that] by blast
  have earlier: "d \<in> ancestors g k" if "u \<in> set (tg_tasks g)" "d \<in> set (pt_dependencies u)" "pt_task_id u \<in> ancestors g k" for u d k
    using that(3) trancl_into_trancl2 [OF edge [OF that(1,2)]] unfolding ancestors_def by simp
  have "downward_closed g (bts_of_list ids)"
    unfolding downward_closed_def bts_member_of_list ids before_def Un_iff using earlier by blast
  moreover have "x \<in> set (ready_tasks g (bts_of_list ids))" if "x = s \<or> x = t" for x
    unfolding ready_tasks_def set_filter list_all_iff bts_member_of_list ids before_def
    using that s t unordered own direct by blast
  ultimately show ?thesis by (metis empty_subsetI insert_subset)
qed

subsection \<open>The session of an accepted plan\<close>

text \<open>A Task as its constructors leave it.\<close>

definition constructed_task :: "planned_task \<Rightarrow> bool" where
  "constructed_task t \<longleftrightarrow>
     task_requirement_scheduled (pt_mission_id t) (pt_task_id t) (tq_roles (pt_requirement t)) (tq_timing (pt_requirement t))
       = Inr (pt_requirement t)
     \<and> planned_task_new_with_completion (pt_description t) (pt_requirement t) (pt_execution_intents t) (pt_dependencies t)
         (pt_continuity t) (pt_expected_effect t) (pt_satisfaction_basis t) = Inr t"

lemma constructed_taskD:
  assumes "constructed_task t"
  shows "pt_role_ids t \<noteq> [] \<and> distinct (pt_role_ids t) \<and> distinct (pt_dependencies t)"
  using assms task_requirement_roles [of "pt_mission_id t" "pt_task_id t" "tq_roles (pt_requirement t)"]
  by (auto simp: constructed_task_def task_requirement_scheduled_def planned_task_new_with_completion_def Let_def pt_role_ids_def
      bt_len_of_list_distinct split: sum.splits if_splits)

lemma collect_results_Inr: "collect_results f xs = Inr ys \<Longrightarrow> list_all2 (\<lambda>x y. f x = Inr y) xs ys"
  by (induction xs arbitrary: ys) (auto split: sum.splits)

lemma list_all2_maps: "list_all2 (\<lambda>x y. g y = f x \<and> P y) xs ys \<Longrightarrow> map g ys = map f xs \<and> (\<forall>y \<in> set ys. P y)"
  by (induction rule: list_all2_induct) auto

lemma collect_results_total: "(\<And>x. x \<in> set xs \<Longrightarrow> \<exists>y. f x = Inr y) \<Longrightarrow> \<exists>ys. collect_results f xs = Inr ys"
  by (induction xs) (fastforce split: sum.splits)+

definition task_keys :: "planned_task \<Rightarrow> (task_id \<times> role_id) list" where
  "task_keys t = map (Pair (pt_task_id t)) (pt_role_ids t)"

lemma task_slots_Inr:
  assumes "task_slots p t = Inr slots"
  shows "map slot_key slots = task_keys t"
    "slot \<in> set slots \<Longrightarrow> sl_task_id slot = pt_task_id t \<and> sl_dependencies slot = sort (pt_dependencies t)"
proof -
  obtain alone where "collect_results (task_slot t alone) (tq_roles (pt_requirement t)) = Inr slots"
    using assms by (auto simp: task_slots_def split: option.splits)
  then have "list_all2 (\<lambda>role slot. slot_key slot = (pt_task_id t, rq_role_id role)
      \<and> (sl_task_id slot = pt_task_id t \<and> sl_dependencies slot = sort (pt_dependencies t))) (tq_roles (pt_requirement t)) slots"
    by (rule collect_results_Inr [THEN list_all2_mono]) (auto simp: task_slot_def slot_key_def split: option.splits)
  then show "map slot_key slots = task_keys t"
    "slot \<in> set slots \<Longrightarrow> sl_task_id slot = pt_task_id t \<and> sl_dependencies slot = sort (pt_dependencies t)"
    by (auto dest!: list_all2_maps simp: task_keys_def pt_role_ids_def)
qed

lemma plan_slots:
  assumes "collect_results (task_slots p) tasks = Inr per_task"
  shows "map slot_key (concat per_task) = concat (map task_keys tasks)"
    "slot \<in> set (concat per_task) \<Longrightarrow> \<exists>t \<in> set tasks. sl_task_id slot = pt_task_id t \<and> sl_dependencies slot = sort (pt_dependencies t)"
  using collect_results_Inr [OF assms]
  by (induction rule: list_all2_induct) (auto simp: task_slots_Inr(1) dest: task_slots_Inr(2))

lemma task_keys_distinct:
  assumes "distinct (map pt_task_id tasks)" and "\<forall>t \<in> set tasks. distinct (pt_role_ids t)"
  shows "distinct (concat (map task_keys tasks))"
  using assms
proof (induction tasks)
  case (Cons t ts)
  moreover have "set (task_keys t) \<inter> set (concat (map task_keys ts)) = {}"
    using Cons.prems(1) by (auto simp: task_keys_def image_iff)
  ultimately show ?case by (simp add: task_keys_def distinct_map inj_on_def)
qed simp

lemma task_slots_total:
  assumes "check_plan_task (pl_contexts p) t = Inr ()" and "\<forall>role \<in> set (tq_roles (pt_requirement t)). rq_actor_id role \<noteq> None"
  shows "\<exists>slots. task_slots p t = Inr slots"
proof -
  obtain c where c: "task_context (pl_contexts p) t = Some c"
    using assms(1) by (auto simp: check_plan_task_def invalid_plan_def split: option.splits)
  have "\<exists>slot. task_slot t alone role = Inr slot" if "role \<in> set (tq_roles (pt_requirement t))" for alone role
    using assms(2) that by (auto simp: task_slot_def)
  then show ?thesis unfolding task_slots_def c by (simp add: collect_results_total)
qed

lemma sort_key_strict: "distinct (map f xs) \<Longrightarrow> sorted_wrt (<) (map f (sort_key f xs))" for f :: "'a \<Rightarrow> 'b::linorder"
  by (metis distinct_map distinct_sort set_sort sorted_sort_key strict_sorted_iff)

lemma session_slots_canonical:
  assumes ok: "graph_ok mission tasks" and constructed: "\<forall>t \<in> set tasks. constructed_task t"
    and slots: "set slots = set (concat per_task)" "collect_results (task_slots p) tasks = Inr per_task"
  shows "session_canonical_dependencies slots" "acyclic (slot_edges slots)"
proof -
  have origin: "\<exists>t \<in> set tasks. sl_task_id slot = pt_task_id t \<and> sl_dependencies slot = sort (pt_dependencies t)" if "slot \<in> set slots" for slot
    using plan_slots(2) [OF slots(2)] that unfolding slots(1) by blast
  have "slot_edges slots \<subseteq> task_edges tasks" using origin unfolding slot_edges_def task_edges_def by fastforce
  then show acyclic: "acyclic (slot_edges slots)" using ok by (auto simp: graph_ok_def intro: acyclic_subset)
  have keys: "slot_key ` set slots = (\<Union>t \<in> set tasks. set (task_keys t))"
    unfolding slots(1) using arg_cong [OF plan_slots(1) [OF slots(2)], of set] by simp
  have present: "k \<in> sl_task_id ` set slots" if "k \<in> pt_task_id ` set tasks" for k
  proof -
    obtain t where t: "t \<in> set tasks" "pt_task_id t = k" using \<open>k \<in> _\<close> by blast
    then obtain r where "(k, r) \<in> set (task_keys t)"
      using constructed_taskD constructed unfolding task_keys_def by (metis last_in_set list.set_map rev_image_eqI)
    then have "(k, r) \<in> slot_key ` set slots" unfolding keys using t(1) by blast
    then show ?thesis by (auto simp: slot_key_def)
  qed
  show "session_canonical_dependencies slots"
    unfolding session_canonical_dependencies_def list_all_iff
  proof (intro ballI conjI)
    fix slot assume slot: "slot \<in> set slots"
    obtain t where t: "t \<in> set tasks" "sl_task_id slot = pt_task_id t" "sl_dependencies slot = sort (pt_dependencies t)"
      using origin [OF slot] by blast
    have "distinct (pt_dependencies t)" using constructed constructed_taskD t(1) by blast
    then show "successively (<) (sl_dependencies slot)"
      unfolding t(3) by (metis distinct_sort sorted_sort strict_sorted_iff successively_if_sorted_wrt)
    fix d assume d: "d \<in> set (sl_dependencies slot)"
    show "d \<noteq> sl_task_id slot"
    proof
      assume "d = sl_task_id slot"
      then have "(d, d) \<in> slot_edges slots" unfolding slot_edges_def using slot d by blast
      with acyclic show False by (auto simp: acyclic_def)
    qed
    have "d \<in> pt_task_id ` set tasks" using d t(1) ok unfolding t(3) by (auto simp: graph_ok_def)
    then show "d \<in> set (map sl_task_id slots)" using present by simp
  qed
qed

lemma check_relation_endpoints:
  assumes ok: "graph_ok mission (tg_tasks g)" and "check_relation g c r = Inr ()"
  obtains s t where "s \<in> set (tg_tasks g)" "t \<in> set (tg_tasks g)"
    "pt_task_id s = per_task_id (ers_source r)" "per_role_id (ers_source r) \<in> set (pt_role_ids s)"
    "pt_task_id t = per_task_id (ers_target r)" "per_role_id (ers_target r) \<in> set (pt_role_ids t)"
    "tc_context_id (pt_continuity s) = cc_context_id c" "tc_context_id (pt_continuity t) = cc_context_id c"
    "pt_task_id s \<notin> ancestors g (pt_task_id t)" "pt_task_id t \<notin> ancestors g (pt_task_id s)"
proof -
  have dist: "distinct (map pt_task_id (tg_tasks g))" using ok by (simp add: graph_ok_def)
  have endpoint: "\<exists>u \<in> set (tg_tasks g). pt_task_id u = per_task_id e \<and> per_role_id e \<in> set (pt_role_ids u)
      \<and> tc_context_id (pt_continuity u) = cc_context_id c" if "validate_relation_endpoint g c e = Inr ()" for e
    using that by (auto simp: validate_relation_endpoint_def invalid_plan_def graph_task_iff [OF dist] list_ex_iff
        split: option.splits if_splits)
  have source: "validate_relation_endpoint g c (ers_source r) = Inr ()" "validate_relation_endpoint g c (ers_target r) = Inr ()"
    and free: "per_task_id (ers_source r) \<noteq> per_task_id (ers_target r) \<Longrightarrow>
      \<not> task_depends_on g (per_task_id (ers_source r)) (per_task_id (ers_target r))
      \<and> \<not> task_depends_on g (per_task_id (ers_target r)) (per_task_id (ers_source r))"
    using assms(2) by (auto simp: check_relation_def Let_def invalid_plan_def split: if_splits sum.splits)
  obtain s t where st: "s \<in> set (tg_tasks g)" "t \<in> set (tg_tasks g)"
      "pt_task_id s = per_task_id (ers_source r)" "per_role_id (ers_source r) \<in> set (pt_role_ids s)"
      "pt_task_id t = per_task_id (ers_target r)" "per_role_id (ers_target r) \<in> set (pt_role_ids t)"
      "tc_context_id (pt_continuity s) = cc_context_id c" "tc_context_id (pt_continuity t) = cc_context_id c"
    using endpoint [OF source(1)] endpoint [OF source(2)] by blast
  have own: "k \<notin> ancestors g k" for k using ok by (simp add: ancestors_def graph_ok_def acyclic_def)
  show thesis
  proof (rule that [OF st])
    show "pt_task_id s \<notin> ancestors g (pt_task_id t)" "pt_task_id t \<notin> ancestors g (pt_task_id s)"
      unfolding st(3,5) using free own task_depends_on_iff(2) [OF ok] by metis+
  qed
qed

lemma plan_slots_sorted:
  assumes ok: "graph_ok mission tasks" and con: "\<forall>t \<in> set tasks. constructed_task t"
    and per: "collect_results (task_slots p) tasks = Inr per_task"
  shows "slot_key ` set (concat per_task) = {(pt_task_id t, role) | t role. t \<in> set tasks \<and> role \<in> set (pt_role_ids t)}"
    and "sort_key slot_key (concat per_task) \<noteq> []" and "sorted_wrt (<) (map slot_key (sort_key slot_key (concat per_task)))"
    and "bt_len (bts_of_list (map slot_key (sort_key slot_key (concat per_task)))) = length (concat per_task)"
proof -
  show keys: "slot_key ` set (concat per_task) = {(pt_task_id t, role) | t role. t \<in> set tasks \<and> role \<in> set (pt_role_ids t)}"
    unfolding list.set_map [symmetric] plan_slots(1) [OF per] by (auto simp: task_keys_def)
  obtain t where "t \<in> set tasks" using ok by (cases tasks) (auto simp: graph_ok_def)
  moreover then obtain role where "role \<in> set (pt_role_ids t)" using con constructed_taskD by (meson last_in_set)
  ultimately have "(pt_task_id t, role) \<in> slot_key ` set (concat per_task)" unfolding keys by blast
  then have "set (concat per_task) \<noteq> {}" by (metis empty_iff image_empty)
  then show "sort_key slot_key (concat per_task) \<noteq> []" by (metis set_sort set_empty)
  have "distinct (map slot_key (concat per_task))"
    unfolding plan_slots(1) [OF per] by (rule task_keys_distinct) (use ok con constructed_taskD in \<open>auto simp: graph_ok_def\<close>)
  then show strict: "sorted_wrt (<) (map slot_key (sort_key slot_key (concat per_task)))" by (rule sort_key_strict)
  then have "distinct (map slot_key (sort_key slot_key (concat per_task)))" by (simp add: strict_sorted_iff)
  then show "bt_len (bts_of_list (map slot_key (sort_key slot_key (concat per_task)))) = length (concat per_task)"
    using bt_len_of_list_distinct [of "map slot_key (sort_key slot_key (concat per_task))"] by simp
qed

lemma session_has_slot:
  assumes "slot_key ` slots = {(pt_task_id t, role) | t role. t \<in> set tasks \<and> role \<in> set (pt_role_ids t)}"
    and "t \<in> set tasks" "role \<in> set (pt_role_ids t)"
  shows "\<exists>slot \<in> slots. sl_task_id slot = pt_task_id t \<and> sl_role_id slot = role"
proof -
  have "(pt_task_id t, role) \<in> slot_key ` slots" using assms by blast
  then show ?thesis by (auto simp: slot_key_def)
qed

subsection \<open>A small Mission\<close>

text \<open>A map is built first; then two robots survey its halves side by side, the right one only while the left one is active.\<close>

definition sweep_role :: "role_id \<Rightarrow> actor_id \<Rightarrow> role_requirement" where
  "sweep_role role actor = role_requirement_with_actor role actor CapMobility (ContractRef ''robot'' ''navigate'' ''v1'') None"

definition sweep_task :: "task_id \<Rightarrow> role_id \<Rightarrow> actor_id \<Rightarrow> task_id list \<Rightarrow> planned_task" where
  "sweep_task task role actor dependencies =
     \<lparr>pt_description = ''survey'',
      pt_requirement = \<lparr>tq_task_ref = TaskRef ''m1'' task, tq_roles = [sweep_role role actor], tq_timing = task_timing_default\<rparr>,
      pt_execution_intents = bt_insert role \<lparr>ei_operation = ContractRef ''robot'' ''navigate'' ''v1'', ei_objective = ''go'',
          ei_parameters = bt_empty\<rparr> bt_empty,
      pt_dependencies = dependencies,
      pt_continuity = \<lparr>tc_context_id = ''sweep'', tc_context_roles = bt_empty, tc_resource_scopes = bt_empty,
          tc_coupling_mode_override = None\<rparr>,
      pt_satisfaction_basis = ExecutionReport, pt_expected_effect = ''surveyed''\<rparr>"

definition sweep_tasks :: "planned_task list" where
  "sweep_tasks = [sweep_task ''left'' ''lead'' ''a1'' [''map''], sweep_task ''right'' ''wing'' ''a2'' [''map''],
     sweep_task ''map'' ''lead'' ''a1'' []]"

definition sweep_graph :: task_graph where
  "sweep_graph = \<lparr>tg_mission_id = ''m1'', tg_tasks = sweep_tasks\<rparr>"

definition sweep_context :: coordination_context where
  "sweep_context = \<lparr>cc_context_id = ''sweep'', cc_roles = [], cc_executor_constraints = [],
     cc_relations = [\<lparr>ers_relation_id = ''abreast'', ers_source = PlannedExecutionRef ''left'' ''lead'',
         ers_target = PlannedExecutionRef ''right'' ''wing'', ers_kind = RequiresActive, ers_relation_type = RtRequiresActive\<rparr>],
     cc_coupling_mode = Independent, cc_shared_view = None, cc_peer_channel = None\<rparr>"

definition sweep_goal :: mission_goal where
  "sweep_goal = \<lparr>mg_mission_id = ''m1'', mg_objective = ''survey''\<rparr>"

definition sweep_plan :: mission_plan where
  "sweep_plan = \<lparr>pl_goal = sweep_goal, pl_actors = [], pl_task_graph = sweep_graph, pl_contexts = [sweep_context],
     pl_declared_binding_contract = False, pl_declared_memory_contract = False, pl_declared_capacity_contract = False,
     pl_declared_scoped_memory_contract = False\<rparr>"

lemma sweep_accepted:
  "task_graph_new ''m1'' sweep_tasks = Inr sweep_graph"
  "mission_plan_new_with_actors sweep_goal [] sweep_graph [sweep_context] = Inr sweep_plan"
  "list_all constructed_task sweep_tasks"
  by code_simp+

subsection \<open>Properties\<close>

text \<open>
  C22: An accepted Task graph can always be run to its end: a Task is ready unless all are completed, whatever was
  completed before, and choosing any ready Task again and again runs every Task exactly once, each after all its
  dependencies.
\<close>

theorem accepted_mission_runs:
  assumes "task_graph_new mission tasks = Inr g" and "\<forall>ready. ready \<noteq> [] \<longrightarrow> pick ready \<in> set ready"
  shows "in_order g (run_tasks pick g (length tasks)) \<and> set (run_tasks pick g (length tasks)) = pt_task_id ` set tasks
    \<and> (ready_tasks g completed = [] \<longleftrightarrow> (\<forall>t \<in> set tasks. bts_member (pt_task_id t) completed))"
proof -
  have g: "graph_ok mission (tg_tasks g)" "tg_tasks g = tasks" using assms(1) by (auto simp: task_graph_new_iff)
  note run = run_tasks_in_order [OF g(1), of pick "length tasks"]
  have order: "in_order g (run_tasks pick g (length tasks))" "length (run_tasks pick g (length tasks)) = length tasks"
    using run assms(2) by (simp_all add: g(2))
  then have "card (pt_task_id ` set tasks) \<le> card (set (run_tasks pick g (length tasks)))"
    using distinct_card [of "run_tasks pick g (length tasks)"] card_image_le [of "set tasks" pt_task_id] card_length [of tasks]
    by (simp add: in_order_def)
  then have "set (run_tasks pick g (length tasks)) = pt_task_id ` set tasks"
    using order(1) by (intro card_seteq) (simp_all add: in_order_def g(2))
  with order(1) ready_tasks_empty_iff [OF g(1), of completed] show ?thesis by (simp add: g(2))
qed

theorem accepted_mission_runs_witness:
  "in_order sweep_graph (run_tasks hd sweep_graph 3) \<and> run_tasks hd sweep_graph 3 = [''map'', ''left'', ''right'']"
proof -
  have "\<forall>ready. ready \<noteq> [] \<longrightarrow> hd ready \<in> set ready" by simp
  from accepted_mission_runs [OF sweep_accepted(1) this, of bt_empty]
  have "in_order sweep_graph (run_tasks hd sweep_graph (length sweep_tasks))" by (rule conjunct1)
  moreover have "length sweep_tasks = 3" by code_simp
  moreover have "run_tasks hd sweep_graph 3 = [''map'', ''left'', ''right'']" by code_simp
  ultimately show ?thesis by simp
qed

text \<open>
  C17: In an accepted plan every relation connects existing Roles of Tasks of its own Context that no dependency orders,
  directly or through other Tasks: there is a state of the Mission, with all dependencies of completed Tasks completed, in
  which both Tasks are ready at the same time. The recursion that looks for an ordering dependency always returns.
\<close>

theorem plan_relations_concurrent:
  assumes "task_graph_new mission tasks = Inr g" and "mission_plan_new_with_actors goal actors g contexts = Inr p"
    and "c \<in> set (pl_contexts p)" and "r \<in> set (cc_relations c)"
  shows "(\<exists>answer. depends_within (Suc (length tasks)) g task candidate = Some answer)
    \<and> (\<exists>s t completed. downward_closed g completed \<and> {s, t} \<subseteq> set (ready_tasks g completed)
      \<and> pt_task_id s = per_task_id (ers_source r) \<and> per_role_id (ers_source r) \<in> set (pt_role_ids s)
      \<and> pt_task_id t = per_task_id (ers_target r) \<and> per_role_id (ers_target r) \<in> set (pt_role_ids t)
      \<and> tc_context_id (pt_continuity s) = cc_context_id c \<and> tc_context_id (pt_continuity t) = cc_context_id c)"
proof -
  have g: "graph_ok mission (tg_tasks g)" "tg_tasks g = tasks" using assms(1) by (auto simp: task_graph_new_iff)
  have "check_relation g c r = Inr ()" using mission_plan_parts [OF assms(2)] assms(3,4) by simp
  then obtain s t where "s \<in> set (tg_tasks g)" "t \<in> set (tg_tasks g)"
    and ends: "pt_task_id s = per_task_id (ers_source r)" "per_role_id (ers_source r) \<in> set (pt_role_ids s)"
      "pt_task_id t = per_task_id (ers_target r)" "per_role_id (ers_target r) \<in> set (pt_role_ids t)"
      "tc_context_id (pt_continuity s) = cc_context_id c" "tc_context_id (pt_continuity t) = cc_context_id c"
    and "pt_task_id s \<notin> ancestors g (pt_task_id t)" "pt_task_id t \<notin> ancestors g (pt_task_id s)"
    by (rule check_relation_endpoints [OF g(1)])
  then obtain completed where "downward_closed g completed" "{s, t} \<subseteq> set (ready_tasks g completed)"
    using unordered_tasks_ready_together [OF g(1)] by blast
  moreover have "\<exists>answer. depends_within (Suc (length tasks)) g task candidate = Some answer"
    using task_depends_on_iff(1) [OF g(1)] by (auto simp: g(2))
  ultimately show ?thesis using ends by blast
qed

theorem plan_relations_concurrent_witness:
  "\<exists>s t completed. downward_closed sweep_graph completed \<and> {s, t} \<subseteq> set (ready_tasks sweep_graph completed)
     \<and> pt_task_id s = ''left'' \<and> pt_task_id t = ''right''"
proof -
  have c: "sweep_context \<in> set (pl_contexts sweep_plan)" by (simp add: sweep_plan_def)
  have r: "hd (cc_relations sweep_context) \<in> set (cc_relations sweep_context)" by (simp add: sweep_context_def)
  have "per_task_id (ers_source (hd (cc_relations sweep_context))) = ''left''"
    "per_task_id (ers_target (hd (cc_relations sweep_context))) = ''right''" by (simp_all add: sweep_context_def)
  with plan_relations_concurrent [OF sweep_accepted(1,2) c r] show ?thesis by metis
qed

text \<open>
  C24: The session of an accepted plan is accepted for every one of its Roles: when the plan is one that carries sessions,
  each Role names an Actor and the digest can be computed, a session is derived, its slots are exactly the Roles of the
  plan's Tasks, and the check that fences a physical execution accepts each of them.
\<close>

theorem plan_session_admits_every_role:
  assumes "task_graph_new mission tasks = Inr g" and "list_all constructed_task tasks"
    and "mission_plan_new_with_actors goal actors g contexts = Inr q" and "p = q \<or> p = with_v0_8_contract q"
    and "schema_version p = ''roboguide.mission-plan/v0.8''" and "\<forall>role \<in> set (plan_roles p). rq_actor_id role \<noteq> None"
    and "\<forall>schema m k slots. \<exists>d. digest schema m k slots = Inr d"
  shows "\<exists>s. from_plan digest p grp = Inr (Some s)
    \<and> slot_key ` set (sd_slots s) = {(pt_task_id t, role) | t role. t \<in> set tasks \<and> role \<in> set (pt_role_ids t)}
    \<and> (\<forall>t \<in> set tasks. \<forall>role \<in> set (pt_role_ids t). validate_slot digest s mission grp (pt_task_id t) role = Inr ())"
proof -
  have g: "graph_ok mission tasks" "g = \<lparr>tg_mission_id = mission, tg_tasks = tasks\<rparr>"
    using assms(1) by (auto simp: task_graph_new_iff)
  note parts = mission_plan_parts [OF assms(3)]
  have p: "tg_tasks (pl_task_graph p) = tasks" "pl_contexts p = contexts" "pl_goal p = goal" "mg_mission_id goal = mission"
    using assms(4) parts(1,4) g(2) by (auto simp: with_v0_8_contract_def plan_identities_def invalid_plan_def split: if_splits)
  have con: "\<forall>t \<in> set tasks. constructed_task t" using assms(2) by (simp add: list_all_iff)
  have "\<exists>slots. task_slots p t = Inr slots" if "t \<in> set tasks" for t
    by (rule task_slots_total) (use that parts(2) assms(6) g(2) p in \<open>auto simp: plan_roles_def\<close>)
  then obtain per_task where per: "collect_results (task_slots p) tasks = Inr per_task" using collect_results_total by blast
  note slots = plan_slots_sorted [OF g(1) con per]
  obtain d where d: "digest ''roboguide.execution-session/v0.1'' mission grp (sort_key slot_key (concat per_task)) = Inr d"
    using assms(7) by blast
  define s where "s = \<lparr>sd_schema_version = ''roboguide.execution-session/v0.1'', sd_mission_id = mission, sd_group_id = grp,
    sd_slots = sort_key slot_key (concat per_task), sd_digest = d\<rparr>"
  have "from_plan digest p grp = Inr (Some s)"
    using slots(2,4) by (simp add: from_plan_def assms(5) per p Let_def canonical_digest_def d s_def)
  moreover have "canonical_digest digest s = Inr (sd_digest s)" by (simp add: canonical_digest_def s_def d)
  then have "validate_slot digest s mission grp (pt_task_id t) role = Inr ()" if "t \<in> set tasks" "role \<in> set (pt_role_ids t)" for t role
    using slots(2,3) session_slots_canonical [OF g(1) con _ per, of "sd_slots s"] session_has_slot [OF slots(1) that]
    by (simp add: validate_slot_accepts_iff s_def slot_key_def [abs_def])
  ultimately show ?thesis using slots(1) by (intro exI [of _ s]) (simp add: s_def)
qed

theorem plan_session_admits_every_role_witness:
  "\<exists>s. from_plan (\<lambda>_ _ _ _. Inr ''d'') (with_v0_8_contract sweep_plan) ''g1'' = Inr (Some s)
     \<and> validate_slot (\<lambda>_ _ _ _. Inr ''d'') s ''m1'' ''g1'' ''right'' ''wing'' = Inr ()"
proof -
  have v8: "schema_version (with_v0_8_contract sweep_plan) = ''roboguide.mission-plan/v0.8''" by code_simp
  have actors: "\<forall>role \<in> set (plan_roles (with_v0_8_contract sweep_plan)). rq_actor_id role \<noteq> None" by code_simp
  have right: "sweep_task ''right'' ''wing'' ''a2'' [''map''] \<in> set sweep_tasks" by (simp add: sweep_tasks_def)
  have names: "pt_task_id (sweep_task ''right'' ''wing'' ''a2'' [''map'']) = ''right''"
    "''wing'' \<in> set (pt_role_ids (sweep_task ''right'' ''wing'' ''a2'' [''map'']))" by code_simp+
  from plan_session_admits_every_role [OF sweep_accepted(1,3,2) disjI2 [OF refl] v8 actors,
      of "\<lambda>_ _ _ _. Inr ''d''" "''g1''"]
  show ?thesis using right names by (metis (no_types, lifting))
qed

end
