(* ===== verification/ST_Records.thy ===== *)
theory ST_Records
  imports RG_Decision
begin

text \<open>
  The projection of State records, \<open>core/state/src/state_record.rs\<close>, with the errors of
  \<open>core/ports/src/state_record.rs\<close>: the latest record per object, meaning, source and channel, ordered by receive time.
  The map is keyed by the components of a record key in their derived order. Of the events only the one that carries a
  State record is read; every other event is \<open>OtherEvent\<close>.
\<close>

subsection \<open>Keys and errors\<close>

definition class_rank :: "state_object_class \<Rightarrow> nat" where
  "class_rank c = (case c of NodeObject \<Rightarrow> 0 | WorldObject \<Rightarrow> 1 | RoboGuideObject \<Rightarrow> 2)"

type_synonym key_order = "nat \<times> string \<times> string \<times> state_semantic \<times> state_source \<times> string"

definition key_of :: "state_record_key \<Rightarrow> key_order" where
  "key_of k = (class_rank (so_class (sk_object k)), so_object_type (sk_object k), so_object_id (sk_object k),
     sk_semantic k, sk_source k, sk_channel_id k)"

lemma key_of_inject [simp]: "key_of k = key_of k' \<longleftrightarrow> k = k'"
proof
  assume eq: "key_of k = key_of k'"
  have "class_rank c = class_rank c' \<Longrightarrow> c = c'" for c c'
    by (cases c; cases c') (simp_all add: class_rank_def)
  with eq show "k = k'" by (simp add: key_of_def state_record_key.equality state_object_ref.equality)
qed simp

datatype state_record_error = StaleRecord string | ConflictingRecord string | UnsupportedEvent

definition state_record_error_text :: "state_record_error \<Rightarrow> string" where
  "state_record_error_text e =
     (case e of
        StaleRecord reason \<Rightarrow> ''stale State record: '' @ reason
      | ConflictingRecord reason \<Rightarrow> ''conflicting State record: '' @ reason
      | UnsupportedEvent \<Rightarrow> ''event is not source-aware State evidence'')"

datatype state_event = StateRecordObserved state_record | OtherEvent

subsection \<open>The projection\<close>

type_synonym projection = "(key_order, state_record) btmap"

definition projection_new :: projection where
  "projection_new = bt_empty"

datatype ordering = Less | Equal | Greater

definition cmp :: "'a::linorder \<Rightarrow> 'a \<Rightarrow> ordering" where
  "cmp a b = (if a < b then Less else if a = b then Equal else Greater)"

definition record_order :: "state_record \<Rightarrow> state_record \<Rightarrow> ordering" where
  "record_order r current =
     (case cmp (sr_received_at r) (sr_received_at current) of
        Equal \<Rightarrow> (if sr_source_epoch r \<noteq> sr_source_epoch current then Greater else cmp (sr_sequence r) (sr_sequence current))
      | other \<Rightarrow> other)"

definition stale_text :: "state_record \<Rightarrow> state_record \<Rightarrow> string" where
  "stale_text r current =
     sk_channel_id (sr_key r) @ '' arrived at '' @ show_nat (unat (sr_received_at r)) @ ''ms sequence ''
     @ show_nat (unat (sr_sequence r)) @ '' after '' @ show_nat (unat (sr_received_at current)) @ ''ms sequence ''
     @ show_nat (unat (sr_sequence current))"

definition record_state :: "state_record \<Rightarrow> projection \<Rightarrow> (state_record_error + unit) \<times> projection" where
  "record_state r p =
     (let insert_record = (Inr (), bt_insert (key_of (sr_key r)) r p)
      in case bt_get p (key_of (sr_key r)) of
           None \<Rightarrow> insert_record
         | Some current \<Rightarrow>
             (case record_order r current of
                Less \<Rightarrow> (Inl (StaleRecord (stale_text r current)), p)
              | Equal \<Rightarrow>
                  (if current \<noteq> r
                   then (Inl (ConflictingRecord (sk_channel_id (sr_key r) @ '' reused receive time and sequence'')), p)
                   else (Inr (), p))
              | Greater \<Rightarrow> insert_record))"

definition apply_state_event :: "state_event \<Rightarrow> projection \<Rightarrow> (state_record_error + unit) \<times> projection" where
  "apply_state_event event p =
     (case event of StateRecordObserved r \<Rightarrow> record_state r p | OtherEvent \<Rightarrow> (Inl UnsupportedEvent, p))"

fun replay_events :: "state_event list \<Rightarrow> projection \<Rightarrow> state_record_error + projection" where
  "replay_events [] p = Inr p"
| "replay_events (event # events) p =
     (if event = OtherEvent then replay_events events p
      else (case apply_state_event event p of
              (Inl e, _) \<Rightarrow> Inl e | (Inr _, p') \<Rightarrow> replay_events events p'))"

definition from_events :: "state_event list \<Rightarrow> state_record_error + projection" where
  "from_events events = replay_events events projection_new"

definition snapshots :: "projection \<Rightarrow> state_record list" where
  "snapshots p = bt_values p"

fun restore_records :: "state_record list \<Rightarrow> projection \<Rightarrow> state_record_error + projection" where
  "restore_records [] p = Inr p"
| "restore_records (r # rs) p =
     (case record_state r p of (Inl e, _) \<Rightarrow> Inl e | (Inr _, p') \<Rightarrow> restore_records rs p')"

definition restore_projection :: "state_record list \<Rightarrow> state_record_error + projection" where
  "restore_projection records = restore_records records projection_new"

definition projection_record :: "state_record_key \<Rightarrow> projection \<Rightarrow> state_record option" where
  "projection_record k p = bt_get p (key_of k)"

subsection \<open>Live ingestion and its log\<close>

text \<open>A running projection: every offered record is applied, the accepted ones are logged, the refused ones dropped.\<close>

fun ingest :: "state_record list \<Rightarrow> projection \<times> state_record list \<Rightarrow> projection \<times> state_record list" where
  "ingest [] acc = acc"
| "ingest (r # rs) (p, log) =
     (case record_state r p of (Inl _, _) \<Rightarrow> ingest rs (p, log) | (Inr _, p') \<Rightarrow> ingest rs (p', log @ [r]))"

definition keyed :: "projection \<Rightarrow> bool" where
  "keyed p \<longleftrightarrow> (\<forall>k r. bt_get p k = Some r \<longrightarrow> k = key_of (sr_key r))"

lemma record_state_cases:
  assumes "record_state r p = (Inr (), p')"
  shows "p' = bt_insert (key_of (sr_key r)) r p
    \<and> is_none_or (bt_get p (key_of (sr_key r))) (\<lambda>current. sr_received_at current \<le> sr_received_at r)"
proof (cases "bt_get p (key_of (sr_key r))")
  case (Some current)
  then have "bt_get p (key_of (sr_key r)) = Some r \<Longrightarrow> bt_insert (key_of (sr_key r)) r p = p"
    by (intro bt_eqI) (simp add: bt_get_insert)
  with assms Some show ?thesis
    by (auto simp: record_state_def record_order_def cmp_def Let_def split: ordering.splits if_splits)
qed (use assms in \<open>simp add: record_state_def\<close>)

lemma replay_events_append:
  "replay_events (events @ events') p = (case replay_events events p of Inl e \<Rightarrow> Inl e | Inr p' \<Rightarrow> replay_events events' p')"
  by (induction events p rule: replay_events.induct) (auto split: prod.split sum.split)

lemma replay_events_filter: "replay_events events p = replay_events (filter (\<lambda>event. event \<noteq> OtherEvent) events) p"
  by (induction events p rule: replay_events.induct) (auto split: prod.split sum.split)

definition logged :: "projection \<times> state_record list \<Rightarrow> bool" where
  "logged acc \<longleftrightarrow> (case acc of (p, log) \<Rightarrow>
     keyed p \<and> from_events (map StateRecordObserved log) = Inr p
     \<and> (\<forall>k. projection_record k p = find (\<lambda>r. sr_key r = k) (rev log))
     \<and> (\<forall>k. sorted (map sr_received_at (filter (\<lambda>r. sr_key r = k) log))))"

lemma find_rev_last: "find P (rev xs) = None \<longleftrightarrow> filter P xs = []" "find P (rev xs) = Some x \<Longrightarrow> last (filter P xs) = x"
  by (induction xs rule: rev_induct) (auto split: if_splits)

lemma sorted_map_snoc: "sorted (map f xs) \<Longrightarrow> xs \<noteq> [] \<Longrightarrow> f (last xs) \<le> f x \<Longrightarrow> sorted (map f (xs @ [x]))"
  by (induction xs rule: rev_induct) (auto simp: sorted_append intro: order_trans)

lemma record_state_logged:
  assumes "logged (p, log)" and "record_state r p = (Inr (), p')"
  shows "logged (p', log @ [r])"
proof -
  note p' = record_state_cases [OF assms(2)]
  have "sorted (map sr_received_at (filter (\<lambda>x. sr_key x = sr_key r) log @ [r]))"
  proof (cases "find (\<lambda>x. sr_key x = sr_key r) (rev log)")
    case None
    then show ?thesis by (simp add: find_rev_last(1))
  next
    case (Some current)
    then have "last (filter (\<lambda>x. sr_key x = sr_key r) log) = current" "filter (\<lambda>x. sr_key x = sr_key r) log \<noteq> []"
      using find_rev_last [of "\<lambda>x. sr_key x = sr_key r" log] by auto
    moreover have "sr_received_at current \<le> sr_received_at r"
      using p' assms(1) Some by (simp add: logged_def projection_record_def)
    ultimately show ?thesis using assms(1) by (intro sorted_map_snoc) (auto simp: logged_def)
  qed
  with assms p' show ?thesis
    by (auto simp: logged_def keyed_def projection_record_def bt_get_insert from_events_def replay_events_append apply_state_event_def)
qed

lemma ingest_logged: "logged acc \<Longrightarrow> logged (ingest records acc)"
proof (induction records acc rule: ingest.induct)
  case (2 r rs p log)
  show ?case
  proof (cases "record_state r p")
    case (Pair result p')
    with 2 show ?thesis by (cases result) (auto dest: record_state_logged)
  qed
qed simp

lemma logged_new: "logged (projection_new, [])"
  by (simp add: logged_def keyed_def projection_record_def projection_new_def from_events_def)

subsection \<open>Restoring a checkpoint\<close>

lemma restore_records_fresh:
  assumes "distinct (map (\<lambda>r. key_of (sr_key r)) rs)" and "\<forall>r \<in> set rs. bt_get p (key_of (sr_key r)) = None"
  shows "restore_records rs p = Inr (fold (\<lambda>r. bt_insert (key_of (sr_key r)) r) rs p)"
  using assms
proof (induction rs arbitrary: p)
  case (Cons r rs)
  then have "record_state r p = (Inr (), bt_insert (key_of (sr_key r)) r p)" by (simp add: record_state_def)
  moreover have "\<forall>x \<in> set rs. bt_get (bt_insert (key_of (sr_key r)) r p) (key_of (sr_key x)) = None"
    using Cons.prems by (auto simp: bt_get_insert image_iff)
  ultimately show ?case using Cons by simp
qed simp

lemma keyed_entries: "keyed p \<Longrightarrow> bt_entries p = map (\<lambda>r. (key_of (sr_key r), r)) (bt_values p)"
  unfolding keyed_def bt_values_def by (auto simp: bt_entries_iff [symmetric] intro!: map_idI [symmetric])

lemma restore_snapshots:
  assumes "keyed p"
  shows "restore_projection (snapshots p) = Inr p"
proof -
  note entries = keyed_entries [OF assms]
  have "map fst (bt_entries p) = map (\<lambda>r. key_of (sr_key r)) (bt_values p)" by (subst entries) (simp add: comp_def)
  then have "distinct (map (\<lambda>r. key_of (sr_key r)) (bt_values p))"
    using bt_keys_distinct [of p] by (simp add: bt_keys_def)
  then have "restore_records (bt_values p) bt_empty = Inr (fold (\<lambda>r. bt_insert (key_of (sr_key r)) r) (bt_values p) bt_empty)"
    by (rule restore_records_fresh) simp
  also have "fold (\<lambda>r. bt_insert (key_of (sr_key r)) r) (bt_values p) bt_empty = bt_of_list (bt_entries p)"
    unfolding bt_of_list_def by (subst entries) (simp add: fold_map comp_def)
  finally show ?thesis by (simp add: restore_projection_def snapshots_def projection_new_def)
qed

text \<open>
  C25: State evidence survives a restart: whatever records are offered, the running projection holds for every key exactly
  the last record it accepted, whose receive times never go back; restoring its checkpoint and replaying its log of
  accepted records both give the same projection, and so the same decisions; other events do not affect a replay.
\<close>

theorem state_records_survive_restart:
  fixes offered :: "state_record list"
  defines "p \<equiv> fst (ingest offered (projection_new, []))" and "log \<equiv> snd (ingest offered (projection_new, []))"
  shows "projection_record k p = find (\<lambda>r. sr_key r = k) (rev log)
    \<and> sorted (map sr_received_at (filter (\<lambda>r. sr_key r = k) log))
    \<and> restore_projection (snapshots p) = Inr p
    \<and> from_events (map StateRecordObserved log) = Inr p
    \<and> from_events events = from_events (filter (\<lambda>event. event \<noteq> OtherEvent) events)
    \<and> map_option (\<lambda>q. evaluate policy (snapshots q) decision now) (ok_of (restore_projection (snapshots p)))
        = Some (evaluate policy (snapshots p) decision now)"
proof -
  have "logged (p, log)" using ingest_logged [OF logged_new, of offered] by (simp add: p_def log_def)
  then have "keyed p" "from_events (map StateRecordObserved log) = Inr p"
    "projection_record k p = find (\<lambda>r. sr_key r = k) (rev log)" "sorted (map sr_received_at (filter (\<lambda>r. sr_key r = k) log))"
    by (simp_all add: logged_def)
  with restore_snapshots [OF this(1)] replay_events_filter show ?thesis by (simp add: from_events_def ok_of_def)
qed

end
