(* ===== verification/Spec2Isabelle.thy ===== *)
theory Spec2Isabelle
  imports RT_Safety RT_Attempts RT_Recovery_Props RT_Relation_Props RT_Fact_Props RT_Channel_Props RT_Clock
    CP_Quota_Props CP_Scheduler_Props RG_Decision_Props RG_Mission_Props ST_Records
begin

text \<open>
  RoboGuide: a verification development of its execution authority, its Scheduler and its evidence.

  \<^bold>\<open>The program.\<close> RoboGuide coordinates Missions over heterogeneous robots. A Mission is a graph of Tasks with Roles.
  \<open>core/control\<close> matches Roles to Nodes, schedules them in a calendar of divisible resources and charges tenants for
  them. \<open>core/runtime\<close> owns the physical attempts: it admits a committed execution once, reduces the facts that Nodes
  report, keeps relations between executions and peer channels, and authorizes stopping and replacing attempts.
  \<open>core/state\<close> keeps attributed State records, and \<open>core/domain\<close> has the values they all exchange, among them the
  policies that decide which State records may inform a decision. The Runtime never decides who works where and the
  Scheduler never starts anything; what connects them are the immutable commands, grants and records of the domain.

  \<^bold>\<open>Conventions.\<close> Identifiers are strings. Every \<open>u64\<close>, \<open>u32\<close> and \<open>i64\<close> is a word of its width, with checked and
  saturating operations as in the source. A \<open>BTreeMap\<close> is a \<open>btmap\<close>, a sorted association list as an abstract type,
  and a \<open>BTreeSet\<close> is a \<open>btmap\<close> to unit (\<open>RG_Prelude\<close>). A method on \<open>&mut self\<close> returns its result and the state it
  leaves, on an error too. \<open>Panic\<close> and \<open>SPanic\<close> stand for a failed index, \<open>expect\<close> or \<open>unreachable!\<close>. SHA-256 digests, JSON
  decoding, the operating system's clocks and the registered resources of a Node are parameters.

  \<^bold>\<open>The domain\<close> (\<open>core/domain/src\<close>).
  \<^item> \<open>RG_Prelude\<close>: machine integers, strings, ordered maps with the locale \<open>ordered_map\<close> of their laws, and the
    locales \<open>invariant_system\<close> and \<open>history_system\<close>, interpreted on the Runtime, on its channels and on the ledger.
  \<^item> \<open>RG_Domain\<close>: \<open>identity.rs\<close>, \<open>error.rs\<close>, \<open>time.rs\<close>, \<open>lease.rs\<close>. \<open>RG_Resource\<close>: \<open>resource.rs\<close>,
    \<open>allocation.rs\<close>, \<open>resource_grant.rs\<close>. \<open>RG_Relation_Spec\<close>: \<open>execution_relation.rs\<close>, \<open>context.rs\<close>.
  \<^item> \<open>RG_Command\<close>: \<open>execution/\<close> and \<open>memory_preparation.rs\<close>; what a session slot's acceptance means, with the
    acyclicity of its dependencies.
  \<^item> \<open>RG_State_Model\<close>: \<open>state_model.rs\<close>. \<open>RG_Decision\<close>: \<open>decision_policy.rs\<close> and \<open>scheduling_cost.rs\<close>;
    \<open>RG_Decision_Props\<close> shows which evidence is accepted, that the order of the records does not matter, and that costs
    are exact.
  \<^item> \<open>RG_Requirement\<close>: \<open>task_requirement.rs\<close>, \<open>capability_requirement.rs\<close>, \<open>duration_estimate.rs\<close>.
    \<open>RG_Topology\<close>: \<open>resource_topology.rs\<close>, with the geometric meaning of a footprint conflict.
  \<^item> \<open>RG_Mission\<close>: \<open>mission.rs\<close>, \<open>mission_plan.rs\<close>, \<open>actor.rs\<close>, \<open>task_satisfaction.rs\<close> and the session that
    \<open>execution/session.rs\<close> derives from a plan. \<open>RG_Mission_Props\<close>: an accepted Task graph runs to its end in any order
    of readiness, relations connect Tasks that can run together, and the session of an accepted plan passes, for every
    Role, the check that the Runtime's commands carry.

  \<^bold>\<open>The Runtime\<close> (\<open>core/runtime/src\<close>). The record \<open>manager\<close> is \<open>RuntimeExecutionManager\<close>, and \<open>checkpoint\<close> its durable form.
  \<^item> \<open>RT_State\<close>: \<open>execution/mod.rs\<close>. \<open>RT_Dispatch\<close>, \<open>RT_Observation\<close>, \<open>RT_Progress\<close>, \<open>RT_Recovery_Stop\<close>,
    \<open>RT_Group_Recovery\<close>, \<open>RT_Checkpoint\<close>: the file of \<open>execution/\<close> with that name. \<open>RT_Relations\<close>:
    \<open>relation/manager.rs\<close>. \<open>RT_Coordination\<close>: \<open>coordination.rs\<close>. \<open>RT_Clock\<close>: \<open>clock.rs\<close>.
  \<^item> \<open>RT_Invariant\<close> states the well-formedness \<open>manager_wf\<close> of a live manager. \<open>RT_Preserve\<close>, \<open>RT_Preserve_Facts\<close>,
    \<open>RT_Preserve_Recovery\<close>, \<open>RT_Preserve_Groups\<close> show that each operation keeps it, extends the physical record and does
    not panic. \<open>RT_Restore\<close> shows the same of restoring a checkpoint, which succeeds exactly when every registered peer
    channel has two peers (\<open>channels_paired\<close>); a Context with one Role and a channel that its mode does not require is
    registered all the same, and the checkpoint is then refused.
  \<^item> \<open>RT_System\<close> has the machine: the datatype \<open>runtime_call\<close> of all public operations, the relation \<open>runtime_step\<close>
    (a call, or a restart through the checkpoint), and \<open>reachable\<close>. A call is \<open>admissible\<close> when its arguments are values
    that the domain's constructors return, or that the ingress code named there lets through. \<open>RT_Frames\<close> collects what operations leave unchanged.
  \<^item> \<open>RT_Safety\<close>: no replay after a restart, which checkpoints restore, no panics, immutable outcomes and bindings.
    \<open>RT_Attempts\<close>: attempt identities, their allocation, and idempotent admission. \<open>RT_Recovery_Props\<close>: the evidence,
    budgets, deadlines and exact sets of recovery. \<open>RT_Relation_Props\<close>: fences and derived states.
    \<open>RT_Fact_Props\<close>: facts in any order, Task success, progress and stalls. \<open>RT_Channel_Props\<close>: what a Ready channel
    stands for. \<open>RT_Scenario\<close>, \<open>RT_Coupled_Scenario\<close>, \<open>RT_Group_Scenario\<close> hold the runs that the witnesses use.

  \<^bold>\<open>Control\<close> (\<open>core/control/src\<close>).
  \<^item> \<open>CP_Quota\<close>: \<open>quota.rs\<close>. \<open>CP_Quota_Props\<close>: saturating sums are exact in reachable ledgers, limits are never
    exceeded, the ledger refines an abstract book of limits and claims, and what validating a ledger means.
  \<^item> \<open>CP_Capacity\<close>: the values of \<open>scheduler/mod.rs\<close> and all of \<open>scheduler/capacity.rs\<close>. \<open>CP_Capacity_Props\<close>: the
    interval sweep decides the pointwise capacity condition.
  \<^item> \<open>CP_Scheduler\<close>: \<open>scheduler/policy.rs\<close>, with what it reads of \<open>matching.rs\<close>, \<open>initial_preferences.rs\<close> and
    \<open>reconciliation/model.rs\<close>. \<open>CP_Search\<close>: the backtracking search finds a plan exactly when a declarative joint
    plan exists. \<open>CP_Plan\<close>: what a joint plan guarantees. \<open>CP_Start\<close>: the candidate starts suffice.
    \<open>CP_Scheduler_Props\<close>: a decision fits its Task, in a calendar without Context envelopes books nothing beyond its
    capacity and starts at the earliest feasible instant, and every refusal has a stated cause. \<open>context_axis_overbooks\<close>
    shows a plan that does overbook where two Roles share one Context envelope.

  \<^bold>\<open>State\<close> (\<open>core/state/src\<close>). \<open>ST_Records\<close>: \<open>state_record.rs\<close>, the projection of State records and its recovery from a
  checkpoint or from the event log.

  \<^bold>\<open>Bounds.\<close> Loops are structural recursions over the lists the code iterates, or have a termination measure. One recursion
  has fuel, the search for a transitive dependency (\<open>depends_within\<close>): one more than the number of Tasks, which is proved
  to be enough in every accepted graph. The
  limits in the model are those of the code: the expansions of the Scheduler's search (a \<open>u32\<close>, whose exhaustion is
  the error \<open>SearchLimited\<close>), the budgets of recovery, and the sizes that constructors check. The property on the earliest
  start is about a Scheduler that answers; the one on refusals gives the causes of its errors, the limit among them.

  \<^bold>\<open>Not modelled.\<close>
  \<^item> The rest of Control: groups, allocations, calendar admission, Node sessions, Matching, reconciliation. They are methods
    of one aggregate of some thirty maps, and none of them can be stated without most of the others.
  \<^item> \<open>core/orchestration\<close>, the Mission lifecycle over that aggregate, and the asynchronous bridge to the transport.
  \<^item> The Runtime's facade \<open>lib.rs\<close>: a registry of Node gateways, which are trait objects of the deployment, that copies
    the health they report into the Shared Node State of another port.
  \<^item> Stores, archives, the artifact store and the Node's journal: SQLite and file I/O. \<open>core/integration\<close>: generated gRPC
    code. \<open>core/controller-replication\<close>: a third-party Raft implementation.
  \<^item> Applications, the Python Mission intelligence, evaluation and console: HTTP, language models and simulators.
  \<^item> Comparison of capability attributes through \<open>f64\<close>; Memory and map catalog values that only unmodelled parts read.
\<close>

end
